(* ===== verification/Nm_Prelude.thy ===== *)
theory Nm_Prelude
  imports Main "HOL-Library.Word" "HOL-Library.Char_ord" "HOL-Library.List_Lexorder"
    "HOL-Library.Multiset"
begin

text \<open>
  What every component shares: the machine integers, the \<open>Result\<close> of the Rust code
  with its \<open>?\<close> operator, checked reads of byte slices, the integer/byte conversions of
  the standard library, the formatting of integers, stable sorting, and the lemmas on them that
  the component proofs use through the simpset and the collections \<open>result_simps\<close> and
  \<open>codec_simps\<close>.
\<close>

unbundle bit_operations_syntax

named_theorems result_simps "inversion of the result combinators"
named_theorems codec_simps "integer and byte-list conversions"

section \<open>Machine integers and byte strings\<close>

text \<open>
  A signed \<open>i32\<close> is kept as its 32 bits and read with \<^const>\<open>sint\<close>, so that the
  casts \<open>i32 as u32\<close> and back are the identity, as they are on the machine. A Rust
  \<open>String\<close> is the list of its UTF-8 bytes; the order of strings is the lexicographic order
  of the bytes in both.
\<close>

type_synonym u8 = "8 word"
type_synonym u16 = "16 word"
type_synonym u32 = "32 word"
type_synonym u64 = "64 word"
type_synonym u128 = "128 word"
type_synonym i32 = "32 word"
type_synonym bytes = "u8 list"

definition char_byte :: "char \<Rightarrow> u8" where
  "char_byte c = word_of_nat (of_char c)"

definition byte_char :: "u8 \<Rightarrow> char" where
  "byte_char b = char_of (unat b)"

definition string_bytes :: "string \<Rightarrow> bytes" where
  "string_bytes s = map char_byte s"

definition bytes_string :: "bytes \<Rightarrow> string" where
  "bytes_string bs = map byte_char bs"

lemma length_string_bytes [simp]: "length (string_bytes s) = length s"
  by (simp add: string_bytes_def)

lemma length_bytes_string [simp]: "length (bytes_string bs) = length bs"
  by (simp add: bytes_string_def)

lemma unat_u8_less [simp]: "unat (b :: u8) < 256"
  using unsigned_less [of b] by simp

lemma bit_u8_high [simp]: "8 \<le> n \<Longrightarrow> \<not> bit (b :: u8) n"
  by (auto dest: bit_imp_le_length)

lemma char_byte_byte_char [simp]: "char_byte (byte_char b) = b"
proof -
  have "(of_char (char_of (unat b)) :: nat) = unat b mod 256"
    by (rule of_char_of)
  also have "\<dots> = unat b" by simp
  finally show ?thesis by (simp add: char_byte_def byte_char_def)
qed

lemma of_char_less_256: "(of_char c :: nat) < 256"
  by simp

lemma byte_char_char_byte [simp]: "byte_char (char_byte c) = c"
proof -
  have "unat (word_of_nat (of_char c) :: u8) = of_char c"
    using of_char_less_256 [of c] by (simp add: unat_of_nat)
  then show ?thesis by (simp add: char_byte_def byte_char_def)
qed

lemma bytes_string_string_bytes [simp]: "bytes_string (string_bytes s) = s"
  by (simp add: bytes_string_def string_bytes_def comp_def)

lemma string_bytes_bytes_string [simp]: "string_bytes (bytes_string bs) = bs"
  by (simp add: bytes_string_def string_bytes_def comp_def)

section \<open>Results\<close>

text \<open>
  \<open>Result<T, E>\<close>. \<open>and_then\<close> is the \<open>?\<close> operator (and the method of the same
  name). A computation that may also panic has errors of type \<open>'e thrown\<close>, so that a panic
  is a value a theorem can exclude.
\<close>

datatype ('a, 'e) result = Ok 'a | Err 'e

datatype 'e thrown = Raised 'e | Panicked

primrec and_then :: "('a, 'e) result \<Rightarrow> ('a \<Rightarrow> ('b, 'e) result) \<Rightarrow> ('b, 'e) result" where
  "and_then (Ok x) f = f x"
| "and_then (Err e) f = Err e"

primrec map_err :: "('e \<Rightarrow> 'f) \<Rightarrow> ('a, 'e) result \<Rightarrow> ('a, 'f) result" where
  "map_err g (Ok x) = Ok x"
| "map_err g (Err e) = Err (g e)"

primrec map_ok :: "('a \<Rightarrow> 'b) \<Rightarrow> ('a, 'e) result \<Rightarrow> ('b, 'e) result" where
  "map_ok f (Ok x) = Ok (f x)"
| "map_ok f (Err e) = Err e"

primrec ok_or :: "'a option \<Rightarrow> 'e \<Rightarrow> ('a, 'e) result" where
  "ok_or None e = Err e"
| "ok_or (Some x) e = Ok x"

primrec result_ok :: "('a, 'e) result \<Rightarrow> 'a option" where
  "result_ok (Ok x) = Some x"
| "result_ok (Err e) = None"

primrec result_err :: "('a, 'e) result \<Rightarrow> 'e option" where
  "result_err (Ok x) = None"
| "result_err (Err e) = Some e"

primrec is_ok :: "('a, 'e) result \<Rightarrow> bool" where
  "is_ok (Ok x) = True"
| "is_ok (Err e) = False"

lemma and_then_cong [fundef_cong]:
  "r = r' \<Longrightarrow> (\<And>x. r' = Ok x \<Longrightarrow> f x = g x) \<Longrightarrow> and_then r f = and_then r' g"
  by (cases r') auto

lemma and_then_eq_Ok [result_simps]: "and_then r f = Ok y \<longleftrightarrow> (\<exists>x. r = Ok x \<and> f x = Ok y)"
  by (cases r) auto

lemma and_then_eq_Err [result_simps]:
  "and_then r f = Err e \<longleftrightarrow> r = Err e \<or> (\<exists>x. r = Ok x \<and> f x = Err e)"
  by (cases r) auto

lemma map_err_eq_Ok [result_simps]: "map_err g r = Ok y \<longleftrightarrow> r = Ok y"
  by (cases r) auto

lemma map_err_eq_Err [result_simps]: "map_err g r = Err e \<longleftrightarrow> (\<exists>e'. r = Err e' \<and> e = g e')"
  by (cases r) auto

lemma map_ok_eq_Ok [result_simps]: "map_ok f r = Ok y \<longleftrightarrow> (\<exists>x. r = Ok x \<and> y = f x)"
  by (cases r) auto

lemma map_ok_eq_Err [result_simps]: "map_ok f r = Err e \<longleftrightarrow> r = Err e"
  by (cases r) auto

lemma ok_or_eq_Ok [result_simps]: "ok_or x e = Ok y \<longleftrightarrow> x = Some y"
  by (cases x) auto

lemma ok_or_eq_Err [result_simps]: "ok_or x e = Err f \<longleftrightarrow> x = None \<and> f = e"
  by (cases x) auto

lemma is_ok_iff: "is_ok r \<longleftrightarrow> (\<exists>x. r = Ok x)"
  by (cases r) auto

lemma and_then_Ok_right [simp]: "and_then r Ok = r"
  by (cases r) auto

lemma and_then_assoc: "and_then (and_then r f) g = and_then r (\<lambda>x. and_then (f x) g)"
  by (cases r) auto

lemma and_then_not_panicked:
  "r \<noteq> Err Panicked \<Longrightarrow> (\<And>x. r = Ok x \<Longrightarrow> f x \<noteq> Err Panicked) \<Longrightarrow> and_then r f \<noteq> Err Panicked"
  by (cases r) auto

text \<open>Collecting an iterator of results: the first error wins.\<close>

fun collect_ok :: "('a \<Rightarrow> ('b, 'e) result) \<Rightarrow> 'a list \<Rightarrow> ('b list, 'e) result" where
  "collect_ok f [] = Ok []"
| "collect_ok f (x # xs) = and_then (f x) (\<lambda>y. map_ok ((#) y) (collect_ok f xs))"

lemma collect_ok_safe: "(\<And>x. x \<in> set xs \<Longrightarrow> f x \<noteq> Err Panicked) \<Longrightarrow> collect_ok f xs \<noteq> Err Panicked"
  by (induction xs) (auto simp: and_then_eq_Err map_ok_eq_Err)

section \<open>Slices\<close>

text \<open>\<open>bs[i]\<close> and \<open>bs[a..b]\<close>, which panic out of range.\<close>

definition byte_at :: "'a list \<Rightarrow> nat \<Rightarrow> ('a, 'e thrown) result" where
  "byte_at bs i = (if i < length bs then Ok (bs ! i) else Err Panicked)"

definition slice :: "'a list \<Rightarrow> nat \<Rightarrow> nat \<Rightarrow> ('a list, 'e thrown) result" where
  "slice bs a b = (if a \<le> b \<and> b \<le> length bs then Ok (take (b - a) (drop a bs)) else Err Panicked)"

lemma byte_at_Ok [simp]: "i < length bs \<Longrightarrow> byte_at bs i = Ok (bs ! i)"
  by (simp add: byte_at_def)

lemma slice_Ok [simp]:
  "a \<le> b \<Longrightarrow> b \<le> length bs \<Longrightarrow> slice bs a b = Ok (take (b - a) (drop a bs))"
  by (simp add: slice_def)

lemma slice_eq_Ok:
  "slice bs a b = Ok xs \<longleftrightarrow> a \<le> b \<and> b \<le> length bs \<and> xs = take (b - a) (drop a bs)"
  by (auto simp: slice_def)

lemma slice_append_drop:
  "slice (us @ vs) (length us + a) (length us + b) = slice vs a b"
  by (auto simp: slice_def)

section \<open>Iterators\<close>

text \<open>\<open>find_map\<close>, \<open>position\<close> and \<open>chunks_exact\<close> of the standard library.\<close>

fun find_map :: "('a \<Rightarrow> 'b option) \<Rightarrow> 'a list \<Rightarrow> 'b option" where
  "find_map f [] = None"
| "find_map f (x # xs) = (case f x of None \<Rightarrow> find_map f xs | Some y \<Rightarrow> Some y)"

fun position :: "('a \<Rightarrow> bool) \<Rightarrow> 'a list \<Rightarrow> nat option" where
  "position P [] = None"
| "position P (x # xs) = (if P x then Some 0 else map_option Suc (position P xs))"

fun chunks4 :: "'a list \<Rightarrow> 'a list list" where
  "chunks4 (a # b # c # d # xs) = [a, b, c, d] # chunks4 xs"
| "chunks4 xs = []"

lemma find_map_SomeD: "find_map f xs = Some y \<Longrightarrow> \<exists>x \<in> set xs. f x = Some y"
  by (induction xs) (auto split: option.splits)

lemma find_map_eq_None: "find_map f xs = None \<longleftrightarrow> (\<forall>x \<in> set xs. f x = None)"
  by (induction xs) (auto split: option.splits)

lemma find_map_Some_split:
  assumes "find_map f xs = Some y"
  shows "\<exists>us x vs. xs = us @ x # vs \<and> f x = Some y \<and> (\<forall>u \<in> set us. f u = None)"
  using assms
proof (induction xs)
  case Nil
  then show ?case by simp
next
  case (Cons a xs)
  show ?case
  proof (cases "f a")
    case None
    with Cons obtain us x vs
      where "xs = us @ x # vs" "f x = Some y" "\<forall>u \<in> set us. f u = None" by auto
    with None have "a # xs = (a # us) @ x # vs \<and> f x = Some y \<and> (\<forall>u \<in> set (a # us). f u = None)"
      by simp
    then show ?thesis by blast
  next
    case (Some b)
    with Cons.prems have "a # xs = [] @ a # xs \<and> f a = Some y \<and> (\<forall>u \<in> set []. f u = None)" by simp
    then show ?thesis by blast
  qed
qed

lemma position_Some: "position P xs = Some i \<Longrightarrow> i < length xs \<and> P (xs ! i)"
  by (induction xs arbitrary: i) (auto split: if_splits)

lemma position_eq_None: "position P xs = None \<longleftrightarrow> (\<forall>x \<in> set xs. \<not> P x)"
  by (induction xs) auto

lemma position_first: "position P xs = Some i \<Longrightarrow> j < i \<Longrightarrow> \<not> P (xs ! j)"
proof (induction xs arbitrary: i j)
  case Nil
  then show ?case by simp
next
  case (Cons a xs)
  then show ?case by (cases j) (auto split: if_splits)
qed

lemma position_le_length: "position P xs = Some i \<Longrightarrow> i \<le> length xs"
  by (auto dest: position_Some)

lemma position_takeWhile:
  "take (case position P xs of None \<Rightarrow> length xs | Some i \<Rightarrow> i) xs = takeWhile (\<lambda>x. \<not> P x) xs"
  by (induction xs) (auto split: option.splits)

lemma length_chunks4: "length (chunks4 xs) = length xs div 4"
  by (induction xs rule: chunks4.induct) auto

lemma chunks4_concat: "length xs mod 4 = 0 \<Longrightarrow> concat (chunks4 xs) = xs"
  by (induction xs rule: chunks4.induct) auto

lemma length_in_chunks4: "c \<in> set (chunks4 xs) \<Longrightarrow> length c = 4"
  by (induction xs rule: chunks4.induct) auto

lemma chunks4_append: "length c = 4 \<Longrightarrow> chunks4 (c @ xs) = c # chunks4 xs"
  by (auto simp: length_Suc_conv eval_nat_numeral)

lemma chunks4_concat_map:
  "(\<And>x. length (f x) = 4) \<Longrightarrow> chunks4 (concat (map f xs)) = map f xs"
  by (induction xs) (auto simp: chunks4_append)

section \<open>Stable sorting\<close>

text \<open>
  \<open>sort_by\<close> with a comparator, as \<open>slice::sort_by\<close>: a stable sort by the total
  preorder \<open>le\<close> the comparator induces.
\<close>

fun insort_by :: "('a \<Rightarrow> 'a \<Rightarrow> bool) \<Rightarrow> 'a \<Rightarrow> 'a list \<Rightarrow> 'a list" where
  "insort_by le x [] = [x]"
| "insort_by le x (y # ys) = (if le x y then x # y # ys else y # insort_by le x ys)"

definition sort_by :: "('a \<Rightarrow> 'a \<Rightarrow> bool) \<Rightarrow> 'a list \<Rightarrow> 'a list" where
  "sort_by le xs = foldr (insort_by le) xs []"

lemma sort_by_Nil [simp]: "sort_by le [] = []"
  by (simp add: sort_by_def)

lemma sort_by_Cons [simp]: "sort_by le (x # xs) = insort_by le x (sort_by le xs)"
  by (simp add: sort_by_def)

lemma mset_insort_by: "mset (insort_by le x xs) = add_mset x (mset xs)"
  by (induction xs) auto

lemma mset_sort_by [simp]: "mset (sort_by le xs) = mset xs"
  by (induction xs) (auto simp: mset_insort_by)

lemma set_sort_by [simp]: "set (sort_by le xs) = set xs"
  by (metis mset_sort_by set_mset_mset)

lemma set_insort_by [simp]: "set (insort_by le x xs) = insert x (set xs)"
  by (induction xs) auto

lemma length_sort_by [simp]: "length (sort_by le xs) = length xs"
  by (metis mset_sort_by size_mset)

locale total_preorder_on =
  fixes le :: "'a \<Rightarrow> 'a \<Rightarrow> bool"
  assumes le_total: "le x y \<or> le y x"
    and le_trans: "le x y \<Longrightarrow> le y z \<Longrightarrow> le x z"
begin

lemma sorted_insort_by: "sorted_wrt le xs \<Longrightarrow> sorted_wrt le (insort_by le x xs)"
proof (induction xs)
  case Nil
  then show ?case by simp
next
  case (Cons y ys)
  show ?case
  proof (cases "le x y")
    case True
    with Cons.prems show ?thesis by (auto intro: le_trans)
  next
    case False
    then have "le y x" using le_total by blast
    with False Cons show ?thesis by auto
  qed
qed

lemma sorted_sort_by: "sorted_wrt le (sort_by le xs)"
  by (induction xs) (auto intro: sorted_insort_by)

text \<open>Stability: elements that compare equal keep their order.\<close>

lemma filter_insort_by:
  assumes "sorted_wrt le xs"
  shows "filter (\<lambda>y. le y k \<and> le k y) (insort_by le x xs)
         = filter (\<lambda>y. le y k \<and> le k y) (x # xs)"
  using assms
proof (induction xs)
  case Nil
  then show ?case by simp
next
  case (Cons y ys)
  show ?case
  proof (cases "le x y")
    case True
    then show ?thesis by simp
  next
    case False
    have "\<not> (le x k \<and> le k x \<and> le y k \<and> le k y)"
      using False le_trans by blast
    with False Cons show ?thesis by auto
  qed
qed

lemma sort_by_stable:
  "filter (\<lambda>y. le y k \<and> le k y) (sort_by le xs) = filter (\<lambda>y. le y k \<and> le k y) xs"
proof (induction xs)
  case Nil
  then show ?case by simp
next
  case (Cons x xs)
  then show ?case
    using filter_insort_by [OF sorted_sort_by] by simp
qed

end

section \<open>Integers and bytes\<close>

text \<open>
  \<open>from_le_bytes\<close>, \<open>to_le_bytes\<close>, \<open>from_be_bytes\<close>, \<open>to_be_bytes\<close>. The
  native order (\<open>to_ne_bytes\<close>) is the little-endian one, that of the targets the daemon is
  built for.
\<close>

definition to_le_bytes16 :: "u16 \<Rightarrow> bytes" where
  "to_le_bytes16 w = [ucast w, ucast (drop_bit 8 w)]"

definition to_le_bytes32 :: "u32 \<Rightarrow> bytes" where
  "to_le_bytes32 w = [ucast w, ucast (drop_bit 8 w), ucast (drop_bit 16 w), ucast (drop_bit 24 w)]"

definition to_be_bytes16 :: "u16 \<Rightarrow> bytes" where
  "to_be_bytes16 w = rev (to_le_bytes16 w)"

definition to_be_bytes32 :: "u32 \<Rightarrow> bytes" where
  "to_be_bytes32 w = rev (to_le_bytes32 w)"

definition le16 :: "u8 \<Rightarrow> u8 \<Rightarrow> u16" where
  "le16 a b = ucast a OR push_bit 8 (ucast b)"

definition le32 :: "u8 \<Rightarrow> u8 \<Rightarrow> u8 \<Rightarrow> u8 \<Rightarrow> u32" where
  "le32 a b c d = ucast a OR push_bit 8 (ucast b) OR push_bit 16 (ucast c) OR push_bit 24 (ucast d)"

text \<open>
  The conversions from slices: \<open>copy_from_slice\<close> into an array of the right size, which
  panics on another length.
\<close>

fun from_le_bytes16 :: "bytes \<Rightarrow> (u16, 'e thrown) result" where
  "from_le_bytes16 [a, b] = Ok (le16 a b)"
| "from_le_bytes16 bs = Err Panicked"

fun from_le_bytes32 :: "bytes \<Rightarrow> (u32, 'e thrown) result" where
  "from_le_bytes32 [a, b, c, d] = Ok (le32 a b c d)"
| "from_le_bytes32 bs = Err Panicked"

definition from_be_bytes16 :: "bytes \<Rightarrow> (u16, 'e thrown) result" where
  "from_be_bytes16 bs = from_le_bytes16 (rev bs)"

definition from_be_bytes32 :: "bytes \<Rightarrow> (u32, 'e thrown) result" where
  "from_be_bytes32 bs = from_le_bytes32 (rev bs)"

lemma le16_to_le [simp]: "le16 (ucast w) (ucast (drop_bit 8 w)) = w"
  by (rule bit_word_eqI) (auto simp: le16_def bit_simps not_less)

lemma le32_to_le [simp]:
  "le32 (ucast w) (ucast (drop_bit 8 w)) (ucast (drop_bit 16 w)) (ucast (drop_bit 24 w)) = w"
proof (rule bit_word_eqI)
  fix n assume "n < LENGTH(32)"
  then consider "n < 8" | "8 \<le> n \<and> n < 16" | "16 \<le> n \<and> n < 24" | "24 \<le> n \<and> n < 32"
    by atomize_elim (simp, arith)
  then show "bit (le32 (ucast w) (ucast (drop_bit 8 w)) (ucast (drop_bit 16 w))
                 (ucast (drop_bit 24 w))) n = bit w n"
    by cases (auto simp: le32_def bit_simps)
qed

lemma length_to_le16 [simp]: "length (to_le_bytes16 w) = 2"
  by (simp add: to_le_bytes16_def)

lemma length_to_le32 [simp]: "length (to_le_bytes32 w) = 4"
  by (simp add: to_le_bytes32_def)

lemma length_to_be16 [simp]: "length (to_be_bytes16 w) = 2"
  by (simp add: to_be_bytes16_def)

lemma length_to_be32 [simp]: "length (to_be_bytes32 w) = 4"
  by (simp add: to_be_bytes32_def)

lemma to_le16_le16: "to_le_bytes16 (le16 a b) = [a, b]"
  by (auto simp: le16_def to_le_bytes16_def bit_simps intro!: bit_word_eqI dest: bit_imp_le_length)

lemma to_le32_le32: "to_le_bytes32 (le32 a b c d) = [a, b, c, d]"
  by (auto simp: le32_def to_le_bytes32_def bit_simps intro!: bit_word_eqI dest: bit_imp_le_length)

text \<open>
  A fixed-width codec: decoding what was encoded gives the value back, a slice of the width
  always decodes, and it decodes to a value whose encoding is that slice.
\<close>

locale byte_codec =
  fixes enc :: "'v \<Rightarrow> bytes"
    and dec :: "bytes \<Rightarrow> ('v, 'e thrown) result"
    and width :: nat
  assumes enc_length: "length (enc v) = width"
    and dec_total: "length bs = width \<Longrightarrow> \<exists>v. dec bs = Ok v \<and> enc v = bs"
    and dec_other: "length bs \<noteq> width \<Longrightarrow> dec bs = Err Panicked"
    and dec_enc: "dec (enc v) = Ok v"
begin

lemma enc_inj: "enc v = enc v' \<Longrightarrow> v = v'"
  using dec_enc by (metis result.inject(1))

lemma dec_eq_Ok: "dec bs = Ok v \<longleftrightarrow> bs = enc v"
proof
  assume "dec bs = Ok v"
  moreover from this have "length bs = width"
    using dec_other by fastforce
  ultimately show "bs = enc v"
    using dec_total by fastforce
next
  assume "bs = enc v"
  then show "dec bs = Ok v" by (simp add: dec_enc)
qed

lemma dec_not_panicked: "length bs = width \<Longrightarrow> dec bs \<noteq> Err Panicked"
  using dec_total by fastforce

lemma slice_dec_enc: "and_then (slice (us @ enc v @ ws) (length us) (length us + width)) dec = Ok v"
  by (simp add: enc_length dec_enc)

end

interpretation le16c: byte_codec to_le_bytes16 from_le_bytes16 2
proof
  show "length bs = 2 \<Longrightarrow> \<exists>v. from_le_bytes16 bs = Ok v \<and> to_le_bytes16 v = bs" for bs
    by (cases bs rule: from_le_bytes16.cases) (auto simp: to_le16_le16)
  show "length bs \<noteq> 2 \<Longrightarrow> from_le_bytes16 bs = Err Panicked" for bs
    by (cases bs rule: from_le_bytes16.cases) auto
  show "from_le_bytes16 (to_le_bytes16 v) = Ok v" for v
    by (simp add: to_le_bytes16_def)
qed simp

interpretation le32c: byte_codec to_le_bytes32 from_le_bytes32 4
proof
  show "length bs = 4 \<Longrightarrow> \<exists>v. from_le_bytes32 bs = Ok v \<and> to_le_bytes32 v = bs" for bs
    by (cases bs rule: from_le_bytes32.cases) (auto simp: to_le32_le32)
  show "length bs \<noteq> 4 \<Longrightarrow> from_le_bytes32 bs = Err Panicked" for bs
    by (cases bs rule: from_le_bytes32.cases) auto
  show "from_le_bytes32 (to_le_bytes32 v) = Ok v" for v
    by (simp add: to_le_bytes32_def)
qed simp

interpretation be16c: byte_codec to_be_bytes16 from_be_bytes16 2
proof
  show "length bs = 2 \<Longrightarrow> \<exists>v. from_be_bytes16 bs = Ok v \<and> to_be_bytes16 v = bs" for bs
    using le16c.dec_total [of "rev bs"] by (auto simp: from_be_bytes16_def to_be_bytes16_def)
  show "length bs \<noteq> 2 \<Longrightarrow> from_be_bytes16 bs = Err Panicked" for bs
    using le16c.dec_other [of "rev bs"] by (simp add: from_be_bytes16_def)
  show "from_be_bytes16 (to_be_bytes16 v) = Ok v" for v
    by (simp add: from_be_bytes16_def to_be_bytes16_def le16c.dec_enc)
qed simp

interpretation be32c: byte_codec to_be_bytes32 from_be_bytes32 4
proof
  show "length bs = 4 \<Longrightarrow> \<exists>v. from_be_bytes32 bs = Ok v \<and> to_be_bytes32 v = bs" for bs
    using le32c.dec_total [of "rev bs"] by (auto simp: from_be_bytes32_def to_be_bytes32_def)
  show "length bs \<noteq> 4 \<Longrightarrow> from_be_bytes32 bs = Err Panicked" for bs
    using le32c.dec_other [of "rev bs"] by (simp add: from_be_bytes32_def)
  show "from_be_bytes32 (to_be_bytes32 v) = Ok v" for v
    by (simp add: from_be_bytes32_def to_be_bytes32_def le32c.dec_enc)
qed simp

lemmas codec_dec_enc [simp] = le16c.dec_enc le32c.dec_enc be16c.dec_enc be32c.dec_enc

section \<open>Formatting\<close>

text \<open>
  \<open>{}\<close> of an integer in decimal, of a hexadecimal digit, and \<open>{:?}\<close> of a string: the
  quoted string with the escapes of \<open>escape_debug\<close> for ASCII (the bytes of non-ASCII
  characters are copied).
\<close>

fun show_nat :: "nat \<Rightarrow> string" where
  "show_nat n = (if n < 10 then [char_of (48 + n)] else show_nat (n div 10) @ [char_of (48 + n mod 10)])"

declare show_nat.simps [simp del]

definition show_word :: "'a::len word \<Rightarrow> string" where
  "show_word w = show_nat (unat w)"

definition show_i32 :: "i32 \<Rightarrow> string" where
  "show_i32 w = (if sint w < 0 then CHR ''-'' # show_nat (nat (- sint w)) else show_nat (nat (sint w)))"

definition hex_digit :: "nat \<Rightarrow> char" where
  "hex_digit n = (if n < 10 then char_of (48 + n) else char_of (87 + n))"

definition debug_char :: "char \<Rightarrow> string" where
  "debug_char c =
     (let n = (of_char c :: nat) in
      if n = 34 \<or> n = 92 then [CHR 0x5C, c]
      else if n = 0 then [CHR 0x5C, CHR ''0'']
      else if n = 9 then [CHR 0x5C, CHR ''t'']
      else if n = 10 then [CHR 0x5C, CHR ''n'']
      else if n = 13 then [CHR 0x5C, CHR ''r'']
      else if n < 16 then [CHR 0x5C, CHR ''u'', CHR 0x7B, hex_digit n, CHR 0x7D]
      else if n < 32 \<or> n = 127 then
        [CHR 0x5C, CHR ''u'', CHR 0x7B, hex_digit (n div 16), hex_digit (n mod 16), CHR 0x7D]
      else [c])"

definition debug_str :: "string \<Rightarrow> string" where
  "debug_str s = [CHR 0x22] @ concat (map debug_char s) @ [CHR 0x22]"

end
