(* ===== verification/Nm_Model.thy ===== *)
theory Nm_Model
  imports Nm_Prelude
begin

text \<open>
  The types of \<^verbatim>\<open>src/linux/model.rs\<close>: netlink errors, links, addresses, routes, the
  Wi-Fi types, and their conversions to and from kernel numbers and text. An \<open>Ipv4Addr\<close> is
  the 32-bit value of its octets in network order, an \<open>Ipv6Addr\<close> the 128-bit one; a MAC
  address \<open>[u8; 6]\<close> is a byte list of length 6.
\<close>

section \<open>Addresses of the standard library\<close>

type_synonym ipv4_addr = u32
type_synonym ipv6_addr = u128
type_synonym mac = bytes

datatype ip_addr = V4Addr ipv4_addr | V6Addr ipv6_addr

definition ipv4_octets :: "ipv4_addr \<Rightarrow> bytes" where
  "ipv4_octets a = to_be_bytes32 a"

definition ipv4_of_octets :: "u8 \<Rightarrow> u8 \<Rightarrow> u8 \<Rightarrow> u8 \<Rightarrow> ipv4_addr" where
  "ipv4_of_octets a b c d = le32 d c b a"

definition ipv6_octets :: "ipv6_addr \<Rightarrow> bytes" where
  "ipv6_octets a = concat (map (\<lambda>i. to_be_bytes32 (ucast (drop_bit (96 - 32 * i) a))) [0, 1, 2, 3])"

definition is_ipv4 :: "ip_addr \<Rightarrow> bool" where
  "is_ipv4 a = (case a of V4Addr _ \<Rightarrow> True | V6Addr _ \<Rightarrow> False)"

definition is_unspecified :: "ip_addr \<Rightarrow> bool" where
  "is_unspecified a = (case a of V4Addr w \<Rightarrow> w = 0 | V6Addr w \<Rightarrow> w = 0)"

section \<open>Errors\<close>

text \<open>\<open>io::Error\<close>: its kind and the text it displays.\<close>

datatype io_kind = IoNotFound | IoInterrupted | IoWouldBlock | IoOther

record io_error =
  io_kind :: io_kind
  io_message :: string

datatype netlink_error =
    NlIo io_error
  | NlKernel i32
  | NlMalformed string

definition netlink_error_string :: "netlink_error \<Rightarrow> string" where
  "netlink_error_string e = (case e of
       NlIo err \<Rightarrow> ''netlink I/O failed: '' @ io_message err
     | NlKernel code \<Rightarrow> ''kernel returned netlink error '' @ show_i32 code
     | NlMalformed msg \<Rightarrow> ''malformed netlink message: '' @ msg)"

section \<open>Links, addresses and routes\<close>

record link =
  link_index :: i32
  link_name :: string
  link_flags :: u32

definition link_is_up :: "u32 \<Rightarrow> bool" where
  "link_is_up bits \<longleftrightarrow> bits AND 0x1 \<noteq> 0"

definition link_is_loopback :: "u32 \<Rightarrow> bool" where
  "link_is_loopback bits \<longleftrightarrow> bits AND 0x8 \<noteq> 0"

record address =
  addr_interface_index :: u32
  addr_address :: ip_addr
  addr_prefix_length :: u8

datatype ip_family = V4 | V6

datatype route_kind =
    Unicast | Local | Broadcast | Anycast | Multicast | Blackhole | Unreachable
  | OtherKind u8

definition route_kind_from_u8 :: "u8 \<Rightarrow> route_kind" where
  "route_kind_from_u8 v =
     (if v = 1 then Unicast else if v = 2 then Local else if v = 3 then Broadcast
      else if v = 4 then Anycast else if v = 5 then Multicast else if v = 6 then Blackhole
      else if v = 7 then Unreachable else OtherKind v)"

fun route_kind_as_u8 :: "route_kind \<Rightarrow> u8" where
  "route_kind_as_u8 Unicast = 1"
| "route_kind_as_u8 Local = 2"
| "route_kind_as_u8 Broadcast = 3"
| "route_kind_as_u8 Anycast = 4"
| "route_kind_as_u8 Multicast = 5"
| "route_kind_as_u8 Blackhole = 6"
| "route_kind_as_u8 Unreachable = 7"
| "route_kind_as_u8 (OtherKind v) = v"

datatype route_scope = Universe | LinkScope | HostScope | OtherScope u8

definition route_scope_from_u8 :: "u8 \<Rightarrow> route_scope" where
  "route_scope_from_u8 v =
     (if v = 0 then Universe else if v = 253 then LinkScope else if v = 254 then HostScope
      else OtherScope v)"

fun route_scope_as_u8 :: "route_scope \<Rightarrow> u8" where
  "route_scope_as_u8 Universe = 0"
| "route_scope_as_u8 LinkScope = 253"
| "route_scope_as_u8 HostScope = 254"
| "route_scope_as_u8 (OtherScope v) = v"

record route =
  rt_family :: ip_family
  rt_destination :: ip_addr
  rt_prefix_length :: u8
  rt_gateway :: "ip_addr option"
  rt_output_interface :: "i32 option"
  rt_metric :: "u32 option"
  rt_kind :: route_kind
  rt_scope :: route_scope

definition route_is_default :: "route \<Rightarrow> bool" where
  "route_is_default r \<longleftrightarrow> rt_prefix_length r = 0 \<and>
     (case (rt_family r, rt_destination r) of
        (V4, V4Addr a) \<Rightarrow> a = 0
      | (V6, V6Addr a) \<Rightarrow> a = 0
      | _ \<Rightarrow> False)"

section \<open>Events\<close>

datatype link_event_kind = LinkCreated | LinkRemoved | LinkChanged
datatype address_event_kind = AddressAdded | AddressRemoved
datatype route_event_kind = RouteAdded | RouteRemoved | RouteChanged
datatype wifi_event_kind = ScanResults | ScanAborted

record wifi_event =
  we_kind :: wifi_event_kind
  we_interface_index :: i32
  we_interface_name :: "string option"
  we_frequency :: "u32 option"

datatype network_event =
    LinkEvent link_event_kind link
  | AddressEvent address_event_kind address
  | RouteEvent route_event_kind route
  | WifiEvent wifi_event

section \<open>Wi-Fi types\<close>

definition frequency_to_channel :: "u32 \<Rightarrow> u16 option" where
  "frequency_to_channel freq =
     (if 2412 \<le> freq \<and> freq \<le> 2472 then Some (ucast ((freq - 2407) div 5))
      else if freq = 2484 then Some 14
      else if 5000 \<le> freq \<and> freq \<le> 5895 then Some (ucast ((freq - 5000) div 5))
      else if 5955 \<le> freq \<and> freq \<le> 7115 then Some (ucast ((freq - 5950) div 5))
      else None)"

type_synonym ssid = bytes

definition ssid_from_bytes :: "bytes \<Rightarrow> ssid option" where
  "ssid_from_bytes bs = (if length bs \<le> 32 then Some bs else None)"

definition hex2 :: "u8 \<Rightarrow> string" where
  "hex2 b = [hex_digit (unat (drop_bit 4 b)), hex_digit (unat (b AND 0x0f))]"

definition ssid_escape :: "u8 \<Rightarrow> string" where
  "ssid_escape b =
     (if 0x20 \<le> b \<and> b \<le> 0x7e \<and> b \<noteq> 0x5c then [byte_char b] else [CHR 0x5C, CHR ''x''] @ hex2 b)"

definition ssid_display_string :: "ssid \<Rightarrow> string" where
  "ssid_display_string s = (if s = [] then ''(hidden)'' else concat (map ssid_escape s))"

section \<open>MAC addresses and hexadecimal text\<close>

definition encode_hex :: "bytes \<Rightarrow> string" where
  "encode_hex bs = concat (map hex2 bs)"

fun format_mac_address :: "mac \<Rightarrow> string" where
  "format_mac_address [] = []"
| "format_mac_address [b] = hex2 b"
| "format_mac_address (b # bs) = hex2 b @ CHR '':'' # format_mac_address bs"

text \<open>
  The parsers iterate over Unicode scalar values but measure the length in UTF-8 bytes, so their
  input is the list of the scalar values of the string.
\<close>

type_synonym scalars = "nat list"

definition scalars_of :: "string \<Rightarrow> scalars" where
  "scalars_of s = map of_char s"

definition utf8_len :: "scalars \<Rightarrow> nat" where
  "utf8_len cs = sum_list (map (\<lambda>c. if c < 0x80 then 1 else if c < 0x800 then 2
                                     else if c < 0x10000 then 3 else 4) cs)"

definition to_digit16 :: "nat \<Rightarrow> nat option" where
  "to_digit16 c =
     (if 48 \<le> c \<and> c \<le> 57 then Some (c - 48)
      else if 97 \<le> c \<and> c \<le> 102 then Some (c - 87)
      else if 65 \<le> c \<and> c \<le> 70 then Some (c - 55)
      else None)"

fun decode_pairs :: "scalars \<Rightarrow> bytes option" where
  "decode_pairs (h # l # cs) =
     (case to_digit16 h of None \<Rightarrow> None | Some a \<Rightarrow>
      case to_digit16 l of None \<Rightarrow> None | Some b \<Rightarrow>
      map_option (\<lambda>bs. (push_bit 4 (word_of_nat a) OR word_of_nat b) # bs) (decode_pairs cs))"
| "decode_pairs cs = Some []"

definition decode_hex :: "scalars \<Rightarrow> bytes option" where
  "decode_hex cs = (if utf8_len cs mod 2 \<noteq> 0 then None else decode_pairs cs)"

definition parse_mac_address :: "scalars \<Rightarrow> mac option" where
  "parse_mac_address input =
     (let compact = filter (\<lambda>c. c \<noteq> 58) input in
      if utf8_len compact \<noteq> 12 then None
      else case decode_hex compact of
             None \<Rightarrow> None
           | Some bs \<Rightarrow> if length bs = 6 then Some bs else None)"

section \<open>Wireless interfaces\<close>

datatype interface_type =
    Unspecified | Adhoc | Station | Ap | ApVlan | Wds | Monitor | MeshPoint | P2pClient | P2pGo
  | P2pDevice | Ocb | Nan | NanData | OtherInterface u8

definition interface_type_from_u8 :: "u8 \<Rightarrow> interface_type" where
  "interface_type_from_u8 v =
     (if v = 0 then Unspecified else if v = 1 then Adhoc else if v = 2 then Station
      else if v = 3 then Ap else if v = 4 then ApVlan else if v = 5 then Wds
      else if v = 6 then Monitor else if v = 7 then MeshPoint else if v = 8 then P2pClient
      else if v = 9 then P2pGo else if v = 10 then P2pDevice else if v = 11 then Ocb
      else if v = 12 then Nan else if v = 13 then NanData else OtherInterface v)"

datatype wifi_band_id = Ghz2 | Ghz5 | Ghz60 | Ghz6 | SubGhz | Lc | OtherBand u8

definition wifi_band_id_from_u8 :: "u8 \<Rightarrow> wifi_band_id" where
  "wifi_band_id_from_u8 v =
     (if v = 0 then Ghz2 else if v = 1 then Ghz5 else if v = 2 then Ghz60 else if v = 3 then Ghz6
      else if v = 4 then SubGhz else if v = 5 then Lc else OtherBand v)"

record wifi_band =
  band_id :: wifi_band_id
  band_channels :: "u16 list"
  band_frequencies :: "u32 list"
  band_ht_capabilities :: "u16 option"
  band_vht_capabilities :: "u32 option"

datatype wifi_cipher =
    Wep40 | Wep104 | Tkip | Ccmp | Ccmp256 | Gcmp | Gcmp256 | AesCmac | BipCmac256 | BipGmac128
  | BipGmac256 | WapiSms4 | OtherCipher u32

definition wifi_cipher_from_u32 :: "u32 \<Rightarrow> wifi_cipher" where
  "wifi_cipher_from_u32 v =
     (if v = 0x000FAC01 then Wep40 else if v = 0x000FAC05 then Wep104
      else if v = 0x000FAC02 then Tkip else if v = 0x000FAC04 then Ccmp
      else if v = 0x000FAC0A then Ccmp256 else if v = 0x000FAC08 then Gcmp
      else if v = 0x000FAC09 then Gcmp256 else if v = 0x000FAC06 then AesCmac
      else if v = 0x000FAC0B then BipCmac256 else if v = 0x000FAC0C then BipGmac128
      else if v = 0x000FAC0D then BipGmac256 else if v = 0x00147201 then WapiSms4
      else OtherCipher v)"

record wifi_capabilities =
  cap_supported_interfaces :: "interface_type list"
  cap_cipher_suites :: "wifi_cipher list"
  cap_bands :: "wifi_band list"
  cap_max_scan_ssids :: "u32 option"
  cap_scan_supported :: bool

definition default_capabilities :: wifi_capabilities where
  "default_capabilities = \<lparr> cap_supported_interfaces = [], cap_cipher_suites = [],
     cap_bands = [], cap_max_scan_ssids = None, cap_scan_supported = False \<rparr>"

record wireless_interface =
  wi_index :: i32
  wi_name :: string
  wi_wiphy_index :: "u32 option"
  wi_wiphy_name :: "string option"
  wi_interface_type :: interface_type
  wi_mac :: "mac option"
  wi_up :: bool
  wi_capabilities :: wifi_capabilities

datatype wifi_auth_suite =
    Wpa1Psk | Wpa18021x | Rsn8021x | RsnPsk | RsnFt8021x | RsnFtPsk | Rsn8021xSha256
  | RsnPskSha256 | RsnSae | RsnSaeFt | RsnApPsk | RsnSuiteB | RsnSuiteB192 | RsnFt8021xSha384
  | RsnFilsSha256 | RsnFilsSha384 | RsnFtFilsSha256 | RsnFtFilsSha384 | RsnOwe | RsnFtPskSha384
  | RsnPskSha384 | RsnPasn | OtherSuite u32

definition wifi_auth_suite_from_rsn_akm :: "u32 \<Rightarrow> wifi_auth_suite" where
  "wifi_auth_suite_from_rsn_akm v =
     (if v = 0x000FAC01 then Rsn8021x else if v = 0x000FAC02 then RsnPsk
      else if v = 0x000FAC03 then RsnFt8021x else if v = 0x000FAC04 then RsnFtPsk
      else if v = 0x000FAC05 then Rsn8021xSha256 else if v = 0x000FAC06 then RsnPskSha256
      else if v = 0x000FAC08 then RsnSae else if v = 0x000FAC09 then RsnSaeFt
      else if v = 0x000FAC0A then RsnApPsk else if v = 0x000FAC0B then RsnSuiteB
      else if v = 0x000FAC0C then RsnSuiteB192 else if v = 0x000FAC0D then RsnFt8021xSha384
      else if v = 0x000FAC0E then RsnFilsSha256 else if v = 0x000FAC0F then RsnFilsSha384
      else if v = 0x000FAC10 then RsnFtFilsSha256 else if v = 0x000FAC11 then RsnFtFilsSha384
      else if v = 0x000FAC12 then RsnOwe else if v = 0x000FAC13 then RsnFtPskSha384
      else if v = 0x000FAC14 then RsnPskSha384 else if v = 0x000FAC15 then RsnPasn
      else OtherSuite v)"

record access_point_security =
  sec_wep :: bool
  sec_wpa1 :: bool
  sec_wpa2 :: bool
  sec_wpa3 :: bool
  sec_enterprise :: bool
  sec_management_frame_protection :: bool
  sec_auth_suites :: "wifi_auth_suite list"

record access_point =
  ap_bssid :: "mac option"
  ap_ssid :: "ssid option"
  ap_frequency :: "u32 option"
  ap_channel :: "u16 option"
  ap_signal_dbm :: "i32 option"
  ap_signal_unspecified :: "u8 option"
  ap_capability :: "u16 option"
  ap_security :: access_point_security
  ap_seen_millis_ago :: "u32 option"

section \<open>Octets\<close>

lemma length_ipv4_octets [simp]: "length (ipv4_octets a) = 4"
  by (simp add: ipv4_octets_def)

lemma length_ipv6_octets [simp]: "length (ipv6_octets a) = 16"
  by (simp add: ipv6_octets_def)

lemma ipv4_octets_of_octets [simp]: "ipv4_octets (ipv4_of_octets a b c d) = [a, b, c, d]"
  by (simp add: ipv4_octets_def ipv4_of_octets_def to_be_bytes32_def to_le32_le32)

lemma ipv4_octets_inj: "ipv4_octets a = ipv4_octets b \<longleftrightarrow> a = b"
  by (auto simp: ipv4_octets_def dest: be32c.enc_inj)

lemma ipv4_octets_eq: "ipv4_octets x = [a, b, c, d] \<longleftrightarrow> x = ipv4_of_octets a b c d"
  by (metis ipv4_octets_of_octets ipv4_octets_inj)

lemma ipv4_octets_cases:
  obtains a b c d where "x = ipv4_of_octets a b c d" "ipv4_octets x = [a, b, c, d]"
proof -
  obtain a b c d where "ipv4_octets x = [a, b, c, d]"
    by (simp add: ipv4_octets_def to_be_bytes32_def to_le_bytes32_def)
  then show thesis using that ipv4_octets_eq by blast
qed

section \<open>Kernel numbers\<close>

lemma route_kind_as_from [simp]: "route_kind_as_u8 (route_kind_from_u8 v) = v"
  by (simp add: route_kind_from_u8_def)

lemma route_scope_as_from [simp]: "route_scope_as_u8 (route_scope_from_u8 v) = v"
  by (simp add: route_scope_from_u8_def)

text \<open>
  A kind or scope is canonical when its raw number has no constructor of its own; the kernel
  numbers and the canonical values correspond one to one.
\<close>

definition route_kind_canonical :: "route_kind \<Rightarrow> bool" where
  "route_kind_canonical k = (case k of OtherKind v \<Rightarrow> v = 0 \<or> 7 < v | _ \<Rightarrow> True)"

definition route_scope_canonical :: "route_scope \<Rightarrow> bool" where
  "route_scope_canonical s = (case s of OtherScope v \<Rightarrow> v \<notin> {0, 253, 254} | _ \<Rightarrow> True)"

lemma route_kind_from_as: "route_kind_canonical k \<Longrightarrow> route_kind_from_u8 (route_kind_as_u8 k) = k"
  by (cases k) (auto simp: route_kind_canonical_def route_kind_from_u8_def)

lemma route_scope_from_as: "route_scope_canonical s \<Longrightarrow> route_scope_from_u8 (route_scope_as_u8 s) = s"
  by (cases s) (auto simp: route_scope_canonical_def route_scope_from_u8_def)

section \<open>Hexadecimal text\<close>

lemma hex_digit_code: "n < 16 \<Longrightarrow> (of_char (hex_digit n) :: nat) = (if n < 10 then 48 + n else 87 + n)"
  by (simp add: hex_digit_def)

lemma to_digit16_hex_digit [simp]: "n < 16 \<Longrightarrow> to_digit16 (of_char (hex_digit n)) = Some n"
  by (auto simp: to_digit16_def hex_digit_code)

lemma nibble_high_less [simp]: "unat (drop_bit 4 (b :: u8)) < 16"
proof -
  have "unat b < 256" by simp
  then show ?thesis by (simp add: unat_drop_bit_eq drop_bit_nat_def less_mult_imp_div_less)
qed

lemma nibble_low_less [simp]: "unat (b AND 0x0f :: u8) < 16"
proof -
  have "b AND 0x0f \<le> (0x0f :: u8)" by (rule word_and_le1)
  then have "unat (b AND 0x0f) \<le> unat (0x0f :: u8)" by (simp only: word_le_nat_alt)
  then show ?thesis by simp
qed

lemma nibbles_join [simp]: "push_bit 4 (drop_bit 4 b) OR (b AND 0x0f) = (b :: u8)"
proof -
  have "(0x0f :: u8) = mask 4" by (simp add: mask_eq_exp_minus_1)
  then have low: "b AND 0x0f = take_bit 4 b" by (simp add: take_bit_eq_mask)
  show ?thesis
    unfolding low by (rule bit_word_eqI) (auto simp: bit_simps)
qed

lemma hex2_scalars: "scalars_of (hex2 b) =
    [of_char (hex_digit (unat (drop_bit 4 b))), of_char (hex_digit (unat (b AND 0x0f)))]"
  by (simp add: hex2_def scalars_of_def)

lemma decode_pairs_hex2: "decode_pairs (scalars_of (hex2 b) @ cs) = map_option ((#) b) (decode_pairs cs)"
  by (simp add: hex2_scalars comp_def)

lemma hex_digit_ascii: "n < 16 \<Longrightarrow> (of_char (hex_digit n) :: nat) < 128 \<and> (of_char (hex_digit n) :: nat) \<noteq> 58"
  by (auto simp: hex_digit_code)

lemma utf8_len_append [simp]: "utf8_len (xs @ ys) = utf8_len xs + utf8_len ys"
  by (simp add: utf8_len_def)

lemma utf8_len_hex2 [simp]: "utf8_len (scalars_of (hex2 b)) = 2"
  by (simp add: hex2_scalars utf8_len_def hex_digit_ascii)

lemma scalars_of_append [simp]: "scalars_of (s @ t) = scalars_of s @ scalars_of t"
  by (simp add: scalars_of_def)

lemma scalars_of_encode_hex_Cons: "scalars_of (encode_hex (b # bs)) = scalars_of (hex2 b) @ scalars_of (encode_hex bs)"
  by (simp add: encode_hex_def)

lemma utf8_len_encode_hex: "utf8_len (scalars_of (encode_hex bs)) = 2 * length bs"
proof (induction bs)
  case Nil
  then show ?case by (simp add: encode_hex_def scalars_of_def utf8_len_def)
next
  case (Cons b bs)
  then show ?case by (simp only: scalars_of_encode_hex_Cons utf8_len_append) simp
qed

lemma decode_pairs_encode_hex: "decode_pairs (scalars_of (encode_hex bs)) = Some bs"
proof (induction bs)
  case Nil
  then show ?case by (simp add: encode_hex_def scalars_of_def)
next
  case (Cons b bs)
  then show ?case by (simp only: scalars_of_encode_hex_Cons decode_pairs_hex2) simp
qed

lemma decode_hex_encode: "decode_hex (scalars_of (encode_hex bs)) = Some bs"
  by (simp add: decode_hex_def utf8_len_encode_hex decode_pairs_encode_hex)

lemma filter_colon_hex2 [simp]: "filter (\<lambda>c. c \<noteq> 58) (scalars_of (hex2 b)) = scalars_of (hex2 b)"
  using hex_digit_ascii [of "unat (drop_bit 4 b)"] hex_digit_ascii [of "unat (b AND 0x0f)"]
  by (simp add: hex2_scalars)

lemma scalars_of_colon: "scalars_of (CHR '':'' # s) = 58 # scalars_of s"
  by (simp add: scalars_of_def)

lemma filter_colon_format:
  "filter (\<lambda>c. c \<noteq> 58) (scalars_of (format_mac_address m)) = scalars_of (encode_hex m)"
proof (induction m rule: format_mac_address.induct)
  case 1
  then show ?case by (simp add: encode_hex_def scalars_of_def)
next
  case (2 b)
  then show ?case by (simp add: encode_hex_def)
next
  case (3 b v va)
  then show ?case
    by (simp add: scalars_of_colon encode_hex_def)
qed

lemma parse_format_mac: "length m = 6 \<Longrightarrow> parse_mac_address (scalars_of (format_mac_address m)) = Some m"
  by (simp only: parse_mac_address_def filter_colon_format Let_def utf8_len_encode_hex)
     (simp add: decode_hex_encode)

lemma parse_mac_length: "parse_mac_address cs = Some m \<Longrightarrow> length m = 6"
  by (auto simp: parse_mac_address_def Let_def split: if_splits option.splits)

section \<open>SSIDs\<close>

lemma ssid_from_bytes_Some [simp]: "ssid_from_bytes bs = Some s \<longleftrightarrow> s = bs \<and> length bs \<le> 32"
  by (auto simp: ssid_from_bytes_def)

lemma hex2_inj: "hex2 a = hex2 b \<Longrightarrow> a = b"
proof -
  assume "hex2 a = hex2 b"
  then have "decode_pairs (scalars_of (hex2 a) @ []) = decode_pairs (scalars_of (hex2 b) @ [])" by simp
  then show "a = b" by (simp only: decode_pairs_hex2) simp
qed

lemma byte_char_inj: "byte_char a = byte_char b \<longleftrightarrow> a = b"
  by (metis char_byte_byte_char)

lemma byte_char_backslash: "byte_char b = CHR 0x5C \<longleftrightarrow> b = 0x5c"
proof -
  have "byte_char 0x5c = CHR 0x5C" by code_simp
  then show ?thesis by (metis byte_char_inj)
qed

lemma ssid_escape_append_inj:
  "ssid_escape a @ s = ssid_escape b @ t \<Longrightarrow> a = b \<and> s = t"
  using byte_char_backslash [of a] byte_char_backslash [of b]
  by (auto simp: ssid_escape_def byte_char_inj hex2_def split: if_splits intro: hex2_inj)

lemma ssid_escape_nonempty: "ssid_escape b \<noteq> []"
  by (simp add: ssid_escape_def)

lemma concat_ssid_escape_inj:
  "concat (map ssid_escape s) = concat (map ssid_escape t) \<Longrightarrow> s = t"
proof (induction s arbitrary: t)
  case Nil
  then show ?case by (cases t) (auto simp: ssid_escape_nonempty)
next
  case (Cons a s)
  then show ?case
    by (cases t) (auto simp: ssid_escape_nonempty dest!: ssid_escape_append_inj)
qed

section \<open>Channels\<close>

lemma unat_u16_of_small: "unat (w :: u32) < 65536 \<Longrightarrow> unat (ucast w :: u16) = unat w"
  by (simp add: unsigned_ucast_eq take_bit_nat_eq_self)

lemma unat_sub_div5:
  "b \<le> f \<Longrightarrow> unat ((f - b) div 5 :: u32) = (unat f - unat b) div 5"
  by (simp add: unat_div unat_sub)

end
