(* ===== verification/Nm_Profile.thy ===== *)
theory Nm_Profile
  imports Nm_Model
begin

text \<open>
  Connection profiles (\<^verbatim>\<open>src/connection/profile.rs\<close>), the devices they match
  (\<^verbatim>\<open>src/connection/device.rs\<close>) and the references to their secrets
  (\<^verbatim>\<open>src/connection/secrets.rs\<close>): construction, matching and validation.
\<close>

section \<open>Devices\<close>

datatype device_kind = WifiDevice | EthernetDevice

definition device_kind_string :: "device_kind \<Rightarrow> string" where
  "device_kind_string k = (case k of WifiDevice \<Rightarrow> ''wifi'' | EthernetDevice \<Rightarrow> ''ethernet'')"

record device_info =
  dev_kind :: device_kind
  dev_interface_name :: string
  dev_mac_address :: "mac option"

definition device_from_wireless :: "wireless_interface \<Rightarrow> device_info" where
  "device_from_wireless i =
     \<lparr> dev_kind = WifiDevice, dev_interface_name = wi_name i, dev_mac_address = wi_mac i \<rparr>"

definition device_wifi :: "string \<Rightarrow> mac option \<Rightarrow> device_info" where
  "device_wifi name m = \<lparr> dev_kind = WifiDevice, dev_interface_name = name, dev_mac_address = m \<rparr>"

definition device_ethernet :: "string \<Rightarrow> mac option \<Rightarrow> device_info" where
  "device_ethernet name m =
     \<lparr> dev_kind = EthernetDevice, dev_interface_name = name, dev_mac_address = m \<rparr>"

section \<open>Secrets\<close>

datatype secret_reference = Keyring string | Agent string

definition secret_identifier :: "secret_reference \<Rightarrow> string" where
  "secret_identifier r = (case r of Keyring i \<Rightarrow> i | Agent i \<Rightarrow> i)"

datatype secret_error = SecretNotFound | SecretUnavailable

text \<open>
  The environment provider. \<open>std::env::var\<close> is its argument: the value of a variable, or the
  reason there is none.
\<close>

datatype var_error = NotPresent | NotUnicode

definition env_retrieve ::
  "(string \<Rightarrow> (string, var_error) result) \<Rightarrow> secret_reference \<Rightarrow> (bytes option, secret_error) result" where
  "env_retrieve env_var reference =
     (case env_var (''NMD_WIFI_'' @ secret_identifier reference) of
        Ok value \<Rightarrow> Ok (Some (string_bytes value))
      | Err NotPresent \<Rightarrow> Ok None
      | Err NotUnicode \<Rightarrow> Ok None)"

section \<open>Profiles\<close>

type_synonym profile_id = string

datatype key_management = Open | WpaPsk | WpaEap | Sae | Owe

record wifi_security =
  ws_key_management :: key_management
  ws_secret :: "secret_reference option"
  ws_identity :: "string option"

definition security_open :: wifi_security where
  "security_open = \<lparr> ws_key_management = Open, ws_secret = None, ws_identity = None \<rparr>"

definition security_psk :: "secret_reference \<Rightarrow> wifi_security" where
  "security_psk s = \<lparr> ws_key_management = WpaPsk, ws_secret = Some s, ws_identity = None \<rparr>"

definition security_sae :: "secret_reference \<Rightarrow> wifi_security" where
  "security_sae s = \<lparr> ws_key_management = Sae, ws_secret = Some s, ws_identity = None \<rparr>"

definition security_owe :: wifi_security where
  "security_owe = \<lparr> ws_key_management = Owe, ws_secret = None, ws_identity = None \<rparr>"

definition security_enterprise :: "string \<Rightarrow> wifi_security" where
  "security_enterprise i = \<lparr> ws_key_management = WpaEap, ws_secret = None, ws_identity = Some i \<rparr>"

record wifi_settings =
  wf_ssid :: ssid
  wf_bssid :: "mac option"
  wf_hidden :: bool
  wf_security :: wifi_security

datatype ethernet_duplex = Half | Full

record ethernet_settings =
  eth_autonegotiation :: "bool option"
  eth_speed_mbit :: "u32 option"
  eth_duplex :: "ethernet_duplex option"

definition ethernet_default :: ethernet_settings where
  "ethernet_default = \<lparr> eth_autonegotiation = None, eth_speed_mbit = None, eth_duplex = None \<rparr>"

datatype connection_type = Wifi wifi_settings | Ethernet ethernet_settings

record device_match =
  dm_interface_name :: "string option"
  dm_mac_address :: "mac option"

definition device_match_default :: device_match where
  "device_match_default = \<lparr> dm_interface_name = None, dm_mac_address = None \<rparr>"

datatype ip_method = Automatic | Manual | Disabled

record ip_config =
  ic_method :: ip_method
  ic_address :: "ip_addr option"
  ic_prefix_length :: "u8 option"
  ic_gateway :: "ip_addr option"
  ic_dns_servers :: "ip_addr list"
  ic_routes :: "route list"

definition ip_config_default :: ip_config where
  "ip_config_default = \<lparr> ic_method = Automatic, ic_address = None, ic_prefix_length = None,
     ic_gateway = None, ic_dns_servers = [], ic_routes = [] \<rparr>"

record connection_profile =
  cp_id :: profile_id
  cp_name :: string
  cp_connection_type :: connection_type
  cp_device_match :: device_match
  cp_priority :: i32
  cp_autoconnect :: bool
  cp_enabled :: bool
  cp_ipv4 :: ip_config
  cp_ipv6 :: ip_config

section \<open>Validation\<close>

datatype profile_validation_error =
    EmptyId
  | InvalidIdChars string
  | EmptyName
  | EmptySsid
  | SsidTooLong nat
  | MissingSecret
  | SecretNotAllowed
  | MissingIdentity
  | InvalidSpeed
  | ManualAddressRequired
  | ManualPrefixRequired
  | PrefixOutOfRange u8
  | AddressFamilyMismatch

definition validation_error_string :: "profile_validation_error \<Rightarrow> string" where
  "validation_error_string e = (case e of
       EmptyId \<Rightarrow> ''profile id must not be empty''
     | InvalidIdChars i \<Rightarrow> ''profile id '' @ debug_str i
         @ '' may only contain ASCII alphanumerics, '' @ [CHR 0x27] @ ''-'' @ [CHR 0x27]
         @ '' and '' @ [CHR 0x27] @ ''_'' @ [CHR 0x27]
     | EmptyName \<Rightarrow> ''profile name must not be empty''
     | EmptySsid \<Rightarrow> ''wifi ssid must not be empty''
     | SsidTooLong n \<Rightarrow> ''wifi ssid exceeds 32 octets ('' @ show_nat n @ '')''
     | MissingSecret \<Rightarrow> ''wifi security requires a secret reference''
     | SecretNotAllowed \<Rightarrow> ''open or OWE wifi security must not carry a secret''
     | MissingIdentity \<Rightarrow> ''enterprise wifi security requires an identity''
     | InvalidSpeed \<Rightarrow> ''ethernet link speed must be non-zero''
     | ManualAddressRequired \<Rightarrow> ''manual IP configuration requires an address''
     | ManualPrefixRequired \<Rightarrow> ''manual IP configuration requires a prefix length''
     | PrefixOutOfRange p \<Rightarrow> ''IP prefix length '' @ show_word p
         @ '' is out of range for the configured family''
     | AddressFamilyMismatch \<Rightarrow> ''IPv4/IPv6 configuration holds an address of the wrong family'')"

definition is_ascii_alphanumeric :: "char \<Rightarrow> bool" where
  "is_ascii_alphanumeric c \<longleftrightarrow> (let n = (of_char c :: nat) in
     48 \<le> n \<and> n \<le> 57 \<or> 65 \<le> n \<and> n \<le> 90 \<or> 97 \<le> n \<and> n \<le> 122)"

definition id_char_ok :: "char \<Rightarrow> bool" where
  "id_char_ok c \<longleftrightarrow> is_ascii_alphanumeric c \<or> c = CHR ''-'' \<or> c = CHR ''_''"

definition validate_ip_config :: "ip_config \<Rightarrow> bool \<Rightarrow> (unit, profile_validation_error) result" where
  "validate_ip_config config expect_v4 =
     (if ic_method config \<noteq> Manual then Ok ()
      else case ic_address config of
        None \<Rightarrow> Err ManualAddressRequired
      | Some addr \<Rightarrow>
          if is_ipv4 addr \<noteq> expect_v4 then Err AddressFamilyMismatch
          else case ic_prefix_length config of
            None \<Rightarrow> Err ManualPrefixRequired
          | Some prefix \<Rightarrow>
              if prefix > (if expect_v4 then 32 else 128) then Err (PrefixOutOfRange prefix)
              else Ok ())"

definition validate_type :: "connection_type \<Rightarrow> (unit, profile_validation_error) result" where
  "validate_type t = (case t of
       Wifi settings \<Rightarrow>
         (let len = length (wf_ssid settings) in
          if len = 0 then Err EmptySsid
          else if len > 32 then Err (SsidTooLong len)
          else case ws_key_management (wf_security settings) of
              WpaPsk \<Rightarrow> (if ws_secret (wf_security settings) = None then Err MissingSecret else Ok ())
            | Sae \<Rightarrow> (if ws_secret (wf_security settings) = None then Err MissingSecret else Ok ())
            | WpaEap \<Rightarrow>
                (case ws_identity (wf_security settings) of
                   None \<Rightarrow> Err MissingIdentity
                 | Some i \<Rightarrow> if i = [] then Err MissingIdentity else Ok ())
            | Open \<Rightarrow> (if ws_secret (wf_security settings) \<noteq> None then Err SecretNotAllowed else Ok ())
            | Owe \<Rightarrow> (if ws_secret (wf_security settings) \<noteq> None then Err SecretNotAllowed else Ok ()))
     | Ethernet settings \<Rightarrow>
         (if eth_speed_mbit settings = Some 0 then Err InvalidSpeed else Ok ()))"

definition validate :: "connection_profile \<Rightarrow> (unit, profile_validation_error) result" where
  "validate p =
     (if cp_id p = [] then Err EmptyId
      else if \<not> list_all id_char_ok (cp_id p) then Err (InvalidIdChars (cp_id p))
      else if cp_name p = [] then Err EmptyName
      else and_then (validate_type (cp_connection_type p)) (\<lambda>_.
           and_then (validate_ip_config (cp_ipv4 p) True) (\<lambda>_.
           validate_ip_config (cp_ipv6 p) False)))"

section \<open>Construction and matching\<close>

definition base_profile :: "profile_id \<Rightarrow> string \<Rightarrow> connection_type \<Rightarrow> connection_profile" where
  "base_profile i name t = \<lparr> cp_id = i, cp_name = name, cp_connection_type = t,
     cp_device_match = device_match_default, cp_priority = 0, cp_autoconnect = True,
     cp_enabled = True, cp_ipv4 = ip_config_default, cp_ipv6 = ip_config_default \<rparr>"

definition profile_wifi ::
  "profile_id \<Rightarrow> string \<Rightarrow> ssid \<Rightarrow> wifi_security \<Rightarrow> (connection_profile, profile_validation_error) result" where
  "profile_wifi i name s security =
     (let profile = base_profile i name
        (Wifi \<lparr> wf_ssid = s, wf_bssid = None, wf_hidden = False, wf_security = security \<rparr>)
      in and_then (validate profile) (\<lambda>_. Ok profile))"

definition profile_ethernet ::
  "profile_id \<Rightarrow> string \<Rightarrow> (connection_profile, profile_validation_error) result" where
  "profile_ethernet i name =
     (let profile = base_profile i name (Ethernet ethernet_default)
      in and_then (validate profile) (\<lambda>_. Ok profile))"

definition profile_device_kind :: "connection_profile \<Rightarrow> device_kind" where
  "profile_device_kind p =
     (case cp_connection_type p of Wifi _ \<Rightarrow> WifiDevice | Ethernet _ \<Rightarrow> EthernetDevice)"

definition matches :: "connection_profile \<Rightarrow> device_info \<Rightarrow> bool" where
  "matches p device =
     (if profile_device_kind p \<noteq> dev_kind device then False
      else if (case dm_interface_name (cp_device_match p) of
                 None \<Rightarrow> False | Some expected \<Rightarrow> expected \<noteq> dev_interface_name device) then False
      else if (case dm_mac_address (cp_device_match p) of
                 None \<Rightarrow> False | Some expected \<Rightarrow> dev_mac_address device \<noteq> Some expected) then False
      else True)"

section \<open>What validation guarantees\<close>

text \<open>
  The declarative reading of a valid profile: what the rest of the program may rely on after
  \<open>validate\<close> has accepted it.
\<close>

definition ip_config_ok :: "bool \<Rightarrow> ip_config \<Rightarrow> bool" where
  "ip_config_ok v4 c \<longleftrightarrow> (ic_method c = Manual \<longrightarrow>
     (\<exists>a p. ic_address c = Some a \<and> ic_prefix_length c = Some p \<and> is_ipv4 a = v4 \<and>
        p \<le> (if v4 then 32 else 128)))"

definition security_ok :: "wifi_security \<Rightarrow> bool" where
  "security_ok s \<longleftrightarrow>
     (ws_key_management s \<in> {WpaPsk, Sae} \<longrightarrow> ws_secret s \<noteq> None) \<and>
     (ws_key_management s \<in> {Open, Owe} \<longrightarrow> ws_secret s = None) \<and>
     (ws_key_management s = WpaEap \<longrightarrow> (\<exists>i. ws_identity s = Some i \<and> i \<noteq> []))"

definition type_ok :: "connection_type \<Rightarrow> bool" where
  "type_ok t = (case t of
       Wifi w \<Rightarrow> 1 \<le> length (wf_ssid w) \<and> length (wf_ssid w) \<le> 32 \<and> security_ok (wf_security w)
     | Ethernet e \<Rightarrow> eth_speed_mbit e \<noteq> Some 0)"

definition profile_ok :: "connection_profile \<Rightarrow> bool" where
  "profile_ok p \<longleftrightarrow> cp_id p \<noteq> [] \<and> list_all id_char_ok (cp_id p) \<and> cp_name p \<noteq> [] \<and>
     type_ok (cp_connection_type p) \<and> ip_config_ok True (cp_ipv4 p) \<and> ip_config_ok False (cp_ipv6 p)"

lemma validate_ip_config_Ok: "validate_ip_config c v4 = Ok u \<longleftrightarrow> ip_config_ok v4 c"
  by (auto simp: validate_ip_config_def ip_config_ok_def not_less split: option.splits)

lemma validate_type_Ok: "validate_type t = Ok u \<longleftrightarrow> type_ok t"
  by (cases t)
     (auto simp: validate_type_def type_ok_def security_ok_def Let_def Suc_le_eq
           split: key_management.splits option.splits)

lemma validate_Ok_iff: "validate p = Ok u \<longleftrightarrow> profile_ok p"
  by (simp add: validate_def profile_ok_def result_simps validate_type_Ok validate_ip_config_Ok)

lemma profile_wifi_Ok:
  "profile_wifi i n s sec = Ok p \<longleftrightarrow> profile_ok p \<and>
     p = base_profile i n (Wifi \<lparr> wf_ssid = s, wf_bssid = None, wf_hidden = False, wf_security = sec \<rparr>)"
  by (auto simp: profile_wifi_def Let_def result_simps validate_Ok_iff)

lemma profile_ethernet_Ok:
  "profile_ethernet i n = Ok p \<longleftrightarrow> profile_ok p \<and> p = base_profile i n (Ethernet ethernet_default)"
  by (auto simp: profile_ethernet_def Let_def result_simps validate_Ok_iff)

lemma matches_iff:
  "matches p d \<longleftrightarrow> profile_device_kind p = dev_kind d \<and>
     (\<forall>n. dm_interface_name (cp_device_match p) = Some n \<longrightarrow> n = dev_interface_name d) \<and>
     (\<forall>m. dm_mac_address (cp_device_match p) = Some m \<longrightarrow> dev_mac_address d = Some m)"
  by (auto simp: matches_def split: option.splits)

lemma id_char_ok_separators: "\<not> id_char_ok CHR ''/'' \<and> \<not> id_char_ok CHR ''.'' \<and> \<not> id_char_ok CHR 0x00"
  by (simp add: id_char_ok_def is_ascii_alphanumeric_def)

text \<open>A wired profile and a device it matches: the concrete inputs of the witnesses.\<close>

definition wired :: connection_profile where
  "wired = base_profile ''wired'' ''Wired'' (Ethernet ethernet_default)"

definition eth0 :: device_info where
  "eth0 = device_ethernet ''eth0'' None"

lemma wired_ok: "profile_ok wired" "matches wired eth0"
  by (simp_all add: profile_ok_def wired_def base_profile_def type_ok_def
      ethernet_default_def ip_config_ok_def ip_config_default_def id_char_ok_def is_ascii_alphanumeric_def
      matches_def eth0_def device_ethernet_def profile_device_kind_def device_match_default_def)

end
