(* ===== verification/Nm_State.thy ===== *)
theory Nm_State
  imports Nm_Profile
begin

text \<open>
  The connection state machine and the events of the activation manager
  (\<^verbatim>\<open>src/connection/state.rs\<close>). The transitions are given twice: as the code's decision
  function and as a step relation, over which paths through the machine are described.
\<close>

section \<open>States and transitions\<close>

datatype connection_state =
    Unknown | Disconnected | Preparing | Configuring | Activating | Activated | Deactivating | Failed

definition connection_state_string :: "connection_state \<Rightarrow> string" where
  "connection_state_string s = (case s of
       Unknown \<Rightarrow> ''unknown'' | Disconnected \<Rightarrow> ''disconnected'' | Preparing \<Rightarrow> ''preparing''
     | Configuring \<Rightarrow> ''configuring'' | Activating \<Rightarrow> ''activating'' | Activated \<Rightarrow> ''activated''
     | Deactivating \<Rightarrow> ''deactivating'' | Failed \<Rightarrow> ''failed'')"

fun can_transition_to :: "connection_state \<Rightarrow> connection_state \<Rightarrow> bool" where
  "can_transition_to Unknown s \<longleftrightarrow> s = Disconnected"
| "can_transition_to Disconnected s \<longleftrightarrow> s = Preparing"
| "can_transition_to Preparing s \<longleftrightarrow> s = Configuring \<or> s = Failed"
| "can_transition_to Configuring s \<longleftrightarrow> s = Activating \<or> s = Failed"
| "can_transition_to Activating s \<longleftrightarrow> s = Activated \<or> s = Failed"
| "can_transition_to Activated s \<longleftrightarrow> s = Deactivating \<or> s = Failed"
| "can_transition_to Deactivating s \<longleftrightarrow> s = Disconnected \<or> s = Failed"
| "can_transition_to Failed s \<longleftrightarrow> s = Disconnected"

datatype state_error = InvalidTransition connection_state connection_state

definition state_error_string :: "state_error \<Rightarrow> string" where
  "state_error_string e = (case e of InvalidTransition f t \<Rightarrow>
     ''invalid connection state transition '' @ connection_state_string f @ '' -> ''
       @ connection_state_string t)"

definition transition_to ::
  "connection_state \<Rightarrow> connection_state \<Rightarrow> (connection_state, state_error) result" where
  "transition_to s t = (if can_transition_to s t then Ok t else Err (InvalidTransition s t))"

section \<open>Events\<close>

type_synonym active_id = u64

datatype connection_event =
    EvStateChanged active_id profile_id connection_state connection_state
  | EvActivated active_id profile_id
  | EvDeactivated active_id profile_id
  | EvFailed active_id profile_id string

section \<open>Paths through the machine\<close>

inductive state_step :: "connection_state \<Rightarrow> connection_state \<Rightarrow> bool" where
  "transition_to s t = Ok u \<Longrightarrow> state_step s u"

inductive_simps state_step_iff: "state_step s t"

lemma transition_to_Ok [simp]: "transition_to s t = Ok u \<longleftrightarrow> can_transition_to s t \<and> u = t"
  by (auto simp: transition_to_def)

lemma transition_to_Err [simp]: "transition_to s t = Err e \<longleftrightarrow> \<not> can_transition_to s t \<and> e = InvalidTransition s t"
  by (auto simp: transition_to_def)

lemma state_step_can: "state_step s t \<longleftrightarrow> can_transition_to s t"
  by (simp add: state_step_iff)

text \<open>The state changes an event list reports for one connection, in order.\<close>

fun changes :: "active_id \<Rightarrow> connection_event list \<Rightarrow> (connection_state \<times> connection_state) list" where
  "changes a [] = []"
| "changes a (EvStateChanged b p s t # es) = (if a = b then (s, t) # changes a es else changes a es)"
| "changes a (_ # es) = changes a es"

text \<open>
  \<open>chain s cs t\<close>: the changes start in \<open>s\<close>, each continues where the one before
  ended, each is a permitted transition, and the last one ends in \<open>t\<close>.
\<close>

fun chain :: "connection_state \<Rightarrow> (connection_state \<times> connection_state) list \<Rightarrow> connection_state \<Rightarrow> bool" where
  "chain s [] t \<longleftrightarrow> s = t"
| "chain s ((a, b) # cs) t \<longleftrightarrow> a = s \<and> can_transition_to a b \<and> chain b cs t"

lemma changes_append [simp]: "changes a (xs @ ys) = changes a xs @ changes a ys"
  by (induction a xs rule: changes.induct) auto

lemma chain_append: "chain s (xs @ ys) t \<longleftrightarrow> (\<exists>u. chain s xs u \<and> chain u ys t)"
  by (induction s xs t rule: chain.induct) auto

lemma chain_state_steps: "chain s cs t \<Longrightarrow> state_step\<^sup>*\<^sup>* s t"
  by (induction s cs t rule: chain.induct) (auto simp: state_step_can intro: converse_rtranclp_into_rtranclp)

text \<open>
  What a path must have passed through: no path from \<open>Disconnected\<close> to \<open>Activated\<close>
  skips the intermediate stages.
\<close>

lemma chain_to_activated:
  "chain s cs Activated \<Longrightarrow> s \<noteq> Activated \<Longrightarrow> (Activating, Activated) \<in> set cs"
proof (induction s cs Activated rule: chain.induct)
  case (1 s)
  then show ?case by simp
next
  case (2 s a b cs)
  then show ?case by (cases "b = Activated") (cases a; auto)+
qed

lemma chain_to_activating:
  "chain s cs Activating \<Longrightarrow> s \<noteq> Activating \<Longrightarrow> (Configuring, Activating) \<in> set cs"
proof (induction s cs Activating rule: chain.induct)
  case (1 s)
  then show ?case by simp
next
  case (2 s a b cs)
  then show ?case by (cases "b = Activating") (cases a; auto)+
qed

end
