(* ===== verification/Nm_Fs.thy ===== *)
theory Nm_Fs
  imports Nm_Model "HOL-Library.AList"
begin

text \<open>
  The part of \<open>std::fs\<close> and \<open>std::path\<close> the program uses. A file system is the list
  of its regular files (path and text) together with the faults it will answer: for each path,
  whether reading, writing, renaming, removing or listing it fails, and what a failed write leaves
  behind. Every theorem over a file system therefore covers every pattern of I/O failures.
\<close>

record fs =
  fs_files :: "(string \<times> string) list"
  fs_read_fault :: "string \<Rightarrow> io_error option"
  fs_write_fault :: "string \<Rightarrow> (io_error \<times> string option) option"
  fs_rename_fault :: "string \<Rightarrow> io_error option"
  fs_remove_fault :: "string \<Rightarrow> io_error option"
  fs_list_fault :: "string \<Rightarrow> io_error option"

definition no_such_file :: io_error where
  "no_such_file = \<lparr> io_kind = IoNotFound, io_message = ''No such file or directory (os error 2)'' \<rparr>"

definition fs_lookup :: "fs \<Rightarrow> string \<Rightarrow> string option" where
  "fs_lookup w path = map_of (fs_files w) path"

definition fs_put :: "string \<Rightarrow> string \<Rightarrow> fs \<Rightarrow> fs" where
  "fs_put path text w = w\<lparr> fs_files := AList.update path text (fs_files w) \<rparr>"

definition fs_del :: "string \<Rightarrow> fs \<Rightarrow> fs" where
  "fs_del path w = w\<lparr> fs_files := filter (\<lambda>(p, _). p \<noteq> path) (fs_files w) \<rparr>"

definition fs_is_file :: "fs \<Rightarrow> string \<Rightarrow> bool" where
  "fs_is_file w path \<longleftrightarrow> fs_lookup w path \<noteq> None"

definition fs_read_to_string :: "fs \<Rightarrow> string \<Rightarrow> (string, io_error) result" where
  "fs_read_to_string w path = (case fs_lookup w path of
       None \<Rightarrow> Err no_such_file
     | Some text \<Rightarrow> (case fs_read_fault w path of Some e \<Rightarrow> Err e | None \<Rightarrow> Ok text))"

definition fs_write :: "fs \<Rightarrow> string \<Rightarrow> string \<Rightarrow> (unit, io_error) result \<times> fs" where
  "fs_write w path text = (case fs_write_fault w path of
       None \<Rightarrow> (Ok (), fs_put path text w)
     | Some (e, None) \<Rightarrow> (Err e, w)
     | Some (e, Some part) \<Rightarrow> (Err e, fs_put path part w))"

definition fs_remove_file :: "fs \<Rightarrow> string \<Rightarrow> (unit, io_error) result \<times> fs" where
  "fs_remove_file w path =
     (if fs_lookup w path = None then (Err no_such_file, w)
      else case fs_remove_fault w path of Some e \<Rightarrow> (Err e, w) | None \<Rightarrow> (Ok (), fs_del path w))"

definition fs_rename :: "fs \<Rightarrow> string \<Rightarrow> string \<Rightarrow> (unit, io_error) result \<times> fs" where
  "fs_rename w old new = (case fs_lookup w old of
       None \<Rightarrow> (Err no_such_file, w)
     | Some text \<Rightarrow> (case fs_rename_fault w old of
           Some e \<Rightarrow> (Err e, w)
         | None \<Rightarrow> (Ok (), fs_put new text (fs_del old w))))"

section \<open>Paths\<close>

text \<open>\<open>Path::join\<close>: an absolute argument replaces the base.\<close>

definition path_join :: "string \<Rightarrow> string \<Rightarrow> string" where
  "path_join base s =
     (if s \<noteq> [] \<and> hd s = CHR ''/'' then s
      else if base = [] \<or> last base = CHR ''/'' then base @ s
      else base @ CHR ''/'' # s)"

text \<open>\<open>Path::file_stem\<close> and \<open>Path::extension\<close> of a file name.\<close>

definition split_last_dot :: "string \<Rightarrow> (string \<times> string) option" where
  "split_last_dot name =
     (let after = takeWhile (\<lambda>c. c \<noteq> CHR ''.'') (rev name);
          before = drop (Suc (length after)) (rev name) in
      if length after < length name \<and> before \<noteq> [] then Some (rev before, rev after) else None)"

definition path_extension :: "string \<Rightarrow> string option" where
  "path_extension name = map_option snd (split_last_dot name)"

definition path_file_stem :: "string \<Rightarrow> string" where
  "path_file_stem name = (case split_last_dot name of Some (stem, _) \<Rightarrow> stem | None \<Rightarrow> name)"

text \<open>
  \<open>fs::read_dir\<close>: the names of the files directly in a directory, each once, in the order
  the file system holds them.
\<close>

definition dir_entry :: "string \<Rightarrow> string \<Rightarrow> string option" where
  "dir_entry dir path =
     (let prefix = dir @ [CHR ''/''] in
      if take (length prefix) path = prefix \<and> drop (length prefix) path \<noteq> [] \<and>
         CHR ''/'' \<notin> set (drop (length prefix) path)
      then Some (drop (length prefix) path) else None)"

definition fs_read_dir :: "fs \<Rightarrow> string \<Rightarrow> (string list, io_error) result" where
  "fs_read_dir w dir = (case fs_list_fault w dir of
       Some e \<Rightarrow> Err e
     | None \<Rightarrow> Ok (List.map_filter (dir_entry dir) (remdups (map fst (fs_files w)))))"

section \<open>Laws\<close>

lemma fs_lookup_put [simp]: "fs_lookup (fs_put p t w) q = (if q = p then Some t else fs_lookup w q)"
  by (simp add: fs_lookup_def fs_put_def update_conv)

lemma map_of_filter_ne: "map_of (filter (\<lambda>(p, _). p \<noteq> q) xs) = (map_of xs)(q := None)"
  by (induction xs) (auto simp: fun_eq_iff)

lemma fs_lookup_del [simp]: "fs_lookup (fs_del p w) q = (if q = p then None else fs_lookup w q)"
  by (simp add: fs_lookup_def fs_del_def map_of_filter_ne)

lemma fs_faults_put [simp]:
  "fs_read_fault (fs_put p t w) = fs_read_fault w" "fs_write_fault (fs_put p t w) = fs_write_fault w"
  "fs_rename_fault (fs_put p t w) = fs_rename_fault w"
  "fs_remove_fault (fs_put p t w) = fs_remove_fault w"
  "fs_list_fault (fs_put p t w) = fs_list_fault w"
  by (simp_all add: fs_put_def)

lemma fs_faults_del [simp]:
  "fs_read_fault (fs_del p w) = fs_read_fault w" "fs_write_fault (fs_del p w) = fs_write_fault w"
  "fs_rename_fault (fs_del p w) = fs_rename_fault w"
  "fs_remove_fault (fs_del p w) = fs_remove_fault w"
  "fs_list_fault (fs_del p w) = fs_list_fault w"
  by (simp_all add: fs_del_def)

lemma set_map_filter: "set (List.map_filter f xs) = {y. \<exists>x \<in> set xs. f x = Some y}"
  by (induction xs) (auto simp: List.map_filter_simps split: option.split)

lemma set_dir_entries:
  "set (List.map_filter f (remdups (map fst (fs_files w)))) = {n. \<exists>p. fs_lookup w p \<noteq> None \<and> f p = Some n}"
proof -
  have "p \<in> fst ` set (fs_files w) \<longleftrightarrow> fs_lookup w p \<noteq> None" for p
    by (metis dom_map_of_conv_image_fst domIff fs_lookup_def)
  then show ?thesis
    by (simp only: set_map_filter set_remdups set_map) blast
qed

lemma dir_entry_Some: "dir_entry d p = Some n \<longleftrightarrow> p = d @ CHR ''/'' # n \<and> n \<noteq> [] \<and> CHR ''/'' \<notin> set n"
proof
  assume l: "dir_entry d p = Some n"
  then have "take (length d + 1) p = d @ [CHR ''/'']" "n = drop (length d + 1) p"
    "n \<noteq> []" "CHR ''/'' \<notin> set n"
    by (auto simp: dir_entry_def Let_def split: if_splits)
  then show "p = d @ CHR ''/'' # n \<and> n \<noteq> [] \<and> CHR ''/'' \<notin> set n"
    using append_take_drop_id [of "length d + 1" p] by (metis append.assoc append_Cons append_Nil)
qed (simp add: dir_entry_def)

lemma distinct_dir_entries:
  assumes "distinct ps"
  shows "distinct (List.map_filter (dir_entry d) ps)"
  using assms
proof (induction ps)
  case Nil
  then show ?case by (simp add: List.map_filter_simps)
next
  case (Cons p ps)
  then show ?case
    by (auto simp: List.map_filter_simps set_map_filter dir_entry_Some split: option.split)
qed

lemma split_last_dot_toml:
  "n \<noteq> [] \<Longrightarrow> split_last_dot (n @ ''.toml'') = Some (n, ''toml'')"
  by (simp add: split_last_dot_def Let_def)

lemma split_last_dot_SomeD:
  assumes "split_last_dot name = Some (a, b)"
  shows "name = a @ CHR ''.'' # b \<and> a \<noteq> []"
proof -
  define t where "t = takeWhile (\<lambda>c. c \<noteq> CHR ''.'') (rev name)"
  define d where "d = dropWhile (\<lambda>c. c \<noteq> CHR ''.'') (rev name)"
  have td: "rev name = t @ d" by (simp add: t_def d_def)
  have len: "length t < length name" and a: "rev a = drop (Suc (length t)) (rev name)"
    and b: "rev b = t" and ne: "a \<noteq> []"
    using assms by (auto simp: split_last_dot_def Let_def t_def split: if_splits)
  have "d \<noteq> []" using td len by (metis append_Nil2 length_rev less_irrefl)
  then obtain c r where d: "d = c # r" by (cases d) auto
  have "c = CHR ''.''"
    using hd_dropWhile [of "\<lambda>c. c \<noteq> CHR ''.''" "rev name"] d \<open>d \<noteq> []\<close>
    unfolding d_def by (metis list.sel(1))
  moreover have "rev a = r" using a td d by simp
  ultimately have "rev name = rev (a @ CHR ''.'' # b)" using td d b by simp
  then show ?thesis using ne by (simp only: rev_is_rev_conv) simp
qed

end
