(* ===== verification/Nm_Store.thy ===== *)
theory Nm_Store
  imports Nm_Profile Nm_Fs
begin

text \<open>
  Profile storage (\<^verbatim>\<open>src/connection/store.rs\<close>): the \<open>ProfileStore\<close> boundary as
  a record of operations, the in-memory store over a \<open>BTreeMap\<close> and the store that keeps one
  TOML file per profile. The locale \<open>profile_store\<close> states what a client of the boundary may
  rely on; both stores interpret it.
\<close>

section \<open>The boundary\<close>

datatype store_error =
    StoreNotFound profile_id
  | StoreAlreadyExists profile_id
  | StoreInvalid profile_validation_error
  | StoreMalformed profile_id string
  | StoreIo io_error

definition store_error_string :: "store_error \<Rightarrow> string" where
  "store_error_string e = (case e of
       StoreNotFound i \<Rightarrow> ''connection profile '' @ debug_str i @ '' not found''
     | StoreAlreadyExists i \<Rightarrow> ''connection profile '' @ debug_str i @ '' already exists''
     | StoreInvalid reason \<Rightarrow> ''invalid connection profile: '' @ validation_error_string reason
     | StoreMalformed i reason \<Rightarrow>
         ''malformed persisted profile '' @ debug_str i @ '': '' @ reason
     | StoreIo err \<Rightarrow> ''profile store I/O failed: '' @ io_message err)"

record 's store_ops =
  so_list :: "'s \<Rightarrow> (connection_profile list, store_error) result"
  so_get :: "'s \<Rightarrow> profile_id \<Rightarrow> (connection_profile, store_error) result"
  so_create :: "'s \<Rightarrow> connection_profile \<Rightarrow> (unit, store_error) result \<times> 's"
  so_update :: "'s \<Rightarrow> connection_profile \<Rightarrow> (unit, store_error) result \<times> 's"
  so_delete :: "'s \<Rightarrow> profile_id \<Rightarrow> (unit, store_error) result \<times> 's"

section \<open>The in-memory store\<close>

text \<open>A \<open>BTreeMap\<close> is the list of its entries in the order of the keys.\<close>

type_synonym mem_store = "(profile_id \<times> connection_profile) list"

fun btree_insert :: "'k::linorder \<Rightarrow> 'v \<Rightarrow> ('k \<times> 'v) list \<Rightarrow> ('k \<times> 'v) list" where
  "btree_insert k v [] = [(k, v)]"
| "btree_insert k v ((k', v') # m) =
     (if k < k' then (k, v) # (k', v') # m
      else if k = k' then (k, v) # m
      else (k', v') # btree_insert k v m)"

definition btree_remove :: "'k \<Rightarrow> ('k \<times> 'v) list \<Rightarrow> ('k \<times> 'v) list" where
  "btree_remove k m = filter (\<lambda>(k', _). k' \<noteq> k) m"

definition mem_list :: "mem_store \<Rightarrow> (connection_profile list, store_error) result" where
  "mem_list m = Ok (map snd m)"

definition mem_get :: "mem_store \<Rightarrow> profile_id \<Rightarrow> (connection_profile, store_error) result" where
  "mem_get m i = ok_or (map_of m i) (StoreNotFound i)"

definition mem_create ::
  "mem_store \<Rightarrow> connection_profile \<Rightarrow> (unit, store_error) result \<times> mem_store" where
  "mem_create m p = (case validate p of
       Err e \<Rightarrow> (Err (StoreInvalid e), m)
     | Ok _ \<Rightarrow>
         if map_of m (cp_id p) \<noteq> None then (Err (StoreAlreadyExists (cp_id p)), m)
         else (Ok (), btree_insert (cp_id p) p m))"

definition mem_update ::
  "mem_store \<Rightarrow> connection_profile \<Rightarrow> (unit, store_error) result \<times> mem_store" where
  "mem_update m p = (case validate p of
       Err e \<Rightarrow> (Err (StoreInvalid e), m)
     | Ok _ \<Rightarrow>
         if map_of m (cp_id p) = None then (Err (StoreNotFound (cp_id p)), m)
         else (Ok (), btree_insert (cp_id p) p m))"

definition mem_delete :: "mem_store \<Rightarrow> profile_id \<Rightarrow> (unit, store_error) result \<times> mem_store" where
  "mem_delete m i =
     (if map_of m i = None then (Err (StoreNotFound i), m) else (Ok (), btree_remove i m))"

definition mem_store_ops :: "mem_store store_ops" where
  "mem_store_ops = \<lparr> so_list = mem_list, so_get = mem_get, so_create = mem_create,
     so_update = mem_update, so_delete = mem_delete \<rparr>"

section \<open>The file store\<close>

text \<open>
  \<open>toml::to_string\<close> and \<open>toml::from_str\<close> are parameters: their errors are the text
  that the store puts in \<open>Malformed\<close>.
\<close>

record toml_codec =
  toml_to_string :: "connection_profile \<Rightarrow> (string, string) result"
  toml_from_str :: "string \<Rightarrow> (connection_profile, string) result"

definition path_for :: "string \<Rightarrow> profile_id \<Rightarrow> string" where
  "path_for dir i = path_join dir (i @ ''.toml'')"

definition parse_profile ::
  "toml_codec \<Rightarrow> profile_id \<Rightarrow> string \<Rightarrow> (connection_profile, store_error) result" where
  "parse_profile toml i contents =
     and_then (map_err (StoreMalformed i) (toml_from_str toml contents)) (\<lambda>profile.
     if cp_id profile \<noteq> i then
       Err (StoreMalformed i (''file name does not match profile id '' @ debug_str (cp_id profile)))
     else and_then (map_err (\<lambda>e. StoreMalformed i (validation_error_string e)) (validate profile))
       (\<lambda>_. Ok profile))"

definition write_profile ::
  "toml_codec \<Rightarrow> string \<Rightarrow> fs \<Rightarrow> connection_profile \<Rightarrow> (unit, store_error) result \<times> fs" where
  "write_profile toml dir w p = (case validate p of
       Err e \<Rightarrow> (Err (StoreInvalid e), w)
     | Ok _ \<Rightarrow> (case toml_to_string toml p of
           Err reason \<Rightarrow> (Err (StoreMalformed (cp_id p) reason), w)
         | Ok serialized \<Rightarrow>
             (let (r, w') = fs_write w (path_for dir (cp_id p)) serialized
              in (map_err StoreIo r, w'))))"

definition read_profile ::
  "toml_codec \<Rightarrow> string \<Rightarrow> fs \<Rightarrow> profile_id \<Rightarrow> (connection_profile, store_error) result" where
  "read_profile toml dir w i =
     and_then (map_err StoreIo (fs_read_to_string w (path_for dir i))) (parse_profile toml i)"

definition profile_paths :: "string \<Rightarrow> fs \<Rightarrow> (string list, store_error) result" where
  "profile_paths dir w =
     map_ok (\<lambda>names. sort (filter (\<lambda>n. path_extension n = Some ''toml'') names))
       (map_err StoreIo (fs_read_dir w dir))"

fun load_profiles ::
  "toml_codec \<Rightarrow> string \<Rightarrow> fs \<Rightarrow> string list \<Rightarrow> (connection_profile list, store_error) result" where
  "load_profiles toml dir w [] = Ok []"
| "load_profiles toml dir w (name # names) =
     and_then (map_err StoreIo (fs_read_to_string w (dir @ CHR ''/'' # name))) (\<lambda>contents.
     and_then (parse_profile toml (path_file_stem name) contents) (\<lambda>p.
     map_ok ((#) p) (load_profiles toml dir w names)))"

definition file_list :: "toml_codec \<Rightarrow> string \<Rightarrow> fs \<Rightarrow> (connection_profile list, store_error) result" where
  "file_list toml dir w =
     and_then (profile_paths dir w) (\<lambda>names. map_ok (sort_key cp_id) (load_profiles toml dir w names))"

definition file_get ::
  "toml_codec \<Rightarrow> string \<Rightarrow> fs \<Rightarrow> profile_id \<Rightarrow> (connection_profile, store_error) result" where
  "file_get toml dir w i =
     (if \<not> fs_is_file w (path_for dir i) then Err (StoreNotFound i) else read_profile toml dir w i)"

definition file_create ::
  "toml_codec \<Rightarrow> string \<Rightarrow> fs \<Rightarrow> connection_profile \<Rightarrow> (unit, store_error) result \<times> fs" where
  "file_create toml dir w p =
     (if fs_is_file w (path_for dir (cp_id p)) then (Err (StoreAlreadyExists (cp_id p)), w)
      else write_profile toml dir w p)"

definition file_update ::
  "toml_codec \<Rightarrow> string \<Rightarrow> fs \<Rightarrow> connection_profile \<Rightarrow> (unit, store_error) result \<times> fs" where
  "file_update toml dir w p =
     (if \<not> fs_is_file w (path_for dir (cp_id p)) then (Err (StoreNotFound (cp_id p)), w)
      else write_profile toml dir w p)"

definition file_delete :: "string \<Rightarrow> fs \<Rightarrow> profile_id \<Rightarrow> (unit, store_error) result \<times> fs" where
  "file_delete dir w i =
     (if \<not> fs_is_file w (path_for dir i) then (Err (StoreNotFound i), w)
      else let (r, w') = fs_remove_file w (path_for dir i) in (map_err StoreIo r, w'))"

definition file_store_ops :: "toml_codec \<Rightarrow> string \<Rightarrow> fs store_ops" where
  "file_store_ops toml dir = \<lparr> so_list = file_list toml dir, so_get = file_get toml dir,
     so_create = file_create toml dir, so_update = file_update toml dir,
     so_delete = file_delete dir \<rparr>"

section \<open>The contract of a profile store\<close>

text \<open>
  A store holds a finite map from ids to valid profiles (its \<open>view\<close>). Ids that a client passes
  are made of the characters \<open>validate\<close> admits; \<open>storable\<close> profiles are the valid ones the
  store can write and read back.
\<close>

locale profile_store =
  fixes ops :: "'s store_ops"
    and inv :: "'s \<Rightarrow> bool"
    and view :: "'s \<Rightarrow> profile_id \<Rightarrow> connection_profile option"
    and storable :: "connection_profile \<Rightarrow> bool"
  assumes storable_ok: "storable p \<Longrightarrow> profile_ok p"
    and view_sound: "inv s \<Longrightarrow> view s i = Some p \<Longrightarrow> cp_id p = i \<and> profile_ok p"
    and list_view: "inv s \<Longrightarrow>
      \<exists>ps. so_list ops s = Ok ps \<and> sorted_wrt (<) (map cp_id ps) \<and> set ps = ran (view s)"
    and get_view: "inv s \<Longrightarrow> list_all id_char_ok i \<Longrightarrow>
      so_get ops s i = ok_or (view s i) (StoreNotFound i)"
    and create_new: "inv s \<Longrightarrow> storable p \<Longrightarrow> view s (cp_id p) = None \<Longrightarrow>
      \<exists>s'. so_create ops s p = (Ok (), s') \<and> inv s' \<and> view s' = (view s)(cp_id p \<mapsto> p)"
    and create_refused: "inv s \<Longrightarrow> list_all id_char_ok (cp_id p) \<Longrightarrow>
      view s (cp_id p) \<noteq> None \<or> \<not> profile_ok p \<Longrightarrow> \<exists>e. so_create ops s p = (Err e, s)"
    and update_known: "inv s \<Longrightarrow> storable p \<Longrightarrow> view s (cp_id p) \<noteq> None \<Longrightarrow>
      \<exists>s'. so_update ops s p = (Ok (), s') \<and> inv s' \<and> view s' = (view s)(cp_id p \<mapsto> p)"
    and update_refused: "inv s \<Longrightarrow> list_all id_char_ok (cp_id p) \<Longrightarrow>
      view s (cp_id p) = None \<or> \<not> profile_ok p \<Longrightarrow> \<exists>e. so_update ops s p = (Err e, s)"
    and delete_known: "inv s \<Longrightarrow> list_all id_char_ok i \<Longrightarrow> view s i \<noteq> None \<Longrightarrow>
      \<exists>s'. so_delete ops s i = (Ok (), s') \<and> inv s' \<and> view s' = (view s)(i := None)"
    and delete_unknown: "inv s \<Longrightarrow> list_all id_char_ok i \<Longrightarrow> view s i = None \<Longrightarrow>
      so_delete ops s i = (Err (StoreNotFound i), s)"
begin

lemma list_complete:
  assumes "inv s"
  shows "\<exists>ps. so_list ops s = Ok ps \<and> distinct (map cp_id ps) \<and>
    (\<forall>p. p \<in> set ps \<longleftrightarrow> view s (cp_id p) = Some p)"
proof -
  obtain ps where ps: "so_list ops s = Ok ps" "sorted_wrt (<) (map cp_id ps)" "set ps = ran (view s)"
    using list_view [OF assms] by blast
  have "p \<in> set ps \<longleftrightarrow> view s (cp_id p) = Some p" for p
    using ps(3) view_sound [OF assms] by (auto simp: ran_def)
  with ps show ?thesis
    using strict_sorted_iff by blast
qed

lemma get_after_create:
  assumes "inv s" "storable p" "view s (cp_id p) = None"
  shows "\<exists>s'. so_create ops s p = (Ok (), s') \<and> so_get ops s' (cp_id p) = Ok p \<and>
    (\<forall>i. i \<noteq> cp_id p \<longrightarrow> list_all id_char_ok i \<longrightarrow> so_get ops s' i = so_get ops s i)"
proof -
  obtain s' where s': "so_create ops s p = (Ok (), s')" "inv s'" "view s' = (view s)(cp_id p \<mapsto> p)"
    using create_new [OF assms] by blast
  moreover have "list_all id_char_ok (cp_id p)" using storable_ok [OF assms(2)] by (simp add: profile_ok_def)
  ultimately show ?thesis using assms(1) by (auto simp: get_view)
qed

lemma get_after_update:
  assumes "inv s" "storable p" "view s (cp_id p) \<noteq> None"
  shows "\<exists>s'. so_update ops s p = (Ok (), s') \<and> so_get ops s' (cp_id p) = Ok p \<and>
    (\<forall>i. i \<noteq> cp_id p \<longrightarrow> list_all id_char_ok i \<longrightarrow> so_get ops s' i = so_get ops s i)"
proof -
  obtain s' where s': "so_update ops s p = (Ok (), s')" "inv s'" "view s' = (view s)(cp_id p \<mapsto> p)"
    using update_known [OF assms] by blast
  moreover have "list_all id_char_ok (cp_id p)" using storable_ok [OF assms(2)] by (simp add: profile_ok_def)
  ultimately show ?thesis using assms(1) by (auto simp: get_view)
qed

lemma get_after_delete:
  assumes "inv s" "list_all id_char_ok i" "view s i \<noteq> None"
  shows "\<exists>s'. so_delete ops s i = (Ok (), s') \<and> so_get ops s' i = Err (StoreNotFound i) \<and>
    (\<forall>j. j \<noteq> i \<longrightarrow> list_all id_char_ok j \<longrightarrow> so_get ops s' j = so_get ops s j)"
proof -
  obtain s' where s': "so_delete ops s i = (Ok (), s')" "inv s'" "view s' = (view s)(i := None)"
    using delete_known [OF assms] by blast
  with assms show ?thesis by (auto simp: get_view)
qed

end

section \<open>The in-memory store keeps the contract\<close>

definition mem_inv :: "mem_store \<Rightarrow> bool" where
  "mem_inv m \<longleftrightarrow> sorted_wrt (<) (map fst m) \<and> (\<forall>(i, p) \<in> set m. cp_id p = i \<and> profile_ok p)"

lemma map_of_btree_insert [simp]: "map_of (btree_insert k v m) = (map_of m)(k \<mapsto> v)"
  by (induction m) (auto simp: fun_eq_iff)

lemma map_of_btree_remove [simp]: "map_of (btree_remove k m) = (map_of m)(k := None)"
  by (simp add: btree_remove_def map_of_filter_ne)

lemma set_btree_insert: "set (btree_insert k v m) \<subseteq> insert (k, v) (set m)"
  by (induction m) (auto split: if_splits)

lemma keys_btree_insert: "fst ` set (btree_insert k v m) = insert k (fst ` set m)"
proof (induction k v m rule: btree_insert.induct)
  case (1 k v)
  then show ?case by simp
next
  case (2 k v k' v' m)
  then show ?case by (simp add: insert_commute)
qed

lemma sorted_btree_insert: "sorted_wrt (<) (map fst m) \<Longrightarrow> sorted_wrt (<) (map fst (btree_insert k v m))"
proof (induction m)
  case Nil
  then show ?case by simp
next
  case (Cons e m)
  obtain k' v' where e: "e = (k', v')" by force
  have "fst ` set (btree_insert k v m) = insert k (fst ` set m)" by (rule keys_btree_insert)
  with Cons e show ?case by (auto simp: less_trans)
qed

lemma sorted_btree_remove: "sorted_wrt (<) (map fst m) \<Longrightarrow> sorted_wrt (<) (map fst (btree_remove k m))"
  by (induction m) (auto simp: btree_remove_def)

lemma mem_inv_distinct: "mem_inv m \<Longrightarrow> distinct (map fst m)"
  by (simp add: mem_inv_def strict_sorted_iff)

lemma mem_inv_ids: "mem_inv m \<Longrightarrow> map cp_id (map snd m) = map fst m"
  by (auto simp: mem_inv_def)

lemma mem_inv_insert: "mem_inv m \<Longrightarrow> profile_ok p \<Longrightarrow> mem_inv (btree_insert (cp_id p) p m)"
  using set_btree_insert [of "cp_id p" p m] by (auto simp: mem_inv_def sorted_btree_insert)

lemma mem_inv_remove: "mem_inv m \<Longrightarrow> mem_inv (btree_remove i m)"
  by (auto simp: mem_inv_def sorted_btree_remove) (auto simp: btree_remove_def)

lemma mem_list_contract:
  assumes "mem_inv m"
  shows "\<exists>ps. mem_list m = Ok ps \<and> sorted_wrt (<) (map cp_id ps) \<and> set ps = ran (map_of m)"
proof -
  have "set (map snd m) = ran (map_of m)"
    using mem_inv_distinct [OF assms] by (simp add: ran_distinct)
  moreover have "sorted_wrt (<) (map cp_id (map snd m))"
    using assms by (simp only: mem_inv_ids) (simp add: mem_inv_def)
  ultimately show ?thesis by (auto simp: mem_list_def)
qed

lemma validate_cases: "(profile_ok p \<and> validate p = Ok ()) \<or> (\<not> profile_ok p \<and> (\<exists>e. validate p = Err e))"
  by (cases "validate p") (use validate_Ok_iff [of p "()"] in auto)

interpretation mem: profile_store mem_store_ops mem_inv map_of profile_ok
proof
  fix m :: mem_store and i p
  show "mem_inv m \<Longrightarrow> map_of m i = Some p \<Longrightarrow> cp_id p = i \<and> profile_ok p"
    by (auto simp: mem_inv_def dest!: map_of_SomeD)
  show "mem_inv m \<Longrightarrow> profile_ok p \<Longrightarrow> map_of m (cp_id p) = None \<Longrightarrow>
      \<exists>s'. so_create mem_store_ops m p = (Ok (), s') \<and> mem_inv s' \<and> map_of s' = (map_of m)(cp_id p \<mapsto> p)"
    using validate_cases [of p] by (auto simp: mem_store_ops_def mem_create_def mem_inv_insert)
  show "mem_inv m \<Longrightarrow> profile_ok p \<Longrightarrow> map_of m (cp_id p) \<noteq> None \<Longrightarrow>
      \<exists>s'. so_update mem_store_ops m p = (Ok (), s') \<and> mem_inv s' \<and> map_of s' = (map_of m)(cp_id p \<mapsto> p)"
    using validate_cases [of p] by (auto simp: mem_store_ops_def mem_update_def mem_inv_insert)
  show "\<exists>e. so_create mem_store_ops m p = (Err e, m)" if "map_of m (cp_id p) \<noteq> None \<or> \<not> profile_ok p"
    using that validate_cases [of p] by (auto simp: mem_store_ops_def mem_create_def)
  show "\<exists>e. so_update mem_store_ops m p = (Err e, m)" if "map_of m (cp_id p) = None \<or> \<not> profile_ok p"
    using that validate_cases [of p] by (auto simp: mem_store_ops_def mem_update_def)
qed (auto simp: mem_store_ops_def mem_get_def mem_delete_def mem_inv_remove mem_list_contract)

section \<open>The file store keeps the contract\<close>

text \<open>
  The invariant of a directory the daemon owns: no operation faults and every \<open>*.toml\<close> file
  holds the valid profile its name says. A profile is storable when the codec reads back what it
  wrote for it.
\<close>

definition toml_storable :: "toml_codec \<Rightarrow> connection_profile \<Rightarrow> bool" where
  "toml_storable toml p \<longleftrightarrow> profile_ok p \<and>
     (\<exists>t. toml_to_string toml p = Ok t \<and> toml_from_str toml t = Ok p)"

definition fs_faultless :: "fs \<Rightarrow> bool" where
  "fs_faultless w \<longleftrightarrow> (\<forall>path. fs_read_fault w path = None \<and> fs_write_fault w path = None \<and>
     fs_remove_fault w path = None \<and> fs_list_fault w path = None)"

definition file_inv :: "toml_codec \<Rightarrow> string \<Rightarrow> fs \<Rightarrow> bool" where
  "file_inv toml dir w \<longleftrightarrow> fs_faultless w \<and>
     dir \<noteq> [] \<and> last dir \<noteq> CHR ''/'' \<and> fs_lookup w (dir @ ''/.toml'') = None \<and>
     (\<forall>name t. fs_lookup w (dir @ CHR ''/'' # name) = Some t \<longrightarrow> CHR ''/'' \<notin> set name \<longrightarrow>
        path_extension name = Some ''toml'' \<longrightarrow>
        (\<exists>p. toml_from_str toml t = Ok p \<and> cp_id p = path_file_stem name \<and> profile_ok p))"

definition file_view :: "toml_codec \<Rightarrow> string \<Rightarrow> fs \<Rightarrow> profile_id \<Rightarrow> connection_profile option" where
  "file_view toml dir w i =
     (if i = [] \<or> \<not> list_all id_char_ok i then None
      else case fs_lookup w (dir @ CHR ''/'' # i @ ''.toml'') of
        None \<Rightarrow> None | Some t \<Rightarrow> result_ok (toml_from_str toml t))"

lemma id_no_slash: "list_all id_char_ok i \<Longrightarrow> CHR ''/'' \<notin> set i"
  using id_char_ok_separators by (auto simp: list_all_iff)

lemma path_for_id:
  assumes "list_all id_char_ok i" "dir \<noteq> []" "last dir \<noteq> CHR ''/''"
  shows "path_for dir i = dir @ CHR ''/'' # i @ ''.toml''"
proof -
  have "hd (i @ ''.toml'') \<noteq> CHR ''/''"
    using id_no_slash [OF assms(1)] by (cases i) auto
  with assms(2,3) show ?thesis by (simp add: path_for_def path_join_def)
qed

lemma toml_name:
  "i \<noteq> [] \<Longrightarrow> path_extension (i @ ''.toml'') = Some ''toml'' \<and> path_file_stem (i @ ''.toml'') = i"
  by (simp add: path_extension_def path_file_stem_def split_last_dot_toml)

lemma toml_nameD: "path_extension n = Some ''toml'' \<Longrightarrow> n = path_file_stem n @ ''.toml'' \<and> path_file_stem n \<noteq> []"
  by (auto simp: path_extension_def path_file_stem_def dest: split_last_dot_SomeD split: option.splits)

lemma file_inv_parse:
  assumes "file_inv toml dir w" "fs_lookup w (dir @ CHR ''/'' # i @ ''.toml'') = Some t"
    "i \<noteq> []" "list_all id_char_ok i"
  shows "\<exists>p. toml_from_str toml t = Ok p \<and> cp_id p = i \<and> profile_ok p"
proof -
  have "CHR ''/'' \<notin> set (i @ ''.toml'')" using id_no_slash [OF assms(4)] by auto
  then show ?thesis
    using assms toml_name [OF assms(3)] unfolding file_inv_def by metis
qed

lemma file_view_lookup:
  assumes "file_inv toml dir w" "list_all id_char_ok i"
  shows "file_view toml dir w i = None \<longleftrightarrow> fs_lookup w (dir @ CHR ''/'' # i @ ''.toml'') = None"
proof (cases "i = []")
  case True
  with assms(1) show ?thesis by (simp add: file_view_def file_inv_def)
next
  case False
  then show ?thesis
    using file_inv_parse [OF assms(1) _ False assms(2)] assms(2)
    by (auto simp: file_view_def split: option.splits)
qed

lemma file_view_SomeD:
  "file_inv toml dir w \<Longrightarrow> file_view toml dir w i = Some p \<Longrightarrow>
     i \<noteq> [] \<and> list_all id_char_ok i \<and> cp_id p = i \<and> profile_ok p \<and>
     (\<exists>t. fs_lookup w (dir @ CHR ''/'' # i @ ''.toml'') = Some t \<and> toml_from_str toml t = Ok p)"
  by (auto simp: file_view_def split: option.splits if_splits dest: file_inv_parse)

lemma fs_read_faultless: "fs_faultless w \<Longrightarrow> fs_lookup w p = Some t \<Longrightarrow> fs_read_to_string w p = Ok t"
  by (simp add: fs_read_to_string_def fs_faultless_def)

lemma parse_profile_ok:
  "toml_from_str toml t = Ok p \<Longrightarrow> profile_ok p \<Longrightarrow> parse_profile toml (cp_id p) t = Ok p"
  using validate_cases [of p] by (auto simp: parse_profile_def)

lemma file_get_contract:
  assumes inv: "file_inv toml dir w" and i: "list_all id_char_ok i"
  shows "file_get toml dir w i = ok_or (file_view toml dir w i) (StoreNotFound i)"
proof (cases "file_view toml dir w i")
  case None
  with inv i have "\<not> fs_is_file w (path_for dir i)"
    by (simp add: file_view_lookup fs_is_file_def path_for_id file_inv_def)
  with None show ?thesis by (simp add: file_get_def)
next
  case (Some p)
  then obtain t where t: "fs_lookup w (path_for dir i) = Some t" "toml_from_str toml t = Ok p"
    "cp_id p = i" "profile_ok p"
    using file_view_SomeD [OF inv Some] inv i by (auto simp: path_for_id file_inv_def)
  with inv have "read_profile toml dir w i = Ok p"
    using parse_profile_ok [of toml t p]
    by (simp add: read_profile_def fs_read_faultless file_inv_def)
  with Some t show ?thesis by (simp add: file_get_def fs_is_file_def)
qed

lemma load_profiles_ok:
  assumes "fs_faultless w"
    "\<forall>n \<in> set names. \<exists>t. fs_lookup w (dir @ CHR ''/'' # n) = Some t \<and> toml_from_str toml t = Ok (f n) \<and>
       cp_id (f n) = path_file_stem n \<and> profile_ok (f n)"
  shows "load_profiles toml dir w names = Ok (map f names)"
  using assms(2)
proof (induction names)
  case Nil
  then show ?case by simp
next
  case (Cons n names)
  then obtain t where "fs_lookup w (dir @ CHR ''/'' # n) = Some t" "toml_from_str toml t = Ok (f n)"
    "cp_id (f n) = path_file_stem n" "profile_ok (f n)" by auto
  with Cons show ?case
    using parse_profile_ok [of toml t "f n"] fs_read_faultless [OF assms(1)] by simp
qed

text \<open>The names of the profile files, and that each stem is the id of the profile inside.\<close>

definition toml_names :: "string \<Rightarrow> fs \<Rightarrow> string list" where
  "toml_names dir w = filter (\<lambda>n. path_extension n = Some ''toml'')
     (List.map_filter (dir_entry dir) (remdups (map fst (fs_files w))))"

definition profile_at :: "toml_codec \<Rightarrow> string \<Rightarrow> fs \<Rightarrow> string \<Rightarrow> connection_profile" where
  "profile_at toml dir w n =
     the (result_ok (toml_from_str toml (the (fs_lookup w (dir @ CHR ''/'' # n)))))"

lemma in_toml_names:
  "n \<in> set (toml_names dir w) \<longleftrightarrow> path_extension n = Some ''toml'' \<and> CHR ''/'' \<notin> set n \<and>
     fs_lookup w (dir @ CHR ''/'' # n) \<noteq> None"
  using toml_nameD [of n] by (auto simp: toml_names_def set_dir_entries dir_entry_Some)

lemma toml_names_parse:
  assumes "file_inv toml dir w" "n \<in> set (toml_names dir w)"
  shows "\<exists>t. fs_lookup w (dir @ CHR ''/'' # n) = Some t \<and> toml_from_str toml t = Ok (profile_at toml dir w n) \<and>
    cp_id (profile_at toml dir w n) = path_file_stem n \<and> profile_ok (profile_at toml dir w n)"
  using assms unfolding in_toml_names file_inv_def profile_at_def by fastforce

lemma toml_names_view:
  assumes inv: "file_inv toml dir w"
  shows "profile_at toml dir w ` set (toml_names dir w) = ran (file_view toml dir w)"
proof (intro subset_antisym subsetI)
  fix p assume "p \<in> profile_at toml dir w ` set (toml_names dir w)"
  then obtain n where n: "n \<in> set (toml_names dir w)" "p = profile_at toml dir w n" by blast
  let ?i = "path_file_stem n"
  obtain t where t: "fs_lookup w (dir @ CHR ''/'' # n) = Some t" "toml_from_str toml t = Ok p"
    "cp_id p = ?i" "profile_ok p"
    using toml_names_parse [OF inv n(1)] n(2) by blast
  have "n = ?i @ ''.toml''" using n(1) in_toml_names toml_nameD by blast
  with t have "file_view toml dir w ?i = Some p"
    by (auto simp: file_view_def profile_ok_def)
  then show "p \<in> ran (file_view toml dir w)" by (rule ranI)
next
  fix p assume "p \<in> ran (file_view toml dir w)"
  then obtain i where "file_view toml dir w i = Some p" by (auto simp: ran_def)
  then obtain t where t: "i \<noteq> []" "list_all id_char_ok i"
    "fs_lookup w (dir @ CHR ''/'' # i @ ''.toml'') = Some t" "toml_from_str toml t = Ok p"
    using file_view_SomeD [OF inv] by blast
  then have "i @ ''.toml'' \<in> set (toml_names dir w)"
    using toml_name [OF t(1)] id_no_slash [OF t(2)] by (auto simp: in_toml_names)
  moreover have "profile_at toml dir w (i @ ''.toml'') = p" using t by (simp add: profile_at_def)
  ultimately show "p \<in> profile_at toml dir w ` set (toml_names dir w)" by blast
qed

lemma file_list_contract:
  assumes inv: "file_inv toml dir w"
  shows "\<exists>ps. file_list toml dir w = Ok ps \<and> sorted_wrt (<) (map cp_id ps) \<and>
    set ps = ran (file_view toml dir w)"
proof -
  let ?names = "sort (toml_names dir w)"
  let ?ps = "map (profile_at toml dir w) ?names"
  have "profile_paths dir w = Ok ?names"
    using inv by (simp add: profile_paths_def fs_read_dir_def toml_names_def file_inv_def fs_faultless_def)
  moreover have "load_profiles toml dir w ?names = Ok ?ps"
    using inv by (intro load_profiles_ok) (auto simp: file_inv_def intro!: toml_names_parse)
  ultimately have list: "file_list toml dir w = Ok (sort_key cp_id ?ps)" by (simp add: file_list_def)
  have "map cp_id ?ps = map path_file_stem ?names"
    using toml_names_parse [OF inv] by auto
  moreover have "distinct (map path_file_stem ?names)"
  proof -
    have "inj_on path_file_stem (set ?names)"
      by (rule inj_onI) (metis in_toml_names set_sort toml_nameD)
    moreover have "distinct ?names"
      unfolding toml_names_def by (simp add: distinct_dir_entries)
    ultimately show ?thesis by (simp add: distinct_map)
  qed
  ultimately have "distinct (map cp_id ?ps)" by metis
  then have "sorted_wrt (<) (map cp_id (sort_key cp_id ?ps))"
    by (simp only: strict_sorted_iff sorted_sort_key)
       (metis (no_types, lifting) distinct_map distinct_sort set_sort)
  moreover have "set (sort_key cp_id ?ps) = ran (file_view toml dir w)"
    using toml_names_view [OF inv] by simp
  ultimately show ?thesis using list by blast
qed

lemma write_profile_ok:
  assumes "file_inv toml dir w" "profile_ok p" "toml_to_string toml p = Ok t"
  shows "write_profile toml dir w p = (Ok (), fs_put (dir @ CHR ''/'' # cp_id p @ ''.toml'') t w)"
  using assms validate_cases [of p]
  by (auto simp: write_profile_def file_inv_def fs_faultless_def fs_write_def profile_ok_def path_for_id)

lemma file_inv_put:
  assumes inv: "file_inv toml dir w" and p: "profile_ok p" and t: "toml_from_str toml t = Ok p"
  shows "file_inv toml dir (fs_put (dir @ CHR ''/'' # cp_id p @ ''.toml'') t w)"
proof -
  have "cp_id p \<noteq> []" using p by (simp add: profile_ok_def)
  then show ?thesis
    using inv p t toml_name [of "cp_id p"] by (auto simp: file_inv_def fs_faultless_def)
qed

lemma file_view_put:
  assumes "profile_ok p" "toml_from_str toml t = Ok p"
  shows "file_view toml dir (fs_put (dir @ CHR ''/'' # cp_id p @ ''.toml'') t w)
         = (file_view toml dir w)(cp_id p \<mapsto> p)"
  using assms by (auto simp: file_view_def profile_ok_def fun_eq_iff)

lemma write_profile_contract:
  assumes inv: "file_inv toml dir w" and st: "toml_storable toml p"
  shows "\<exists>w'. write_profile toml dir w p = (Ok (), w') \<and> file_inv toml dir w' \<and>
    file_view toml dir w' = (file_view toml dir w)(cp_id p \<mapsto> p)"
proof -
  obtain t where t: "toml_to_string toml p = Ok t" "toml_from_str toml t = Ok p"
    using st by (auto simp: toml_storable_def)
  have p: "profile_ok p" using st by (simp add: toml_storable_def)
  show ?thesis
    using write_profile_ok [OF inv p t(1)] file_inv_put [OF inv p t(2)] file_view_put [OF p t(2)]
    by blast
qed

lemma write_profile_invalid: "\<not> profile_ok p \<Longrightarrow> \<exists>e. write_profile toml dir w p = (Err e, w)"
  using validate_cases [of p] by (auto simp: write_profile_def)

lemma file_is_file:
  assumes "file_inv toml dir w" "list_all id_char_ok i"
  shows "fs_is_file w (path_for dir i) \<longleftrightarrow> file_view toml dir w i \<noteq> None"
  using assms by (simp add: file_view_lookup fs_is_file_def path_for_id file_inv_def)

lemma file_delete_contract:
  assumes inv: "file_inv toml dir w" and i: "list_all id_char_ok i" and known: "file_view toml dir w i \<noteq> None"
  shows "\<exists>w'. file_delete dir w i = (Ok (), w') \<and> file_inv toml dir w' \<and>
    file_view toml dir w' = (file_view toml dir w)(i := None)"
proof -
  let ?p = "dir @ CHR ''/'' # i @ ''.toml''"
  have path: "path_for dir i = ?p" using inv i by (simp add: path_for_id file_inv_def)
  have lk: "fs_lookup w ?p \<noteq> None" using known file_view_lookup [OF inv i] by simp
  then have "file_delete dir w i = (Ok (), fs_del ?p w)"
    using inv by (auto simp: file_delete_def fs_is_file_def path fs_remove_file_def file_inv_def fs_faultless_def)
  moreover have "file_inv toml dir (fs_del ?p w)"
    using inv by (auto simp: file_inv_def fs_faultless_def)
  moreover have "file_view toml dir (fs_del ?p w) = (file_view toml dir w)(i := None)"
    by (auto simp: file_view_def fun_eq_iff)
  ultimately show ?thesis by blast
qed

lemma storable_id: "toml_storable toml p \<Longrightarrow> list_all id_char_ok (cp_id p)"
  by (simp add: profile_ok_def toml_storable_def)

interpretation filestore:
  profile_store "file_store_ops toml dir" "file_inv toml dir" "file_view toml dir" "toml_storable toml"
  for toml dir
proof
  show "toml_storable toml p \<Longrightarrow> profile_ok p" for p by (simp add: toml_storable_def)
next
  fix w :: fs and i p
  assume inv: "file_inv toml dir w"
  show "file_view toml dir w i = Some p \<Longrightarrow> cp_id p = i \<and> profile_ok p"
    using file_view_SomeD [OF inv] by blast
  show "\<exists>ps. so_list (file_store_ops toml dir) w = Ok ps \<and> sorted_wrt (<) (map cp_id ps) \<and>
      set ps = ran (file_view toml dir w)"
    using file_list_contract [OF inv] by (simp add: file_store_ops_def)
  show "list_all id_char_ok i \<Longrightarrow>
      so_get (file_store_ops toml dir) w i = ok_or (file_view toml dir w i) (StoreNotFound i)"
    using file_get_contract [OF inv] by (simp add: file_store_ops_def)
  show "\<exists>s'. so_create (file_store_ops toml dir) w p = (Ok (), s') \<and> file_inv toml dir s' \<and>
      file_view toml dir s' = (file_view toml dir w)(cp_id p \<mapsto> p)"
    if "toml_storable toml p" "file_view toml dir w (cp_id p) = None"
    using write_profile_contract [OF inv that(1)] file_is_file [OF inv storable_id [OF that(1)]] that(2)
    by (simp add: file_store_ops_def file_create_def)
  show "\<exists>e. so_create (file_store_ops toml dir) w p = (Err e, w)"
    if "list_all id_char_ok (cp_id p)" "file_view toml dir w (cp_id p) \<noteq> None \<or> \<not> profile_ok p"
    using file_is_file [OF inv that(1)] write_profile_invalid [of p toml dir w] that(2)
    by (auto simp: file_store_ops_def file_create_def)
  show "\<exists>s'. so_update (file_store_ops toml dir) w p = (Ok (), s') \<and> file_inv toml dir s' \<and>
      file_view toml dir s' = (file_view toml dir w)(cp_id p \<mapsto> p)"
    if "toml_storable toml p" "file_view toml dir w (cp_id p) \<noteq> None"
    using write_profile_contract [OF inv that(1)] file_is_file [OF inv storable_id [OF that(1)]] that(2)
    by (simp add: file_store_ops_def file_update_def)
  show "\<exists>e. so_update (file_store_ops toml dir) w p = (Err e, w)"
    if "list_all id_char_ok (cp_id p)" "file_view toml dir w (cp_id p) = None \<or> \<not> profile_ok p"
    using file_is_file [OF inv that(1)] write_profile_invalid [of p toml dir w] that(2)
    by (auto simp: file_store_ops_def file_update_def)
  show "\<exists>s'. so_delete (file_store_ops toml dir) w i = (Ok (), s') \<and> file_inv toml dir s' \<and>
      file_view toml dir s' = (file_view toml dir w)(i := None)"
    if "list_all id_char_ok i" "file_view toml dir w i \<noteq> None"
    using file_delete_contract [OF inv that] by (simp add: file_store_ops_def)
  show "so_delete (file_store_ops toml dir) w i = (Err (StoreNotFound i), w)"
    if "list_all id_char_ok i" "file_view toml dir w i = None"
    using file_is_file [OF inv that(1)] that(2) by (simp add: file_store_ops_def file_delete_def)
qed

text \<open>
  What the activation manager needs of \<open>get\<close> on any id at all: the profile it returns carries
  the id asked for. The file store checks it on every read.
\<close>

definition get_sound :: "'s store_ops \<Rightarrow> 's \<Rightarrow> bool" where
  "get_sound ops s \<longleftrightarrow> (\<forall>i p. so_get ops s i = Ok p \<longrightarrow> cp_id p = i)"

lemma mem_get_sound: "mem_inv m \<Longrightarrow> get_sound mem_store_ops m"
  by (auto simp: get_sound_def mem_store_ops_def mem_get_def mem_inv_def result_simps dest!: map_of_SomeD)

lemma file_get_sound: "get_sound (file_store_ops toml dir) w"
  by (auto simp: get_sound_def file_store_ops_def file_get_def read_profile_def parse_profile_def
      result_simps split: if_splits)

text \<open>
  The stores of the witnesses: one profile in memory, and a directory with its one file under a
  codec that knows this profile.
\<close>

definition wired_store :: mem_store where
  "wired_store = [(''wired'', wired)]"

definition wired_toml :: toml_codec where
  "wired_toml = \<lparr> toml_to_string = (\<lambda>p. if p = wired then Ok ''w'' else Err ''unknown''),
     toml_from_str = (\<lambda>t. if t = ''w'' then Ok wired else Err ''unknown'') \<rparr>"

definition wired_fs :: fs where
  "wired_fs = \<lparr> fs_files = [(''/p/wired.toml'', ''w'')], fs_read_fault = (\<lambda>_. None),
     fs_write_fault = (\<lambda>_. None), fs_rename_fault = (\<lambda>_. None), fs_remove_fault = (\<lambda>_. None),
     fs_list_fault = (\<lambda>_. None) \<rparr>"

lemma wired_store_inv: "mem_inv wired_store"
  using wired_ok by (simp add: mem_inv_def wired_store_def) (simp add: wired_def base_profile_def)

lemma wired_fs_inv: "file_inv wired_toml ''/p'' wired_fs"
  using wired_ok(1) toml_name [of "''wired''"]
  by (auto simp: file_inv_def wired_fs_def wired_toml_def fs_faultless_def fs_lookup_def split: if_splits)
     (auto simp: wired_def base_profile_def)

lemma wired_fs_view: "file_view wired_toml ''/p'' wired_fs (cp_id wired) = Some wired"
  using wired_ok(1)
  by (simp add: file_view_def profile_ok_def)
     (simp add: wired_def base_profile_def wired_fs_def wired_toml_def fs_lookup_def)

end
