(* ===== verification/Nm_Policy.thy ===== *)
theory Nm_Policy
  imports Nm_Profile
begin

text \<open>
  The autoconnect order (\<^verbatim>\<open>src/connection/policy.rs\<close>): which profiles are candidates
  and in which order they are tried.
\<close>

datatype ordering = Less | Equal | Greater

definition cmp :: "'a::linorder \<Rightarrow> 'a \<Rightarrow> ordering" where
  "cmp a b = (if a < b then Less else if a = b then Equal else Greater)"

definition then_with :: "ordering \<Rightarrow> ordering \<Rightarrow> ordering" where
  "then_with a b = (if a = Equal then b else a)"

definition autoconnect_cmp :: "connection_profile \<Rightarrow> connection_profile \<Rightarrow> ordering" where
  "autoconnect_cmp a b =
     then_with (cmp (sint (cp_priority b)) (sint (cp_priority a))) (cmp (cp_id a) (cp_id b))"

definition autoconnect_le :: "connection_profile \<Rightarrow> connection_profile \<Rightarrow> bool" where
  "autoconnect_le a b \<longleftrightarrow> autoconnect_cmp a b \<noteq> Greater"

definition order_for_autoconnect :: "connection_profile list \<Rightarrow> profile_id list" where
  "order_for_autoconnect profiles =
     map cp_id (sort_by autoconnect_le (filter (\<lambda>p. cp_enabled p \<and> cp_autoconnect p) profiles))"

lemma autoconnect_le_iff:
  "autoconnect_le a b \<longleftrightarrow> sint (cp_priority b) < sint (cp_priority a) \<or>
     (sint (cp_priority a) = sint (cp_priority b) \<and> cp_id a \<le> cp_id b)"
  by (auto simp: autoconnect_le_def autoconnect_cmp_def then_with_def cmp_def not_less)

interpretation autoconnect: total_preorder_on autoconnect_le
  by unfold_locales (auto simp: autoconnect_le_iff)

lemma order_for_autoconnect_sorted:
  "\<exists>ps. order_for_autoconnect profiles = map cp_id ps \<and> sorted_wrt autoconnect_le ps \<and>
     mset ps = mset (filter (\<lambda>p. cp_enabled p \<and> cp_autoconnect p) profiles)"
  by (rule exI [where x = "sort_by autoconnect_le
        (filter (\<lambda>p. cp_enabled p \<and> cp_autoconnect p) profiles)"])
     (simp add: order_for_autoconnect_def autoconnect.sorted_sort_by del: mset_filter)

text \<open>The result depends only on the set of eligible profiles when no two share an id.\<close>

lemma autoconnect_le_antisym:
  "autoconnect_le a b \<Longrightarrow> autoconnect_le b a \<Longrightarrow> cp_id a = cp_id b"
  by (auto simp: autoconnect_le_iff)

lemma sorted_wrt_autoconnect_unique:
  assumes "sorted_wrt autoconnect_le xs" "sorted_wrt autoconnect_le ys" "mset xs = mset ys"
    and "distinct (map cp_id xs)"
  shows "xs = ys"
  using assms
proof (induction xs arbitrary: ys)
  case Nil
  then show ?case by simp
next
  case (Cons x xs)
  then obtain y ys' where ys: "ys = y # ys'" by (cases ys) auto
  have "set (x # xs) = set ys" using Cons.prems(3) by (rule mset_eq_setD)
  moreover have "x = y"
  proof (rule ccontr)
    assume ne: "x \<noteq> y"
    then have "x \<in> set ys'" "y \<in> set xs"
      using \<open>set (x # xs) = set ys\<close> ys by auto
    then have "cp_id x = cp_id y"
      using Cons.prems(1,2) ys by (auto intro: autoconnect_le_antisym)
    with \<open>y \<in> set xs\<close> Cons.prems(4) show False by auto
  qed
  ultimately show ?case
    using Cons ys by auto
qed

lemma order_for_autoconnect_perm:
  assumes "mset ps = mset qs" "distinct (map cp_id ps)"
  shows "order_for_autoconnect ps = order_for_autoconnect qs"
proof -
  let ?e = "\<lambda>p. cp_enabled p \<and> cp_autoconnect p"
  have "sort_by autoconnect_le (filter ?e ps) = sort_by autoconnect_le (filter ?e qs)"
  proof (rule sorted_wrt_autoconnect_unique)
    have "distinct (map cp_id (filter ?e ps))"
      using assms(2) by (rule distinct_map_filter)
    moreover have "mset (map cp_id (sort_by autoconnect_le (filter ?e ps)))
                 = mset (map cp_id (filter ?e ps))" by (simp only: mset_map mset_sort_by)
    ultimately show "distinct (map cp_id (sort_by autoconnect_le (filter ?e ps)))"
      by (metis mset_eq_imp_distinct_iff)
  qed (use assms in \<open>auto intro: autoconnect.sorted_sort_by\<close>)
  then show ?thesis by (simp add: order_for_autoconnect_def)
qed

end
