(* ===== verification/Nm_Ip.thy ===== *)
theory Nm_Ip
  imports Nm_Model
begin

text \<open>
  The data of the IP boundary (\<^verbatim>\<open>src/connection/ip.rs\<close>): configurations, leases,
  outcomes, the state an activation owns, the errors, and the three backend traits as records of
  operations over the backend's state. Durations are in nanoseconds.
\<close>

type_synonym duration = nat

record ipv4_config =
  c4_address :: ipv4_addr
  c4_prefix_length :: u8
  c4_gateway :: "ipv4_addr option"

record ipv6_config =
  c6_address :: ipv6_addr
  c6_prefix_length :: u8
  c6_gateway :: "ipv6_addr option"

record dhcp_request =
  dr_interface_index :: i32
  dr_interface_name :: string
  dr_hostname :: "string option"
  dr_requested_address :: "ipv4_addr option"
  dr_timeout :: duration

record dhcp_lease =
  dl_interface_index :: i32
  dl_interface_name :: string
  dl_address :: ipv4_addr
  dl_prefix_length :: u8
  dl_netmask :: ipv4_addr
  dl_gateway :: "ipv4_addr option"
  dl_dns_servers :: "ipv4_addr list"
  dl_search_domains :: "string list"
  dl_server_identifier :: "ipv4_addr option"
  dl_lease_seconds :: "u32 option"
  dl_t1_seconds :: "u32 option"
  dl_t2_seconds :: "u32 option"

record dns_config =
  dc_search_domains :: "string list"
  dc_servers :: "ip_addr list"

record dns_ownership =
  do_owner :: string
  do_path :: string

datatype ipv4_source = AutomaticDhcp | Manual4

datatype ipv6_source = AutomaticLinkLocal | Manual6 | Disabled6

record ipv4_outcome =
  o4_address :: ipv4_addr
  o4_prefix_length :: u8
  o4_gateway :: "ipv4_addr option"
  o4_dns_servers :: "ip_addr list"
  o4_search_domains :: "string list"
  o4_source :: ipv4_source
  o4_routes :: "route list"
  o4_lease :: "dhcp_lease option"

record ipv6_outcome =
  o6_address :: "ipv6_addr option"
  o6_prefix_length :: u8
  o6_gateway :: "ipv6_addr option"
  o6_dns_servers :: "ip_addr list"
  o6_search_domains :: "string list"
  o6_routes :: "route list"
  o6_link_local :: "ipv6_addr option"
  o6_source :: ipv6_source

record activation_outcome =
  out_ipv4 :: "ipv4_outcome option"
  out_ipv6 :: "ipv6_outcome option"
  out_degradation :: "string option"

definition outcome_default :: activation_outcome where
  "outcome_default = \<lparr> out_ipv4 = None, out_ipv6 = None, out_degradation = None \<rparr>"

definition outcome_dns_servers :: "activation_outcome \<Rightarrow> ip_addr list" where
  "outcome_dns_servers out = (case out_ipv4 out of None \<Rightarrow> [] | Some v \<Rightarrow> o4_dns_servers v)"

definition outcome_search_domains :: "activation_outcome \<Rightarrow> string list" where
  "outcome_search_domains out = (case out_ipv4 out of None \<Rightarrow> [] | Some v \<Rightarrow> o4_search_domains v)"

record active_ipv4 =
  a4_interface_index :: i32
  a4_address :: ipv4_addr
  a4_prefix_length :: u8
  a4_lease :: "dhcp_lease option"
  a4_routes :: "route list"
  a4_source :: ipv4_source

record active_ipv6 =
  a6_interface_index :: i32
  a6_link_local :: "ipv6_addr option"
  a6_prefix_length :: u8
  a6_routes :: "route list"
  a6_source :: ipv6_source

record active_ip_state =
  as_ipv4 :: "active_ipv4 option"
  as_ipv6 :: "active_ipv6 option"
  as_dns_owner :: "dns_ownership option"

definition ip_state_default :: active_ip_state where
  "ip_state_default = \<lparr> as_ipv4 = None, as_ipv6 = None, as_dns_owner = None \<rparr>"

section \<open>Errors\<close>

datatype ip_config_error =
    IpNetlink netlink_error
  | IpInvalidConfig string
  | IpIo io_error

definition ip_config_error_string :: "ip_config_error \<Rightarrow> string" where
  "ip_config_error_string e = (case e of
       IpNetlink err \<Rightarrow> ''IP configuration failed: '' @ netlink_error_string err
     | IpInvalidConfig msg \<Rightarrow> ''invalid IP configuration: '' @ msg
     | IpIo err \<Rightarrow> ''IP configuration I/O failed: '' @ io_message err)"

datatype dhcp_error =
    DhcpIo io_error
  | DhcpMalformedPacket string
  | DhcpTimeout string
  | DhcpInvalidConfig string

definition dhcp_error_string :: "dhcp_error \<Rightarrow> string" where
  "dhcp_error_string e = (case e of
       DhcpIo err \<Rightarrow> ''DHCP I/O failed: '' @ io_message err
     | DhcpMalformedPacket msg \<Rightarrow> ''malformed DHCP packet: '' @ msg
     | DhcpTimeout name \<Rightarrow> ''DHCP timed out on '' @ name
     | DhcpInvalidConfig msg \<Rightarrow> ''invalid DHCP configuration: '' @ msg)"

datatype dns_error =
    DnsForeignManaged string
  | DnsIo io_error
  | DnsInvalidConfig string

definition dns_error_string :: "dns_error \<Rightarrow> string" where
  "dns_error_string e = (case e of
       DnsForeignManaged path \<Rightarrow>
         ''refusing to manage DNS: '' @ path @ '' is managed by another component''
     | DnsIo err \<Rightarrow> ''DNS I/O failed: '' @ io_message err
     | DnsInvalidConfig msg \<Rightarrow> ''invalid DNS configuration: '' @ msg)"

section \<open>The backend traits\<close>

record 'c ip_configurator =
  ipc_configure_ipv4 :: "'c \<Rightarrow> i32 \<Rightarrow> ipv4_config \<Rightarrow> (unit, ip_config_error) result \<times> 'c"
  ipc_remove_ipv4 :: "'c \<Rightarrow> i32 \<Rightarrow> ipv4_config \<Rightarrow> (unit, ip_config_error) result \<times> 'c"
  ipc_configure_ipv6 :: "'c \<Rightarrow> i32 \<Rightarrow> ipv6_config \<Rightarrow> (unit, ip_config_error) result \<times> 'c"
  ipc_remove_ipv6 :: "'c \<Rightarrow> i32 \<Rightarrow> ipv6_config \<Rightarrow> (unit, ip_config_error) result \<times> 'c"
  ipc_add_route :: "'c \<Rightarrow> route \<Rightarrow> (unit, ip_config_error) result \<times> 'c"
  ipc_remove_route :: "'c \<Rightarrow> route \<Rightarrow> (unit, ip_config_error) result \<times> 'c"

record 'd dhcp_client =
  dhc_acquire :: "'d \<Rightarrow> dhcp_request \<Rightarrow> (dhcp_lease, dhcp_error) result \<times> 'd"
  dhc_release :: "'d \<Rightarrow> dhcp_lease \<Rightarrow> (unit, dhcp_error) result \<times> 'd"

record 'n dns_manager =
  dnm_apply :: "'n \<Rightarrow> string \<Rightarrow> dns_config \<Rightarrow> (dns_ownership, dns_error) result \<times> 'n"
  dnm_remove :: "'n \<Rightarrow> dns_ownership \<Rightarrow> (unit, dns_error) result \<times> 'n"

end
