(* ===== verification/Nm_Activation.thy ===== *)
theory Nm_Activation
  imports Nm_State Nm_Store Nm_Policy Nm_Ip
begin

text \<open>
  The activation manager (\<^verbatim>\<open>src/connection/activation.rs\<close>), over any engine and any
  profile store. Its state is the engine's, the next id, the tracked connections and the pending
  events; every method returns the new state with its result. \<open>next_id += 1\<close> is 64-bit
  addition; the theorems carry the bound under which it does not wrap.
\<close>

section \<open>Data\<close>

record active_connection =
  ac_id :: active_id
  ac_profile :: connection_profile
  ac_device :: device_info
  ac_state :: connection_state
  ac_outcome :: activation_outcome

datatype activation_error =
    ProfileNotFound profile_id
  | DeviceIncompatible profile_id device_info
  | NoSuitableProfile device_info
  | AlreadyActive profile_id
  | UnknownActiveConnection active_id
  | InvalidState active_id connection_state
  | StateErr state_error
  | StoreErr store_error
  | EngineErr string

definition activation_error_string :: "activation_error \<Rightarrow> string" where
  "activation_error_string e = (case e of
       ProfileNotFound i \<Rightarrow> ''connection profile '' @ debug_str i @ '' not found''
     | DeviceIncompatible i d \<Rightarrow> ''connection profile '' @ debug_str i @ '' does not match device ''
         @ dev_interface_name d @ '' ('' @ device_kind_string (dev_kind d) @ '')''
     | NoSuitableProfile d \<Rightarrow> ''no suitable connection profile for device ''
         @ dev_interface_name d @ '' ('' @ device_kind_string (dev_kind d) @ '')''
     | AlreadyActive i \<Rightarrow> ''connection profile '' @ debug_str i @ '' is already active''
     | UnknownActiveConnection a \<Rightarrow> ''no active connection with id '' @ show_word a
     | InvalidState a s \<Rightarrow> ''active connection '' @ show_word a @ '' cannot be deactivated from ''
         @ connection_state_string s
     | StateErr err \<Rightarrow> state_error_string err
     | StoreErr err \<Rightarrow> ''profile store error: '' @ store_error_string err
     | EngineErr reason \<Rightarrow> ''activation engine error: '' @ reason)"

record 'e engine_ops =
  eo_activate :: "'e \<Rightarrow> connection_profile \<Rightarrow> device_info \<Rightarrow>
    (activation_outcome, activation_error) result \<times> 'e"
  eo_deactivate :: "'e \<Rightarrow> connection_profile \<Rightarrow> (unit, activation_error) result \<times> 'e"

definition unsupported_message :: string where
  "unsupported_message = ''no activation engine is configured for this daemon''"

definition unsupported_engine :: "unit engine_ops" where
  "unsupported_engine = \<lparr>
     eo_activate = (\<lambda>e p d. (Err (EngineErr unsupported_message), e)),
     eo_deactivate = (\<lambda>e p. (Err (EngineErr unsupported_message), e)) \<rparr>"

record 'e activation_manager =
  am_engine :: 'e
  am_next_id :: u64
  am_active :: "active_connection list"
  am_events :: "connection_event list"

section \<open>Operations\<close>

definition am_new :: "'e \<Rightarrow> 'e activation_manager" where
  "am_new e = \<lparr> am_engine = e, am_next_id = 1, am_active = [], am_events = [] \<rparr>"

definition am_state :: "'e activation_manager \<Rightarrow> profile_id \<Rightarrow> connection_state" where
  "am_state m i = (case List.find (\<lambda>a. cp_id (ac_profile a) = i) (am_active m) of
       None \<Rightarrow> Disconnected | Some a \<Rightarrow> ac_state a)"

definition am_is_active :: "'e activation_manager \<Rightarrow> profile_id \<Rightarrow> bool" where
  "am_is_active m i \<longleftrightarrow> list_ex (\<lambda>a. cp_id (ac_profile a) = i) (am_active m)"

definition am_drain_events :: "'e activation_manager \<Rightarrow> connection_event list \<times> 'e activation_manager" where
  "am_drain_events m = (am_events m, m\<lparr> am_events := [] \<rparr>)"

definition transition ::
  "active_connection \<Rightarrow> connection_state \<Rightarrow> connection_event list \<Rightarrow>
     (active_connection \<times> connection_event list, state_error) result" where
  "transition a next events =
     and_then (transition_to (ac_state a) next) (\<lambda>current.
     Ok (a\<lparr> ac_state := current \<rparr>,
         events @ [EvStateChanged (ac_id a) (cp_id (ac_profile a)) (ac_state a) current]))"

definition am_activate_matching ::
  "'e engine_ops \<Rightarrow> 'e activation_manager \<Rightarrow> connection_profile \<Rightarrow> device_info \<Rightarrow>
     (active_connection, activation_error) result \<times> 'e activation_manager" where
  "am_activate_matching eng m p device =
     (let aid = am_next_id m;
          active = \<lparr> ac_id = aid, ac_profile = p, ac_device = device, ac_state = Preparing,
                     ac_outcome = outcome_default \<rparr>;
          events = am_events m @ [EvStateChanged aid (cp_id p) Disconnected Preparing];
          (r, e) = eo_activate eng (am_engine m) p device;
          m1 = m\<lparr> am_next_id := am_next_id m + 1, am_engine := e \<rparr>
      in case r of
           Ok outcome \<Rightarrow>
             (case transition (active\<lparr> ac_outcome := outcome \<rparr>) Configuring events of
                Err err \<Rightarrow> (Err (StateErr err), m1\<lparr> am_events := events \<rparr>)
              | Ok (active1, events1) \<Rightarrow>
             (case transition active1 Activating events1 of
                Err err \<Rightarrow> (Err (StateErr err), m1\<lparr> am_events := events1 \<rparr>)
              | Ok (active2, events2) \<Rightarrow>
             (case transition active2 Activated events2 of
                Err err \<Rightarrow> (Err (StateErr err), m1\<lparr> am_events := events2 \<rparr>)
              | Ok (active3, events3) \<Rightarrow>
                  (Ok active3, m1\<lparr> am_events := events3 @ [EvActivated aid (cp_id p)],
                                  am_active := am_active m @ [active3] \<rparr>))))
         | Err err \<Rightarrow>
             (case transition active Failed events of
                Err serr \<Rightarrow> (Err (StateErr serr), m1\<lparr> am_events := events \<rparr>)
              | Ok (active1, events1) \<Rightarrow>
                  (Err err, m1\<lparr> am_events := events1 @
                                 [EvFailed aid (cp_id p) (activation_error_string err)],
                               am_active := am_active m @ [active1] \<rparr>)))"

definition am_activate ::
  "'e engine_ops \<Rightarrow> 's store_ops \<Rightarrow> 's \<Rightarrow> 'e activation_manager \<Rightarrow> device_info \<Rightarrow>
     (active_connection, activation_error) result \<times> 'e activation_manager" where
  "am_activate eng store st m device = (case so_list store st of
       Err e \<Rightarrow> (Err (StoreErr e), m)
     | Ok profiles \<Rightarrow>
         (case find_map (\<lambda>i. case so_get store st i of
                            Ok p \<Rightarrow> if matches p device \<and> \<not> am_is_active m (cp_id p) then Some p else None
                          | Err _ \<Rightarrow> None)
                 (order_for_autoconnect profiles) of
            Some p \<Rightarrow> am_activate_matching eng m p device
          | None \<Rightarrow> (Err (NoSuitableProfile device), m)))"

definition am_activate_profile ::
  "'e engine_ops \<Rightarrow> 's store_ops \<Rightarrow> 's \<Rightarrow> 'e activation_manager \<Rightarrow> profile_id \<Rightarrow> device_info \<Rightarrow>
     (active_connection, activation_error) result \<times> 'e activation_manager" where
  "am_activate_profile eng store st m i device = (case so_get store st i of
       Err (StoreNotFound _) \<Rightarrow> (Err (ProfileNotFound i), m)
     | Err other \<Rightarrow> (Err (StoreErr other), m)
     | Ok p \<Rightarrow>
         if \<not> matches p device then (Err (DeviceIncompatible i device), m)
         else if am_is_active m i then (Err (AlreadyActive i), m)
         else am_activate_matching eng m p device)"

definition am_deactivate ::
  "'e engine_ops \<Rightarrow> 'e activation_manager \<Rightarrow> active_id \<Rightarrow>
     (unit, activation_error) result \<times> 'e activation_manager" where
  "am_deactivate eng m aid = (case position (\<lambda>a. ac_id a = aid) (am_active m) of
       None \<Rightarrow> (Err (UnknownActiveConnection aid), m)
     | Some index \<Rightarrow>
         (let a = am_active m ! index; p = ac_profile a in
          if ac_state a \<noteq> Activated then (Err (InvalidState aid (ac_state a)), m)
          else case transition a Deactivating (am_events m) of
            Err err \<Rightarrow> (Err (StateErr err), m)
          | Ok (a1, events1) \<Rightarrow>
              (let (r, e) = eo_deactivate eng (am_engine m) p;
                   m1 = m\<lparr> am_engine := e, am_events := events1,
                           am_active := (am_active m)[index := a1] \<rparr>
               in case r of
                    Ok _ \<Rightarrow>
                      (case transition a1 Disconnected events1 of
                         Err err \<Rightarrow> (Err (StateErr err), m1)
                       | Ok (a2, events2) \<Rightarrow>
                           (Ok (), m1\<lparr> am_active := take index (am_active m) @ drop (Suc index) (am_active m),
                                      am_events := events2 @ [EvDeactivated aid (cp_id p)] \<rparr>))
                  | Err err \<Rightarrow>
                      (case transition a1 Failed events1 of
                         Err serr \<Rightarrow> (Err (StateErr serr), m1)
                       | Ok (a2, events2) \<Rightarrow>
                           (Err err, m1\<lparr> am_active := (am_active m)[index := a2],
                                        am_events := events2 @
                                          [EvFailed aid (cp_id p) (activation_error_string err)] \<rparr>)))))"

text \<open>An engine that accepts everything: the engine of the witnesses.\<close>

definition accepting_engine :: "unit engine_ops" where
  "accepting_engine = \<lparr> eo_activate = (\<lambda>e p d. (Ok outcome_default, e)), eo_deactivate = (\<lambda>e p. (Ok (), e)) \<rparr>"

section \<open>Closed forms of the operations\<close>

text \<open>
  No internal transition can be refused, so the \<open>State\<close> errors of the source are dead branches
  and an attempt always leaves a tracked connection: \<open>attempted\<close> is that connection.
\<close>

definition attempted ::
  "active_id \<Rightarrow> connection_profile \<Rightarrow> device_info \<Rightarrow> (activation_outcome, activation_error) result \<Rightarrow>
     active_connection" where
  "attempted aid p d r = \<lparr> ac_id = aid, ac_profile = p, ac_device = d,
     ac_state = (case r of Ok _ \<Rightarrow> Activated | Err _ \<Rightarrow> Failed),
     ac_outcome = (case r of Ok out \<Rightarrow> out | Err _ \<Rightarrow> outcome_default) \<rparr>"

definition attempt_events ::
  "active_id \<Rightarrow> profile_id \<Rightarrow> (activation_outcome, activation_error) result \<Rightarrow> connection_event list" where
  "attempt_events aid i r = EvStateChanged aid i Disconnected Preparing # (case r of
       Ok _ \<Rightarrow> [EvStateChanged aid i Preparing Configuring, EvStateChanged aid i Configuring Activating,
                EvStateChanged aid i Activating Activated, EvActivated aid i]
     | Err err \<Rightarrow> [EvStateChanged aid i Preparing Failed, EvFailed aid i (activation_error_string err)])"

lemma transition_eq:
  "transition a s es = (if can_transition_to (ac_state a) s
     then Ok (a\<lparr> ac_state := s \<rparr>, es @ [EvStateChanged (ac_id a) (cp_id (ac_profile a)) (ac_state a) s])
     else Err (InvalidTransition (ac_state a) s))"
  by (simp add: transition_def transition_to_def)

lemma am_activate_matching_eq:
  assumes "eo_activate eng (am_engine m) p d = (r, e)"
  shows "am_activate_matching eng m p d =
    (map_ok (\<lambda>_. attempted (am_next_id m) p d r) r,
     m\<lparr> am_next_id := am_next_id m + 1, am_engine := e,
        am_events := am_events m @ attempt_events (am_next_id m) (cp_id p) r,
        am_active := am_active m @ [attempted (am_next_id m) p d r] \<rparr>)"
  using assms
  by (cases r) (auto simp: am_activate_matching_def transition_eq attempted_def attempt_events_def Let_def)

lemma am_deactivate_eq:
  assumes "position (\<lambda>a. ac_id a = aid) (am_active m) = Some k" "ac_state (am_active m ! k) = Activated"
    and "eo_deactivate eng (am_engine m) (ac_profile (am_active m ! k)) = (r, e)"
  shows "am_deactivate eng m aid =
    (let a = am_active m ! k; i = cp_id (ac_profile a);
         es = am_events m @ [EvStateChanged aid i Activated Deactivating] in
     case r of
       Ok _ \<Rightarrow> (Ok (), m\<lparr> am_engine := e, am_active := take k (am_active m) @ drop (Suc k) (am_active m),
                 am_events := es @ [EvStateChanged aid i Deactivating Disconnected, EvDeactivated aid i] \<rparr>)
     | Err err \<Rightarrow> (Err err, m\<lparr> am_engine := e, am_active := (am_active m)[k := a\<lparr> ac_state := Failed \<rparr>],
                 am_events := es @ [EvStateChanged aid i Deactivating Failed,
                                    EvFailed aid i (activation_error_string err)] \<rparr>))"
  using assms position_Some [OF assms(1)]
  by (cases r) (auto simp: am_deactivate_def transition_eq Let_def)

section \<open>Reachable managers\<close>

text \<open>
  One call on the manager, with the events it hands out (only \<open>drain_events\<close> does). The store
  behind \<open>activate\<close> may differ from call to call. A call that would take the last id is not a
  step: the counter starts at 1 and the theorems cover the first \<open>2^64 - 2\<close> attempts.
\<close>

inductive am_step ::
  "'e engine_ops \<Rightarrow> 's store_ops \<Rightarrow> 'e activation_manager \<Rightarrow> connection_event list \<Rightarrow> 'e activation_manager \<Rightarrow> bool"
  for eng store where
  activate: "get_sound store st \<Longrightarrow> am_next_id m \<noteq> - 1 \<Longrightarrow> am_activate eng store st m d = (r, m') \<Longrightarrow>
     am_step eng store m [] m'"
| activate_profile: "get_sound store st \<Longrightarrow> am_next_id m \<noteq> - 1 \<Longrightarrow>
     am_activate_profile eng store st m i d = (r, m') \<Longrightarrow> am_step eng store m [] m'"
| deactivate: "am_deactivate eng m aid = (r, m') \<Longrightarrow> am_step eng store m [] m'"
| drain: "am_drain_events m = (es, m') \<Longrightarrow> am_step eng store m es m'"

text \<open>\<open>am_run eng store m es\<close>: some calls on a new manager lead to \<open>m\<close> after handing out \<open>es\<close>.\<close>

inductive am_run ::
  "'e engine_ops \<Rightarrow> 's store_ops \<Rightarrow> 'e activation_manager \<Rightarrow> connection_event list \<Rightarrow> bool"
  for eng store where
  start: "am_run eng store (am_new e) []"
| call: "am_run eng store m es \<Longrightarrow> am_step eng store m es' m' \<Longrightarrow> am_run eng store m' (es @ es')"

definition am_inv :: "'e activation_manager \<Rightarrow> bool" where
  "am_inv m \<longleftrightarrow> distinct (map ac_id (am_active m)) \<and>
     distinct (map (\<lambda>a. cp_id (ac_profile a)) (am_active m)) \<and>
     (\<forall>a \<in> set (am_active m). ac_id a < am_next_id m \<and> (ac_state a = Activated \<or> ac_state a = Failed) \<and>
        matches (ac_profile a) (ac_device a))"

text \<open>The state of a connection by its id: \<open>Disconnected\<close> before and after it is tracked.\<close>

definition conn_state :: "active_connection list \<Rightarrow> active_id \<Rightarrow> connection_state" where
  "conn_state cs aid = (case List.find (\<lambda>a. ac_id a = aid) cs of None \<Rightarrow> Disconnected | Some a \<Rightarrow> ac_state a)"

definition history_ok :: "'e activation_manager \<Rightarrow> connection_event list \<Rightarrow> bool" where
  "history_ok m es \<longleftrightarrow> (\<forall>aid. chain Disconnected (changes aid (es @ am_events m)) (conn_state (am_active m) aid))"

subsection \<open>The three kinds of change\<close>

text \<open>
  Every call either leaves the manager as it was (up to the event queue), makes one attempt,
  or ends one activated connection: the cases every proof below distinguishes.
\<close>

lemma is_active_iff: "am_is_active m i \<longleftrightarrow> i \<in> (\<lambda>a. cp_id (ac_profile a)) ` set (am_active m)"
  by (auto simp: am_is_active_def list_ex_iff)

lemma am_activate_cases:
  assumes "am_activate eng store st m d = (r, m')"
  obtains "m' = m" "\<exists>e. r = Err e"
  | p where "matches p d" "\<not> am_is_active m (cp_id p)" "am_activate_matching eng m p d = (r, m')"
  using assms unfolding am_activate_def
  by (fastforce split: result.splits option.splits if_splits dest!: find_map_SomeD)

lemma am_activate_profile_cases:
  assumes "am_activate_profile eng store st m i d = (r, m')"
  obtains "m' = m" "\<exists>e. r = Err e"
  | p where "so_get store st i = Ok p" "matches p d" "\<not> am_is_active m i"
      "am_activate_matching eng m p d = (r, m')"
  using assms unfolding am_activate_profile_def
  by (auto split: result.splits store_error.splits if_splits)

lemma am_deactivate_cases:
  assumes "am_deactivate eng m aid = (r, m')"
  obtains "m' = m" "\<exists>e. r = Err e"
  | k where "position (\<lambda>a. ac_id a = aid) (am_active m) = Some k" "ac_state (am_active m ! k) = Activated"
  using assms unfolding am_deactivate_def
  by (auto simp: Let_def split: option.splits if_splits)

lemmas am_cases = am_activate_cases am_activate_profile_cases am_deactivate_cases

subsection \<open>Each change keeps the invariant and the history\<close>

lemma word_less_succ:
  fixes n :: u64 shows "n \<noteq> - 1 \<Longrightarrow> a < n + 1 \<longleftrightarrow> a \<le> n"
proof -
  assume "n \<noteq> - 1"
  then have "unat (1 + n) = Suc (unat n)"
    by (intro unatSuc) (metis add.commute add_eq_0_iff)
  then show ?thesis by (auto simp: word_less_nat_alt word_le_nat_alt add.commute)
qed

lemma conn_state_append:
  "conn_state (cs @ [a]) aid =
     (if aid \<in> ac_id ` set cs then conn_state cs aid else if ac_id a = aid then ac_state a else Disconnected)"
  by (induction cs) (auto simp: conn_state_def)

lemma conn_state_notin: "aid \<notin> ac_id ` set cs \<Longrightarrow> conn_state cs aid = Disconnected"
  by (induction cs) (auto simp: conn_state_def)

lemma conn_state_in:
  "distinct (map ac_id cs) \<Longrightarrow> a \<in> set cs \<Longrightarrow> conn_state cs (ac_id a) = ac_state a"
  by (induction cs) (auto simp: conn_state_def)

lemma changes_attempt:
  "changes b (attempt_events aid i r) = (if b = aid then
     (case r of Ok _ \<Rightarrow> [(Disconnected, Preparing), (Preparing, Configuring), (Configuring, Activating),
                         (Activating, Activated)]
              | Err _ \<Rightarrow> [(Disconnected, Preparing), (Preparing, Failed)]) else [])"
  by (auto simp: attempt_events_def split: result.splits)

lemma attempt_keeps:
  assumes inv: "am_inv m" and hist: "history_ok m es"
    and room: "am_next_id m \<noteq> - 1" and ok: "matches p d" "\<not> am_is_active m (cp_id p)"
    and run: "am_activate_matching eng m p d = (r, m')"
  shows "am_inv m' \<and> history_ok m' es"
proof -
  obtain r0 e where eng: "eo_activate eng (am_engine m) p d = (r0, e)" by (cases "eo_activate eng (am_engine m) p d")
  let ?n = "am_next_id m" and ?a = "attempted (am_next_id m) p d r0"
  have m': "am_next_id m' = ?n + 1" "am_active m' = am_active m @ [?a]"
    "am_events m' = am_events m @ attempt_events ?n (cp_id p) r0"
    using run am_activate_matching_eq [OF eng] by auto
  have a: "ac_id ?a = ?n" "ac_profile ?a = p" "ac_device ?a = d" "ac_state ?a = Activated \<or> ac_state ?a = Failed"
    by (auto simp: attempted_def split: result.splits)
  have lt: "b \<in> set (am_active m) \<Longrightarrow> ac_id b < ?n" for b using inv by (simp add: am_inv_def)
  then have fresh: "?n \<notin> ac_id ` set (am_active m)" by (metis imageE less_irrefl)
  have "am_inv m'"
    using inv ok a fresh room by (auto simp: am_inv_def m' is_active_iff word_less_succ less_imp_le)
  moreover have "history_ok m' es"
    unfolding history_ok_def
  proof
    fix b
    have "chain Disconnected (changes b (es @ am_events m)) (conn_state (am_active m) b)"
      using hist by (simp add: history_ok_def)
    moreover have "chain (conn_state (am_active m) b) (changes b (attempt_events ?n (cp_id p) r0))
        (conn_state (am_active m') b)"
      using fresh conn_state_notin [of b "am_active m"]
      by (auto simp: changes_attempt conn_state_append m' a attempted_def split: result.splits)
    ultimately show "chain Disconnected (changes b (es @ am_events m')) (conn_state (am_active m') b)"
      by (auto simp: m' chain_append)
  qed
  ultimately show ?thesis by blast
qed

lemma conn_state_update:
  assumes "ac_id a' = ac_id a" "ac_id a \<notin> ac_id ` set xs"
  shows "conn_state (xs @ a' # ys) b = (if b = ac_id a then ac_state a' else conn_state (xs @ a # ys) b)"
  using assms by (induction xs) (auto simp: conn_state_def)

lemma conn_state_remove:
  assumes "ac_id a \<notin> ac_id ` set (xs @ ys)"
  shows "conn_state (xs @ ys) b = (if b = ac_id a then Disconnected else conn_state (xs @ a # ys) b)"
proof (cases "b = ac_id a")
  case True
  with assms show ?thesis by (simp add: conn_state_notin)
next
  case False
  then show ?thesis by (induction xs) (auto simp: conn_state_def)
qed

lemma position_split:
  assumes "position P cs = Some k"
  obtains xs a ys where "cs = xs @ a # ys" "k = length xs" "P a"
  using assms position_Some [OF assms] id_take_nth_drop [of k cs] by (metis length_take less_imp_le min.absorb2)

lemma deactivate_keeps:
  assumes inv: "am_inv m" and hist: "history_ok m es"
    and run: "am_deactivate eng m aid = (r, m')"
  shows "am_inv m' \<and> history_ok m' es"
proof (cases rule: am_deactivate_cases [OF run])
  case 1
  with inv hist show ?thesis by simp
next
  case (2 k)
  obtain xs a ys where cs: "am_active m = xs @ a # ys" "k = length xs" "ac_id a = aid"
    using position_split [OF 2(1)] by blast
  obtain r0 e where eng: "eo_deactivate eng (am_engine m) (ac_profile (am_active m ! k)) = (r0, e)"
    by (cases "eo_deactivate eng (am_engine m) (ac_profile (am_active m ! k))")
  note eq = am_deactivate_eq [OF 2 eng]
  have m': "am_next_id m' = am_next_id m"
    "am_active m' = (case r0 of Ok _ \<Rightarrow> xs @ ys | Err _ \<Rightarrow> xs @ a\<lparr>ac_state := Failed\<rparr> # ys)"
    "changes b (am_events m') = changes b (am_events m) @ (if b = aid then
       [(Activated, Deactivating), (Deactivating, case r0 of Ok _ \<Rightarrow> Disconnected | Err _ \<Rightarrow> Failed)] else [])" for b
    using run eq cs by (auto simp: Let_def split: result.splits)
  have a: "ac_state a = Activated" "ac_id a \<notin> ac_id ` set (xs @ ys)" "ac_id a \<notin> ac_id ` set xs"
    using 2(2) cs inv by (auto simp: am_inv_def)
  have "am_inv m'"
    using inv by (auto simp: am_inv_def m' cs split: result.splits)
  moreover have "history_ok m' es"
    unfolding history_ok_def
  proof
    fix b
    have "chain Disconnected (changes b (es @ am_events m)) (conn_state (xs @ a # ys) b)"
      using hist by (simp add: history_ok_def cs)
    moreover have "conn_state (xs @ a # ys) aid = Activated"
      using a cs conn_state_update [OF refl a(3), of ys aid] by simp
    ultimately show "chain Disconnected (changes b (es @ am_events m')) (conn_state (am_active m') b)"
      using a cs conn_state_update [OF _ a(3), of "a\<lparr>ac_state := Failed\<rparr>" ys b] conn_state_remove [OF a(2), of b]
      by (auto simp: m' chain_append split: result.splits)
  qed
  ultimately show ?thesis by blast
qed

lemma step_keeps:
  assumes "am_step eng store m es' m'" "am_inv m" "history_ok m es"
  shows "am_inv m' \<and> history_ok m' (es @ es')"
  using assms
proof (cases rule: am_step.cases)
  case (activate st d r)
  from this(4) show ?thesis
  proof (cases rule: am_activate_cases)
    case 1
    with assms activate show ?thesis by simp
  next
    case (2 p)
    from attempt_keeps [OF assms(2,3) activate(3) 2] show ?thesis using activate(1) by simp
  qed
next
  case (activate_profile st i d r)
  from this(4) show ?thesis
  proof (cases rule: am_activate_profile_cases)
    case 1
    with assms activate_profile show ?thesis by simp
  next
    case (2 p)
    then have "cp_id p = i" using activate_profile(2) by (simp add: get_sound_def)
    with attempt_keeps [OF assms(2,3) activate_profile(3) 2(2) _ 2(4)] 2(3) show ?thesis
      using activate_profile(1) by simp
  qed
next
  case (deactivate aid r)
  with deactivate_keeps [OF assms(2,3) deactivate(2)] show ?thesis by simp
next
  case drain
  with assms show ?thesis by (auto simp: am_drain_events_def am_inv_def history_ok_def)
qed

lemma run_keeps: "am_run eng store m es \<Longrightarrow> am_inv m \<and> history_ok m es"
proof (induction rule: am_run.induct)
  case (start e)
  then show ?case by (auto simp: am_new_def am_inv_def history_ok_def conn_state_def)
next
  case (call m es es' m')
  then show ?case using step_keeps by blast
qed

section \<open>The profile that autoconnect chooses\<close>

definition eligible :: "'e activation_manager \<Rightarrow> device_info \<Rightarrow> connection_profile \<Rightarrow> bool" where
  "eligible m d p \<longleftrightarrow> cp_enabled p \<and> cp_autoconnect p \<and> matches p d \<and> \<not> am_is_active m (cp_id p)"

lemma find_map_find:
  "(\<And>x. x \<in> set xs \<Longrightarrow> f (g x) = (if P x then Some x else None)) \<Longrightarrow>
     find_map f (map g xs) = List.find P xs"
  by (induction xs) auto

lemma find_sorted:
  assumes "sorted_wrt R xs" "List.find P xs = Some x" "\<And>y. R y y" "y \<in> set xs" "P y"
  shows "R x y"
  using assms by (induction xs) (auto split: if_splits)

context profile_store
begin

lemma activate_best:
  assumes "inv s"
  shows "(\<exists>p. view s (cp_id p) = Some p \<and> eligible m d p \<and>
            (\<forall>q. view s (cp_id q) = Some q \<longrightarrow> eligible m d q \<longrightarrow> autoconnect_le p q) \<and>
            am_activate eng ops s m d = am_activate_matching eng m p d) \<or>
         (\<forall>q. view s (cp_id q) = Some q \<longrightarrow> \<not> eligible m d q) \<and>
            am_activate eng ops s m d = (Err (NoSuitableProfile d), m)"
proof -
  from list_complete [OF assms]
  obtain ps where ps: "so_list ops s = Ok ps" "\<forall>p. p \<in> set ps \<longleftrightarrow> view s (cp_id p) = Some p"
    by (elim exE conjE)
  let ?qs = "sort_by autoconnect_le (filter (\<lambda>p. cp_enabled p \<and> cp_autoconnect p) ps)"
  let ?P = "\<lambda>p. matches p d \<and> \<not> am_is_active m (cp_id p)"
  have sorted: "sorted_wrt autoconnect_le ?qs" by (rule autoconnect.sorted_sort_by)
  have qs: "q \<in> set ?qs \<longleftrightarrow> q \<in> set ps \<and> cp_enabled q \<and> cp_autoconnect q" for q
    by auto
  have "so_get ops s (cp_id q) = Ok q" if "q \<in> set ?qs" for q
  proof -
    have v: "view s (cp_id q) = Some q" using that qs ps(2) by blast
    have "list_all id_char_ok (cp_id q)" using view_sound [OF assms v] by (simp add: profile_ok_def)
    with v get_view [OF assms] show ?thesis by simp
  qed
  then have "find_map (\<lambda>i. case so_get ops s i of
        Ok p \<Rightarrow> if matches p d \<and> \<not> am_is_active m (cp_id p) then Some p else None
      | Err _ \<Rightarrow> None) (map cp_id ?qs) = List.find ?P ?qs"
    by (intro find_map_find) simp
  then have act: "am_activate eng ops s m d = (case List.find ?P ?qs of
      Some p \<Rightarrow> am_activate_matching eng m p d | None \<Rightarrow> (Err (NoSuitableProfile d), m))"
    by (simp add: am_activate_def ps(1) order_for_autoconnect_def)
  show ?thesis
  proof (cases "List.find ?P ?qs")
    case None
    then have "\<forall>q. view s (cp_id q) = Some q \<longrightarrow> \<not> eligible m d q"
      using qs ps(2) unfolding find_None_iff eligible_def by blast
    moreover have "am_activate eng ops s m d = (Err (NoSuitableProfile d), m)" using act None by simp
    ultimately show ?thesis by blast
  next
    case (Some p)
    then have "p \<in> set ?qs" "?P p" using Some by (metis (mono_tags, lifting) find_Some_iff nth_mem)+
    then have "view s (cp_id p) = Some p" "eligible m d p" using qs ps(2) unfolding eligible_def by blast+
    moreover have "autoconnect_le p q" if "view s (cp_id q) = Some q" "eligible m d q" for q
    proof (rule find_sorted [OF sorted Some])
      show "autoconnect_le y y" for y by (simp add: autoconnect_le_iff)
      show "q \<in> set ?qs" "?P q" using that qs ps(2) unfolding eligible_def by blast+
    qed
    moreover have "am_activate eng ops s m d = am_activate_matching eng m p d" using act Some by simp
    ultimately show ?thesis by blast
  qed
qed

end

section \<open>A failed connection\<close>

text \<open>
  A tracked connection in state \<open>Failed\<close> blocks its profile: no call removes it or moves it on,
  though the state machine has the transition from \<open>Failed\<close> to \<open>Disconnected\<close>.
\<close>

lemma find_distinct_profile:
  "distinct (map (\<lambda>a. cp_id (ac_profile a)) cs) \<Longrightarrow> a \<in> set cs \<Longrightarrow>
     List.find (\<lambda>b. cp_id (ac_profile b) = cp_id (ac_profile a)) cs = Some a"
  by (induction cs) (auto simp: rev_image_eqI)

lemma matching_appends:
  "am_activate_matching eng m p d = (r, m') \<Longrightarrow> \<exists>a. am_active m' = am_active m @ [a]"
  by (cases "eo_activate eng (am_engine m) p d") (auto simp: am_activate_matching_eq)

lemma deactivate_keeps_others:
  assumes "am_deactivate eng m aid = (r, m')" "a \<in> set (am_active m)" "ac_id a \<noteq> aid \<or> ac_state a = Failed"
    "am_inv m"
  shows "a \<in> set (am_active m')"
proof (cases rule: am_deactivate_cases [OF assms(1)])
  case 1
  with assms show ?thesis by simp
next
  case (2 k)
  obtain xs b ys where cs: "am_active m = xs @ b # ys" "k = length xs" "ac_id b = aid"
    using position_split [OF 2(1)] by blast
  then have "a \<noteq> b" using 2 assms(3) by auto
  moreover obtain r0 e where "eo_deactivate eng (am_engine m) (ac_profile (am_active m ! k)) = (r0, e)"
    by (cases "eo_deactivate eng (am_engine m) (ac_profile (am_active m ! k))")
  ultimately show ?thesis
    using am_deactivate_eq [OF 2] assms(1,2) cs by (auto simp: Let_def split: result.splits)
qed

lemma failed_step:
  assumes "am_step eng store m es m'" "am_inv m" "a \<in> set (am_active m)" "ac_state a = Failed"
  shows "a \<in> set (am_active m')"
  using assms
proof (cases rule: am_step.cases)
  case (activate st d r)
  from activate(4) assms(3) show ?thesis
    by (cases rule: am_activate_cases) (auto dest: matching_appends)
next
  case (activate_profile st i d r)
  from activate_profile(4) assms(3) show ?thesis
    by (cases rule: am_activate_profile_cases) (auto dest: matching_appends)
next
  case (deactivate aid r)
  with assms show ?thesis by (blast intro: deactivate_keeps_others)
qed (auto simp: am_drain_events_def)

section \<open>Properties\<close>

lemma wired_activated:
  "am_activate_profile accepting_engine mem_store_ops wired_store (am_new ()) ''wired'' eth0 =
     (Ok (attempted 1 wired eth0 (Ok outcome_default)),
      \<lparr> am_engine = (), am_next_id = 2, am_active = [attempted 1 wired eth0 (Ok outcome_default)],
        am_events = attempt_events 1 ''wired'' (Ok outcome_default) \<rparr>)"
  using wired_ok(2)
  by (simp add: am_activate_profile_def mem_store_ops_def mem_get_def wired_store_def am_is_active_def am_new_def
      am_activate_matching_eq accepting_engine_def) (simp add: wired_def base_profile_def)

lemma wired_run:
  "am_run accepting_engine mem_store_ops
     (snd (am_activate_profile accepting_engine mem_store_ops wired_store (am_new ()) ''wired'' eth0)) []"
proof -
  let ?c = "am_activate_profile accepting_engine mem_store_ops wired_store (am_new ()) ''wired'' eth0"
  have "am_step accepting_engine mem_store_ops (am_new ()) [] (snd ?c)"
  proof (rule am_step.activate_profile)
    show "get_sound mem_store_ops wired_store" by (rule mem_get_sound [OF wired_store_inv])
    show "?c = (fst ?c, snd ?c)" by simp
  qed (simp add: am_new_def)
  from am_run.call [OF am_run.start this] show ?thesis by simp
qed

text \<open>
  C1. Whatever calls are made on an activation manager, the state changes it has reported for a
  connection id, handed out or still pending, form one path of permitted transitions that starts in
  \<open>Disconnected\<close>, each change starting where the one before ended, and ends in the state the
  connection is in now (\<open>Disconnected\<close> once it is no longer tracked).
\<close>

theorem reported_changes_form_a_path:
  assumes "am_run eng store m es"
  shows "chain Disconnected (changes aid (es @ am_events m)) (conn_state (am_active m) aid)"
  using run_keeps [OF assms] by (simp add: history_ok_def)

theorem reported_changes_form_a_path_witness:
  "chain Disconnected (changes 1 (attempt_events 1 ''wired'' (Ok outcome_default))) Activated"
  using reported_changes_form_a_path [OF wired_run, of 1]
  by (simp add: wired_activated conn_state_def attempted_def)

text \<open>
  C2. In every reachable manager the tracked connections have distinct ids below the counter and
  distinct profiles, each is \<open>Activated\<close> or \<open>Failed\<close>, and each profile matches the device it
  runs on.
\<close>

theorem tracked_connections_invariant:
  assumes "am_run eng store m es"
  shows "distinct (map ac_id (am_active m)) \<and> distinct (map (\<lambda>a. cp_id (ac_profile a)) (am_active m)) \<and>
    (\<forall>a \<in> set (am_active m). ac_id a < am_next_id m \<and> ac_state a \<in> {Activated, Failed} \<and>
       matches (ac_profile a) (ac_device a) \<and> am_state m (cp_id (ac_profile a)) = ac_state a)"
proof -
  have inv: "am_inv m" using run_keeps [OF assms] by simp
  have "am_state m (cp_id (ac_profile a)) = ac_state a" if "a \<in> set (am_active m)" for a
    using inv that by (simp add: am_inv_def am_state_def find_distinct_profile)
  with inv show ?thesis by (auto simp: am_inv_def)
qed

theorem tracked_connections_invariant_witness:
  "distinct (map ac_id [attempted 1 wired eth0 (Ok outcome_default)]) \<and> matches wired eth0"
  using tracked_connections_invariant [OF wired_run] by (simp add: wired_activated attempted_def)



text \<open>
  \<open>activate_profile\<close> on every branch: a missing profile, a store failure, a device that does
  not match and a profile that is active already are reported and change nothing; otherwise the
  engine decides, and the manager tracks the attempt under the next id, \<open>Activated\<close> with the
  outcome of the engine if the engine succeeded and \<open>Failed\<close> if it did not, returning the error
  of the engine.
\<close>

theorem activate_profile_branches:
  "am_activate_profile eng store st m i d = (case so_get store st i of
     Err (StoreNotFound j) \<Rightarrow> (Err (ProfileNotFound i), m)
   | Err (StoreAlreadyExists j) \<Rightarrow> (Err (StoreErr (StoreAlreadyExists j)), m)
   | Err (StoreInvalid v) \<Rightarrow> (Err (StoreErr (StoreInvalid v)), m)
   | Err (StoreMalformed j t) \<Rightarrow> (Err (StoreErr (StoreMalformed j t)), m)
   | Err (StoreIo io) \<Rightarrow> (Err (StoreErr (StoreIo io)), m)
   | Ok p \<Rightarrow>
       if \<not> matches p d then (Err (DeviceIncompatible i d), m)
       else if am_is_active m i then (Err (AlreadyActive i), m)
       else (case eo_activate eng (am_engine m) p d of (r, e) \<Rightarrow>
         (map_ok (\<lambda>_. attempted (am_next_id m) p d r) r,
          m\<lparr> am_next_id := am_next_id m + 1, am_engine := e,
             am_events := am_events m @ attempt_events (am_next_id m) (cp_id p) r,
             am_active := am_active m @ [attempted (am_next_id m) p d r] \<rparr>)))"
  by (auto simp: am_activate_profile_def am_activate_matching_eq split: result.splits store_error.splits prod.splits)

text \<open>
  C4. A connection that has failed blocks its profile for good: it is still tracked, with the same
  id and state, after any further calls, deactivating it is refused with \<open>InvalidState\<close>, and
  activating its profile by id is refused with \<open>AlreadyActive\<close>.
\<close>

theorem failed_connection_is_stuck:
  assumes "am_run eng store m es" "a \<in> set (am_active m)" "ac_state a = Failed"
  shows "(\<forall>es' m'. am_step eng store m es' m' \<longrightarrow> a \<in> set (am_active m')) \<and>
    am_deactivate eng m (ac_id a) = (Err (InvalidState (ac_id a) Failed), m) \<and>
    (\<forall>st d. so_get store st (cp_id (ac_profile a)) = Ok (ac_profile a) \<longrightarrow> matches (ac_profile a) d \<longrightarrow>
       am_activate_profile eng store st m (cp_id (ac_profile a)) d = (Err (AlreadyActive (cp_id (ac_profile a))), m))"
proof -
  have inv: "am_inv m" using run_keeps [OF assms(1)] by simp
  obtain k where k: "position (\<lambda>b. ac_id b = ac_id a) (am_active m) = Some k"
    using assms(2) by (metis (mono_tags, lifting) not_Some_eq position_eq_None)
  have "am_active m ! k = a"
    using position_Some [OF k] inv assms(2) unfolding am_inv_def
    by (metis (mono_tags, lifting) distinct_conv_nth in_set_conv_nth length_map nth_map)
  with k assms(3) have "am_deactivate eng m (ac_id a) = (Err (InvalidState (ac_id a) Failed), m)"
    by (simp add: am_deactivate_def Let_def)
  moreover have "am_is_active m (cp_id (ac_profile a))" using assms(2) by (auto simp: is_active_iff)
  ultimately show ?thesis
    using failed_step [OF _ inv assms(2,3)] by (auto simp: am_activate_profile_def)
qed

theorem failed_connection_is_stuck_witness:
  "\<exists>m (a :: active_connection). am_deactivate unsupported_engine m (ac_id a) = (Err (InvalidState (ac_id a) Failed), m) \<and>
     am_activate_profile unsupported_engine mem_store_ops wired_store m ''wired'' eth0 = (Err (AlreadyActive ''wired''), m)"
proof -
  let ?r = "Err (EngineErr unsupported_message)"
  let ?a = "attempted 1 wired eth0 ?r"
  let ?m = "snd (am_activate_profile unsupported_engine mem_store_ops wired_store (am_new ()) ''wired'' eth0)"
  have id: "cp_id wired = ''wired''" by (simp add: wired_def base_profile_def)
  have get: "so_get mem_store_ops wired_store ''wired'' = Ok wired"
    by (simp add: mem_store_ops_def mem_get_def wired_store_def)
  have m: "am_active ?m = [?a]"
    using wired_ok(2)
    by (simp add: am_activate_profile_def get am_is_active_def am_new_def am_activate_matching_eq
        unsupported_engine_def)
  have "am_run unsupported_engine mem_store_ops ?m ([] @ [])"
  proof (rule am_run.call [OF am_run.start], rule am_step.activate_profile)
    show "get_sound mem_store_ops wired_store" by (rule mem_get_sound [OF wired_store_inv])
    show "am_activate_profile unsupported_engine mem_store_ops wired_store (am_new ()) ''wired'' eth0 =
        (fst (am_activate_profile unsupported_engine mem_store_ops wired_store (am_new ()) ''wired'' eth0), ?m)"
      by simp
  qed (simp add: am_new_def)
  then have stuck: "am_deactivate unsupported_engine ?m (ac_id ?a) = (Err (InvalidState (ac_id ?a) Failed), ?m)"
    "\<forall>st d. so_get mem_store_ops st (cp_id (ac_profile ?a)) = Ok (ac_profile ?a) \<longrightarrow> matches (ac_profile ?a) d \<longrightarrow>
       am_activate_profile unsupported_engine mem_store_ops st ?m (cp_id (ac_profile ?a)) d =
         (Err (AlreadyActive (cp_id (ac_profile ?a))), ?m)"
    using failed_connection_is_stuck [of unsupported_engine mem_store_ops ?m "[] @ []" ?a] m
    by (simp_all add: attempted_def)
  have "am_activate_profile unsupported_engine mem_store_ops wired_store ?m ''wired'' eth0 = (Err (AlreadyActive ''wired''), ?m)"
    using stuck(2) [rule_format, of wired_store eth0] get wired_ok(2) id by (simp add: attempted_def)
  with stuck(1) show ?thesis by blast
qed

end
