(* ===== verification/Nm_Utf8.thy ===== *)
theory Nm_Utf8
  imports Nm_Prelude
begin

text \<open>
  The text conversions of the standard library that the parsers use: \<open>from_utf8_lossy\<close>, which
  replaces every maximal invalid prefix of a character by U+FFFD, and \<open>trim\<close>, which removes
  Unicode white space at both ends. A string is the list of its UTF-8 bytes.
\<close>

definition is_cont :: "u8 \<Rightarrow> bool" where
  "is_cont b \<longleftrightarrow> 0x80 \<le> b \<and> b \<le> 0xBF"

text \<open>The second bytes that may follow a lead byte of a three- or four-byte character.\<close>

definition second_ok :: "u8 \<Rightarrow> u8 \<Rightarrow> bool" where
  "second_ok lead b \<longleftrightarrow>
     (if lead = 0xE0 then 0xA0 \<le> b \<and> b \<le> 0xBF
      else if lead = 0xED then 0x80 \<le> b \<and> b \<le> 0x9F
      else if lead = 0xF0 then 0x90 \<le> b \<and> b \<le> 0xBF
      else if lead = 0xF4 then 0x80 \<le> b \<and> b \<le> 0x8F
      else is_cont b)"

text \<open>
  The first character of a byte string: whether it is valid, and how many bytes it or the invalid
  prefix takes. A missing byte reads as 0, which continues nothing.
\<close>

definition byte_or_0 :: "bytes \<Rightarrow> nat \<Rightarrow> u8" where
  "byte_or_0 bs i = (if i < length bs then bs ! i else 0)"

definition utf8_first :: "u8 \<Rightarrow> bytes \<Rightarrow> bool \<times> nat" where
  "utf8_first b bs =
     (let b1 = byte_or_0 bs 0; b2 = byte_or_0 bs 1; b3 = byte_or_0 bs 2 in
      if b < 0x80 then (True, 1)
      else if 0xC2 \<le> b \<and> b \<le> 0xDF then (if is_cont b1 then (True, 2) else (False, 1))
      else if 0xE0 \<le> b \<and> b \<le> 0xEF then
        (if \<not> second_ok b b1 then (False, 1)
         else if \<not> is_cont b2 then (False, 2) else (True, 3))
      else if 0xF0 \<le> b \<and> b \<le> 0xF4 then
        (if \<not> second_ok b b1 then (False, 1)
         else if \<not> is_cont b2 then (False, 2)
         else if \<not> is_cont b3 then (False, 3) else (True, 4))
      else (False, 1))"

definition replacement_character :: bytes where
  "replacement_character = [0xEF, 0xBF, 0xBD]"

lemma utf8_first_pos: "0 < snd (utf8_first b bs)"
  by (simp add: utf8_first_def Let_def)

fun utf8_chars :: "bytes \<Rightarrow> bytes list" where
  "utf8_chars [] = []"
| "utf8_chars (b # bs) =
     (case utf8_first b bs of (valid, n) \<Rightarrow>
        (if valid then take n (b # bs) else replacement_character) # utf8_chars (drop (n - 1) bs))"

definition from_utf8_lossy :: "bytes \<Rightarrow> string" where
  "from_utf8_lossy bs = bytes_string (concat (utf8_chars bs))"

definition is_whitespace :: "bytes \<Rightarrow> bool" where
  "is_whitespace c \<longleftrightarrow>
     c \<in> set [[9], [10], [11], [12], [13], [32], [0xC2, 0x85], [0xC2, 0xA0], [0xE1, 0x9A, 0x80],
             [0xE2, 0x80, 0xA8], [0xE2, 0x80, 0xA9], [0xE2, 0x80, 0xAF], [0xE2, 0x81, 0x9F], [0xE3, 0x80, 0x80]]
     \<or> (\<exists>n \<in> set [0..<11]. c = [0xE2, 0x80, 0x80 + of_nat n])"

definition trim :: "string \<Rightarrow> string" where
  "trim s = bytes_string (concat
     (rev (dropWhile is_whitespace (rev (dropWhile is_whitespace (utf8_chars (string_bytes s)))))))"

text \<open>ASCII text passes through unchanged.\<close>

definition is_ascii :: "u8 \<Rightarrow> bool" where
  "is_ascii b \<longleftrightarrow> b < 0x80"

lemma utf8_chars_ascii: "list_all is_ascii bs \<Longrightarrow> utf8_chars bs = map (\<lambda>b. [b]) bs"
  by (induction bs) (auto simp: utf8_first_def is_ascii_def)

lemma from_utf8_lossy_ascii: "list_all is_ascii bs \<Longrightarrow> from_utf8_lossy bs = bytes_string bs"
  by (simp add: from_utf8_lossy_def utf8_chars_ascii)

text \<open>No character of the result is empty, so converting never lengthens more than threefold.\<close>

lemma length_from_utf8_lossy: "length (from_utf8_lossy bs) \<le> 3 * length bs"
proof -
  have "length (concat (utf8_chars bs)) \<le> 3 * length bs"
  proof (induction bs rule: utf8_chars.induct)
    case (2 b bs)
    obtain v n where f: "utf8_first b bs = (v, n)" by fastforce
    then have "0 < n" using utf8_first_pos [of b bs] by simp
    with 2 [OF f [symmetric]] f show ?case by (cases v) (auto simp: replacement_character_def)
  qed simp
  then show ?thesis by (simp add: from_utf8_lossy_def)
qed

section \<open>Lines, splitting and decimal numbers\<close>

text \<open>\<open>str::split\<close> at a character and \<open>str::lines\<close>, which drops a final empty line and a carriage return.\<close>

fun split_char :: "char \<Rightarrow> string \<Rightarrow> string list" where
  "split_char c [] = [[]]"
| "split_char c (x # xs) = (if x = c then [] # split_char c xs
     else case split_char c xs of [] \<Rightarrow> [[x]] | l # ls \<Rightarrow> (x # l) # ls)"

definition strip_cr :: "string \<Rightarrow> string" where
  "strip_cr l = (if l \<noteq> [] \<and> last l = CHR 0x0D then butlast l else l)"

definition lines :: "string \<Rightarrow> string list" where
  "lines s = (let ls = split_char (CHR 0x0A) s in
     map strip_cr (if last ls = [] then butlast ls else ls))"

definition strip_prefix :: "string \<Rightarrow> string \<Rightarrow> string option" where
  "strip_prefix p s = (if take (length p) s = p then Some (drop (length p) s) else None)"

lemma strip_prefix_append [simp]: "strip_prefix p (p @ s) = Some s"
  by (simp add: strip_prefix_def)

lemma split_char_ne [simp]: "split_char c s \<noteq> []"
  by (induction s) (auto split: list.split)

lemma split_char_append:
  "c \<notin> set l \<Longrightarrow> split_char c (l @ c # s) = l # split_char c s"
  by (induction l) auto

lemma lines_Cons:
  assumes "CHR 0x0A \<notin> set l"
  shows "lines (l @ CHR 0x0A # s) = strip_cr l # lines s"
  by (simp add: lines_def Let_def split_char_append [OF assms])

text \<open>Decimal printing is injective: the digits give the number back.\<close>

definition decimal_value :: "string \<Rightarrow> nat" where
  "decimal_value s = foldl (\<lambda>a c. 10 * a + (of_char c - 48)) 0 s"

lemma decimal_value_show: "decimal_value (show_nat n) = n"
proof (induction n rule: show_nat.induct)
  case (1 n)
  have digit: "(of_char (char_of (48 + d) :: char) :: nat) = 48 + d" if "d < 10" for d :: nat
    using that by (simp add: of_char_of)
  show ?case
  proof (cases "n < 10")
    case True
    then show ?thesis by (subst show_nat.simps) (simp add: decimal_value_def digit)
  next
    case False
    with 1 have "foldl (\<lambda>a c. 10 * a + (of_char c - 48)) 0 (show_nat (n div 10)) = n div 10"
      by (simp add: decimal_value_def)
    with False show ?thesis
      by (subst show_nat.simps) (simp add: decimal_value_def digit)
  qed
qed

lemma show_nat_inj: "show_nat m = show_nat n \<longleftrightarrow> m = n"
  by (metis decimal_value_show)

end
