(* ===== verification/Nm_Dhcp_Packet.thy ===== *)
theory Nm_Dhcp_Packet
  imports Nm_Ip Nm_Utf8
begin

text \<open>
  The BOOTP/DHCP packet codec (\<^verbatim>\<open>src/linux/dhcp/packet.rs\<close>). Fixed-size arrays are
  byte lists whose lengths \<open>packet_wf\<close> states; every index and slice of the source is checked,
  so that the absence of panics is a theorem.
\<close>

section \<open>Data\<close>

abbreviation (input) OP_BOOTREQUEST :: u8 where "OP_BOOTREQUEST \<equiv> 1"
abbreviation (input) OP_BOOTREPLY :: u8 where "OP_BOOTREPLY \<equiv> 2"
abbreviation (input) HTYPE_ETHERNET :: u8 where "HTYPE_ETHERNET \<equiv> 1"
abbreviation (input) HLEN_ETHERNET :: u8 where "HLEN_ETHERNET \<equiv> 6"
abbreviation (input) FIXED_LENGTH :: nat where "FIXED_LENGTH \<equiv> 236"
abbreviation (input) OPTIONS_OFFSET :: nat where "OPTIONS_OFFSET \<equiv> 240"
abbreviation (input) OPTION_PAD :: u8 where "OPTION_PAD \<equiv> 0"
abbreviation (input) OPTION_SUBNET_MASK :: u8 where "OPTION_SUBNET_MASK \<equiv> 1"
abbreviation (input) OPTION_ROUTER :: u8 where "OPTION_ROUTER \<equiv> 3"
abbreviation (input) OPTION_DNS :: u8 where "OPTION_DNS \<equiv> 6"
abbreviation (input) OPTION_HOSTNAME :: u8 where "OPTION_HOSTNAME \<equiv> 12"
abbreviation (input) OPTION_DOMAIN_NAME :: u8 where "OPTION_DOMAIN_NAME \<equiv> 15"
abbreviation (input) OPTION_REQUESTED_IP :: u8 where "OPTION_REQUESTED_IP \<equiv> 50"
abbreviation (input) OPTION_LEASE_TIME :: u8 where "OPTION_LEASE_TIME \<equiv> 51"
abbreviation (input) OPTION_MESSAGE_TYPE :: u8 where "OPTION_MESSAGE_TYPE \<equiv> 53"
abbreviation (input) OPTION_SERVER_ID :: u8 where "OPTION_SERVER_ID \<equiv> 54"
abbreviation (input) OPTION_T1 :: u8 where "OPTION_T1 \<equiv> 58"
abbreviation (input) OPTION_T2 :: u8 where "OPTION_T2 \<equiv> 59"
abbreviation (input) OPTION_END :: u8 where "OPTION_END \<equiv> 255"

definition MAGIC_COOKIE :: bytes where
  "MAGIC_COOKIE = [0x63, 0x82, 0x53, 0x63]"

datatype dhcp_message_type =
    Discover | Offer | Request | Decline | Ack | Nak | Release | Inform | UnknownType u8

definition message_type_from_u8 :: "u8 \<Rightarrow> dhcp_message_type" where
  "message_type_from_u8 v =
     (if v = 1 then Discover else if v = 2 then Offer else if v = 3 then Request
      else if v = 4 then Decline else if v = 5 then Ack else if v = 6 then Nak
      else if v = 7 then Release else if v = 8 then Inform else UnknownType v)"

definition message_type_as_u8 :: "dhcp_message_type \<Rightarrow> u8" where
  "message_type_as_u8 t = (case t of
       Discover \<Rightarrow> 1 | Offer \<Rightarrow> 2 | Request \<Rightarrow> 3 | Decline \<Rightarrow> 4 | Ack \<Rightarrow> 5 | Nak \<Rightarrow> 6
     | Release \<Rightarrow> 7 | Inform \<Rightarrow> 8 | UnknownType v \<Rightarrow> v)"

type_synonym dhcp_option = "u8 \<times> bytes"

record dhcp_packet =
  pk_op :: u8
  pk_xid :: u32
  pk_flags :: u16
  pk_ciaddr :: bytes
  pk_yiaddr :: bytes
  pk_siaddr :: bytes
  pk_giaddr :: bytes
  pk_chaddr :: bytes
  pk_sname :: bytes
  pk_file :: bytes
  pk_options :: "dhcp_option list"

section \<open>Building and serializing\<close>

definition as_ipv4_addr :: "bytes \<Rightarrow> (ipv4_addr, dhcp_error thrown) result" where
  "as_ipv4_addr bs =
     and_then (byte_at bs 0) (\<lambda>a. and_then (byte_at bs 1) (\<lambda>b.
     and_then (byte_at bs 2) (\<lambda>c. and_then (byte_at bs 3) (\<lambda>d.
     Ok (ipv4_of_octets a b c d)))))"

definition base_packet :: "u8 \<Rightarrow> u32 \<Rightarrow> u16 \<Rightarrow> ipv4_addr \<Rightarrow> ipv4_addr \<Rightarrow> mac \<Rightarrow> dhcp_packet" where
  "base_packet op xid flags ciaddr yiaddr m =
     \<lparr> pk_op = op, pk_xid = xid, pk_flags = flags,
       pk_ciaddr = ipv4_octets ciaddr, pk_yiaddr = ipv4_octets yiaddr,
       pk_siaddr = replicate 4 0, pk_giaddr = replicate 4 0,
       pk_chaddr = m @ replicate 10 0, pk_sname = replicate 64 0, pk_file = replicate 128 0,
       pk_options = [] \<rparr>"

text \<open>\<open>value.len() as u8\<close> keeps the low eight bits of the length.\<close>

fun encode_options :: "dhcp_option list \<Rightarrow> bytes" where
  "encode_options [] = []"
| "encode_options ((code, v) # entries) =
     (if code = OPTION_PAD \<or> code = OPTION_END then encode_options entries
      else code # word_of_nat (length v) # v @ encode_options entries)"

definition build_options :: "dhcp_option list \<Rightarrow> bytes" where
  "build_options entries = encode_options entries @ [OPTION_END]"

definition serialize_with_options :: "dhcp_packet \<Rightarrow> dhcp_option list \<Rightarrow> bytes" where
  "serialize_with_options p extra_options =
     [pk_op p, HTYPE_ETHERNET, HLEN_ETHERNET, 0] @ to_be_bytes32 (pk_xid p) @ to_be_bytes16 0
     @ to_be_bytes16 (pk_flags p) @ pk_ciaddr p @ pk_yiaddr p @ pk_siaddr p @ pk_giaddr p
     @ pk_chaddr p @ pk_sname p @ pk_file p @ MAGIC_COOKIE
     @ build_options (pk_options p @ extra_options)"

definition serialize :: "dhcp_packet \<Rightarrow> bytes" where
  "serialize p = serialize_with_options p []"

definition build_discover :: "u32 \<Rightarrow> mac \<Rightarrow> string option \<Rightarrow> ipv4_addr option \<Rightarrow> bytes" where
  "build_discover xid m hostname requested =
     serialize_with_options (base_packet OP_BOOTREQUEST xid 0x8000 0 0 m)
       ([(OPTION_MESSAGE_TYPE, [message_type_as_u8 Discover])]
        @ (case hostname of None \<Rightarrow> [] | Some h \<Rightarrow> [(OPTION_HOSTNAME, string_bytes h)])
        @ (case requested of None \<Rightarrow> [] | Some a \<Rightarrow> [(OPTION_REQUESTED_IP, ipv4_octets a)]))"

definition build_request ::
  "u32 \<Rightarrow> mac \<Rightarrow> ipv4_addr option \<Rightarrow> ipv4_addr option \<Rightarrow> string option \<Rightarrow> bytes" where
  "build_request xid m requested server hostname =
     serialize_with_options (base_packet OP_BOOTREQUEST xid 0x8000 0 0 m)
       ([(OPTION_MESSAGE_TYPE, [message_type_as_u8 Request])]
        @ (case requested of None \<Rightarrow> [] | Some a \<Rightarrow> [(OPTION_REQUESTED_IP, ipv4_octets a)])
        @ (case server of None \<Rightarrow> [] | Some a \<Rightarrow> [(OPTION_SERVER_ID, ipv4_octets a)])
        @ (case hostname of None \<Rightarrow> [] | Some h \<Rightarrow> [(OPTION_HOSTNAME, string_bytes h)]))"

definition build_release :: "u32 \<Rightarrow> mac \<Rightarrow> ipv4_addr \<Rightarrow> ipv4_addr \<Rightarrow> bytes" where
  "build_release xid m addr server =
     serialize_with_options (base_packet OP_BOOTREQUEST xid 0 addr 0 m)
       [(OPTION_MESSAGE_TYPE, [message_type_as_u8 Release]), (OPTION_SERVER_ID, ipv4_octets server)]"

definition build_reply ::
  "dhcp_message_type \<Rightarrow> u32 \<Rightarrow> mac \<Rightarrow> ipv4_addr \<Rightarrow> dhcp_option list \<Rightarrow> bytes" where
  "build_reply t xid m yiaddr extra_options =
     serialize ((base_packet OP_BOOTREPLY xid 0 0 yiaddr m)
       \<lparr> pk_options := (OPTION_MESSAGE_TYPE, [message_type_as_u8 t]) # extra_options \<rparr>)"

section \<open>Parsing\<close>

function parse_options ::
  "bytes \<Rightarrow> nat \<Rightarrow> dhcp_option list \<Rightarrow> (dhcp_option list, dhcp_error thrown) result" where
  "parse_options bs offset options =
     (if \<not> offset < length bs then Ok options
      else and_then (byte_at bs offset) (\<lambda>code.
        if code = OPTION_END then Ok options
        else if code = OPTION_PAD then parse_options bs (offset + 1) options
        else if offset + 2 > length bs then
          Err (Raised (DhcpMalformedPacket ''truncated DHCP option header''))
        else and_then (byte_at bs (offset + 1)) (\<lambda>len.
          if offset + 2 + unat len > length bs then
            Err (Raised (DhcpMalformedPacket ''truncated DHCP option value''))
          else and_then (slice bs (offset + 2) (offset + 2 + unat len)) (\<lambda>v.
            parse_options bs (offset + 2 + unat len) (options @ [(code, v)])))))"
  by pat_completeness auto

termination
  by (relation "measure (\<lambda>(bs, offset, _). length bs - offset)") auto

declare parse_options.simps [simp del]

definition parse :: "bytes \<Rightarrow> (dhcp_packet, dhcp_error thrown) result" where
  "parse bs =
     (if length bs < OPTIONS_OFFSET then
        Err (Raised (DhcpMalformedPacket ''packet shorter than fixed header''))
      else and_then (slice bs 236 240) (\<lambda>cookie.
      if cookie \<noteq> MAGIC_COOKIE then Err (Raised (DhcpMalformedPacket ''missing DHCP magic cookie''))
      else and_then (parse_options bs OPTIONS_OFFSET []) (\<lambda>options.
        and_then (slice bs 28 44) (\<lambda>chaddr.
        and_then (slice bs 44 108) (\<lambda>sname.
        and_then (slice bs 108 236) (\<lambda>file.
        and_then (slice bs 12 16) (\<lambda>ciaddr.
        and_then (slice bs 16 20) (\<lambda>yiaddr.
        and_then (slice bs 20 24) (\<lambda>siaddr.
        and_then (slice bs 24 28) (\<lambda>giaddr.
        and_then (and_then (slice bs 4 8) from_be_bytes32) (\<lambda>xid.
        and_then (and_then (slice bs 10 12) from_be_bytes16) (\<lambda>flags.
        and_then (byte_at bs 0) (\<lambda>op.
          Ok \<lparr> pk_op = op, pk_xid = xid, pk_flags = flags, pk_ciaddr = ciaddr, pk_yiaddr = yiaddr,
               pk_siaddr = siaddr, pk_giaddr = giaddr, pk_chaddr = chaddr, pk_sname = sname,
               pk_file = file, pk_options = options \<rparr>)))))))))))))"

section \<open>Reading a packet\<close>

definition get_option :: "dhcp_packet \<Rightarrow> u8 \<Rightarrow> bytes option" where
  "get_option p code = map_option snd (List.find (\<lambda>(c, _). c = code) (pk_options p))"

definition message_type :: "dhcp_packet \<Rightarrow> dhcp_message_type" where
  "message_type p = (case get_option p OPTION_MESSAGE_TYPE of
       None \<Rightarrow> UnknownType 0
     | Some [] \<Rightarrow> UnknownType 0
     | Some (b # _) \<Rightarrow> message_type_from_u8 b)"

definition hardware_address :: "dhcp_packet \<Rightarrow> mac" where
  "hardware_address p = take 6 (pk_chaddr p)"

definition specified_addr :: "bytes \<Rightarrow> (ipv4_addr option, dhcp_error thrown) result" where
  "specified_addr bs = map_ok (\<lambda>a. if a = 0 then None else Some a) (as_ipv4_addr bs)"

definition pk_yiaddr_opt :: "dhcp_packet \<Rightarrow> (ipv4_addr option, dhcp_error thrown) result" where
  "pk_yiaddr_opt p = specified_addr (pk_yiaddr p)"

definition pk_ciaddr_opt :: "dhcp_packet \<Rightarrow> (ipv4_addr option, dhcp_error thrown) result" where
  "pk_ciaddr_opt p = specified_addr (pk_ciaddr p)"

definition source_address :: "dhcp_packet \<Rightarrow> (ipv4_addr option, dhcp_error thrown) result" where
  "source_address p = specified_addr (pk_siaddr p)"

text \<open>\<open>get_option(code).filter(len == 4).map(as_ipv4_addr)\<close> and the lists read with \<open>chunks_exact(4)\<close>.\<close>

definition ipv4_option :: "dhcp_packet \<Rightarrow> u8 \<Rightarrow> (ipv4_addr option, dhcp_error thrown) result" where
  "ipv4_option p code = (case get_option p code of
       None \<Rightarrow> Ok None
     | Some bs \<Rightarrow> if length bs = 4 then map_ok Some (as_ipv4_addr bs) else Ok None)"

definition ipv4_list_option :: "dhcp_packet \<Rightarrow> u8 \<Rightarrow> (ipv4_addr list, dhcp_error thrown) result" where
  "ipv4_list_option p code = (case get_option p code of
       None \<Rightarrow> Ok []
     | Some bs \<Rightarrow> collect_ok as_ipv4_addr (chunks4 bs))"

definition subnet_mask :: "dhcp_packet \<Rightarrow> (ipv4_addr option, dhcp_error thrown) result" where
  "subnet_mask p = ipv4_option p OPTION_SUBNET_MASK"

definition routers :: "dhcp_packet \<Rightarrow> (ipv4_addr list, dhcp_error thrown) result" where
  "routers p = ipv4_list_option p OPTION_ROUTER"

definition dns_servers :: "dhcp_packet \<Rightarrow> (ipv4_addr list, dhcp_error thrown) result" where
  "dns_servers p = ipv4_list_option p OPTION_DNS"

definition server_identifier :: "dhcp_packet \<Rightarrow> (ipv4_addr option, dhcp_error thrown) result" where
  "server_identifier p = ipv4_option p OPTION_SERVER_ID"

definition string_option :: "dhcp_packet \<Rightarrow> u8 \<Rightarrow> string option" where
  "string_option p code = map_option (\<lambda>bs.
     let end = (case position (\<lambda>b. b = 0) bs of None \<Rightarrow> length bs | Some i \<Rightarrow> i)
     in trim (from_utf8_lossy (take end bs))) (get_option p code)"

definition hostname :: "dhcp_packet \<Rightarrow> string option" where
  "hostname p = string_option p OPTION_HOSTNAME"

definition domain_name :: "dhcp_packet \<Rightarrow> string option" where
  "domain_name p = string_option p OPTION_DOMAIN_NAME"

definition u32_option :: "dhcp_packet \<Rightarrow> u8 \<Rightarrow> (u32 option, dhcp_error thrown) result" where
  "u32_option p code = (case get_option p code of
       None \<Rightarrow> Ok None
     | Some bs \<Rightarrow> if length bs = 4 then map_ok Some (from_be_bytes32 bs) else Ok None)"

definition lease_seconds :: "dhcp_packet \<Rightarrow> (u32 option, dhcp_error thrown) result" where
  "lease_seconds p = u32_option p OPTION_LEASE_TIME"

definition t1_seconds :: "dhcp_packet \<Rightarrow> (u32 option, dhcp_error thrown) result" where
  "t1_seconds p = u32_option p OPTION_T1"

definition t2_seconds :: "dhcp_packet \<Rightarrow> (u32 option, dhcp_error thrown) result" where
  "t2_seconds p = u32_option p OPTION_T2"

definition leading_ones :: "u8 \<Rightarrow> nat" where
  "leading_ones b = length (takeWhile (bit b) [7, 6, 5, 4, 3, 2, 1, 0])"

definition prefix_length_from_netmask :: "ipv4_addr \<Rightarrow> u8" where
  "prefix_length_from_netmask netmask =
     foldl (\<lambda>count b. count + word_of_nat (leading_ones b)) 0 (ipv4_octets netmask)"

definition classful_mask :: "ipv4_addr \<Rightarrow> ipv4_addr" where
  "classful_mask a =
     (let first = hd (ipv4_octets a) in
      if first < 128 then ipv4_of_octets 255 0 0 0
      else if first < 192 then ipv4_of_octets 255 255 0 0
      else ipv4_of_octets 255 255 255 0)"

definition to_lease ::
  "dhcp_packet \<Rightarrow> i32 \<Rightarrow> string \<Rightarrow> mac \<Rightarrow> (dhcp_lease, dhcp_error thrown) result" where
  "to_lease p interface_index interface_name m =
     and_then (pk_yiaddr_opt p) (\<lambda>yiaddr.
     and_then (ok_or yiaddr (Raised (DhcpMalformedPacket ''DHCPACK carried no address''))) (\<lambda>addr.
     if hardware_address p \<noteq> m then
       Err (Raised (DhcpMalformedPacket ''DHCPACK addressed to another client''))
     else and_then (subnet_mask p) (\<lambda>mask.
     (let netmask = (case mask of Some a \<Rightarrow> a | None \<Rightarrow> classful_mask addr) in
     and_then (routers p) (\<lambda>rs.
     and_then (dns_servers p) (\<lambda>dns.
     and_then (server_identifier p) (\<lambda>server.
     and_then (lease_seconds p) (\<lambda>lease.
     and_then (t1_seconds p) (\<lambda>t1.
     and_then (t2_seconds p) (\<lambda>t2.
       Ok \<lparr> dl_interface_index = interface_index, dl_interface_name = interface_name,
            dl_address = addr, dl_prefix_length = prefix_length_from_netmask netmask,
            dl_netmask = netmask, dl_gateway = (case rs of [] \<Rightarrow> None | r # _ \<Rightarrow> Some r),
            dl_dns_servers = dns,
            dl_search_domains = (case domain_name p of None \<Rightarrow> [] | Some d \<Rightarrow> [d]),
            dl_server_identifier = server, dl_lease_seconds = lease, dl_t1_seconds = t1,
            dl_t2_seconds = t2 \<rparr>))))))))))"

section \<open>Well-formed packets\<close>

definition option_ok :: "dhcp_option \<Rightarrow> bool" where
  "option_ok entry \<longleftrightarrow> fst entry \<noteq> OPTION_PAD \<and> fst entry \<noteq> OPTION_END \<and> length (snd entry) \<le> 255"

definition packet_wf :: "dhcp_packet \<Rightarrow> bool" where
  "packet_wf p \<longleftrightarrow> length (pk_ciaddr p) = 4 \<and> length (pk_yiaddr p) = 4 \<and> length (pk_siaddr p) = 4 \<and>
     length (pk_giaddr p) = 4 \<and> length (pk_chaddr p) = 16 \<and> length (pk_sname p) = 64 \<and>
     length (pk_file p) = 128"

lemma option_ok_pair [simp]: "option_ok (c, v) \<longleftrightarrow> c \<noteq> OPTION_PAD \<and> c \<noteq> OPTION_END \<and> length v \<le> 255"
  by (simp add: option_ok_def)

lemma as_ipv4_list [simp]: "as_ipv4_addr [a, b, c, d] = Ok (ipv4_of_octets a b c d)"
  by (simp add: as_ipv4_addr_def)

lemma as_ipv4_4: "length bs = 4 \<Longrightarrow> \<exists>a. as_ipv4_addr bs = Ok a \<and> ipv4_octets a = bs"
  by (auto simp: as_ipv4_def length_Suc_conv eval_nat_numeral)

lemma as_ipv4_octets [simp]: "as_ipv4_addr (ipv4_octets a) = Ok a"
  using as_ipv4_4 [of "ipv4_octets a"] by (auto simp: ipv4_octets_inj)

lemma base_packet_wf: "length m = 6 \<Longrightarrow> packet_wf (base_packet op xid fl ci yi m)"
  by (simp add: base_packet_def packet_wf_def)

lemma message_type_from_as: "message_type_from_u8 (message_type_as_u8 (message_type_from_u8 v)) = message_type_from_u8 v"
  by (simp add: message_type_from_u8_def message_type_as_u8_def)

subsection \<open>The option loop\<close>

lemma unat_length_255 [simp]: "n \<le> 255 \<Longrightarrow> unat (word_of_nat n :: u8) = n"
  by (simp add: unat_of_nat)

lemma parse_options_encode:
  "list_all option_ok es \<Longrightarrow>
     parse_options (pre @ encode_options es @ OPTION_END # junk) (length pre) acc = Ok (acc @ es)"
proof (induction es arbitrary: pre acc)
  case Nil
  then show ?case by (subst parse_options.simps) simp
next
  case (Cons e es)
  obtain c v where e: "e = (c, v)" by (cases e)
  with Cons.prems have ok: "c \<noteq> 0" "c \<noteq> 255" "length v \<le> 255" "list_all option_ok es"
    by auto
  let ?hd = "c # word_of_nat (length v) # v"
  have "parse_options (pre @ ?hd @ encode_options es @ 255 # junk) (length pre) acc =
      parse_options ((pre @ ?hd) @ encode_options es @ 255 # junk) (length (pre @ ?hd)) (acc @ [(c, v)])"
    using ok by (subst parse_options.simps) (simp add: nth_append)
  with Cons.IH [OF ok(4), of "pre @ ?hd" "acc @ [(c, v)]"] show ?case using ok by (simp add: e)
qed

lemma parse_options_not_panicked: "parse_options bs offset acc \<noteq> Err Panicked"
  by (induction bs offset acc rule: parse_options.induct) (subst parse_options.simps, auto)

lemma parse_options_sound:
  "parse_options bs offset acc = Ok os \<Longrightarrow> list_all option_ok acc \<Longrightarrow> list_all option_ok os"
proof (induction bs offset acc rule: parse_options.induct)
  case (1 bs offset acc)
  note prems = "1.prems"
  show ?case
  proof (cases "offset < length bs \<and> bs ! offset \<noteq> 255")
    case False
    with prems show ?thesis by (subst (asm) parse_options.simps) (auto split: if_splits)
  next
    case more: True
    show ?thesis
    proof (cases "bs ! offset = 0")
      case True
      with prems more have "parse_options bs (offset + 1) acc = Ok os"
        by (subst (asm) parse_options.simps) simp
      with "1.IH"(1) [of "bs ! offset"] prems(2) more True show ?thesis by simp
    next
      case False
      let ?n = "unat (bs ! (offset + 1))"
      let ?v = "take ?n (drop (offset + 2) bs)"
      have le: "\<not> length bs < offset + 2" "\<not> length bs < offset + 2 + ?n"
        and rest: "parse_options bs (offset + 2 + ?n) (acc @ [(bs ! offset, ?v)]) = Ok os"
        using prems more False by (subst (asm) parse_options.simps, auto split: if_splits)+
      have "?n \<le> 255" using unat_u8_less [of "bs ! (offset + 1)"] by linarith
      then have "list_all option_ok (acc @ [(bs ! offset, ?v)])"
        using prems(2) more False by (simp add: min.coboundedI2)
      with "1.IH"(2) [of "bs ! offset" "bs ! (offset + 1)" ?v] more False le rest show ?thesis
        by simp
    qed
  qed
qed

subsection \<open>Serializing and parsing\<close>

lemma to_be_bytes16_0: "to_be_bytes16 0 = [0, 0]"
  by (simp add: to_be_bytes16_def to_le_bytes16_def)

lemma parse_serialize_with_options:
  assumes wf: "packet_wf p" and ok: "list_all option_ok (pk_options p @ extra)"
  shows "parse (serialize_with_options p extra) = Ok (p\<lparr> pk_options := pk_options p @ extra \<rparr>)"
proof -
  let ?hdr = "[pk_op p, 1, 6, 0] @ to_be_bytes32 (pk_xid p) @ to_be_bytes16 0
     @ to_be_bytes16 (pk_flags p) @ pk_ciaddr p @ pk_yiaddr p @ pk_siaddr p @ pk_giaddr p
     @ pk_chaddr p @ pk_sname p @ pk_file p @ MAGIC_COOKIE"
  let ?bs = "serialize_with_options p extra"
  have bs: "?bs = ?hdr @ encode_options (pk_options p @ extra) @ 255 # []"
    by (simp add: serialize_with_options_def build_options_def)
  have len: "length ?hdr = 240" using wf by (simp add: packet_wf_def MAGIC_COOKIE_def)
  have opts: "parse_options ?bs 240 [] = Ok (pk_options p @ extra)"
    using parse_options_encode [OF ok, of ?hdr "[]" "[]"] unfolding bs len by simp
  have n: "\<not> length ?bs < 240" using wf by (simp add: bs packet_wf_def MAGIC_COOKIE_def)
  have fields: "slice ?bs 236 240 = Ok MAGIC_COOKIE" "slice ?bs 28 44 = Ok (pk_chaddr p)"
    "slice ?bs 44 108 = Ok (pk_sname p)" "slice ?bs 108 236 = Ok (pk_file p)"
    "slice ?bs 12 16 = Ok (pk_ciaddr p)" "slice ?bs 16 20 = Ok (pk_yiaddr p)"
    "slice ?bs 20 24 = Ok (pk_siaddr p)" "slice ?bs 24 28 = Ok (pk_giaddr p)"
    "slice ?bs 4 8 = Ok (to_be_bytes32 (pk_xid p))" "slice ?bs 10 12 = Ok (to_be_bytes16 (pk_flags p))"
    "byte_at ?bs 0 = Ok (pk_op p)"
    using wf unfolding bs
    by (simp_all add: slice_def byte_at_def packet_wf_def MAGIC_COOKIE_def to_be_bytes16_0)
  show ?thesis by (simp add: parse_def n fields opts)
qed

lemma parse_Ok_wf:
  assumes "parse bs = Ok p"
  shows "packet_wf p \<and> list_all option_ok (pk_options p)"
  using assms
  by (auto simp: parse_def packet_wf_def result_simps slice_eq_Ok parse_options_sound split: if_splits)

lemma parse_not_panicked: "parse bs \<noteq> Err Panicked"
proof (cases "length bs < 240")
  case True
  then show ?thesis by (simp add: parse_def)
next
  case False
  have "from_be_bytes32 (take 4 (drop 4 bs)) \<noteq> Err Panicked" "from_be_bytes16 (take 2 (drop 10 bs)) \<noteq> Err Panicked"
    using False by (auto intro!: be32c.dec_not_panicked be16c.dec_not_panicked)
  with False parse_options_not_panicked [of bs 240 "[]"] show ?thesis
    by (cases bs) (auto simp: parse_def result_simps byte_at_def simp del: length_Cons)
qed

subsection \<open>Deriving a lease\<close>

lemma specified_addr_4: "length bs = 4 \<Longrightarrow> specified_addr bs \<noteq> Err Panicked"
  using as_ipv4_4 [of bs] by (auto simp: specified_addr_def)

lemma ipv4_option_total: "\<exists>a. ipv4_option p code = Ok a"
  using as_ipv4_4 by (fastforce simp: ipv4_option_def split: option.splits)

lemma u32_option_total: "\<exists>a. u32_option p code = Ok a"
  using be32c.dec_total by (fastforce simp: u32_option_def split: option.splits)

lemma collect_as_ipv4: "\<exists>as. collect_ok as_ipv4_addr (chunks4 bs) = Ok as \<and> map ipv4_octets as = chunks4 bs"
proof (induction bs rule: chunks4.induct)
  case (1 a b c d xs)
  then obtain as where "collect_ok as_ipv4_addr (chunks4 xs) = Ok as" "map ipv4_octets as = chunks4 xs" by blast
  then show ?case by (intro exI [of _ "ipv4_of_octets a b c d # as"]) (simp add: as_ipv4_def)
qed auto

lemma ipv4_list_option_total: "\<exists>as. ipv4_list_option p code = Ok as"
  using collect_as_ipv4 by (fastforce simp: ipv4_list_option_def split: option.splits)

lemma chunks4_octets: "chunks4 (concat (map ipv4_octets as)) = map ipv4_octets as"
proof (induction as)
  case (Cons a as)
  show ?case by (rule ipv4_octets_cases [of a]) (simp add: Cons)
qed simp

lemma collect_octets: "collect_ok as_ipv4_addr (map ipv4_octets as) = Ok as"
  by (induction as) auto

lemma ipv4_list_option_octets:
  "get_option p code = Some (concat (map ipv4_octets as)) \<Longrightarrow> ipv4_list_option p code = Ok as"
  by (simp add: ipv4_list_option_def chunks4_octets collect_octets)

lemma ipv4_option_octets: "get_option p code = Some (ipv4_octets a) \<Longrightarrow> ipv4_option p code = Ok (Some a)"
  by (simp add: ipv4_option_def)

lemma u32_option_bytes: "get_option p code = Some (to_be_bytes32 n) \<Longrightarrow> u32_option p code = Ok (Some n)"
  by (simp add: u32_option_def)

lemma to_lease_not_panicked:
  assumes "packet_wf p"
  shows "to_lease p idx name m \<noteq> Err Panicked"
proof -
  have total: "ipv4_option p c \<noteq> Err Panicked" "ipv4_list_option p c \<noteq> Err Panicked" "u32_option p c \<noteq> Err Panicked" for c
    using ipv4_option_total [of p c] ipv4_list_option_total [of p c] u32_option_total [of p c] by auto
  have "pk_yiaddr_opt p \<noteq> Err Panicked"
    using assms specified_addr_4 by (simp add: pk_yiaddr_opt_def packet_wf_def)
  then show ?thesis
    unfolding to_lease_def subnet_mask_def routers_def dns_servers_def server_identifier_def lease_seconds_def
      t1_seconds_def t2_seconds_def Let_def
    by (intro and_then_not_panicked) (simp_all add: total result_simps and_then_not_panicked)
qed

section \<open>Properties\<close>



text \<open>
  C6. Parsing any bytes off the wire returns, without a panic, and a packet it accepts is well-formed
  with options that serialize faithfully, so that serializing it again and parsing gives the same
  packet.
\<close>

theorem dhcp_parse_total:
  "parse bs \<noteq> Err Panicked \<and>
   (case parse bs of Ok p \<Rightarrow> packet_wf p \<and> list_all option_ok (pk_options p) \<and> parse (serialize p) = Ok p
                   | Err e \<Rightarrow> True)"
proof (cases "parse bs")
  case (Ok p)
  then have "packet_wf p" "list_all option_ok (pk_options p)" using parse_Ok_wf by blast+
  with Ok show ?thesis using parse_serialize_with_options [of p "[]"] by (simp add: serialize_def)
next
  case (Err e)
  then show ?thesis using parse_not_panicked [of bs] by simp
qed

definition ack_options :: "ipv4_addr \<Rightarrow> ipv4_addr \<Rightarrow> ipv4_addr list \<Rightarrow> ipv4_addr list \<Rightarrow> u32 \<Rightarrow> dhcp_option list" where
  "ack_options server nm rs dns secs =
     [(54, ipv4_octets server), (1, ipv4_octets nm), (3, concat (map ipv4_octets rs)),
      (6, concat (map ipv4_octets dns)), (51, to_be_bytes32 secs)]"

definition ack_packet :: "u32 \<Rightarrow> mac \<Rightarrow> ipv4_addr \<Rightarrow> dhcp_option list \<Rightarrow> dhcp_packet" where
  "ack_packet xid m addr opts =
     (base_packet OP_BOOTREPLY xid 0 0 addr m)\<lparr> pk_options := (53, [message_type_as_u8 Ack]) # opts \<rparr>"

lemma length_concat_octets [simp]: "length (concat (map ipv4_octets as)) = 4 * length as"
  by (induction as) auto

lemma parse_ack:
  assumes "length m = 6" "length rs \<le> 63" "length dns \<le> 63"
  shows "parse (build_reply Ack xid m addr (ack_options server nm rs dns secs)) =
    Ok (ack_packet xid m addr (ack_options server nm rs dns secs))"
proof -
  let ?p = "ack_packet xid m addr (ack_options server nm rs dns secs)"
  have "packet_wf ?p" using assms by (simp add: ack_packet_def packet_wf_def base_packet_def)
  moreover have "list_all option_ok (pk_options ?p)"
    using assms by (simp add: ack_packet_def ack_options_def)
  ultimately show ?thesis
    using parse_serialize_with_options [of ?p "[]"] by (simp add: build_reply_def serialize_def ack_packet_def)
qed

lemma ack_options_read:
  assumes "length m = 6" "p = ack_packet xid m addr (ack_options server nm rs dns secs)"
  shows "subnet_mask p = Ok (Some nm)" "routers p = Ok rs" "dns_servers p = Ok dns"
    "server_identifier p = Ok (Some server)" "lease_seconds p = Ok (Some secs)"
    "t1_seconds p = Ok None" "t2_seconds p = Ok None" "domain_name p = None"
    "hardware_address p = m" "message_type p = Ack" "pk_xid p = xid" "pk_yiaddr p = ipv4_octets addr"
  using assms
  by (simp_all add: subnet_mask_def routers_def dns_servers_def server_identifier_def lease_seconds_def
      t1_seconds_def t2_seconds_def domain_name_def string_option_def hardware_address_def message_type_def
      message_type_as_u8_def message_type_from_u8_def ipv4_option_def ipv4_list_option_def u32_option_def
      get_option_def ack_packet_def ack_options_def base_packet_def chunks4_octets collect_octets)

text \<open>
  C7. The acknowledgement a server builds is read back by the client as the lease it grants: the
  address, the mask and its prefix length, the first router as the gateway, the DNS servers in order,
  the server and the lease time; and reading a lease off a packet for another client is refused.
\<close>

theorem dhcp_ack_gives_lease:
  assumes "length m = 6" "length rs \<le> 63" "length dns \<le> 63" "addr \<noteq> 0"
  shows "\<exists>p. parse (build_reply Ack xid m addr (ack_options server nm rs dns secs)) = Ok p \<and>
    message_type p = Ack \<and> pk_xid p = xid \<and>
    to_lease p idx name m = Ok \<lparr> dl_interface_index = idx, dl_interface_name = name, dl_address = addr,
      dl_prefix_length = prefix_length_from_netmask nm, dl_netmask = nm,
      dl_gateway = (case rs of [] \<Rightarrow> None | r # _ \<Rightarrow> Some r), dl_dns_servers = dns, dl_search_domains = [],
      dl_server_identifier = Some server, dl_lease_seconds = Some secs, dl_t1_seconds = None,
      dl_t2_seconds = None \<rparr> \<and>
    (\<forall>m'. m' \<noteq> m \<longrightarrow> to_lease p idx name m' =
       Err (Raised (DhcpMalformedPacket ''DHCPACK addressed to another client'')))"
proof -
  note read = ack_options_read [OF assms(1) refl, of xid addr server nm rs dns secs]
  have y: "pk_yiaddr_opt (ack_packet xid m addr (ack_options server nm rs dns secs)) = Ok (Some addr)"
    using assms(4) read(12) by (simp add: pk_yiaddr_opt_def specified_addr_def)
  show ?thesis
    using parse_ack [OF assms(1-3)]
    by (intro exI [of _ "ack_packet xid m addr (ack_options server nm rs dns secs)"])
       (simp add: to_lease_def read y Let_def)
qed

theorem dhcp_ack_gives_lease_witness:
  "\<exists>p. parse (build_reply Ack 7 [1, 2, 3, 4, 5, 6] (ipv4_of_octets 10 0 0 5)
        (ack_options (ipv4_of_octets 10 0 0 1) (ipv4_of_octets 255 255 255 0) [ipv4_of_octets 10 0 0 1]
           [ipv4_of_octets 1 1 1 1] 3600)) = Ok p \<and> message_type p = Ack"
proof -
  have "ipv4_of_octets 10 0 0 5 \<noteq> 0" by code_simp
  then show ?thesis
    using dhcp_ack_gives_lease [of "[1, 2, 3, 4, 5, 6]" "[ipv4_of_octets 10 0 0 1]" "[ipv4_of_octets 1 1 1 1]"
        "ipv4_of_octets 10 0 0 5" 7 "ipv4_of_octets 10 0 0 1" "ipv4_of_octets 255 255 255 0" 3600 1 "''eth0''"]
    by auto
qed

definition contiguous_mask :: "nat \<Rightarrow> ipv4_addr" where
  "contiguous_mask n = push_bit (32 - n) (mask n)"

text \<open>
  The prefix length of a contiguous netmask is the number of its set bits; of the mask
  255.0.255.0, which is not contiguous, it is 16, where the count of leading set bits is 8.
\<close>

theorem netmask_prefix_length:
  "(\<forall>n \<in> {..32}. prefix_length_from_netmask (contiguous_mask n) = of_nat n) \<and>
   prefix_length_from_netmask (ipv4_of_octets 255 0 255 0) = 16"
proof -
  have "list_all (\<lambda>n. prefix_length_from_netmask (contiguous_mask n) = of_nat n) [0..<33]" by code_simp
  moreover have "prefix_length_from_netmask (ipv4_of_octets 255 0 255 0) = 16" by code_simp
  ultimately show ?thesis by (auto simp: list_all_iff)
qed

theorem netmask_prefix_length_witness: "prefix_length_from_netmask (contiguous_mask 24) = of_nat 24"
  using netmask_prefix_length by simp

end
