(* ===== verification/Nm_Dhcp_Client.thy ===== *)
theory Nm_Dhcp_Client
  imports Nm_Dhcp_Packet Nm_Fs
begin

text \<open>
  The DHCPv4 client (\<^verbatim>\<open>src/linux/dhcp/mod.rs\<close>) over a scripted operating system: the
  answers of the system calls are data of the state, the open descriptors and the datagrams sent are
  logged. The script of \<open>poll\<close>/\<open>recvfrom\<close> gives, for each turn of the waiting loop, the
  clock, the result of \<open>poll\<close> and the datagram; the loop may outlive the script, so waiting
  returns an option and \<open>None\<close> means that it has not returned yet. Instants and durations are
  in nanoseconds.
\<close>

section \<open>The operating system\<close>

datatype poll_result = PollReady | PollTimeout | PollError io_error

record wait_turn =
  wt_now :: nat
  wt_poll :: poll_result
  wt_recv :: "(bytes, io_error) result"

record dhcp_os =
  os_fs :: fs
  os_nanos :: nat
  os_pid :: u32
  os_socket :: "(nat, io_error) result"
  os_setsockopt :: "nat \<Rightarrow> bytes \<Rightarrow> io_error option"
  os_bind :: "io_error option"
  os_now :: nat
  os_sendto :: "nat \<Rightarrow> (nat, io_error) result"
  os_turns :: "wait_turn list"
  os_open :: "nat list"
  os_sent :: "(bytes \<times> u16 \<times> bytes) list"

definition BOOTP_SERVER_PORT :: u16 where "BOOTP_SERVER_PORT = 67"

definition BROADCAST :: bytes where "BROADCAST = [255, 255, 255, 255]"

definition os_close :: "nat \<Rightarrow> dhcp_os \<Rightarrow> dhcp_os" where
  "os_close fd w = w\<lparr> os_open := remove1 fd (os_open w) \<rparr>"

section \<open>Helpers\<close>

text \<open>\<open>u8::from_str_radix(part, 16)\<close>: an optional plus sign, then hexadecimal digits up to 255.\<close>

definition hex_value :: "char \<Rightarrow> nat option" where
  "hex_value c = (let n = (of_char c :: nat) in
     if 48 \<le> n \<and> n \<le> 57 then Some (n - 48)
     else if 65 \<le> n \<and> n \<le> 70 then Some (n - 55)
     else if 97 \<le> n \<and> n \<le> 102 then Some (n - 87) else None)"

fun radix16_digits :: "nat \<Rightarrow> string \<Rightarrow> nat option" where
  "radix16_digits acc [] = Some acc"
| "radix16_digits acc (c # cs) = (case hex_value c of
       None \<Rightarrow> None
     | Some d \<Rightarrow> if acc * 16 + d > 255 then None else radix16_digits (acc * 16 + d) cs)"

definition u8_from_hex :: "string \<Rightarrow> u8 option" where
  "u8_from_hex s =
     (let digits = (case s of c # cs \<Rightarrow> if c = CHR ''+'' then cs else s | [] \<Rightarrow> []) in
      if digits = [] then None else map_option word_of_nat (radix16_digits 0 digits))"

fun mac_parts :: "nat \<Rightarrow> string list \<Rightarrow> (bytes, dhcp_error thrown) result" where
  "mac_parts 0 parts = Ok []"
| "mac_parts (Suc n) [] = Err (Raised (DhcpMalformedPacket ''invalid mac address format''))"
| "mac_parts (Suc n) (part # parts) = (case u8_from_hex part of
       None \<Rightarrow> Err (Raised (DhcpMalformedPacket ''invalid mac address format''))
     | Some b \<Rightarrow> map_ok ((#) b) (mac_parts n parts))"

definition read_mac_address :: "fs \<Rightarrow> string \<Rightarrow> (mac, dhcp_error thrown) result" where
  "read_mac_address w interface_name =
     and_then (map_err (\<lambda>e. Raised (DhcpIo e))
                (fs_read_to_string w (''/sys/class/net/'' @ interface_name @ ''/address'')))
       (\<lambda>contents. mac_parts 6 (split_char (CHR '':'') (trim contents)))"

definition transaction_id :: "dhcp_os \<Rightarrow> u32" where
  "transaction_id w = word_of_nat (os_nanos w) XOR word_rotl 16 (os_pid w)"

definition send_packet ::
  "dhcp_os \<Rightarrow> bytes \<Rightarrow> u16 \<Rightarrow> bytes \<Rightarrow> (unit, dhcp_error thrown) result \<times> dhcp_os" where
  "send_packet w bs port addr = (case os_sendto w (length (os_sent w)) of
       Err e \<Rightarrow> (Err (Raised (DhcpIo e)), w)
     | Ok sent \<Rightarrow>
         (let w' = w\<lparr> os_sent := os_sent w @ [(bs, port, addr)] \<rparr> in
          if sent \<noteq> length bs then (Err (Raised (DhcpMalformedPacket ''short DHCP send'')), w')
          else (Ok (), w')))"

text \<open>
  The waiting loop: on each turn the deadline, \<open>poll\<close>, \<open>recvfrom\<close> and the packet are
  checked; interruptions, empty datagrams, unparsable ones and those of other transactions are
  skipped.
\<close>

fun wait_turns ::
  "u32 \<Rightarrow> string \<Rightarrow> nat \<Rightarrow> wait_turn list \<Rightarrow> ((dhcp_packet, dhcp_error thrown) result \<times> wait_turn list) option" where
  "wait_turns xid name deadline [] = None"
| "wait_turns xid name deadline (t # ts) =
     (if wt_now t \<ge> deadline then Some (Err (Raised (DhcpTimeout name)), ts)
      else case wt_poll t of
        PollError e \<Rightarrow>
          (if io_kind e = IoInterrupted then wait_turns xid name deadline ts
           else Some (Err (Raised (DhcpIo e)), ts))
      | PollTimeout \<Rightarrow> Some (Err (Raised (DhcpTimeout name)), ts)
      | PollReady \<Rightarrow> (case wt_recv t of
            Err e \<Rightarrow>
              (if io_kind e = IoInterrupted then wait_turns xid name deadline ts
               else Some (Err (Raised (DhcpIo e)), ts))
          | Ok bs \<Rightarrow>
              (if bs = [] then wait_turns xid name deadline ts
               else case parse bs of
                 Ok p \<Rightarrow> (if pk_xid p = xid then Some (Ok p, ts) else wait_turns xid name deadline ts)
               | Err (Raised _) \<Rightarrow> wait_turns xid name deadline ts
               | Err Panicked \<Rightarrow> Some (Err Panicked, ts))))"

definition wait_for_packet ::
  "dhcp_os \<Rightarrow> u32 \<Rightarrow> string \<Rightarrow> nat \<Rightarrow> ((dhcp_packet, dhcp_error thrown) result \<times> dhcp_os) option" where
  "wait_for_packet w xid name deadline =
     map_option (\<lambda>(r, ts). (r, w\<lparr> os_turns := ts \<rparr>)) (wait_turns xid name deadline (os_turns w))"

section \<open>The client\<close>

abbreviation (input) SO_REUSEADDR :: nat where "SO_REUSEADDR \<equiv> 2"
abbreviation (input) SO_BROADCAST :: nat where "SO_BROADCAST \<equiv> 6"
abbreviation (input) SO_BINDTODEVICE :: nat where "SO_BINDTODEVICE \<equiv> 25"

definition open_socket :: "dhcp_os \<Rightarrow> string \<Rightarrow> (nat, dhcp_error thrown) result \<times> dhcp_os" where
  "open_socket w interface_name = (case os_socket w of
       Err e \<Rightarrow> (Err (Raised (DhcpIo e)), w)
     | Ok fd \<Rightarrow>
         (let w1 = w\<lparr> os_open := fd # os_open w \<rparr> in
          case os_setsockopt w SO_REUSEADDR (to_le_bytes32 1) of
            Some e \<Rightarrow> (Err (Raised (DhcpIo e)), w1)
          | None \<Rightarrow> (case os_setsockopt w SO_BROADCAST (to_le_bytes32 1) of
              Some e \<Rightarrow> (Err (Raised (DhcpIo e)), w1)
            | None \<Rightarrow> (case os_setsockopt w SO_BINDTODEVICE (string_bytes interface_name @ [0]) of
                Some e \<Rightarrow> (Err (Raised (DhcpIo e)), w1)
              | None \<Rightarrow> (case os_bind w of
                  Some e \<Rightarrow> (Err (Raised (DhcpIo e)), os_close fd w1)
                | None \<Rightarrow> (Ok fd, w1))))))"

text \<open>After the acknowledgement has arrived.\<close>

definition finish_acquire ::
  "dhcp_os \<Rightarrow> nat \<Rightarrow> dhcp_request \<Rightarrow> mac \<Rightarrow> dhcp_packet \<Rightarrow> (dhcp_lease, dhcp_error thrown) result \<times> dhcp_os" where
  "finish_acquire w fd request m ack = (case message_type ack of
       Ack \<Rightarrow>
         (case to_lease ack (dr_interface_index request) (dr_interface_name request) m of
            Err e \<Rightarrow> (Err e, w)
          | Ok lease \<Rightarrow> (Ok lease, os_close fd w))
     | Nak \<Rightarrow> (Err (Raised (DhcpMalformedPacket ''server returned DHCPNAK'')), os_close fd w)
     | _ \<Rightarrow> (Err (Raised (DhcpMalformedPacket ''expected a DHCPACK in response to REQUEST'')), os_close fd w))"

text \<open>The request that confirms an offer, and the wait for its answer.\<close>

definition confirm_offer ::
  "dhcp_os \<Rightarrow> nat \<Rightarrow> u32 \<Rightarrow> nat \<Rightarrow> dhcp_request \<Rightarrow> mac \<Rightarrow> dhcp_packet \<Rightarrow>
     ((dhcp_lease, dhcp_error thrown) result \<times> dhcp_os) option" where
  "confirm_offer w fd xid deadline request m offer =
     (if message_type offer \<noteq> Offer then
        Some (Err (Raised (DhcpMalformedPacket ''expected a DHCPOFFER in response to DISCOVER'')), os_close fd w)
      else case pk_yiaddr_opt offer of
        Err e \<Rightarrow> Some (Err e, w)
      | Ok offered_address \<Rightarrow>
          if offered_address = None \<or> offered_address = Some 0 then
            Some (Err (Raised (DhcpMalformedPacket ''DHCPOFFER carried no usable address'')), os_close fd w)
          else case server_identifier offer of
            Err e \<Rightarrow> Some (Err e, w)
          | Ok identifier \<Rightarrow>
            (case (case identifier of Some a \<Rightarrow> Ok (Some a) | None \<Rightarrow> source_address offer) of
               Err e \<Rightarrow> Some (Err e, w)
             | Ok server \<Rightarrow>
               (case send_packet w (build_request xid m offered_address server (dr_hostname request))
                       BOOTP_SERVER_PORT BROADCAST of
                  (Err e, w1) \<Rightarrow> Some (Err e, w1)
                | (Ok _, w1) \<Rightarrow>
                  (case wait_for_packet w1 xid (dr_interface_name request) deadline of
                     None \<Rightarrow> None
                   | Some (Err e, w2) \<Rightarrow> Some (Err e, w2)
                   | Some (Ok ack, w2) \<Rightarrow> Some (finish_acquire w2 fd request m ack)))))"

definition acquire ::
  "duration \<Rightarrow> dhcp_os \<Rightarrow> dhcp_request \<Rightarrow> ((dhcp_lease, dhcp_error thrown) result \<times> dhcp_os) option" where
  "acquire timeout w request = (case read_mac_address (os_fs w) (dr_interface_name request) of
       Err e \<Rightarrow> Some (Err e, w)
     | Ok m \<Rightarrow>
         (let xid = transaction_id w in
          case open_socket w (dr_interface_name request) of
            (Err e, w1) \<Rightarrow> Some (Err e, w1)
          | (Ok fd, w1) \<Rightarrow>
              (let effective_timeout = (if dr_timeout request = 0 then timeout else dr_timeout request);
                   deadline = os_now w1 + effective_timeout in
               case send_packet w1 (build_discover xid m (dr_hostname request) (dr_requested_address request))
                      BOOTP_SERVER_PORT BROADCAST of
                 (Err e, w2) \<Rightarrow> Some (Err e, w2)
               | (Ok _, w2) \<Rightarrow>
                   (case wait_for_packet w2 xid (dr_interface_name request) deadline of
                      None \<Rightarrow> None
                    | Some (Err e, w3) \<Rightarrow> Some (Err e, w3)
                    | Some (Ok offer, w3) \<Rightarrow> confirm_offer w3 fd xid deadline request m offer))))"

definition release :: "dhcp_os \<Rightarrow> dhcp_lease \<Rightarrow> (unit, dhcp_error thrown) result \<times> dhcp_os" where
  "release w lease = (case read_mac_address (os_fs w) (dl_interface_name lease) of
       Err e \<Rightarrow> (Err e, w)
     | Ok m \<Rightarrow>
         (let xid = transaction_id w in
          case open_socket w (dl_interface_name lease) of
            (Err e, w1) \<Rightarrow> (Err e, w1)
          | (Ok fd, w1) \<Rightarrow>
              (let server = (case dl_server_identifier lease of Some a \<Rightarrow> a | None \<Rightarrow> - 1);
                   (result, w2) = send_packet w1 (build_release xid m (dl_address lease) server)
                                    BOOTP_SERVER_PORT (ipv4_octets server)
               in (result, os_close fd w2))))"

section \<open>The waiting loop\<close>

text \<open>
  What a returned wait has seen: a packet comes from a datagram of the transaction that arrived before
  the deadline, and the turns left include every turn at or after the deadline.
\<close>

lemma wait_turns_Cons_Ok:
  assumes "wait_turns xid name deadline (t # ts) = Some (Ok p, ts')"
  obtains bs where "wt_now t < deadline" "wt_recv t = Ok bs" "parse bs = Ok p" "pk_xid p = xid" "ts' = ts"
  | "wt_now t < deadline" "wait_turns xid name deadline ts = Some (Ok p, ts')"
  using assms by (auto simp: not_le split: if_splits poll_result.splits result.splits thrown.splits)

lemma wait_turns_packet:
  "wait_turns xid name deadline ts = Some (Ok p, ts') \<Longrightarrow>
     pk_xid p = xid \<and> packet_wf p \<and> (\<exists>t bs. t \<in> set ts \<and> wt_now t < deadline \<and> wt_recv t = Ok bs \<and> parse bs = Ok p)"
proof (induction ts)
  case (Cons t ts)
  from Cons.prems show ?case
  proof (cases rule: wait_turns_Cons_Ok)
    case (1 bs)
    then show ?thesis using parse_Ok_wf [OF 1(3)] by auto
  next
    case 2
    with Cons.IH show ?thesis by auto
  qed
qed simp

lemma wait_turns_leaves:
  "wait_turns xid name deadline ts = Some (Ok p, ts') \<Longrightarrow> t \<in> set ts \<Longrightarrow> deadline \<le> wt_now t \<Longrightarrow> t \<in> set ts'"
proof (induction ts)
  case (Cons t' ts)
  from Cons.prems(1) show ?case
    by (cases rule: wait_turns_Cons_Ok) (use Cons in auto)
qed simp

lemma wait_turns_returns:
  "t \<in> set ts \<Longrightarrow> deadline \<le> wt_now t \<Longrightarrow> wait_turns xid name deadline ts \<noteq> None"
proof (induction xid name deadline ts rule: wait_turns.induct)
  case (2 xid name deadline t' ts)
  then show ?case
    by (auto split: poll_result.splits result.splits thrown.splits)
qed simp

lemma wait_turns_not_panicked: "wait_turns xid name deadline ts \<noteq> Some (Err Panicked, ts')"
proof (induction xid name deadline ts rule: wait_turns.induct)
  case (2 xid name deadline t ts)
  then show ?case
    by (auto simp: parse_not_panicked split: poll_result.splits result.splits thrown.splits)
qed simp

lemma wait_for_packet_Ok:
  assumes "wait_for_packet w xid name deadline = Some (Ok p, w')"
  shows "pk_xid p = xid" "packet_wf p" "os_open w' = os_open w" "os_sent w' = os_sent w"
    "\<exists>ts. w' = w\<lparr> os_turns := ts \<rparr> \<and> wait_turns xid name deadline (os_turns w) = Some (Ok p, ts)"
  using assms wait_turns_packet by (auto simp: wait_for_packet_def)

lemma send_packet_Ok:
  "send_packet w bs port addr = (Ok u, w') \<longleftrightarrow>
     os_sendto w (length (os_sent w)) = Ok (length bs) \<and> w' = w\<lparr> os_sent := os_sent w @ [(bs, port, addr)] \<rparr>"
  by (auto simp: send_packet_def Let_def split: result.splits)

lemma open_socket_Ok:
  "open_socket w name = (Ok fd, w') \<Longrightarrow> w' = w\<lparr> os_open := fd # os_open w \<rparr> \<and> os_socket w = Ok fd"
  by (auto simp: open_socket_def Let_def split: result.splits option.splits)

section \<open>A successful exchange\<close>

lemma finish_acquire_Ok:
  "finish_acquire w fd request m ack = (Ok lease, w') \<longleftrightarrow> message_type ack = Ack \<and>
     to_lease ack (dr_interface_index request) (dr_interface_name request) m = Ok lease \<and> w' = os_close fd w"
  by (auto simp: finish_acquire_def split: dhcp_message_type.splits result.splits)

lemma pk_yiaddr_opt_Some:
  "packet_wf p \<Longrightarrow> pk_yiaddr_opt p = Ok (Some a) \<Longrightarrow> a \<noteq> 0 \<and> pk_yiaddr p = ipv4_octets a"
  using as_ipv4_4 [of "pk_yiaddr p"]
  by (auto simp: pk_yiaddr_opt_def specified_addr_def packet_wf_def split: if_splits)

lemma confirm_offer_Ok:
  assumes "confirm_offer w fd xid deadline request m offer = Some (Ok lease, w')" "packet_wf offer"
  shows "\<exists>addr server ack w1. message_type offer = Offer \<and> addr \<noteq> 0 \<and> pk_yiaddr offer = ipv4_octets addr \<and>
    w1 = w\<lparr> os_sent := os_sent w @ [(build_request xid m (Some addr) server (dr_hostname request), BOOTP_SERVER_PORT, BROADCAST)] \<rparr> \<and>
    (\<exists>w2. wait_for_packet w1 xid (dr_interface_name request) deadline = Some (Ok ack, w2) \<and> w' = os_close fd w2) \<and>
    message_type ack = Ack \<and> to_lease ack (dr_interface_index request) (dr_interface_name request) m = Ok lease"
  using assms pk_yiaddr_opt_Some [OF assms(2)]
  by (auto simp: confirm_offer_def finish_acquire_Ok send_packet_Ok
      split: if_splits result.splits option.splits prod.splits)

lemma os_close_open [simp]: "os_open (os_close fd w) = remove1 fd (os_open w)" "os_sent (os_close fd w) = os_sent w"
  by (simp_all add: os_close_def)

lemma acquire_Ok_steps:
  assumes "acquire timeout w request = Some (Ok lease, w')"
  obtains m fd w2 offer w3 where
    "read_mac_address (os_fs w) (dr_interface_name request) = Ok m" "os_socket w = Ok fd"
    "w2 = w\<lparr> os_open := fd # os_open w,
       os_sent := os_sent w @ [(build_discover (transaction_id w) m (dr_hostname request) (dr_requested_address request),
                                BOOTP_SERVER_PORT, BROADCAST)] \<rparr>"
    "wait_for_packet w2 (transaction_id w) (dr_interface_name request)
       (os_now w + (if dr_timeout request = 0 then timeout else dr_timeout request)) = Some (Ok offer, w3)"
    "confirm_offer w3 fd (transaction_id w)
       (os_now w + (if dr_timeout request = 0 then timeout else dr_timeout request)) request m offer = Some (Ok lease, w')"
  using assms
  by (fastforce simp: acquire_def Let_def send_packet_Ok
      split: result.splits prod.splits option.splits dest!: open_socket_Ok)

section \<open>Properties\<close>

text \<open>A system on which the exchange succeeds: the server offers and acknowledges 10.0.0.5.\<close>

definition example_turn :: "bytes \<Rightarrow> wait_turn" where
  "example_turn bs = \<lparr> wt_now = 0, wt_poll = PollReady, wt_recv = Ok bs \<rparr>"

definition example_os :: dhcp_os where
  "example_os = (let m = [2, 0, 0, 0, 0, 1]; a = ipv4_of_octets 10 0 0 5; srv = ipv4_of_octets 10 0 0 1 in
     \<lparr> os_fs = \<lparr> fs_files = [(''/sys/class/net/eth0/address'', ''02:00:00:00:00:01'')],
         fs_read_fault = (\<lambda>_. None), fs_write_fault = (\<lambda>_. None), fs_rename_fault = (\<lambda>_. None),
         fs_remove_fault = (\<lambda>_. None), fs_list_fault = (\<lambda>_. None) \<rparr>,
       os_nanos = 7, os_pid = 0, os_socket = Ok 3, os_setsockopt = (\<lambda>_ _. None), os_bind = None, os_now = 0,
       os_sendto = (\<lambda>n. Ok (if n = 0 then length (build_discover 7 m None None)
                           else length (build_request 7 m (Some a) (Some srv) None))),
       os_turns = [example_turn (build_reply Offer 7 m a [(54, ipv4_octets srv)]),
                   example_turn (build_reply Ack 7 m a [(54, ipv4_octets srv)]),
                   \<lparr> wt_now = 5, wt_poll = PollTimeout, wt_recv = Ok [] \<rparr>],
       os_open = [], os_sent = [] \<rparr>)"

definition example_request :: dhcp_request where
  "example_request = \<lparr> dr_interface_index = 2, dr_interface_name = ''eth0'', dr_hostname = None,
     dr_requested_address = None, dr_timeout = 0 \<rparr>"

lemma example_acquired:
  "case acquire 4 example_os example_request of
     Some (Ok lease, w') \<Rightarrow> dl_address lease = ipv4_of_octets 10 0 0 5 | _ \<Rightarrow> False"
  by code_simp



text \<open>
  C11. \<open>acquire\<close> does return: when the clock reaches the deadline on some turn of the waiting loop,
  however many interruptions, malformed datagrams and foreign transactions come before it.
\<close>

theorem acquire_returns:
  assumes "t \<in> set (os_turns w)"
    and "os_now w + (if dr_timeout request = 0 then timeout else dr_timeout request) \<le> wt_now t"
  shows "\<exists>r w'. acquire timeout w request = Some (r, w')"
proof -
  let ?d = "os_now w + (if dr_timeout request = 0 then timeout else dr_timeout request)"
  have wait: "\<exists>r w'. wait_for_packet v x n ?d = Some (r, w') \<and> (is_ok r \<longrightarrow> t \<in> set (os_turns w'))"
    if t: "t \<in> set (os_turns v)" for v x n
  proof -
    obtain r ts where r: "wait_turns x n ?d (os_turns v) = Some (r, ts)"
      using wait_turns_returns [OF t assms(2)] by fastforce
    then show ?thesis
      using wait_turns_leaves [OF _ t assms(2)] by (cases r) (auto simp: wait_for_packet_def)
  qed
  have conf: "\<exists>r w'. confirm_offer v fd x ?d request m offer = Some (r, w')" if t: "t \<in> set (os_turns v)" for v fd x m offer
  proof -
    have keep: "os_turns v' = os_turns v" if "send_packet v bs port a = (r, v')" for bs port a r v'
      using that by (auto simp: send_packet_def Let_def split: result.splits if_splits)
    show ?thesis
      using wait keep t by (auto simp: confirm_offer_def split: result.split option.split prod.split) (metis option.distinct(1))+
  qed
  show ?thesis
  proof (cases "read_mac_address (os_fs w) (dr_interface_name request)")
    case (Err e)
    then show ?thesis by (simp add: acquire_def)
  next
    case (Ok m)
    obtain rs w1 where os: "open_socket w (dr_interface_name request) = (rs, w1)" by fastforce
    show ?thesis
    proof (cases rs)
      case (Err e)
      with Ok os show ?thesis by (simp add: acquire_def Let_def)
    next
      case fd: (Ok fd)
      with os have w1: "os_now w1 = os_now w" "os_turns w1 = os_turns w" using open_socket_Ok by force+
      obtain r2 w2 where sp: "send_packet w1 (build_discover (transaction_id w) m (dr_hostname request) (dr_requested_address request))
          BOOTP_SERVER_PORT BROADCAST = (r2, w2)" by fastforce
      then have "t \<in> set (os_turns w2)"
        using assms(1) w1 by (auto simp: send_packet_def Let_def split: result.splits if_splits)
      from wait [OF this] obtain r3 w3 where r3: "wait_for_packet w2 (transaction_id w) (dr_interface_name request) ?d = Some (r3, w3)"
        "is_ok r3 \<longrightarrow> t \<in> set (os_turns w3)" by blast
      show ?thesis
        using Ok os fd w1 sp r3 conf
        by (cases r2; cases r3) (auto simp: acquire_def Let_def)
    qed
  qed
qed


theorem acquire_returns_witness: "\<exists>r w'. acquire 4 example_os example_request = Some (r, w')"
  by (rule acquire_returns [of "\<lparr> wt_now = 5, wt_poll = PollTimeout, wt_recv = Ok [] \<rparr>"])
     (simp_all add: example_os_def example_request_def Let_def)

text \<open>
  C12. A timed-out exchange leaks its socket: when the DISCOVER has been sent and the wait for the
  answer ends in an error, \<open>acquire\<close> returns that error with the descriptor still open.
\<close>

theorem acquire_leaks_socket_on_timeout:
  assumes "read_mac_address (os_fs w) (dr_interface_name request) = Ok m"
    and "open_socket w (dr_interface_name request) = (Ok fd, w1)"
    and "send_packet w1 (build_discover (transaction_id w) m (dr_hostname request) (dr_requested_address request))
           BOOTP_SERVER_PORT BROADCAST = (Ok (), w2)"
    and "wait_for_packet w2 (transaction_id w) (dr_interface_name request)
           (os_now w1 + (if dr_timeout request = 0 then timeout else dr_timeout request)) = Some (Err e, w3)"
  shows "acquire timeout w request = Some (Err e, w3) \<and> os_open w3 = fd # os_open w"
proof
  show "acquire timeout w request = Some (Err e, w3)" using assms by (simp add: acquire_def Let_def)
  have "os_open w3 = os_open w2" using assms(4) by (auto simp: wait_for_packet_def)
  then show "os_open w3 = fd # os_open w" using assms(3) open_socket_Ok [OF assms(2)] by (simp add: send_packet_Ok)
qed

theorem acquire_leaks_socket_on_timeout_witness:
  "\<exists>w3. acquire 0 example_os example_request = Some (Err (Raised (DhcpTimeout ''eth0'')), w3) \<and> os_open w3 = [3]"
proof -
  let ?w1 = "example_os\<lparr> os_open := [3] \<rparr>"
  let ?bs = "build_discover 7 [2, 0, 0, 0, 0, 1] None None"
  let ?w2 = "?w1\<lparr> os_sent := [(?bs, BOOTP_SERVER_PORT, BROADCAST)] \<rparr>"
  have xid: "transaction_id example_os = 7" by code_simp
  have m: "read_mac_address (os_fs example_os) (dr_interface_name example_request) = Ok [2, 0, 0, 0, 0, 1]"
    by code_simp
  have o1: "open_socket example_os (dr_interface_name example_request) = (Ok 3, ?w1)"
    by (simp add: open_socket_def example_os_def Let_def)
  have o2: "send_packet ?w1 (build_discover (transaction_id example_os) [2, 0, 0, 0, 0, 1]
      (dr_hostname example_request) (dr_requested_address example_request)) BOOTP_SERVER_PORT BROADCAST = (Ok (), ?w2)"
    by (simp add: send_packet_Ok xid example_request_def) (simp add: example_os_def Let_def)
  have o3: "\<exists>w3. wait_for_packet ?w2 (transaction_id example_os) (dr_interface_name example_request)
      (os_now ?w1 + (if dr_timeout example_request = 0 then 0 else dr_timeout example_request)) =
      Some (Err (Raised (DhcpTimeout ''eth0'')), w3)"
    by (simp add: wait_for_packet_def example_request_def example_os_def example_turn_def Let_def)
  then obtain w3 where w3: "wait_for_packet ?w2 (transaction_id example_os) (dr_interface_name example_request)
      (os_now ?w1 + (if dr_timeout example_request = 0 then 0 else dr_timeout example_request)) =
      Some (Err (Raised (DhcpTimeout ''eth0'')), w3)" by blast
  have "os_open example_os = []" by (simp add: example_os_def Let_def)
  with acquire_leaks_socket_on_timeout [OF m o1 o2 w3] show ?thesis by auto
qed

text \<open>
  Releasing a lease closes the socket it opened whether or not the datagram could be sent, and
  what it sends is one RELEASE for the leased address to the server of the lease, or to the broadcast
  address when the lease names no server.
\<close>

theorem release_closes_socket:
  assumes "read_mac_address (os_fs w) (dl_interface_name lease) = Ok m"
    and "open_socket w (dl_interface_name lease) = (Ok fd, w1)" "release w lease = (r, w')"
  shows "os_open w' = os_open w \<and>
    (r = Ok () \<longrightarrow> os_sent w' = os_sent w @ [(build_release (transaction_id w) m (dl_address lease)
       (case dl_server_identifier lease of Some a \<Rightarrow> a | None \<Rightarrow> - 1), BOOTP_SERVER_PORT,
       ipv4_octets (case dl_server_identifier lease of Some a \<Rightarrow> a | None \<Rightarrow> - 1))])"
  using assms open_socket_Ok [OF assms(2)]
  by (auto simp: release_def Let_def send_packet_def split: result.splits if_splits)

definition example_lease :: dhcp_lease where
  "example_lease = \<lparr> dl_interface_index = 2, dl_interface_name = ''eth0'', dl_address = 5, dl_prefix_length = 24,
     dl_netmask = 0, dl_gateway = None, dl_dns_servers = [], dl_search_domains = [], dl_server_identifier = None,
     dl_lease_seconds = None, dl_t1_seconds = None, dl_t2_seconds = None \<rparr>"

theorem release_closes_socket_witness: "os_open (snd (release example_os example_lease)) = []"
proof -
  have m: "read_mac_address (os_fs example_os) (dl_interface_name example_lease) = Ok [2, 0, 0, 0, 0, 1]"
    by code_simp
  have o1: "open_socket example_os (dl_interface_name example_lease) = (Ok 3, example_os\<lparr> os_open := [3] \<rparr>)"
    by (simp add: open_socket_def example_os_def Let_def)
  have "os_open example_os = []" by (simp add: example_os_def Let_def)
  with release_closes_socket [OF m o1, of "fst (release example_os example_lease)" "snd (release example_os example_lease)"]
  show ?thesis by simp
qed

end
