(* ===== verification/Nm_Dns.thy ===== *)
theory Nm_Dns
  imports Nm_Fs Nm_Ip Nm_Utf8
begin

text \<open>
  The DNS manager (\<^verbatim>\<open>src/linux/dns.rs\<close>) over the file system of \<open>Nm_Fs\<close>: it writes
  a marked \<^verbatim>\<open>resolv.conf\<close> and leaves files of other owners alone. The path of the file
  names it directly (no trailing separator); the process id is a parameter.
\<close>

section \<open>Addresses as text\<close>

definition ipv4_string :: "ipv4_addr \<Rightarrow> string" where
  "ipv4_string a = (case map show_word (ipv4_octets a) of
     ds \<Rightarrow> ds ! 0 @ ''.'' @ ds ! 1 @ ''.'' @ ds ! 2 @ ''.'' @ ds ! 3)"

text \<open>
  \<open>Display\<close> of an \<open>Ipv6Addr\<close>: mapped IPv4 addresses in dotted form, otherwise the eight
  segments in hexadecimal with the first longest run of at least two zeros written as two colons.
\<close>

definition ipv6_segments :: "ipv6_addr \<Rightarrow> nat list" where
  "ipv6_segments a = map (\<lambda>i. unat (ucast (drop_bit (112 - 16 * i) a) :: u16)) [0..<8]"

fun show_hex :: "nat \<Rightarrow> string" where
  "show_hex n = (if n < 16 then [hex_digit n] else show_hex (n div 16) @ [hex_digit (n mod 16)])"

declare show_hex.simps [simp del]

text \<open>Scan for the longest run of zeros: the current and the longest run as start and length.\<close>

fun longest_zeros :: "nat \<Rightarrow> nat \<times> nat \<Rightarrow> nat \<times> nat \<Rightarrow> nat list \<Rightarrow> nat \<times> nat" where
  "longest_zeros i current longest [] = longest"
| "longest_zeros i (cs, cl) (ls, ll) (s # segs) =
     (if s = 0 then
        (let cs' = (if cl = 0 then i else cs); cl' = cl + 1;
             best = (if cl' > ll then (cs', cl') else (ls, ll))
         in longest_zeros (Suc i) (cs', cl') best segs)
      else longest_zeros (Suc i) (0, 0) (ls, ll) segs)"

fun join_with :: "string \<Rightarrow> string list \<Rightarrow> string" where
  "join_with sep [] = []"
| "join_with sep [x] = x"
| "join_with sep (x # y # xs) = x @ sep @ join_with sep (y # xs)"

definition ipv6_string :: "ipv6_addr \<Rightarrow> string" where
  "ipv6_string a =
     (if drop_bit 32 a = 0xFFFF then ''::ffff:'' @ ipv4_string (ucast a)
      else let segs = ipv6_segments a; (start, len) = longest_zeros 0 (0, 0) (0, 0) segs in
        if len > 1 then join_with '':'' (map show_hex (take start segs)) @ ''::''
                        @ join_with '':'' (map show_hex (drop (start + len) segs))
        else join_with '':'' (map show_hex segs))"

section \<open>Ownership and contents\<close>

definition SENTINEL_PREFIX :: string where
  "SENTINEL_PREFIX = ''# nmd-owned owner=''"

definition parse_owner :: "string \<Rightarrow> string option" where
  "parse_owner content =
     (case map_option trim (find_map (strip_prefix SENTINEL_PREFIX) (lines content)) of
        None \<Rightarrow> None | Some owner \<Rightarrow> if owner = [] then None else Some owner)"

definition read_owner :: "string \<Rightarrow> fs \<Rightarrow> (string option, dns_error) result" where
  "read_owner path w = (case fs_read_to_string w path of
       Ok content \<Rightarrow> Ok (parse_owner content)
     | Err err \<Rightarrow> if io_kind err = IoNotFound then Ok None else Err (DnsIo err))"

definition dns_serialize :: "dns_config \<Rightarrow> string" where
  "dns_serialize config =
     (if dc_search_domains config = [] then []
      else ''search '' @ join_with '' '' (dc_search_domains config) @ [CHR 0x0A])
     @ concat (map (\<lambda>server. ''nameserver '' @
         (case server of V4Addr a \<Rightarrow> ipv4_string a | V6Addr a \<Rightarrow> ipv6_string a) @ [CHR 0x0A])
         (dc_servers config))"

section \<open>The atomic write\<close>

definition path_file_name :: "string \<Rightarrow> string" where
  "path_file_name path = rev (takeWhile (\<lambda>c. c \<noteq> CHR ''/'') (rev path))"

definition path_parent :: "string \<Rightarrow> string" where
  "path_parent path =
     (let before = rev (dropWhile (\<lambda>c. c \<noteq> CHR ''/'') (rev path)) in
      if before = [] then [] else if before = ''/'' then ''/'' else butlast before)"

definition temporary_name :: "string \<Rightarrow> nat \<Rightarrow> nat \<Rightarrow> string" where
  "temporary_name path pid counter =
     path_join (path_parent path)
       (''.'' @ path_file_name path @ ''.tmp'' @ show_nat pid
        @ (if counter = 0 then [] else ''.'' @ show_nat counter))"

lemma temporary_name_inj: "temporary_name path pid i = temporary_name path pid j \<longleftrightarrow> i = j"
  by (auto simp: temporary_name_def path_join_def show_nat_inj)

lemma finite_existing: "finite {p. fs_is_file w p}"
proof -
  have "{p. fs_is_file w p} \<subseteq> fst ` set (fs_files w)"
    by (auto simp: fs_is_file_def fs_lookup_def dest!: map_of_SomeD) (metis fst_conv image_eqI)
  then show ?thesis by (rule finite_subset) simp
qed

lemma finite_taken: "finite {k. c \<le> k \<and> fs_is_file w (temporary_name path pid k)}"
proof (rule finite_imageD)
  show "finite (temporary_name path pid ` {k. c \<le> k \<and> fs_is_file w (temporary_name path pid k)})"
    by (rule finite_subset [OF _ finite_existing [of w]]) auto
  show "inj_on (temporary_name path pid) {k. c \<le> k \<and> fs_is_file w (temporary_name path pid k)}"
    by (rule inj_onI) (simp add: temporary_name_inj)
qed

text \<open>The loop that looks for a free temporary name; it ends since the file system is finite.\<close>

function free_temporary :: "fs \<Rightarrow> string \<Rightarrow> nat \<Rightarrow> nat \<Rightarrow> string" where
  "free_temporary w path pid counter =
     (if fs_is_file w (temporary_name path pid counter) then free_temporary w path pid (counter + 1)
      else temporary_name path pid counter)"
  by pat_completeness auto

termination
proof (relation "measure (\<lambda>(w, path, pid, c). card {k. c \<le> k \<and> fs_is_file w (temporary_name path pid k)})")
  fix w path pid c
  let ?taken = "\<lambda>c. {k. c \<le> k \<and> fs_is_file w (temporary_name path pid k)}"
  assume "fs_is_file w (temporary_name path pid c)"
  moreover have "?taken (c + 1) = ?taken c - {c}" by auto
  ultimately have "card (?taken (c + 1)) < card (?taken c)"
    using card_Diff1_less [OF finite_taken [of c w path pid], of c] by simp
  then show "((w, path, pid, c + 1), (w, path, pid, c)) \<in>
      measure (\<lambda>(w, path, pid, c). card {k. c \<le> k \<and> fs_is_file w (temporary_name path pid k)})"
    by simp
qed simp

declare free_temporary.simps [simp del]

definition write_atomic :: "nat \<Rightarrow> string \<Rightarrow> fs \<Rightarrow> string \<Rightarrow> (unit, dns_error) result \<times> fs" where
  "write_atomic pid path w contents =
     (let temporary = free_temporary w path pid 0 in
      case fs_write w temporary contents of
        (Err e, w1) \<Rightarrow> (Err (DnsIo e), w1)
      | (Ok _, w1) \<Rightarrow>
          (case fs_rename w1 temporary path of
             (Ok _, w2) \<Rightarrow> (Ok (), w2)
           | (Err e, w2) \<Rightarrow> (Err (DnsIo e), snd (fs_remove_file w2 temporary))))"

section \<open>The manager\<close>

definition marked :: "string \<Rightarrow> dns_config \<Rightarrow> string" where
  "marked owner config = SENTINEL_PREFIX @ owner @ [CHR 0x0A] @ dns_serialize config"

definition dns_apply ::
  "nat \<Rightarrow> string \<Rightarrow> fs \<Rightarrow> string \<Rightarrow> dns_config \<Rightarrow> (dns_ownership, dns_error) result \<times> fs" where
  "dns_apply pid path w owner config =
     (if owner = [] then (Err (DnsInvalidConfig ''owner must not be empty''), w)
      else case read_owner path w of
        Err e \<Rightarrow> (Err e, w)
      | Ok existing \<Rightarrow>
          (let foreign = (case existing of
                 Some e \<Rightarrow> e \<noteq> owner
               | None \<Rightarrow> (case fs_read_to_string w path of
                     Ok content \<Rightarrow> list_ex (\<lambda>line. trim line \<noteq> []) (lines content)
                   | Err _ \<Rightarrow> False))
           in if foreign then (Err (DnsForeignManaged path), w)
              else case write_atomic pid path w (marked owner config) of
                (Err e, w1) \<Rightarrow> (Err e, w1)
              | (Ok _, w1) \<Rightarrow> (Ok \<lparr> do_owner = owner, do_path = path \<rparr>, w1)))"

definition dns_remove :: "string \<Rightarrow> fs \<Rightarrow> dns_ownership \<Rightarrow> (unit, dns_error) result \<times> fs" where
  "dns_remove path w ownership = (case read_owner path w of
       Err e \<Rightarrow> (Err e, w)
     | Ok None \<Rightarrow> (Ok (), w)
     | Ok (Some existing) \<Rightarrow>
         if existing = do_owner ownership then (Ok (), snd (fs_remove_file w path))
         else (Err (DnsForeignManaged path), w))"

definition linux_dns_manager :: "nat \<Rightarrow> string \<Rightarrow> fs dns_manager" where
  "linux_dns_manager pid path = \<lparr> dnm_apply = dns_apply pid path, dnm_remove = dns_remove path \<rparr>"

section \<open>What the atomic write guarantees\<close>

lemma free_temporary_name: "\<exists>k. free_temporary w path pid c = temporary_name path pid k"
  by (induction w path pid c rule: free_temporary.induct) (metis free_temporary.simps)

lemma free_temporary_free: "\<not> fs_is_file w (free_temporary w path pid c)"
proof (induction w path pid c rule: free_temporary.induct)
  case (1 w path pid c)
  then show ?case by (subst free_temporary.simps) simp
qed

lemma temporary_not_path:
  assumes "path_file_name path \<noteq> []"
  shows "temporary_name path pid k \<noteq> path"
proof
  define n where "n = ''.'' @ path_file_name path @ ''.tmp'' @ show_nat pid @ (if k = 0 then [] else ''.'' @ show_nat k)"
  assume "temporary_name path pid k = path"
  moreover have "temporary_name path pid k = path_join (path_parent path) n"
    by (simp add: temporary_name_def n_def)
  ultimately have "length (path_join (path_parent path) n) = length path" by simp
  moreover have "length n \<le> length (path_join (path_parent path) n)" by (simp add: path_join_def)
  moreover have "length (path_parent path) + length n \<le> length (path_join (path_parent path) n)"
    by (simp add: path_join_def n_def)
  moreover have "length path \<le> length (path_parent path) + 1 + length (path_file_name path)"
  proof -
    define d where "d = dropWhile (\<lambda>c. c \<noteq> CHR ''/'') (rev path)"
    have "length path = length (takeWhile (\<lambda>c. c \<noteq> CHR ''/'') (rev path)) + length d"
      unfolding d_def by (metis length_append length_rev takeWhile_dropWhile_id)
    moreover have "length d \<le> length (path_parent path) + 1"
      unfolding path_parent_def Let_def d_def [symmetric] by auto
    ultimately show ?thesis by (simp add: path_file_name_def)
  qed
  ultimately show False by (simp add: n_def)
qed

text \<open>
  Whatever faults occur, the file at the path is the old one or, after a success, the complete new
  one, and no other file than a temporary one changes.
\<close>

lemma write_atomic_cases:
  assumes name: "path_file_name path \<noteq> []" and run: "write_atomic pid path w t = (r, w')"
  shows "(r = Ok () \<and> fs_lookup w' path = Some t \<and> (\<forall>q. q \<noteq> path \<longrightarrow> fs_lookup w' q = fs_lookup w q)) \<or>
    ((\<exists>e. r = Err (DnsIo e)) \<and> fs_lookup w' path = fs_lookup w path \<and>
     (\<forall>q. fs_is_file w q \<longrightarrow> fs_lookup w' q = fs_lookup w q))"
proof -
  let ?t = "free_temporary w path pid 0"
  have ne: "?t \<noteq> path" using free_temporary_name temporary_not_path [OF name] by metis
  have free: "fs_lookup w ?t = None" using free_temporary_free [of w path pid 0] by (simp add: fs_is_file_def)
  show ?thesis
  proof (cases "fs_write_fault w ?t")
    case None
    then have w1: "fs_write w ?t t = (Ok (), fs_put ?t t w)" by (simp add: fs_write_def)
    show ?thesis
    proof (cases "fs_rename_fault w ?t")
      case None
      with w1 run have "r = Ok ()" "w' = fs_put path t (fs_del ?t (fs_put ?t t w))"
        by (auto simp: write_atomic_def Let_def fs_rename_def)
      with ne free show ?thesis by simp
    next
      case (Some e)
      with w1 run have "r = Err (DnsIo e)" "w' = snd (fs_remove_file (fs_put ?t t w) ?t)"
        by (auto simp: write_atomic_def Let_def fs_rename_def)
      with ne free show ?thesis by (auto simp: fs_remove_file_def fs_is_file_def split: option.splits)
    qed
  next
    case (Some f)
    then obtain e part where f: "fs_write_fault w ?t = Some (e, part)" by (cases f) auto
    with run have "r = Err (DnsIo e)" "w' = w \<or> (\<exists>x. w' = fs_put ?t x w)"
      by (auto simp: write_atomic_def Let_def fs_write_def split: option.splits)
    with ne free show ?thesis by (auto simp: fs_is_file_def)
  qed
qed

section \<open>Reading back the owner\<close>

text \<open>An owner that survives the round trip: one line that trimming leaves alone.\<close>

definition owner_ok :: "string \<Rightarrow> bool" where
  "owner_ok owner \<longleftrightarrow> owner \<noteq> [] \<and> trim owner = owner \<and> CHR 0x0A \<notin> set owner \<and> strip_cr owner = owner"

lemma strip_cr_append: "l \<noteq> [] \<Longrightarrow> strip_cr (p @ l) = p @ strip_cr l"
  by (simp add: strip_cr_def butlast_append)

lemma parse_owner_marked:
  assumes "owner_ok owner"
  shows "parse_owner (marked owner config) = Some owner"
proof -
  have "CHR 0x0A \<notin> set (SENTINEL_PREFIX @ owner)"
    using assms by (simp add: owner_ok_def SENTINEL_PREFIX_def)
  then have "lines (marked owner config) = strip_cr (SENTINEL_PREFIX @ owner) # lines (dns_serialize config)"
    using lines_Cons [of "SENTINEL_PREFIX @ owner" "dns_serialize config"] by (simp add: marked_def)
  moreover have "strip_cr (SENTINEL_PREFIX @ owner) = SENTINEL_PREFIX @ owner"
    using assms by (simp add: owner_ok_def strip_cr_append)
  ultimately show ?thesis using assms by (simp add: parse_owner_def owner_ok_def)
qed

section \<open>Properties\<close>

definition resolv_path :: string where
  "resolv_path = ''/etc/resolv.conf''"

definition empty_fs :: fs where
  "empty_fs = \<lparr> fs_files = [], fs_read_fault = (\<lambda>_. None), fs_write_fault = (\<lambda>_. None),
     fs_rename_fault = (\<lambda>_. None), fs_remove_fault = (\<lambda>_. None), fs_list_fault = (\<lambda>_. None) \<rparr>"

lemma resolv_name: "path_file_name resolv_path \<noteq> []"
  by (simp add: path_file_name_def resolv_path_def)

lemma wired_owner_ok: "owner_ok ''wired''"
  by code_simp

lemma dns_apply_cases:
  assumes "path_file_name path \<noteq> []" "dns_apply pid path w owner config = (r, w')"
  shows "(\<exists>e. r = Err e) \<and> fs_lookup w' path = fs_lookup w path \<and>
      (\<forall>q. fs_is_file w q \<longrightarrow> fs_lookup w' q = fs_lookup w q) \<or>
    r = Ok \<lparr> do_owner = owner, do_path = path \<rparr> \<and> fs_lookup w' path = Some (marked owner config) \<and>
      (\<forall>q. q \<noteq> path \<longrightarrow> fs_lookup w' q = fs_lookup w q)"
proof -
  obtain r1 w1 where wa: "write_atomic pid path w (marked owner config) = (r1, w1)" by fastforce
  have "w' = w \<and> (\<exists>e. r = Err e) \<or> w' = w1 \<and> r = map_ok (\<lambda>_. \<lparr> do_owner = owner, do_path = path \<rparr>) r1"
    using assms(2) wa unfolding dns_apply_def Let_def
    by (cases r1) (auto split: if_splits result.splits option.splits)
  with write_atomic_cases [OF assms(1) wa] show ?thesis by auto
qed

definition no_dns :: dns_config where
  "no_dns = \<lparr> dc_search_domains = [], dc_servers = [] \<rparr>"

definition wired_resolv :: fs where
  "wired_resolv = (let t = free_temporary empty_fs resolv_path 42 0; m = marked ''wired'' no_dns
     in fs_put resolv_path m (fs_del t (fs_put t m empty_fs)))"

lemma dns_apply_empty:
  "dns_apply 42 resolv_path empty_fs ''wired'' no_dns = (Ok \<lparr> do_owner = ''wired'', do_path = resolv_path \<rparr>, wired_resolv)"
proof -
  let ?t = "free_temporary empty_fs resolv_path 42 0" and ?m = "marked ''wired'' no_dns"
  have "fs_write empty_fs ?t ?m = (Ok (), fs_put ?t ?m empty_fs)"
    by (simp add: fs_write_def empty_fs_def)
  moreover have "fs_rename (fs_put ?t ?m empty_fs) ?t resolv_path = (Ok (), wired_resolv)"
    by (simp add: fs_rename_def wired_resolv_def Let_def) (simp add: empty_fs_def)
  moreover have "read_owner resolv_path empty_fs = Ok None" "fs_read_to_string empty_fs resolv_path = Err no_such_file"
    by (simp_all add: read_owner_def fs_read_to_string_def fs_lookup_def empty_fs_def no_such_file_def)
  ultimately show ?thesis by (simp add: dns_apply_def write_atomic_def Let_def)
qed

text \<open>
  C8. Applying a DNS configuration is atomic under every pattern of I/O faults: on success the file
  holds exactly the marked configuration and no other file has changed; on an error the file, and
  every file that existed, is what it was.
\<close>

theorem dns_apply_is_atomic:
  assumes "path_file_name path \<noteq> []" "dns_apply pid path w owner config = (r, w')"
  shows "case r of
      Ok own \<Rightarrow> own = \<lparr> do_owner = owner, do_path = path \<rparr> \<and> fs_lookup w' path = Some (marked owner config) \<and>
        (\<forall>q. q \<noteq> path \<longrightarrow> fs_lookup w' q = fs_lookup w q)
    | Err e \<Rightarrow> fs_lookup w' path = fs_lookup w path \<and> (\<forall>q. fs_is_file w q \<longrightarrow> fs_lookup w' q = fs_lookup w q)"
  using dns_apply_cases [OF assms] by (cases r) auto

theorem dns_apply_is_atomic_witness:
  "fs_lookup wired_resolv resolv_path = Some (marked ''wired'' no_dns) \<and> fs_lookup wired_resolv ''/etc/hosts'' = None"
  using dns_apply_is_atomic [OF resolv_name dns_apply_empty]
  by (simp add: resolv_path_def) (simp add: empty_fs_def fs_lookup_def)

text \<open>
  A file that another component manages is left alone: if the file has a line that is not blank
  and is not marked as owned by the caller, applying is refused as foreign, removing as that owner
  does not delete it, and the file system is unchanged.
\<close>

theorem dns_foreign_file_untouched:
  assumes "owner \<noteq> []" "fs_read_to_string w path = Ok content"
    and "list_ex (\<lambda>line. trim line \<noteq> []) (lines content)" "parse_owner content \<noteq> Some owner"
  shows "dns_apply pid path w owner config = (Err (DnsForeignManaged path), w) \<and>
    snd (dns_remove path w \<lparr> do_owner = owner, do_path = path \<rparr>) = w"
  using assms by (auto simp: dns_apply_def dns_remove_def read_owner_def split: option.splits)

theorem dns_foreign_file_untouched_witness:
  "let w = fs_put resolv_path ''nameserver 9.9.9.9'' empty_fs in
   dns_apply 42 resolv_path w ''wired'' no_dns =
     (Err (DnsForeignManaged resolv_path), w)"
proof -
  let ?w = "fs_put resolv_path ''nameserver 9.9.9.9'' empty_fs"
  have "fs_read_to_string ?w resolv_path = Ok ''nameserver 9.9.9.9''"
    by (simp add: fs_read_to_string_def empty_fs_def)
  moreover have "list_ex (\<lambda>line. trim line \<noteq> []) (lines ''nameserver 9.9.9.9'')"
    "parse_owner ''nameserver 9.9.9.9'' \<noteq> Some ''wired''"
    by code_simp+
  ultimately show ?thesis
    unfolding Let_def using dns_foreign_file_untouched [of "''wired''" ?w resolv_path] by blast
qed

text \<open>
  C9. What a successful apply wrote is recognised as the owner's own, so the same owner may apply
  again and removing it deletes the file, while any other owner is refused and deletes nothing.
\<close>

theorem dns_owner_round_trip:
  assumes "path_file_name path \<noteq> []" "owner_ok owner" "dns_apply pid path w owner config = (Ok own, w')"
    and "fs_read_fault w' path = None" "fs_remove_fault w' path = None"
  shows "read_owner path w' = Ok (Some owner) \<and>
    dns_remove path w' own = (Ok (), fs_del path w') \<and>
    (\<forall>other. do_owner other \<noteq> owner \<longrightarrow> dns_remove path w' other = (Err (DnsForeignManaged path), w'))"
proof -
  have own: "own = \<lparr> do_owner = owner, do_path = path \<rparr>" and f: "fs_lookup w' path = Some (marked owner config)"
    using dns_apply_cases [OF assms(1,3)] by auto
  have "read_owner path w' = Ok (Some owner)"
    using f assms(2,4) by (simp add: read_owner_def fs_read_to_string_def parse_owner_marked)
  with own f assms(5) show ?thesis by (simp add: dns_remove_def fs_remove_file_def)
qed

theorem dns_owner_round_trip_witness:
  "dns_remove resolv_path wired_resolv \<lparr> do_owner = ''wired'', do_path = resolv_path \<rparr> = (Ok (), fs_del resolv_path wired_resolv)"
proof -
  have "fs_read_fault wired_resolv resolv_path = None" "fs_remove_fault wired_resolv resolv_path = None"
    by (simp_all add: wired_resolv_def Let_def) (simp_all add: empty_fs_def)
  from dns_owner_round_trip [OF resolv_name wired_owner_ok dns_apply_empty this] show ?thesis by blast
qed

end
