(* ===== verification/Nm_IpEngine.thy ===== *)
theory Nm_IpEngine
  imports Nm_Ip Nm_Profile
begin

text \<open>
  The IP orchestration engine (\<^verbatim>\<open>src/linux/ip_engine.rs\<close>), generic as in the source over
  the configurator, the DHCP client and the DNS manager: a record of their operations and a state that
  holds the state of each. The addresses the kernel reports (for the link-local one) are an argument.
\<close>

section \<open>Errors\<close>

datatype ip_engine_error =
    IeNetlink netlink_error
  | IeIpConfig ip_config_error
  | IeDhcp dhcp_error
  | IeDns dns_error
  | IeInvalidConfig string
  | IeInterfaceNotFound string

definition ip_engine_error_string :: "ip_engine_error \<Rightarrow> string" where
  "ip_engine_error_string e = (case e of
       IeNetlink err \<Rightarrow> ''netlink: '' @ netlink_error_string err
     | IeIpConfig err \<Rightarrow> ip_config_error_string err
     | IeDhcp err \<Rightarrow> ''dhcp: '' @ dhcp_error_string err
     | IeDns err \<Rightarrow> dns_error_string err
     | IeInvalidConfig msg \<Rightarrow> ''invalid IP configuration: '' @ msg
     | IeInterfaceNotFound name \<Rightarrow> ''no network interface named '' @ debug_str name @ '' is present'')"

section \<open>Interfaces and addresses of the kernel\<close>

text \<open>The argument is the answer of \<open>get_links\<close> (\<open>get_addresses\<close>).\<close>

definition resolve_interface_index ::
  "(link list, netlink_error) result \<Rightarrow> string \<Rightarrow> (i32, ip_engine_error) result" where
  "resolve_interface_index links name =
     and_then (map_err IeNetlink links) (\<lambda>ls.
     ok_or (map_option link_index (List.find (\<lambda>l. link_name l = name) ls)) (IeInterfaceNotFound name))"

definition is_unicast_link_local :: "ipv6_addr \<Rightarrow> bool" where
  "is_unicast_link_local a \<longleftrightarrow> (ucast (drop_bit 112 a) :: u16) AND 0xFFC0 = 0xFE80"

definition link_local_address :: "(address list, netlink_error) result \<Rightarrow> i32 \<Rightarrow> ipv6_addr option" where
  "link_local_address addrs interface_index = (case addrs of
       Err _ \<Rightarrow> None
     | Ok as \<Rightarrow>
         (case List.find (\<lambda>a. addr_interface_index a = interface_index \<and>
                   (case addr_address a of V6Addr v \<Rightarrow> is_unicast_link_local v | V4Addr _ \<Rightarrow> False)) as of
            None \<Rightarrow> None
          | Some a \<Rightarrow> (case addr_address a of V6Addr v \<Rightarrow> Some v | V4Addr _ \<Rightarrow> None)))"

section \<open>Routes\<close>

text \<open>
  \<open>u32::MAX << n\<close> with \<open>n < 32\<close>: the guard on the prefix length 0 keeps the shift in range.
\<close>

definition network_address_v4 :: "ipv4_addr \<Rightarrow> u8 \<Rightarrow> ipv4_addr" where
  "network_address_v4 a prefix_length =
     a AND (if prefix_length = 0 then 0 else push_bit (32 - min (unat prefix_length) 32) (- 1))"

definition network_address_v6 :: "ipv6_addr \<Rightarrow> u8 \<Rightarrow> ipv6_addr" where
  "network_address_v6 a prefix_length =
     a AND (if prefix_length = 0 then 0 else push_bit (128 - min (unat prefix_length) 128) (- 1))"

definition connected_route_v4 :: "i32 \<Rightarrow> ipv4_addr \<Rightarrow> u8 \<Rightarrow> route" where
  "connected_route_v4 interface_index a prefix_length =
     \<lparr> rt_family = V4, rt_destination = V4Addr (network_address_v4 a prefix_length),
       rt_prefix_length = prefix_length, rt_gateway = None, rt_output_interface = Some interface_index,
       rt_metric = None, rt_kind = Unicast, rt_scope = LinkScope \<rparr>"

definition connected_route_v6 :: "i32 \<Rightarrow> ipv6_addr \<Rightarrow> u8 \<Rightarrow> route" where
  "connected_route_v6 interface_index a prefix_length =
     \<lparr> rt_family = V6, rt_destination = V6Addr (network_address_v6 a prefix_length),
       rt_prefix_length = prefix_length, rt_gateway = None, rt_output_interface = Some interface_index,
       rt_metric = None, rt_kind = Unicast, rt_scope = LinkScope \<rparr>"

definition default_route_v4 :: "i32 \<Rightarrow> ipv4_addr \<Rightarrow> route" where
  "default_route_v4 interface_index gateway =
     \<lparr> rt_family = V4, rt_destination = V4Addr 0, rt_prefix_length = 0, rt_gateway = Some (V4Addr gateway),
       rt_output_interface = Some interface_index, rt_metric = None, rt_kind = Unicast, rt_scope = Universe \<rparr>"

definition default_route_v6 :: "i32 \<Rightarrow> ipv6_addr \<Rightarrow> route" where
  "default_route_v6 interface_index gateway =
     \<lparr> rt_family = V6, rt_destination = V6Addr 0, rt_prefix_length = 0, rt_gateway = Some (V6Addr gateway),
       rt_output_interface = Some interface_index, rt_metric = None, rt_kind = Unicast, rt_scope = Universe \<rparr>"

definition ipv4_routes_for :: "i32 \<Rightarrow> ipv4_addr \<Rightarrow> u8 \<Rightarrow> ipv4_addr option \<Rightarrow> route list" where
  "ipv4_routes_for interface_index a prefix_length gateway =
     connected_route_v4 interface_index a prefix_length
     # (case gateway of None \<Rightarrow> [] | Some g \<Rightarrow> [default_route_v4 interface_index g])"

definition ipv6_routes_for :: "i32 \<Rightarrow> ipv6_addr \<Rightarrow> u8 \<Rightarrow> ipv6_addr option \<Rightarrow> route list" where
  "ipv6_routes_for interface_index a prefix_length gateway =
     connected_route_v6 interface_index a prefix_length
     # (case gateway of None \<Rightarrow> [] | Some g \<Rightarrow> [default_route_v6 interface_index g])"

definition ipv4_static_routes :: "ip_config \<Rightarrow> route list" where
  "ipv4_static_routes config = filter (\<lambda>r. rt_family r = V4) (ic_routes config)"

definition ipv6_static_routes :: "ip_config \<Rightarrow> route list" where
  "ipv6_static_routes config = filter (\<lambda>r. rt_family r = V6) (ic_routes config)"

section \<open>The engine\<close>

record ('c, 'd, 'n) ip_backends =
  ib_ip :: "'c ip_configurator"
  ib_dhcp :: "'d dhcp_client"
  ib_dns :: "'n dns_manager"

record ('c, 'd, 'n) ip_engine =
  ie_ip :: 'c
  ie_dhcp :: 'd
  ie_dns :: 'n

text \<open>Calls on one of the backends, with its error converted as \<open>?\<close> does.\<close>

definition on_ip ::
  "('c \<Rightarrow> ('r, ip_config_error) result \<times> 'c) \<Rightarrow> ('c, 'd, 'n) ip_engine \<Rightarrow>
     ('r, ip_engine_error) result \<times> ('c, 'd, 'n) ip_engine" where
  "on_ip f e = (let (r, c) = f (ie_ip e) in (map_err IeIpConfig r, e\<lparr> ie_ip := c \<rparr>))"

definition on_dhcp ::
  "('d \<Rightarrow> ('r, dhcp_error) result \<times> 'd) \<Rightarrow> ('c, 'd, 'n) ip_engine \<Rightarrow>
     ('r, ip_engine_error) result \<times> ('c, 'd, 'n) ip_engine" where
  "on_dhcp f e = (let (r, d) = f (ie_dhcp e) in (map_err IeDhcp r, e\<lparr> ie_dhcp := d \<rparr>))"

definition on_dns ::
  "('n \<Rightarrow> ('r, dns_error) result \<times> 'n) \<Rightarrow> ('c, 'd, 'n) ip_engine \<Rightarrow>
     ('r, ip_engine_error) result \<times> ('c, 'd, 'n) ip_engine" where
  "on_dns f e = (let (r, n) = f (ie_dns e) in (map_err IeDns r, e\<lparr> ie_dns := n \<rparr>))"

fun install_routes ::
  "('c, 'd, 'n) ip_backends \<Rightarrow> ('c, 'd, 'n) ip_engine \<Rightarrow> route list \<Rightarrow>
     (unit, ip_engine_error) result \<times> ('c, 'd, 'n) ip_engine" where
  "install_routes b e [] = (Ok (), e)"
| "install_routes b e (r # rs) =
     (case on_ip (\<lambda>c. ipc_add_route (ib_ip b) c r) e of
        (Err err, e1) \<Rightarrow> (Err err, e1)
      | (Ok _, e1) \<Rightarrow> install_routes b e1 rs)"

text \<open>
  The closure of the IPv4 phases: install the address, then the static routes, then the DNS
  configuration if there is one, recording its ownership.
\<close>

definition install_ipv4 ::
  "('c, 'd, 'n) ip_backends \<Rightarrow> ('c, 'd, 'n) ip_engine \<Rightarrow> i32 \<Rightarrow> ipv4_config \<Rightarrow> route list \<Rightarrow> string \<Rightarrow> dns_config \<Rightarrow>
     active_ip_state \<Rightarrow> (unit, ip_engine_error) result \<times> ('c, 'd, 'n) ip_engine \<times> active_ip_state" where
  "install_ipv4 b e interface_index config static_routes dns_owner dns_config st =
     (case on_ip (\<lambda>c. ipc_configure_ipv4 (ib_ip b) c interface_index config) e of
        (Err err, e1) \<Rightarrow> (Err err, e1, st)
      | (Ok _, e1) \<Rightarrow>
     (case install_routes b e1 static_routes of
        (Err err, e2) \<Rightarrow> (Err err, e2, st)
      | (Ok _, e2) \<Rightarrow>
          if dc_servers dns_config = [] \<and> dc_search_domains dns_config = [] then (Ok (), e2, st)
          else (case on_dns (\<lambda>n. dnm_apply (ib_dns b) n dns_owner dns_config) e2 of
             (Err err, e3) \<Rightarrow> (Err err, e3, st)
           | (Ok own, e3) \<Rightarrow> (Ok (), e3, st\<lparr> as_dns_owner := Some own \<rparr>))))"

definition dhcp_request_for :: "i32 \<Rightarrow> string \<Rightarrow> dhcp_request" where
  "dhcp_request_for interface_index interface_name =
     \<lparr> dr_interface_index = interface_index, dr_interface_name = interface_name, dr_hostname = None,
       dr_requested_address = None, dr_timeout = 0 \<rparr>"

definition v4_of :: "ip_addr option \<Rightarrow> ipv4_addr option" where
  "v4_of a = (case a of Some (V4Addr v) \<Rightarrow> Some v | _ \<Rightarrow> None)"

definition v6_of :: "ip_addr option \<Rightarrow> ipv6_addr option" where
  "v6_of a = (case a of Some (V6Addr v) \<Rightarrow> Some v | _ \<Rightarrow> None)"

definition activate_ipv4_dhcp ::
  "('c, 'd, 'n) ip_backends \<Rightarrow> ('c, 'd, 'n) ip_engine \<Rightarrow> i32 \<Rightarrow> string \<Rightarrow> ip_config \<Rightarrow> string \<Rightarrow>
     active_ip_state \<Rightarrow> activation_outcome \<Rightarrow>
     (unit, ip_engine_error) result \<times> ('c, 'd, 'n) ip_engine \<times> active_ip_state \<times> activation_outcome" where
  "activate_ipv4_dhcp b e interface_index interface_name ipv4 dns_owner st out =
     (case on_dhcp (\<lambda>d. dhc_acquire (ib_dhcp b) d (dhcp_request_for interface_index interface_name)) e of
        (Err err, e1) \<Rightarrow> (Err err, e1, st, out)
      | (Ok lease, e1) \<Rightarrow>
          (let static_routes = ipv4_static_routes ipv4;
               routes = ipv4_routes_for interface_index (dl_address lease) (dl_prefix_length lease) (dl_gateway lease)
                        @ static_routes;
               st1 = st\<lparr> as_ipv4 := Some \<lparr> a4_interface_index = interface_index, a4_address = dl_address lease,
                       a4_prefix_length = dl_prefix_length lease, a4_lease = Some lease, a4_routes = routes,
                       a4_source = AutomaticDhcp \<rparr> \<rparr>;
               dns_config = \<lparr> dc_search_domains = dl_search_domains lease,
                       dc_servers = map V4Addr (dl_dns_servers lease) \<rparr>;
               config = \<lparr> c4_address = dl_address lease, c4_prefix_length = dl_prefix_length lease,
                       c4_gateway = dl_gateway lease \<rparr>
           in case install_ipv4 b e1 interface_index config static_routes dns_owner dns_config st1 of
                (Err err, e2, st2) \<Rightarrow> (Err err, e2, st2, out)
              | (Ok _, e2, st2) \<Rightarrow>
                  (Ok (), e2, st2, out\<lparr> out_ipv4 := Some \<lparr> o4_address = dl_address lease,
                     o4_prefix_length = dl_prefix_length lease, o4_gateway = dl_gateway lease,
                     o4_dns_servers = dc_servers dns_config, o4_search_domains = dc_search_domains dns_config,
                     o4_source = AutomaticDhcp, o4_routes = routes, o4_lease = Some lease \<rparr> \<rparr>)))"

definition activate_ipv4_manual ::
  "('c, 'd, 'n) ip_backends \<Rightarrow> ('c, 'd, 'n) ip_engine \<Rightarrow> i32 \<Rightarrow> ip_config \<Rightarrow> string \<Rightarrow>
     active_ip_state \<Rightarrow> activation_outcome \<Rightarrow>
     (unit, ip_engine_error) result \<times> ('c, 'd, 'n) ip_engine \<times> active_ip_state \<times> activation_outcome" where
  "activate_ipv4_manual b e interface_index ipv4 dns_owner st out = (case v4_of (ic_address ipv4) of
       None \<Rightarrow> (Err (IeInvalidConfig ''manual IPv4 needs a valid IPv4 address''), e, st, out)
     | Some addr \<Rightarrow> (case ic_prefix_length ipv4 of
         None \<Rightarrow> (Err (IeInvalidConfig ''manual IPv4 needs a prefix length''), e, st, out)
       | Some prefix_length \<Rightarrow>
           (let gateway = v4_of (ic_gateway ipv4);
                static_routes = ipv4_static_routes ipv4;
                routes = ipv4_routes_for interface_index addr prefix_length gateway @ static_routes;
                st1 = st\<lparr> as_ipv4 := Some \<lparr> a4_interface_index = interface_index, a4_address = addr,
                        a4_prefix_length = prefix_length, a4_lease = None, a4_routes = routes,
                        a4_source = Manual4 \<rparr> \<rparr>;
                config = \<lparr> c4_address = addr, c4_prefix_length = prefix_length, c4_gateway = gateway \<rparr>
            in case install_ipv4 b e interface_index config static_routes dns_owner
                      \<lparr> dc_search_domains = [], dc_servers = ic_dns_servers ipv4 \<rparr> st1 of
                 (Err err, e2, st2) \<Rightarrow> (Err err, e2, st2, out)
               | (Ok _, e2, st2) \<Rightarrow>
                   (Ok (), e2, st2, out\<lparr> out_ipv4 := Some \<lparr> o4_address = addr,
                      o4_prefix_length = prefix_length, o4_gateway = gateway,
                      o4_dns_servers = ic_dns_servers ipv4, o4_search_domains = [],
                      o4_source = Manual4, o4_routes = routes, o4_lease = None \<rparr> \<rparr>))))"

definition activate_ipv4 ::
  "('c, 'd, 'n) ip_backends \<Rightarrow> ('c, 'd, 'n) ip_engine \<Rightarrow> i32 \<Rightarrow> string \<Rightarrow> ip_config \<Rightarrow> string \<Rightarrow>
     active_ip_state \<Rightarrow> activation_outcome \<Rightarrow>
     (unit, ip_engine_error) result \<times> ('c, 'd, 'n) ip_engine \<times> active_ip_state \<times> activation_outcome" where
  "activate_ipv4 b e interface_index interface_name ipv4 dns_owner st out = (case ic_method ipv4 of
       Disabled \<Rightarrow> (Ok (), e, st, out)
     | Automatic \<Rightarrow> activate_ipv4_dhcp b e interface_index interface_name ipv4 dns_owner st out
     | Manual \<Rightarrow> activate_ipv4_manual b e interface_index ipv4 dns_owner st out)"

definition activate_ipv6 ::
  "('c, 'd, 'n) ip_backends \<Rightarrow> (address list, netlink_error) result \<Rightarrow> ('c, 'd, 'n) ip_engine \<Rightarrow> i32 \<Rightarrow> ip_config \<Rightarrow>
     active_ip_state \<Rightarrow> activation_outcome \<Rightarrow>
     (unit, ip_engine_error) result \<times> ('c, 'd, 'n) ip_engine \<times> active_ip_state \<times> activation_outcome" where
  "activate_ipv6 b addrs e interface_index ipv6 st out = (case ic_method ipv6 of
       Disabled \<Rightarrow> (Ok (), e, st, out\<lparr> out_ipv6 := None \<rparr>)
     | Automatic \<Rightarrow>
         (Ok (), e, st, out\<lparr> out_ipv6 := Some \<lparr> o6_address = None, o6_prefix_length = 64, o6_gateway = None,
            o6_dns_servers = [], o6_search_domains = [], o6_routes = [],
            o6_link_local = link_local_address addrs interface_index, o6_source = AutomaticLinkLocal \<rparr> \<rparr>)
     | Manual \<Rightarrow> (case v6_of (ic_address ipv6) of
         None \<Rightarrow> (Err (IeInvalidConfig ''manual IPv6 needs a valid IPv6 address''), e, st, out)
       | Some addr \<Rightarrow> (case ic_prefix_length ipv6 of
           None \<Rightarrow> (Err (IeInvalidConfig ''manual IPv6 needs a prefix length''), e, st, out)
         | Some prefix_length \<Rightarrow>
             (let gateway = v6_of (ic_gateway ipv6);
                  config = \<lparr> c6_address = addr, c6_prefix_length = prefix_length, c6_gateway = gateway \<rparr>;
                  static_routes = ipv6_static_routes ipv6;
                  routes = ipv6_routes_for interface_index addr prefix_length gateway @ static_routes;
                  st1 = st\<lparr> as_ipv6 := Some \<lparr> a6_interface_index = interface_index, a6_link_local = Some addr,
                          a6_prefix_length = prefix_length, a6_routes = routes, a6_source = Manual6 \<rparr> \<rparr>
              in case on_ip (\<lambda>c. ipc_configure_ipv6 (ib_ip b) c interface_index config) e of
                   (Err err, e1) \<Rightarrow> (Err err, e1, st1, out)
                 | (Ok _, e1) \<Rightarrow>
                     (case install_routes b e1 static_routes of
                        (Err err, e2) \<Rightarrow> (Err err, e2, st1, out)
                      | (Ok _, e2) \<Rightarrow>
                          (Ok (), e2, st1, out\<lparr> out_ipv6 := Some \<lparr> o6_address = Some addr,
                             o6_prefix_length = prefix_length, o6_gateway = gateway,
                             o6_dns_servers = ic_dns_servers ipv6, o6_search_domains = [],
                             o6_routes = routes, o6_link_local = None, o6_source = Manual6 \<rparr> \<rparr>))))))"

section \<open>Teardown\<close>

fun remove_routes ::
  "('c, 'd, 'n) ip_backends \<Rightarrow> ('c, 'd, 'n) ip_engine \<Rightarrow> route list \<Rightarrow> ('c, 'd, 'n) ip_engine" where
  "remove_routes b e [] = e"
| "remove_routes b e (r # rs) = remove_routes b (snd (on_ip (\<lambda>c. ipc_remove_route (ib_ip b) c r) e)) rs"

definition or_error :: "'e option \<Rightarrow> ('a, 'e) result \<Rightarrow> 'e option" where
  "or_error first r = (case r of Ok _ \<Rightarrow> first | Err e \<Rightarrow> (case first of None \<Rightarrow> Some e | Some f \<Rightarrow> Some f))"

definition teardown_gateway :: "route list \<Rightarrow> ipv4_addr option" where
  "teardown_gateway routes = find_map (\<lambda>r. v4_of (rt_gateway r)) routes"

text \<open>The three blocks of \<open>teardown\<close>, each with the first error so far.\<close>

definition teardown_dns ::
  "('c, 'd, 'n) ip_backends \<Rightarrow> active_ip_state \<Rightarrow> ip_engine_error option \<times> ('c, 'd, 'n) ip_engine \<Rightarrow>
     ip_engine_error option \<times> ('c, 'd, 'n) ip_engine" where
  "teardown_dns b st = (\<lambda>(first, e). case as_dns_owner st of
       None \<Rightarrow> (first, e)
     | Some own \<Rightarrow> (let (r, e1) = on_dns (\<lambda>n. dnm_remove (ib_dns b) n own) e in (or_error first r, e1)))"

definition teardown_ipv4 ::
  "('c, 'd, 'n) ip_backends \<Rightarrow> active_ip_state \<Rightarrow> ip_engine_error option \<times> ('c, 'd, 'n) ip_engine \<Rightarrow>
     ip_engine_error option \<times> ('c, 'd, 'n) ip_engine" where
  "teardown_ipv4 b st = (\<lambda>(first, e). case as_ipv4 st of
       None \<Rightarrow> (first, e)
     | Some v4 \<Rightarrow>
         (let e1 = remove_routes b e (a4_routes v4);
              e2 = (case a4_lease v4 of
                      None \<Rightarrow> e1 | Some lease \<Rightarrow> snd (on_dhcp (\<lambda>d. dhc_release (ib_dhcp b) d lease) e1));
              (r, e3) = on_ip (\<lambda>c. ipc_remove_ipv4 (ib_ip b) c (a4_interface_index v4)
                 \<lparr> c4_address = a4_address v4, c4_prefix_length = a4_prefix_length v4,
                   c4_gateway = teardown_gateway (a4_routes v4) \<rparr>) e2
          in (or_error first r, e3)))"

definition teardown_ipv6 ::
  "('c, 'd, 'n) ip_backends \<Rightarrow> active_ip_state \<Rightarrow> ip_engine_error option \<times> ('c, 'd, 'n) ip_engine \<Rightarrow>
     ip_engine_error option \<times> ('c, 'd, 'n) ip_engine" where
  "teardown_ipv6 b st = (\<lambda>(first, e). case as_ipv6 st of
       None \<Rightarrow> (first, e)
     | Some v6 \<Rightarrow>
         (let e1 = remove_routes b e (a6_routes v6) in
          if a6_source v6 \<noteq> Manual6 then (first, e1)
          else case a6_link_local v6 of
            None \<Rightarrow> (first, e1)
          | Some addr \<Rightarrow>
              (let (r, e2) = on_ip (\<lambda>c. ipc_remove_ipv6 (ib_ip b) c (a6_interface_index v6)
                 \<lparr> c6_address = addr, c6_prefix_length = a6_prefix_length v6, c6_gateway = None \<rparr>) e1
               in (or_error first r, e2))))"

definition teardown ::
  "('c, 'd, 'n) ip_backends \<Rightarrow> ('c, 'd, 'n) ip_engine \<Rightarrow> active_ip_state \<Rightarrow>
     (unit, ip_engine_error) result \<times> ('c, 'd, 'n) ip_engine" where
  "teardown b e st =
     (let (first_error, e1) = teardown_ipv6 b st (teardown_ipv4 b st (teardown_dns b st (None, e)))
      in (case first_error of Some err \<Rightarrow> Err err | None \<Rightarrow> Ok (), e1))"

definition ip_activate ::
  "('c, 'd, 'n) ip_backends \<Rightarrow> (address list, netlink_error) result \<Rightarrow> ('c, 'd, 'n) ip_engine \<Rightarrow> i32 \<Rightarrow> string \<Rightarrow>
     ip_config \<Rightarrow> ip_config \<Rightarrow> string \<Rightarrow>
     (activation_outcome \<times> active_ip_state, ip_engine_error) result \<times> ('c, 'd, 'n) ip_engine" where
  "ip_activate b addrs e interface_index interface_name ipv4 ipv6 dns_owner =
     (case activate_ipv4 b e interface_index interface_name ipv4 dns_owner ip_state_default outcome_default of
        (Err err, e1, st1, out1) \<Rightarrow> (Err err, snd (teardown b e1 st1))
      | (Ok _, e1, st1, out1) \<Rightarrow>
          (case activate_ipv6 b addrs e1 interface_index ipv6 st1 out1 of
             (Err err, e2, st2, out2) \<Rightarrow> (Err err, snd (teardown b e2 st2))
           | (Ok _, e2, st2, out2) \<Rightarrow> (Ok (out2, st2), e2)))"

section \<open>Logging the calls on the backends\<close>

text \<open>
  To speak about what the engine asked of its backends, any backends are wrapped so that every call is
  logged with its result; the wrapped backends behave as the given ones.
\<close>

datatype ip_op =
    Configure4 i32 ipv4_config | Remove4 i32 ipv4_config
  | Configure6 i32 ipv6_config | Remove6 i32 ipv6_config
  | AddRoute route | RemoveRoute route

datatype dhcp_op = AcquireOp dhcp_request | ReleaseOp dhcp_lease

datatype dns_op = ApplyOp string dns_config | RemoveOp dns_ownership

type_synonym ip_log = "(ip_op \<times> (unit, ip_config_error) result) list"

definition log_call :: "'o \<Rightarrow> ('s \<Rightarrow> 'r \<times> 's) \<Rightarrow> 's \<times> ('o \<times> 'r) list \<Rightarrow> 'r \<times> ('s \<times> ('o \<times> 'r) list)" where
  "log_call op f s = (let (r, s') = f (fst s) in (r, (s', snd s @ [(op, r)])))"

definition logged_ip :: "'c ip_configurator \<Rightarrow> ('c \<times> ip_log) ip_configurator" where
  "logged_ip ops = \<lparr>
     ipc_configure_ipv4 = (\<lambda>s i c. log_call (Configure4 i c) (\<lambda>x. ipc_configure_ipv4 ops x i c) s),
     ipc_remove_ipv4 = (\<lambda>s i c. log_call (Remove4 i c) (\<lambda>x. ipc_remove_ipv4 ops x i c) s),
     ipc_configure_ipv6 = (\<lambda>s i c. log_call (Configure6 i c) (\<lambda>x. ipc_configure_ipv6 ops x i c) s),
     ipc_remove_ipv6 = (\<lambda>s i c. log_call (Remove6 i c) (\<lambda>x. ipc_remove_ipv6 ops x i c) s),
     ipc_add_route = (\<lambda>s r. log_call (AddRoute r) (\<lambda>x. ipc_add_route ops x r) s),
     ipc_remove_route = (\<lambda>s r. log_call (RemoveRoute r) (\<lambda>x. ipc_remove_route ops x r) s) \<rparr>"

text \<open>The two calls of the other backends have results of different types: the log keeps the lease and the ownership.\<close>

type_synonym dhcp_log = "(dhcp_op \<times> (dhcp_lease option, dhcp_error) result) list"
type_synonym dns_log = "(dns_op \<times> (dns_ownership option, dns_error) result) list"

definition log_as :: "'o \<Rightarrow> ('a \<Rightarrow> 'b option) \<Rightarrow> ('s \<Rightarrow> ('a, 'e) result \<times> 's) \<Rightarrow>
    's \<times> ('o \<times> ('b option, 'e) result) list \<Rightarrow> ('a, 'e) result \<times> ('s \<times> ('o \<times> ('b option, 'e) result) list)" where
  "log_as op g f s = (let (r, s') = f (fst s) in (r, (s', snd s @ [(op, map_ok g r)])))"

definition logged_dhcp :: "'d dhcp_client \<Rightarrow> ('d \<times> dhcp_log) dhcp_client" where
  "logged_dhcp ops = \<lparr>
     dhc_acquire = (\<lambda>s rq. log_as (AcquireOp rq) Some (\<lambda>x. dhc_acquire ops x rq) s),
     dhc_release = (\<lambda>s l. log_as (ReleaseOp l) (\<lambda>_. None) (\<lambda>x. dhc_release ops x l) s) \<rparr>"

definition logged_dns :: "'n dns_manager \<Rightarrow> ('n \<times> dns_log) dns_manager" where
  "logged_dns ops = \<lparr>
     dnm_apply = (\<lambda>s w c. log_as (ApplyOp w c) Some (\<lambda>x. dnm_apply ops x w c) s),
     dnm_remove = (\<lambda>s own. log_as (RemoveOp own) (\<lambda>_. None) (\<lambda>x. dnm_remove ops x own) s) \<rparr>"

definition logged :: "('c, 'd, 'n) ip_backends \<Rightarrow> ('c \<times> ip_log, 'd \<times> dhcp_log, 'n \<times> dns_log) ip_backends" where
  "logged b = \<lparr> ib_ip = logged_ip (ib_ip b), ib_dhcp = logged_dhcp (ib_dhcp b), ib_dns = logged_dns (ib_dns b) \<rparr>"

definition start_log :: "('c, 'd, 'n) ip_engine \<Rightarrow> ('c \<times> ip_log, 'd \<times> dhcp_log, 'n \<times> dns_log) ip_engine" where
  "start_log e = \<lparr> ie_ip = (ie_ip e, []), ie_dhcp = (ie_dhcp e, []), ie_dns = (ie_dns e, []) \<rparr>"

abbreviation ip_log_of :: "('c \<times> ip_log, 'd \<times> dhcp_log, 'n \<times> dns_log) ip_engine \<Rightarrow> ip_log" where
  "ip_log_of e \<equiv> snd (ie_ip e)"

abbreviation dhcp_log_of :: "('c \<times> ip_log, 'd \<times> dhcp_log, 'n \<times> dns_log) ip_engine \<Rightarrow> dhcp_log" where
  "dhcp_log_of e \<equiv> snd (ie_dhcp e)"

abbreviation dns_log_of :: "('c \<times> ip_log, 'd \<times> dhcp_log, 'n \<times> dns_log) ip_engine \<Rightarrow> dns_log" where
  "dns_log_of e \<equiv> snd (ie_dns e)"

text \<open>Each logged call extends its own log by one entry and leaves the other logs alone.\<close>

lemma on_ip_log:
  "on_ip (log_call op f) e = (map_err IeIpConfig (fst (f (fst (ie_ip e)))),
     e\<lparr> ie_ip := (snd (f (fst (ie_ip e))), ip_log_of e @ [(op, fst (f (fst (ie_ip e))))]) \<rparr>)"
  by (cases "f (fst (ie_ip e))") (simp add: on_ip_def log_call_def)

lemma on_dhcp_log:
  "on_dhcp (log_as op g f) e = (map_err IeDhcp (fst (f (fst (ie_dhcp e)))),
     e\<lparr> ie_dhcp := (snd (f (fst (ie_dhcp e))), dhcp_log_of e @ [(op, map_ok g (fst (f (fst (ie_dhcp e)))))]) \<rparr>)"
  by (cases "f (fst (ie_dhcp e))") (simp add: on_dhcp_def log_as_def)

lemma on_dns_log:
  "on_dns (log_as op g f) e = (map_err IeDns (fst (f (fst (ie_dns e)))),
     e\<lparr> ie_dns := (snd (f (fst (ie_dns e))), dns_log_of e @ [(op, map_ok g (fst (f (fst (ie_dns e)))))]) \<rparr>)"
  by (cases "f (fst (ie_dns e))") (simp add: on_dns_def log_as_def)

lemma logged_simps:
  "ipc_configure_ipv4 (ib_ip (logged b)) s i c4 = log_call (Configure4 i c4) (\<lambda>x. ipc_configure_ipv4 (ib_ip b) x i c4) s"
  "ipc_remove_ipv4 (ib_ip (logged b)) s i c4 = log_call (Remove4 i c4) (\<lambda>x. ipc_remove_ipv4 (ib_ip b) x i c4) s"
  "ipc_configure_ipv6 (ib_ip (logged b)) s i c6 = log_call (Configure6 i c6) (\<lambda>x. ipc_configure_ipv6 (ib_ip b) x i c6) s"
  "ipc_remove_ipv6 (ib_ip (logged b)) s i c6 = log_call (Remove6 i c6) (\<lambda>x. ipc_remove_ipv6 (ib_ip b) x i c6) s"
  "ipc_add_route (ib_ip (logged b)) s rt = log_call (AddRoute rt) (\<lambda>x. ipc_add_route (ib_ip b) x rt) s"
  "ipc_remove_route (ib_ip (logged b)) s rt = log_call (RemoveRoute rt) (\<lambda>x. ipc_remove_route (ib_ip b) x rt) s"
  "dhc_acquire (ib_dhcp (logged b)) d rq = log_as (AcquireOp rq) Some (\<lambda>x. dhc_acquire (ib_dhcp b) x rq) d"
  "dhc_release (ib_dhcp (logged b)) d l = log_as (ReleaseOp l) (\<lambda>_. None) (\<lambda>x. dhc_release (ib_dhcp b) x l) d"
  "dnm_apply (ib_dns (logged b)) n w cfg = log_as (ApplyOp w cfg) Some (\<lambda>x. dnm_apply (ib_dns b) x w cfg) n"
  "dnm_remove (ib_dns (logged b)) n own = log_as (RemoveOp own) (\<lambda>_. None) (\<lambda>x. dnm_remove (ib_dns b) x own) n"
  by (simp_all add: logged_def logged_ip_def logged_dhcp_def logged_dns_def)

lemmas log_simps = logged_simps on_ip_log on_dhcp_log on_dns_log

section \<open>What a teardown does\<close>

definition teardown_ip_ops :: "active_ip_state \<Rightarrow> ip_op list" where
  "teardown_ip_ops st =
     (case as_ipv4 st of None \<Rightarrow> []
      | Some a \<Rightarrow> map RemoveRoute (a4_routes a) @
          [Remove4 (a4_interface_index a) \<lparr> c4_address = a4_address a, c4_prefix_length = a4_prefix_length a,
             c4_gateway = teardown_gateway (a4_routes a) \<rparr>])
     @ (case as_ipv6 st of None \<Rightarrow> []
      | Some a \<Rightarrow> map RemoveRoute (a6_routes a) @
          (if a6_source a \<noteq> Manual6 then [] else case a6_link_local a of None \<Rightarrow> []
           | Some x \<Rightarrow> [Remove6 (a6_interface_index a) \<lparr> c6_address = x, c6_prefix_length = a6_prefix_length a, c6_gateway = None \<rparr>]))"

definition teardown_dhcp_ops :: "active_ip_state \<Rightarrow> dhcp_op list" where
  "teardown_dhcp_ops st = (case as_ipv4 st of None \<Rightarrow> []
     | Some a \<Rightarrow> (case a4_lease a of None \<Rightarrow> [] | Some l \<Rightarrow> [ReleaseOp l]))"

definition teardown_dns_ops :: "active_ip_state \<Rightarrow> dns_op list" where
  "teardown_dns_ops st = (case as_dns_owner st of None \<Rightarrow> [] | Some own \<Rightarrow> [RemoveOp own])"

text \<open>The errors a teardown reports: those of the DNS removal and of the address removals, in order.\<close>

fun address_error :: "ip_op \<times> (unit, ip_config_error) result \<Rightarrow> ip_engine_error option" where
  "address_error (Remove4 i c, Err e) = Some (IeIpConfig e)"
| "address_error (Remove6 i c, Err e) = Some (IeIpConfig e)"
| "address_error _ = None"

definition dns_entry_error :: "dns_op \<times> (dns_ownership option, dns_error) result \<Rightarrow> ip_engine_error option" where
  "dns_entry_error entry = map_option IeDns (result_err (snd entry))"

definition first_reported :: "dns_log \<Rightarrow> ip_log \<Rightarrow> ip_engine_error option" where
  "first_reported dl il = (case find_map dns_entry_error dl of
       Some err \<Rightarrow> Some err | None \<Rightarrow> find_map address_error il)"

lemma find_map_append: "find_map f (xs @ ys) = (case find_map f xs of None \<Rightarrow> find_map f ys | Some y \<Rightarrow> Some y)"
  by (induction xs) (auto split: option.split)

lemma remove_routes_log:
  "\<exists>c il. remove_routes (logged b) e rs = e\<lparr> ie_ip := (c, ip_log_of e @ il) \<rparr> \<and> map fst il = map RemoveRoute rs \<and>
     find_map address_error il = None"
proof (induction rs arbitrary: e)
  case Nil
  show ?case by (intro exI [of _ "fst (ie_ip e)"] exI [of _ "[]"]) simp
next
  case (Cons r rs)
  let ?f = "ipc_remove_route (ib_ip b) (fst (ie_ip e)) r"
  let ?e = "e\<lparr> ie_ip := (snd ?f, ip_log_of e @ [(RemoveRoute r, fst ?f)]) \<rparr>"
  obtain c il where "remove_routes (logged b) ?e rs = ?e\<lparr> ie_ip := (c, ip_log_of ?e @ il) \<rparr>"
    "map fst il = map RemoveRoute rs" "find_map address_error il = None"
    using Cons by blast
  then show ?case
    by (intro exI [of _ c] exI [of _ "(RemoveRoute r, fst ?f) # il"]) (simp add: log_simps)
qed

definition or_first :: "'e option \<Rightarrow> 'e option \<Rightarrow> 'e option" where
  "or_first x y = (case x of Some e \<Rightarrow> Some e | None \<Rightarrow> y)"

lemma or_error_eq: "or_error first r = or_first first (result_err r)"
  by (cases r) (auto simp: or_error_def or_first_def split: option.split)

lemma or_first_simps [simp]: "or_first None y = y" "or_first x None = x" "or_first (or_first x y) z = or_first x (or_first y z)"
  by (simp_all add: or_first_def split: option.split)

lemma find_map_or_first: "find_map f (xs @ ys) = or_first (find_map f xs) (find_map f ys)"
  by (auto simp: find_map_append or_first_def split: option.split)

lemma result_err_map_err [simp]: "result_err (map_err g r) = map_option g (result_err r)" "result_err (map_ok h r) = result_err r"
  by (cases r; simp)+

lemma teardown_dns_log:
  "\<exists>c dl. teardown_dns (logged b) st (first, e) =
     (or_first first (find_map dns_entry_error dl), e\<lparr> ie_dns := (c, dns_log_of e @ dl) \<rparr>) \<and> map fst dl = teardown_dns_ops st"
proof (cases "as_dns_owner st")
  case None
  then show ?thesis
    by (intro exI [of _ "fst (ie_dns e)"] exI [of _ "[]"]) (simp add: teardown_dns_def teardown_dns_ops_def)
next
  case (Some own)
  let ?f = "dnm_remove (ib_dns b) (fst (ie_dns e)) own"
  show ?thesis
    by (intro exI [of _ "snd ?f"] exI [of _ "[(RemoveOp own, map_ok (\<lambda>_. None) (fst ?f))]"])
       (simp add: teardown_dns_def teardown_dns_ops_def Some log_simps or_error_eq dns_entry_error_def
          split: option.split)
qed

lemma address_error_remove: "address_error (Remove4 i c4, r) = map_option IeIpConfig (result_err r)"
  "address_error (Remove6 i c6, r) = map_option IeIpConfig (result_err r)"
  by (cases r; simp)+

lemma teardown_ipv4_log:
  "\<exists>c d il hl. teardown_ipv4 (logged b) st (first, e) =
     (or_first first (find_map address_error il),
      e\<lparr> ie_ip := (c, ip_log_of e @ il), ie_dhcp := (d, dhcp_log_of e @ hl) \<rparr>) \<and>
     map fst il = teardown_ip_ops (st\<lparr> as_ipv6 := None \<rparr>) \<and> map fst hl = teardown_dhcp_ops st"
proof (cases "as_ipv4 st")
  case None
  then show ?thesis
    by (intro exI [of _ "fst (ie_ip e)"] exI [of _ "fst (ie_dhcp e)"] exI [of _ "[]"])
       (simp add: teardown_ipv4_def teardown_ip_ops_def teardown_dhcp_ops_def)
next
  case (Some a)
  obtain c il where rr: "remove_routes (logged b) e (a4_routes a) = e\<lparr> ie_ip := (c, ip_log_of e @ il) \<rparr>"
    "map fst il = map RemoveRoute (a4_routes a)" "find_map address_error il = None"
    using remove_routes_log [of b e "a4_routes a"] by auto
  let ?cfg = "\<lparr> c4_address = a4_address a, c4_prefix_length = a4_prefix_length a, c4_gateway = teardown_gateway (a4_routes a) \<rparr>"
  let ?f = "ipc_remove_ipv4 (ib_ip b) c (a4_interface_index a) ?cfg"
  let ?il = "il @ [(Remove4 (a4_interface_index a) ?cfg, fst ?f)]"
  show ?thesis
  proof (cases "a4_lease a")
    case None
    show ?thesis
      by (intro exI [of _ "snd ?f"] exI [of _ "fst (ie_dhcp e)"] exI [of _ ?il] exI [of _ "[]"])
         (simp add: teardown_ipv4_def teardown_ip_ops_def teardown_dhcp_ops_def Some None rr log_simps or_error_eq
            find_map_or_first address_error_remove split: option.split)
  next
    case lease: (Some l)
    let ?g = "dhc_release (ib_dhcp b) (fst (ie_dhcp e)) l"
    show ?thesis
      by (intro exI [of _ "snd ?f"] exI [of _ "snd ?g"] exI [of _ ?il] exI [of _ "[(ReleaseOp l, map_ok (\<lambda>_. None) (fst ?g))]"])
         (simp add: teardown_ipv4_def teardown_ip_ops_def teardown_dhcp_ops_def Some lease rr log_simps or_error_eq
            find_map_or_first address_error_remove split: option.split)
  qed
qed

lemma teardown_ipv6_log:
  "\<exists>c il. teardown_ipv6 (logged b) st (first, e) =
     (or_first first (find_map address_error il), e\<lparr> ie_ip := (c, ip_log_of e @ il) \<rparr>) \<and>
     map fst il = teardown_ip_ops (st\<lparr> as_ipv4 := None \<rparr>)"
proof (cases "as_ipv6 st")
  case None
  then show ?thesis
    by (intro exI [of _ "fst (ie_ip e)"] exI [of _ "[]"]) (simp add: teardown_ipv6_def teardown_ip_ops_def)
next
  case (Some a)
  obtain c il where rr: "remove_routes (logged b) e (a6_routes a) = e\<lparr> ie_ip := (c, ip_log_of e @ il) \<rparr>"
    "map fst il = map RemoveRoute (a6_routes a)" "find_map address_error il = None"
    using remove_routes_log [of b e "a6_routes a"] by auto
  show ?thesis
  proof (cases "a6_source a = Manual6 \<and> a6_link_local a \<noteq> None")
    case False
    then show ?thesis
      by (intro exI [of _ c] exI [of _ il])
         (auto simp: teardown_ipv6_def teardown_ip_ops_def Some rr split: option.splits)
  next
    case True
    then obtain x where x: "a6_link_local a = Some x" by auto
    let ?cfg = "\<lparr> c6_address = x, c6_prefix_length = a6_prefix_length a, c6_gateway = None \<rparr>"
    let ?f = "ipc_remove_ipv6 (ib_ip b) c (a6_interface_index a) ?cfg"
    show ?thesis
      using True x
      by (intro exI [of _ "snd ?f"] exI [of _ "il @ [(Remove6 (a6_interface_index a) ?cfg, fst ?f)]"])
         (simp add: teardown_ipv6_def teardown_ip_ops_def Some rr log_simps or_error_eq find_map_or_first
            address_error_remove split: option.split)
  qed
qed

lemma teardown_log:
  assumes "teardown (logged b) e st = (r, e')"
  shows "\<exists>il hl dl. ip_log_of e' = ip_log_of e @ il \<and> map fst il = teardown_ip_ops st \<and>
    dhcp_log_of e' = dhcp_log_of e @ hl \<and> map fst hl = teardown_dhcp_ops st \<and>
    dns_log_of e' = dns_log_of e @ dl \<and> map fst dl = teardown_dns_ops st \<and>
    r = (case first_reported dl il of None \<Rightarrow> Ok () | Some err \<Rightarrow> Err err)"
proof -
  obtain n dl where d: "teardown_dns (logged b) st (None, e) = (find_map dns_entry_error dl, e\<lparr> ie_dns := (n, dns_log_of e @ dl) \<rparr>)"
    "map fst dl = teardown_dns_ops st"
    using teardown_dns_log [of b st None e] by auto
  obtain c d4 il4 hl where v4: "teardown_ipv4 (logged b) st (find_map dns_entry_error dl, e\<lparr> ie_dns := (n, dns_log_of e @ dl) \<rparr>) =
     (or_first (find_map dns_entry_error dl) (find_map address_error il4),
      e\<lparr> ie_dns := (n, dns_log_of e @ dl), ie_ip := (c, ip_log_of e @ il4), ie_dhcp := (d4, dhcp_log_of e @ hl) \<rparr>)"
     "map fst il4 = teardown_ip_ops (st\<lparr> as_ipv6 := None \<rparr>)" "map fst hl = teardown_dhcp_ops st"
    using teardown_ipv4_log [of b st "find_map dns_entry_error dl" "e\<lparr> ie_dns := (n, dns_log_of e @ dl) \<rparr>"] by auto
  obtain c6 il6 where v6: "teardown_ipv6 (logged b) st (or_first (find_map dns_entry_error dl) (find_map address_error il4),
      e\<lparr> ie_dns := (n, dns_log_of e @ dl), ie_ip := (c, ip_log_of e @ il4), ie_dhcp := (d4, dhcp_log_of e @ hl) \<rparr>) =
     (or_first (or_first (find_map dns_entry_error dl) (find_map address_error il4)) (find_map address_error il6),
      e\<lparr> ie_dns := (n, dns_log_of e @ dl), ie_dhcp := (d4, dhcp_log_of e @ hl), ie_ip := (c6, ip_log_of e @ il4 @ il6) \<rparr>)"
     "map fst il6 = teardown_ip_ops (st\<lparr> as_ipv4 := None \<rparr>)"
    using teardown_ipv6_log [of b st "or_first (find_map dns_entry_error dl) (find_map address_error il4)"
      "e\<lparr> ie_dns := (n, dns_log_of e @ dl), ie_ip := (c, ip_log_of e @ il4), ie_dhcp := (d4, dhcp_log_of e @ hl) \<rparr>"] by auto
  have "teardown_ip_ops st = map fst (il4 @ il6)" using v4(2) v6(2) by (simp add: teardown_ip_ops_def)
  moreover have "first_reported dl (il4 @ il6) = or_first (find_map dns_entry_error dl) (or_first (find_map address_error il4) (find_map address_error il6))"
    by (simp add: first_reported_def find_map_or_first or_first_def split: option.split)
  ultimately show ?thesis
    using assms d v4 v6
    by (intro exI [of _ "il4 @ il6"] exI [of _ hl] exI [of _ dl]) (auto simp: teardown_def split: option.splits)
qed

section \<open>What an activation leaves to tear down\<close>

fun installs :: "ip_op \<Rightarrow> bool" where
  "installs (Configure4 i c) = True"
| "installs (Configure6 i c) = True"
| "installs (AddRoute r) = True"
| "installs _ = False"

text \<open>
  The calls that undo a call: the address is removed with the gateway it was installed with, if it had
  one; an IPv6 default route is removed as a route.
\<close>

fun undone_by :: "ip_op set \<Rightarrow> ip_op \<Rightarrow> bool" where
  "undone_by ops (Configure4 i c) \<longleftrightarrow>
     (\<exists>g. Remove4 i (c\<lparr> c4_gateway := g \<rparr>) \<in> ops \<and> (c4_gateway c \<noteq> None \<longrightarrow> g = c4_gateway c))"
| "undone_by ops (Configure6 i c) \<longleftrightarrow> Remove6 i (c\<lparr> c6_gateway := None \<rparr>) \<in> ops \<and>
     (\<forall>g. c6_gateway c = Some g \<longrightarrow> RemoveRoute (default_route_v6 i g) \<in> ops)"
| "undone_by ops (AddRoute r) \<longleftrightarrow> RemoveRoute r \<in> ops"
| "undone_by ops _ \<longleftrightarrow> True"

definition covers :: "active_ip_state \<Rightarrow> ip_log \<Rightarrow> dhcp_log \<Rightarrow> dns_log \<Rightarrow> bool" where
  "covers st il hl dl \<longleftrightarrow>
     (\<forall>op r. (op, r) \<in> set il \<longrightarrow> installs op \<and> undone_by (set (teardown_ip_ops st)) op) \<and>
     (\<forall>op r. (op, r) \<in> set hl \<longrightarrow> (\<exists>rq. op = AcquireOp rq) \<and> (\<forall>l. r = Ok (Some l) \<longrightarrow> ReleaseOp l \<in> set (teardown_dhcp_ops st))) \<and>
     (\<forall>op r. (op, r) \<in> set dl \<longrightarrow> (\<exists>w c. op = ApplyOp w c) \<and> (\<forall>own. r = Ok (Some own) \<longrightarrow> RemoveOp own \<in> set (teardown_dns_ops st)))"

lemma undone_by_mono: "undone_by A op \<Longrightarrow> A \<subseteq> B \<Longrightarrow> undone_by B op"
  by (cases op) auto

lemma install_routes_log:
  "\<exists>c il. snd (install_routes (logged b) e rs) = e\<lparr> ie_ip := (c, ip_log_of e @ il) \<rparr> \<and> fst ` set il \<subseteq> AddRoute ` set rs"
proof (induction rs arbitrary: e)
  case Nil
  show ?case by (intro exI [of _ "fst (ie_ip e)"] exI [of _ "[]"]) simp
next
  case (Cons r rs)
  let ?f = "ipc_add_route (ib_ip b) (fst (ie_ip e)) r"
  let ?e = "e\<lparr> ie_ip := (snd ?f, ip_log_of e @ [(AddRoute r, fst ?f)]) \<rparr>"
  show ?case
  proof (cases "fst ?f")
    case (Ok u)
    obtain c il where "snd (install_routes (logged b) ?e rs) = ?e\<lparr> ie_ip := (c, ip_log_of ?e @ il) \<rparr>" "fst ` set il \<subseteq> AddRoute ` set rs"
      using Cons by blast
    with Ok show ?thesis
      by (intro exI [of _ c] exI [of _ "(AddRoute r, fst ?f) # il"]) (auto simp: log_simps)
  next
    case (Err err)
    then show ?thesis
      by (intro exI [of _ "snd ?f"] exI [of _ "[(AddRoute r, fst ?f)]"]) (simp add: log_simps)
  qed
qed

lemma install_ipv4_log:
  assumes "install_ipv4 (logged b) e i cfg srs w dcfg st = (r, e', st')"
  shows "\<exists>c n il dl. e' = e\<lparr> ie_ip := (c, ip_log_of e @ il), ie_dns := (n, dns_log_of e @ dl) \<rparr> \<and>
    fst ` set il \<subseteq> insert (Configure4 i cfg) (AddRoute ` set srs) \<and>
    (\<forall>op x. (op, x) \<in> set dl \<longrightarrow> op = ApplyOp w dcfg \<and> (\<forall>own. x = Ok (Some own) \<longrightarrow> as_dns_owner st' = Some own)) \<and>
    as_ipv4 st' = as_ipv4 st \<and> as_ipv6 st' = as_ipv6 st"
proof -
  obtain r1 c1 where f: "ipc_configure_ipv4 (ib_ip b) (fst (ie_ip e)) i cfg = (r1, c1)" by fastforce
  let ?e1 = "e\<lparr> ie_ip := (c1, ip_log_of e @ [(Configure4 i cfg, r1)]) \<rparr>"
  obtain r2 e2 where e2: "install_routes (logged b) ?e1 srs = (r2, e2)" by fastforce
  with install_routes_log [of b ?e1 srs] obtain c il where
    e2': "e2 = e\<lparr> ie_ip := (c, ip_log_of e @ (Configure4 i cfg, r1) # il) \<rparr>" "fst ` set il \<subseteq> AddRoute ` set srs"
    by auto
  obtain r3 n3 where g: "dnm_apply (ib_dns b) (fst (ie_dns e)) w dcfg = (r3, n3)" by fastforce
  show ?thesis
  proof (cases r1)
    case (Err err)
    with assms f show ?thesis
      by (intro exI [of _ c1] exI [of _ "fst (ie_dns e)"] exI [of _ "[(Configure4 i cfg, r1)]"] exI [of _ "[]"])
         (auto simp: install_ipv4_def log_simps)
  next
    case (Ok u)
    have early: ?thesis if "e' = e2" "st' = st"
      using that e2' by (intro exI [of _ c] exI [of _ "fst (ie_dns e)"] exI [of _ "(Configure4 i cfg, r1) # il"] exI [of _ "[]"]) auto
    show ?thesis
    proof (cases "is_ok r2 \<and> \<not> (dc_servers dcfg = [] \<and> dc_search_domains dcfg = [])")
      case False
      then have "e' = e2" "st' = st"
        using assms f Ok e2 by (cases r2; simp add: install_ipv4_def log_simps)+
      then show ?thesis by (rule early)
    next
      case True
      then have "e' = e2\<lparr> ie_dns := (n3, dns_log_of e @ [(ApplyOp w dcfg, map_ok Some r3)]) \<rparr>"
        "st' = (case r3 of Ok own \<Rightarrow> st\<lparr> as_dns_owner := Some own \<rparr> | Err _ \<Rightarrow> st)"
        using assms f Ok e2 e2' g by (cases r2; cases r3; auto simp: install_ipv4_def log_simps)+
      then show ?thesis
        using e2' by (intro exI [of _ c] exI [of _ n3] exI [of _ "(Configure4 i cfg, r1) # il"]
            exI [of _ "[(ApplyOp w dcfg, map_ok Some r3)]"]) (auto split: result.splits)
    qed
  qed
qed

lemma teardown_gateway_routes:
  "teardown_gateway (ipv4_routes_for i a p g @ rs) = (case g of Some x \<Rightarrow> Some x | None \<Rightarrow> teardown_gateway rs)"
  by (auto simp: teardown_gateway_def ipv4_routes_for_def connected_route_v4_def default_route_v4_def v4_of_def
      split: option.split)

text \<open>The IPv4 phase: the state it hands on covers what it has installed, on every path.\<close>

lemma install_ipv4_covers:
  assumes run: "install_ipv4 (logged b) e i cfg srs w dcfg st = (r, e', st')"
    and log: "ip_log_of e = []" "dns_log_of e = []" "\<forall>op x. (op, x) \<in> set (dhcp_log_of e) \<longrightarrow> (\<exists>rq. op = AcquireOp rq) \<and>
      (\<forall>l. x = Ok (Some l) \<longrightarrow> a4_lease a = Some l)"
    and st: "as_ipv4 st = Some a" "as_ipv6 st = None" "a4_interface_index a = i" "a4_address a = c4_address cfg"
      "a4_prefix_length a = c4_prefix_length cfg"
      "a4_routes a = ipv4_routes_for i (c4_address cfg) (c4_prefix_length cfg) (c4_gateway cfg) @ srs"
  shows "covers st' (ip_log_of e') (dhcp_log_of e') (dns_log_of e') \<and> as_ipv6 st' = None"
proof -
  obtain c n il dl where e': "e' = e\<lparr> ie_ip := (c, ip_log_of e @ il), ie_dns := (n, dns_log_of e @ dl) \<rparr>"
    and il: "fst ` set il \<subseteq> insert (Configure4 i cfg) (AddRoute ` set srs)"
    and dl: "\<forall>op x. (op, x) \<in> set dl \<longrightarrow> op = ApplyOp w dcfg \<and> (\<forall>own. x = Ok (Some own) \<longrightarrow> as_dns_owner st' = Some own)"
    and st': "as_ipv4 st' = as_ipv4 st" "as_ipv6 st' = as_ipv6 st"
    using install_ipv4_log [OF run] by blast
  have ops: "Remove4 i (cfg\<lparr> c4_gateway := teardown_gateway (a4_routes a) \<rparr>) \<in> set (teardown_ip_ops st')"
    "\<forall>rt \<in> set srs. RemoveRoute rt \<in> set (teardown_ip_ops st')"
    using st st' by (auto simp: teardown_ip_ops_def)
  have "installs op \<and> undone_by (set (teardown_ip_ops st')) op" if "(op, x) \<in> set il" for op x
  proof -
    have "op \<in> insert (Configure4 i cfg) (AddRoute ` set srs)" using that il by force
    then show ?thesis
    proof
      assume "op = Configure4 i cfg"
      moreover have "c4_gateway cfg \<noteq> None \<longrightarrow> teardown_gateway (a4_routes a) = c4_gateway cfg"
        using st by (auto simp: teardown_gateway_routes)
      ultimately show ?thesis using ops(1) by auto
    next
      assume "op \<in> AddRoute ` set srs"
      with ops(2) show ?thesis by auto
    qed
  qed
  then have 1: "\<forall>op x. (op, x) \<in> set il \<longrightarrow> installs op \<and> undone_by (set (teardown_ip_ops st')) op" by blast
  have 2: "\<forall>op x. (op, x) \<in> set (dhcp_log_of e) \<longrightarrow> (\<exists>rq. op = AcquireOp rq) \<and>
      (\<forall>l. x = Ok (Some l) \<longrightarrow> ReleaseOp l \<in> set (teardown_dhcp_ops st'))"
    using log(3) st(1) st'(1) by (auto simp: teardown_dhcp_ops_def)
  have 3: "\<forall>op x. (op, x) \<in> set dl \<longrightarrow> (\<exists>w c. op = ApplyOp w c) \<and>
      (\<forall>own. x = Ok (Some own) \<longrightarrow> RemoveOp own \<in> set (teardown_dns_ops st'))"
    using dl by (auto simp: teardown_dns_ops_def)
  show ?thesis using 1 2 3 by (simp add: covers_def e' log st st')
qed

lemma activate_ipv4_covers:
  assumes run: "activate_ipv4 (logged b) (start_log e) i name v4 w ip_state_default out = (r, e', st', out')"
  shows "covers st' (ip_log_of e') (dhcp_log_of e') (dns_log_of e') \<and> as_ipv6 st' = None"
proof -
  have none: "covers ip_state_default [] [] []" "as_ipv6 ip_state_default = None"
    by (simp_all add: covers_def ip_state_default_def)
  have logs: "ip_log_of (start_log e) = []" "dhcp_log_of (start_log e) = []" "dns_log_of (start_log e) = []"
    by (simp_all add: start_log_def)
  show ?thesis
  proof (cases "ic_method v4")
    case Disabled
    with run none logs show ?thesis by (auto simp: activate_ipv4_def)
  next
    case Manual
    show ?thesis
    proof (cases "v4_of (ic_address v4) = None \<or> ic_prefix_length v4 = None")
      case True
      with Manual run none logs show ?thesis
        by (auto simp: activate_ipv4_def activate_ipv4_manual_def split: option.splits)
    next
      case False
      then obtain a p where ap: "v4_of (ic_address v4) = Some a" "ic_prefix_length v4 = Some p" by auto
      let ?g = "v4_of (ic_gateway v4)" and ?srs = "ipv4_static_routes v4"
      let ?a = "\<lparr> a4_interface_index = i, a4_address = a, a4_prefix_length = p, a4_lease = None,
                  a4_routes = ipv4_routes_for i a p ?g @ ?srs, a4_source = Manual4 \<rparr>"
      let ?st = "ip_state_default\<lparr> as_ipv4 := Some ?a \<rparr>"
      obtain r1 where "install_ipv4 (logged b) (start_log e) i \<lparr> c4_address = a, c4_prefix_length = p, c4_gateway = ?g \<rparr>
          ?srs w \<lparr> dc_search_domains = [], dc_servers = ic_dns_servers v4 \<rparr> ?st = (r1, e', st')"
        using run Manual ap by (auto simp: activate_ipv4_def activate_ipv4_manual_def Let_def split: result.splits prod.splits)
      then show ?thesis
        by (rule install_ipv4_covers [where a = ?a]) (simp_all add: logs ip_state_default_def)
    qed
  next
    case Automatic
    obtain rl d where acq: "dhc_acquire (ib_dhcp b) (ie_dhcp e) (dhcp_request_for i name) = (rl, d)" by fastforce
    let ?e1 = "(start_log e)\<lparr> ie_dhcp := (d, [(AcquireOp (dhcp_request_for i name), map_ok Some rl)]) \<rparr>"
    have on: "on_dhcp (\<lambda>x. dhc_acquire (ib_dhcp (logged b)) x (dhcp_request_for i name)) (start_log e) = (map_err IeDhcp rl, ?e1)"
      by (simp add: log_simps start_log_def acq)
    show ?thesis
    proof (cases rl)
      case (Err err)
      with run Automatic on show ?thesis
        by (auto simp: activate_ipv4_def activate_ipv4_dhcp_def covers_def logs ip_state_default_def start_log_def)
    next
      case (Ok l)
      let ?srs = "ipv4_static_routes v4"
      let ?a = "\<lparr> a4_interface_index = i, a4_address = dl_address l, a4_prefix_length = dl_prefix_length l, a4_lease = Some l,
                  a4_routes = ipv4_routes_for i (dl_address l) (dl_prefix_length l) (dl_gateway l) @ ?srs, a4_source = AutomaticDhcp \<rparr>"
      let ?st = "ip_state_default\<lparr> as_ipv4 := Some ?a \<rparr>"
      obtain r1 where "install_ipv4 (logged b) ?e1 i \<lparr> c4_address = dl_address l, c4_prefix_length = dl_prefix_length l, c4_gateway = dl_gateway l \<rparr>
          ?srs w \<lparr> dc_search_domains = dl_search_domains l, dc_servers = map V4Addr (dl_dns_servers l) \<rparr> ?st = (r1, e', st')"
        using run Automatic on Ok by (auto simp: activate_ipv4_def activate_ipv4_dhcp_def Let_def split: result.splits prod.splits)
      then show ?thesis
        by (rule install_ipv4_covers [where a = ?a]) (simp_all add: logs Ok start_log_def ip_state_default_def)
    qed
  qed
qed

lemma covers_more_ip:
  assumes "covers st il hl dl" "set (teardown_ip_ops st) \<subseteq> set (teardown_ip_ops st')"
    "teardown_dhcp_ops st' = teardown_dhcp_ops st" "teardown_dns_ops st' = teardown_dns_ops st"
    "\<forall>op x. (op, x) \<in> set il' \<longrightarrow> installs op \<and> undone_by (set (teardown_ip_ops st')) op"
  shows "covers st' (il @ il') hl dl"
  using assms undone_by_mono [OF _ assms(2)] unfolding covers_def by (simp add: Ball_def) blast

lemma activate_ipv6_covers:
  assumes run: "activate_ipv6 (logged b) addrs e i v6 st out = (r, e', st', out')"
    and cov: "covers st (ip_log_of e) (dhcp_log_of e) (dns_log_of e)" and none: "as_ipv6 st = None"
  shows "covers st' (ip_log_of e') (dhcp_log_of e') (dns_log_of e')"
proof (cases "ic_method v6 = Manual \<and> v6_of (ic_address v6) \<noteq> None \<and> ic_prefix_length v6 \<noteq> None")
  case False
  then have "e' = e" "st' = st"
    using run by (auto simp: activate_ipv6_def split: ip_method.splits option.splits)
  with cov show ?thesis by simp
next
  case True
  then obtain a p where ap: "v6_of (ic_address v6) = Some a" "ic_prefix_length v6 = Some p" "ic_method v6 = Manual" by auto
  let ?g = "v6_of (ic_gateway v6)" and ?srs = "ipv6_static_routes v6"
  let ?cfg = "\<lparr> c6_address = a, c6_prefix_length = p, c6_gateway = ?g \<rparr>"
  obtain r1 c1 where f: "ipc_configure_ipv6 (ib_ip b) (fst (ie_ip e)) i ?cfg = (r1, c1)" by fastforce
  let ?e1 = "e\<lparr> ie_ip := (c1, ip_log_of e @ [(Configure6 i ?cfg, r1)]) \<rparr>"
  obtain r2 e2 where e2: "install_routes (logged b) ?e1 ?srs = (r2, e2)" by fastforce
  with install_routes_log [of b ?e1 ?srs] obtain c il where
    e2': "e2 = e\<lparr> ie_ip := (c, ip_log_of e @ (Configure6 i ?cfg, r1) # il) \<rparr>" "fst ` set il \<subseteq> AddRoute ` set ?srs"
    by auto
  have st': "st' = st\<lparr> as_ipv6 := Some \<lparr> a6_interface_index = i, a6_link_local = Some a, a6_prefix_length = p,
      a6_routes = ipv6_routes_for i a p ?g @ ?srs, a6_source = Manual6 \<rparr> \<rparr>"
    using run ap f e2 by (cases r1; cases r2; auto simp: activate_ipv6_def Let_def log_simps)
  have log: "e' = ?e1 \<or> e' = e2"
    using run ap f e2 by (cases r1; cases r2; auto simp: activate_ipv6_def Let_def log_simps)
  have conf: "undone_by (set (teardown_ip_ops st')) (Configure6 i ?cfg)"
    by (auto simp: st' teardown_ip_ops_def ipv6_routes_for_def)
  have routes: "installs op \<and> undone_by (set (teardown_ip_ops st')) op" if "(op, x) \<in> set il" for op x
  proof -
    have "op \<in> AddRoute ` set ?srs" using that e2'(2) by force
    then show ?thesis by (auto simp: st' teardown_ip_ops_def)
  qed
  have mono: "set (teardown_ip_ops st) \<subseteq> set (teardown_ip_ops st')"
    "teardown_dhcp_ops st' = teardown_dhcp_ops st" "teardown_dns_ops st' = teardown_dns_ops st"
    using none by (auto simp: st' teardown_ip_ops_def teardown_dhcp_ops_def teardown_dns_ops_def split: option.splits)
  from log show ?thesis
  proof
    assume "e' = ?e1"
    with covers_more_ip [OF cov mono, of "[(Configure6 i ?cfg, r1)]"] conf show ?thesis by simp
  next
    assume "e' = e2"
    moreover have "\<forall>op x. (op, x) \<in> set ((Configure6 i ?cfg, r1) # il) \<longrightarrow> installs op \<and> undone_by (set (teardown_ip_ops st')) op"
      using conf routes by auto
    ultimately show ?thesis using covers_more_ip [OF cov mono, of "(Configure6 i ?cfg, r1) # il"] e2' by simp
  qed
qed

text \<open>
  Backends for the witnesses: all calls succeed, except installing an IPv6 address when told to fail;
  a manual configuration of either family.
\<close>

definition example_backends :: "bool \<Rightarrow> (unit, unit, unit) ip_backends" where
  "example_backends v6_fails = \<lparr>
     ib_ip = \<lparr> ipc_configure_ipv4 = (\<lambda>s i c. (Ok (), s)), ipc_remove_ipv4 = (\<lambda>s i c. (Ok (), s)),
       ipc_configure_ipv6 = (\<lambda>s i c. (if v6_fails then Err (IpInvalidConfig ''no'') else Ok (), s)),
       ipc_remove_ipv6 = (\<lambda>s i c. (Ok (), s)), ipc_add_route = (\<lambda>s r. (Ok (), s)), ipc_remove_route = (\<lambda>s r. (Ok (), s)) \<rparr>,
     ib_dhcp = \<lparr> dhc_acquire = (\<lambda>s rq. (Err (DhcpTimeout ''eth0''), s)), dhc_release = (\<lambda>s l. (Ok (), s)) \<rparr>,
     ib_dns = \<lparr> dnm_apply = (\<lambda>s w c. (Ok \<lparr> do_owner = w, do_path = ''/etc/resolv.conf'' \<rparr>, s)),
       dnm_remove = (\<lambda>s own. (Ok (), s)) \<rparr> \<rparr>"

definition example_engine :: "(unit, unit, unit) ip_engine" where
  "example_engine = \<lparr> ie_ip = (), ie_dhcp = (), ie_dns = () \<rparr>"

definition example_v4 :: ip_config where
  "example_v4 = \<lparr> ic_method = Manual, ic_address = Some (V4Addr 5), ic_prefix_length = Some 24, ic_gateway = None,
     ic_dns_servers = [V4Addr 1], ic_routes = [default_route_v4 7 9] \<rparr>"

definition example_v6 :: ip_config where
  "example_v6 = \<lparr> ic_method = Manual, ic_address = Some (V6Addr 5), ic_prefix_length = Some 64, ic_gateway = None,
     ic_dns_servers = [], ic_routes = [] \<rparr>"

lemmas example_simps = example_backends_def example_engine_def example_v4_def example_v6_def ip_activate_def
  activate_ipv4_def activate_ipv4_manual_def activate_ipv6_def install_ipv4_def on_ip_def on_dns_def v4_of_def v6_of_def
  logged_def logged_ip_def logged_dns_def logged_dhcp_def log_call_def log_as_def start_log_def
  ipv4_static_routes_def ipv6_static_routes_def default_route_v4_def Let_def

lemma example_fails:
  "fst (ip_activate (logged (example_backends True)) (Ok []) (start_log example_engine) 2 ''eth0'' example_v4 example_v6 ''wired'')
     = Err (IeIpConfig (IpInvalidConfig ''no''))"
  by (simp add: example_simps)

lemma example_succeeds:
  "\<exists>out st e'. ip_activate (logged (example_backends False)) (Ok []) (start_log example_engine) 2 ''eth0'' example_v4 example_v6 ''wired'' =
     (Ok (out, st), e') \<and> as_dns_owner st \<noteq> None"
  by (simp add: example_simps ip_state_default_def)

section \<open>Properties\<close>





text \<open>
  C15. A teardown attempts every removal its state calls for, in order, whatever fails on the way, and
  reports the first error of the DNS removal and of the address removals, those of routes and of the
  lease being ignored.
\<close>

theorem teardown_attempts_everything:
  assumes "teardown (logged b) e st = (r, e')"
  shows "\<exists>il hl dl. ip_log_of e' = ip_log_of e @ il \<and> map fst il = teardown_ip_ops st \<and>
    dhcp_log_of e' = dhcp_log_of e @ hl \<and> map fst hl = teardown_dhcp_ops st \<and>
    dns_log_of e' = dns_log_of e @ dl \<and> map fst dl = teardown_dns_ops st \<and>
    r = (case first_reported dl il of None \<Rightarrow> Ok () | Some err \<Rightarrow> Err err)"
  using teardown_log [OF assms] .

theorem teardown_attempts_everything_witness:
  "\<exists>il. ip_log_of (snd (teardown (logged (example_backends False)) (start_log example_engine)
       \<lparr> as_ipv4 = None, as_ipv6 = Some \<lparr> a6_interface_index = 2, a6_link_local = Some 5, a6_prefix_length = 64,
         a6_routes = [], a6_source = Manual6 \<rparr>, as_dns_owner = None \<rparr>)) = il \<and>
     map fst il = [Remove6 2 \<lparr> c6_address = 5, c6_prefix_length = 64, c6_gateway = None \<rparr>]"
  using teardown_attempts_everything [OF surjective_pairing, of "example_backends False" "start_log example_engine"
       "\<lparr> as_ipv4 = None, as_ipv6 = Some \<lparr> a6_interface_index = 2, a6_link_local = Some 5, a6_prefix_length = 64,
         a6_routes = [], a6_source = Manual6 \<rparr>, as_dns_owner = None \<rparr>"]
  by (auto simp: teardown_ip_ops_def start_log_def)



text \<open>
  The network address keeps the leading bits of the address that the prefix length names and clears
  the others, for both families and also for a prefix length beyond the width of the address.
\<close>

theorem network_address_bits:
  "(bit (network_address_v4 a4 p) n \<longleftrightarrow> bit a4 n \<and> 32 - min (unat p) 32 \<le> n) \<and>
   (bit (network_address_v6 a6 p) n \<longleftrightarrow> bit a6 n \<and> 128 - min (unat p) 128 \<le> n)"
proof -
  have "n < 32" if "bit a4 n" using that bit_imp_le_length [of a4 n] by simp
  moreover have "n < 128" if "bit a6 n" using that bit_imp_le_length [of a6 n] by simp
  moreover have "p = 0 \<longleftrightarrow> unat p = 0" by (simp add: unat_eq_0)
  ultimately show ?thesis
    by (auto simp: network_address_v4_def network_address_v6_def bit_simps)
qed

end
