(* ===== verification/Nm_Netlink.thy ===== *)
theory Nm_Netlink
  imports Nm_Model Nm_Utf8
begin

text \<open>
  The rtnetlink codec and conversations (\<^verbatim>\<open>src/linux/netlink.rs\<close>): attributes and
  messages as the daemon builds them, the parsers of the kernel's messages with every slice checked,
  the dumps, the acknowledged requests and the event source. A socket is the answers of its system
  calls; the lists of answers of \<open>recv\<close> may run out while a loop is waiting, which is
  the result \<open>None\<close>.
\<close>

section \<open>Constants and headers\<close>

abbreviation (input) NLM_F_REQUEST :: u16 where "NLM_F_REQUEST \<equiv> 0x1"
abbreviation (input) NLM_F_ACK :: u16 where "NLM_F_ACK \<equiv> 0x4"
abbreviation (input) NLM_F_REPLACE :: u16 where "NLM_F_REPLACE \<equiv> 0x100"
abbreviation (input) NLM_F_EXCL :: u16 where "NLM_F_EXCL \<equiv> 0x200"
abbreviation (input) NLM_F_DUMP :: u16 where "NLM_F_DUMP \<equiv> 0x300"
abbreviation (input) NLM_F_CREATE :: u16 where "NLM_F_CREATE \<equiv> 0x400"
abbreviation (input) NLMSG_ERROR :: u16 where "NLMSG_ERROR \<equiv> 2"
abbreviation (input) NLMSG_DONE :: u16 where "NLMSG_DONE \<equiv> 3"
abbreviation (input) RTM_NEWLINK :: u16 where "RTM_NEWLINK \<equiv> 16"
abbreviation (input) RTM_DELLINK :: u16 where "RTM_DELLINK \<equiv> 17"
abbreviation (input) RTM_GETLINK :: u16 where "RTM_GETLINK \<equiv> 18"
abbreviation (input) RTM_NEWADDR :: u16 where "RTM_NEWADDR \<equiv> 20"
abbreviation (input) RTM_DELADDR :: u16 where "RTM_DELADDR \<equiv> 21"
abbreviation (input) RTM_GETADDR :: u16 where "RTM_GETADDR \<equiv> 22"
abbreviation (input) RTM_NEWROUTE :: u16 where "RTM_NEWROUTE \<equiv> 24"
abbreviation (input) RTM_DELROUTE :: u16 where "RTM_DELROUTE \<equiv> 25"
abbreviation (input) RTM_GETROUTE :: u16 where "RTM_GETROUTE \<equiv> 26"
abbreviation (input) IFLA_IFNAME :: u16 where "IFLA_IFNAME \<equiv> 3"
abbreviation (input) IFA_ADDRESS :: u16 where "IFA_ADDRESS \<equiv> 1"
abbreviation (input) IFA_LOCAL :: u16 where "IFA_LOCAL \<equiv> 2"
abbreviation (input) RTA_DST :: u16 where "RTA_DST \<equiv> 1"
abbreviation (input) RTA_OIF :: u16 where "RTA_OIF \<equiv> 4"
abbreviation (input) RTA_GATEWAY :: u16 where "RTA_GATEWAY \<equiv> 5"
abbreviation (input) RTA_PRIORITY :: u16 where "RTA_PRIORITY \<equiv> 6"
abbreviation (input) RT_TABLE_MAIN :: u8 where "RT_TABLE_MAIN \<equiv> 254"
abbreviation (input) RTPROT_STATIC :: u8 where "RTPROT_STATIC \<equiv> 4"
abbreviation (input) AF_INET :: u8 where "AF_INET \<equiv> 2"
abbreviation (input) AF_INET6 :: u8 where "AF_INET6 \<equiv> 10"

type_synonym 'a nl = "('a, netlink_error thrown) result"

definition malformed :: "string \<Rightarrow> 'a nl" where
  "malformed msg = Err (Raised (NlMalformed msg))"

record nlmsghdr =
  nlmsg_len :: u32
  nlmsg_type :: u16
  nlmsg_flags :: u16
  nlmsg_seq :: u32
  nlmsg_pid :: u32

definition nlmsghdr_bytes :: "nlmsghdr \<Rightarrow> bytes" where
  "nlmsghdr_bytes h = to_le_bytes32 (nlmsg_len h) @ to_le_bytes16 (nlmsg_type h) @ to_le_bytes16 (nlmsg_flags h)
     @ to_le_bytes32 (nlmsg_seq h) @ to_le_bytes32 (nlmsg_pid h)"

text \<open>\<open>read_unaligned\<close> of each of the structures: the length check, then the fields.\<close>

definition u16_at :: "bytes \<Rightarrow> nat \<Rightarrow> u16 nl" where
  "u16_at bs i = and_then (slice bs i (i + 2)) from_le_bytes16"

definition u32_at :: "bytes \<Rightarrow> nat \<Rightarrow> u32 nl" where
  "u32_at bs i = and_then (slice bs i (i + 4)) from_le_bytes32"

definition read_nlmsghdr :: "bytes \<Rightarrow> nlmsghdr nl" where
  "read_nlmsghdr bs =
     (if length bs < 16 then malformed ''short structured data''
      else and_then (u32_at bs 0) (\<lambda>len. and_then (u16_at bs 4) (\<lambda>typ.
        and_then (u16_at bs 6) (\<lambda>flags. and_then (u32_at bs 8) (\<lambda>seq.
        and_then (u32_at bs 12) (\<lambda>pid.
        Ok \<lparr> nlmsg_len = len, nlmsg_type = typ, nlmsg_flags = flags, nlmsg_seq = seq, nlmsg_pid = pid \<rparr>))))))"

record rtattr =
  rta_len :: u16
  rta_type :: u16

definition read_rtattr :: "bytes \<Rightarrow> rtattr nl" where
  "read_rtattr bs =
     (if length bs < 4 then malformed ''short structured data''
      else and_then (u16_at bs 0) (\<lambda>len. and_then (u16_at bs 2) (\<lambda>typ.
        Ok \<lparr> rta_len = len, rta_type = typ \<rparr>)))"

record ifaddrmsg =
  ifa_family :: u8
  ifa_prefixlen :: u8
  ifa_index :: u32

definition read_ifaddrmsg :: "bytes \<Rightarrow> ifaddrmsg nl" where
  "read_ifaddrmsg bs =
     (if length bs < 8 then malformed ''short structured data''
      else and_then (byte_at bs 0) (\<lambda>family. and_then (byte_at bs 1) (\<lambda>prefixlen.
        and_then (u32_at bs 4) (\<lambda>index.
        Ok \<lparr> ifa_family = family, ifa_prefixlen = prefixlen, ifa_index = index \<rparr>))))"

record rtmsg =
  rtm_family :: u8
  rtm_dst_len :: u8
  rtm_table :: u8
  rtm_scope :: u8
  rtm_type :: u8

definition read_rtmsg :: "bytes \<Rightarrow> rtmsg nl" where
  "read_rtmsg bs =
     (if length bs < 12 then malformed ''short structured data''
      else and_then (byte_at bs 0) (\<lambda>family. and_then (byte_at bs 1) (\<lambda>dst_len.
        and_then (byte_at bs 4) (\<lambda>table. and_then (byte_at bs 6) (\<lambda>scope. and_then (byte_at bs 7) (\<lambda>typ.
        Ok \<lparr> rtm_family = family, rtm_dst_len = dst_len, rtm_table = table, rtm_scope = scope, rtm_type = typ \<rparr>))))))"

record ifinfomsg =
  ifi_index :: i32
  ifi_flags :: u32

definition read_ifinfomsg :: "bytes \<Rightarrow> ifinfomsg nl" where
  "read_ifinfomsg bs =
     (if length bs < 16 then malformed ''short structured data''
      else and_then (u32_at bs 4) (\<lambda>index. and_then (u32_at bs 8) (\<lambda>flags.
        Ok \<lparr> ifi_index = index, ifi_flags = flags \<rparr>)))"

text \<open>\<open>(len + to - 1) & !(to - 1)\<close> for a power of two: the low bits are cleared.\<close>

definition align :: "nat \<Rightarrow> nat \<Rightarrow> nat" where
  "align len to = (len + to - 1) - (len + to - 1) mod to"

section \<open>Building messages\<close>

definition push_attr :: "bytes \<Rightarrow> u16 \<Rightarrow> bytes \<Rightarrow> bytes" where
  "push_attr message attr_type v =
     (let attr_len = 4 + length v in
      message @ to_le_bytes16 (word_of_nat attr_len) @ to_le_bytes16 attr_type @ v
        @ replicate (align attr_len 4 - attr_len) 0)"

definition build_netlink_message :: "u16 \<Rightarrow> u16 \<Rightarrow> bytes \<Rightarrow> bytes" where
  "build_netlink_message message_type flags payload =
     nlmsghdr_bytes \<lparr> nlmsg_len = word_of_nat (16 + length payload), nlmsg_type = message_type,
       nlmsg_flags = flags, nlmsg_seq = 1, nlmsg_pid = 0 \<rparr> @ payload"

definition push_attrs :: "bytes \<Rightarrow> (u16 \<times> bytes) list \<Rightarrow> bytes" where
  "push_attrs payload attrs = foldl (\<lambda>p (t, v). push_attr p t v) payload attrs"

definition ifaddr_payload :: "u8 \<Rightarrow> u8 \<Rightarrow> i32 \<Rightarrow> (u16 \<times> bytes) list \<Rightarrow> bytes" where
  "ifaddr_payload family prefix_length index attrs =
     push_attrs ([family, prefix_length, 0, 0] @ to_le_bytes32 index) attrs"

definition rtmsg_payload :: "u8 \<Rightarrow> u8 \<Rightarrow> u8 \<Rightarrow> u8 \<Rightarrow> u8 \<Rightarrow> (u16 \<times> bytes) list \<Rightarrow> bytes" where
  "rtmsg_payload family dst_len table scope route_type attrs =
     push_attrs ([family, dst_len, 0, 0, table, RTPROT_STATIC, scope, route_type] @ to_le_bytes32 0) attrs"

text \<open>The dump requests: a header and an all-zero structure.\<close>

definition dump_request :: "u16 \<Rightarrow> u32 \<Rightarrow> nat \<Rightarrow> bytes" where
  "dump_request message_type sequence info_size =
     nlmsghdr_bytes \<lparr> nlmsg_len = word_of_nat (16 + info_size), nlmsg_type = message_type,
       nlmsg_flags = NLM_F_REQUEST OR NLM_F_DUMP, nlmsg_seq = sequence, nlmsg_pid = 0 \<rparr> @ replicate info_size 0"

definition address_dump_request :: "u32 \<Rightarrow> bytes" where
  "address_dump_request sequence = dump_request RTM_GETADDR sequence 8"

definition link_dump_request :: "u32 \<Rightarrow> bytes" where
  "link_dump_request sequence = dump_request RTM_GETLINK sequence 16"

definition route_dump_request :: "u32 \<Rightarrow> bytes" where
  "route_dump_request sequence = dump_request RTM_GETROUTE sequence 12"

section \<open>The loops over messages and attributes\<close>

text \<open>
  The loops all have one shape: read a header at the offset, check its length against the buffer, hand
  the payload to the body, step over the padded length. The body of a message loop may return early.
\<close>

datatype ('s, 'r) turn = Go 's | Return 'r

lemma case_turn_eq:
  "(case t of Go s \<Rightarrow> f s | Return r \<Rightarrow> g r) = x \<longleftrightarrow>
     (\<exists>s. t = Go s \<and> f s = x) \<or> (\<exists>r. t = Return r \<and> g r = x)"
  by (cases t) auto

lemma align_bounds: "n \<le> align n 4" "align n 4 < n + 4"
  by (auto simp: align_def)

lemma align_mult: "align n 4 mod 4 = 0"
  by (simp add: align_def minus_mod_eq_mult_div)

function message_loop ::
  "string \<Rightarrow> (nlmsghdr \<Rightarrow> bytes \<Rightarrow> 's \<Rightarrow> ('s, 'r) turn nl) \<Rightarrow> bytes \<Rightarrow> nat \<Rightarrow> 's \<Rightarrow> ('s \<times> nat, 'r) turn nl" where
  "message_loop bad_length body buf offset s =
     (if \<not> offset + 16 \<le> length buf then Ok (Go (s, offset))
      else and_then (slice buf offset (length buf)) (\<lambda>rest.
        and_then (read_nlmsghdr rest) (\<lambda>header.
        let len = unat (nlmsg_len header) in
        if len < 16 \<or> offset + len > length buf then malformed bad_length
        else and_then (slice buf (offset + 16) (offset + len)) (\<lambda>payload.
          and_then (body header payload s) (\<lambda>t. case t of
            Return r \<Rightarrow> Ok (Return r)
          | Go s' \<Rightarrow> message_loop bad_length body buf (offset + align len 4) s')))))"
  by pat_completeness auto

termination
  by (relation "measure (\<lambda>(_, _, buf, offset, _). length buf - offset)")
     (auto intro!: diff_less_mono2 simp: less_le_trans [OF _ align_bounds(1)])

declare message_loop.simps [simp del]

function attr_loop ::
  "string \<Rightarrow> (u16 \<Rightarrow> bytes \<Rightarrow> 's \<Rightarrow> 's nl) \<Rightarrow> bytes \<Rightarrow> nat \<Rightarrow> 's \<Rightarrow> 's nl" where
  "attr_loop bad body payload offset s =
     (if \<not> offset + 4 \<le> length payload then Ok s
      else and_then (slice payload offset (length payload)) (\<lambda>rest.
        and_then (read_rtattr rest) (\<lambda>attr.
        let len = unat (rta_len attr) in
        if len < 4 \<or> offset + len > length payload then malformed bad
        else and_then (slice payload (offset + 4) (offset + len)) (\<lambda>v.
          and_then (body (rta_type attr) v s) (attr_loop bad body payload (offset + align len 4))))))"
  by pat_completeness auto

termination
  by (relation "measure (\<lambda>(_, _, payload, offset, _). length payload - offset)")
     (auto intro!: diff_less_mono2 simp: less_le_trans [OF _ align_bounds(1)])

declare attr_loop.simps [simp del]

section \<open>Parsing messages\<close>

definition ipv6_of_octets :: "bytes \<Rightarrow> ipv6_addr" where
  "ipv6_of_octets bs = foldl (\<lambda>a b. push_bit 8 a OR ucast b) 0 bs"

text \<open>\<open>copy_from_slice\<close> into an array of 16 panics on another length.\<close>

definition octets16 :: "bytes \<Rightarrow> (bytes, 'e thrown) result" where
  "octets16 bs = (if length bs = 16 then Ok bs else Err Panicked)"

definition v4_from_bytes :: "bytes \<Rightarrow> ip_addr nl" where
  "v4_from_bytes bs =
     and_then (byte_at bs 0) (\<lambda>a. and_then (byte_at bs 1) (\<lambda>b.
     and_then (byte_at bs 2) (\<lambda>c. and_then (byte_at bs 3) (\<lambda>d.
     Ok (V4Addr (ipv4_of_octets a b c d))))))"

definition address_from_bytes :: "ip_family \<Rightarrow> bytes \<Rightarrow> ip_addr nl" where
  "address_from_bytes family bs = (case family of
       V4 \<Rightarrow> v4_from_bytes bs
     | V6 \<Rightarrow> and_then (slice bs 0 16) (\<lambda>octets. and_then (octets16 octets) (\<lambda>os. Ok (V6Addr (ipv6_of_octets os)))))"

definition parse_kernel_error_code :: "bytes \<Rightarrow> i32 nl" where
  "parse_kernel_error_code payload =
     (if length payload < 4 then malformed ''short nlmsgerr''
      else and_then (slice payload 0 4) from_le_bytes32)"

definition parse_kernel_error :: "bytes \<Rightarrow> 'a nl" where
  "parse_kernel_error payload = (case parse_kernel_error_code payload of
       Ok code \<Rightarrow> Err (Raised (NlKernel code))
     | Err err \<Rightarrow> Err err)"

definition address_attr :: "nat \<Rightarrow> u16 \<Rightarrow> bytes \<Rightarrow> bytes option \<Rightarrow> bytes option nl" where
  "address_attr expected_len t v address_bytes =
     (if (t = IFA_LOCAL \<or> t = IFA_ADDRESS) \<and> address_bytes = None then
        (if length v \<noteq> expected_len then malformed ''invalid address attribute length''
         else Ok (Some v))
      else Ok address_bytes)"

definition parse_address :: "bytes \<Rightarrow> address option nl" where
  "parse_address payload =
     (if length payload < 8 then malformed ''short ifaddrmsg''
      else and_then (read_ifaddrmsg payload) (\<lambda>info.
        if ifa_family info \<noteq> AF_INET \<and> ifa_family info \<noteq> AF_INET6 then Ok None
        else and_then (attr_loop ''invalid rtattr length'' (address_attr (if ifa_family info = AF_INET then 4 else 16)) payload 8 None)
          (\<lambda>address_bytes. case address_bytes of
             None \<Rightarrow> Ok None
           | Some bs \<Rightarrow>
               and_then (if ifa_family info = AF_INET then v4_from_bytes bs
                         else and_then (octets16 bs) (\<lambda>os. Ok (V6Addr (ipv6_of_octets os))))
                 (\<lambda>a. Ok (Some \<lparr> addr_interface_index = ifa_index info, addr_address = a,
                                  addr_prefix_length = ifa_prefixlen info \<rparr>)))))"

record route_attrs =
  ra_destination :: "bytes option"
  ra_gateway :: "bytes option"
  ra_output_interface :: "i32 option"
  ra_metric :: "u32 option"

definition no_route_attrs :: route_attrs where
  "no_route_attrs = \<lparr> ra_destination = None, ra_gateway = None, ra_output_interface = None, ra_metric = None \<rparr>"

definition route_attr :: "nat \<Rightarrow> u16 \<Rightarrow> bytes \<Rightarrow> route_attrs \<Rightarrow> route_attrs nl" where
  "route_attr expected_len t v s =
     (if t = RTA_DST then
        (if length v \<noteq> expected_len then malformed ''invalid route destination length''
         else Ok (s\<lparr> ra_destination := Some v \<rparr>))
      else if t = RTA_GATEWAY then
        (if length v \<noteq> expected_len then malformed ''invalid route gateway length''
         else Ok (s\<lparr> ra_gateway := Some v \<rparr>))
      else if t = RTA_OIF then
        (if length v \<noteq> 4 then malformed ''invalid route oif length''
         else and_then (from_le_bytes32 v) (\<lambda>i. Ok (s\<lparr> ra_output_interface := Some i \<rparr>)))
      else if t = RTA_PRIORITY then
        (if length v \<noteq> 4 then malformed ''invalid route metric length''
         else and_then (from_le_bytes32 v) (\<lambda>n. Ok (s\<lparr> ra_metric := Some n \<rparr>)))
      else Ok s)"

definition parse_route :: "bytes \<Rightarrow> route option nl" where
  "parse_route payload =
     (if length payload < 12 then malformed ''short rtmsg''
      else and_then (read_rtmsg payload) (\<lambda>info.
        if rtm_family info \<noteq> AF_INET \<and> rtm_family info \<noteq> AF_INET6 then Ok None
        else
          (let family = (if rtm_family info = AF_INET then V4 else V6);
               table = (if rtm_table info = 0 then RT_TABLE_MAIN else rtm_table info);
               kind = route_kind_from_u8 (rtm_type info) in
           if table \<noteq> RT_TABLE_MAIN then Ok None
           else if kind \<noteq> Unicast \<and> kind \<noteq> Blackhole \<and> kind \<noteq> Unreachable then Ok None
           else and_then (attr_loop ''invalid rtattr length'' (route_attr (if family = V4 then 4 else 16)) payload 12 no_route_attrs) (\<lambda>s.
             and_then (case ra_destination s of
                         Some bs \<Rightarrow> address_from_bytes family bs
                       | None \<Rightarrow> Ok (if family = V4 then V4Addr 0 else V6Addr 0)) (\<lambda>destination.
             and_then (case ra_gateway s of
                         Some bs \<Rightarrow> map_ok Some (address_from_bytes family bs)
                       | None \<Rightarrow> Ok None) (\<lambda>gateway.
             Ok (Some \<lparr> rt_family = family, rt_destination = destination, rt_prefix_length = rtm_dst_len info,
                        rt_gateway = gateway, rt_output_interface = ra_output_interface s,
                        rt_metric = ra_metric s, rt_kind = kind,
                        rt_scope = route_scope_from_u8 (rtm_scope info) \<rparr>)))))))"

definition link_attr :: "u16 \<Rightarrow> bytes \<Rightarrow> string option \<Rightarrow> string option nl" where
  "link_attr t v name =
     (if t = IFLA_IFNAME then
        (let end = (case position (\<lambda>b. b = 0) v of None \<Rightarrow> length v | Some i \<Rightarrow> i)
         in and_then (slice v 0 end) (\<lambda>bs. Ok (Some (from_utf8_lossy bs))))
      else Ok name)"

definition parse_link :: "bytes \<Rightarrow> link option nl" where
  "parse_link payload =
     (if length payload < 16 then malformed ''short ifinfomsg''
      else and_then (read_ifinfomsg payload) (\<lambda>info.
        and_then (attr_loop ''invalid rtattr length'' link_attr payload 16 None) (\<lambda>name.
        Ok (map_option (\<lambda>n. \<lparr> link_index = ifi_index info, link_name = n, link_flags = ifi_flags info \<rparr>) name))))"

text \<open>The three dump parsers: the objects so far and whether the dump is done.\<close>

definition dump_turn ::
  "u16 \<Rightarrow> (bytes \<Rightarrow> 'a option nl) \<Rightarrow> nlmsghdr \<Rightarrow> bytes \<Rightarrow> 'a list \<Rightarrow> ('a list, bool \<times> 'a list) turn nl" where
  "dump_turn wanted parse_item header payload items =
     (if nlmsg_type header = NLMSG_DONE then Ok (Return (True, items))
      else if nlmsg_type header = NLMSG_ERROR then parse_kernel_error payload
      else if nlmsg_type header = wanted then
        and_then (parse_item payload) (\<lambda>item. Ok (Go (case item of None \<Rightarrow> items | Some x \<Rightarrow> items @ [x])))
      else Ok (Go items))"

definition parse_dump :: "u16 \<Rightarrow> (bytes \<Rightarrow> 'a option nl) \<Rightarrow> bytes \<Rightarrow> 'a list \<Rightarrow> (bool \<times> 'a list) nl" where
  "parse_dump wanted parse_item buf items =
     and_then (message_loop ''invalid nlmsghdr length'' (dump_turn wanted parse_item) buf 0 items)
       (\<lambda>t. case t of Return r \<Rightarrow> Ok r | Go (items', _) \<Rightarrow> Ok (False, items'))"

definition parse_link_messages :: "bytes \<Rightarrow> link list \<Rightarrow> (bool \<times> link list) nl" where
  "parse_link_messages = parse_dump RTM_NEWLINK parse_link"

definition parse_address_messages :: "bytes \<Rightarrow> address list \<Rightarrow> (bool \<times> address list) nl" where
  "parse_address_messages = parse_dump RTM_NEWADDR parse_address"

definition parse_route_messages :: "bytes \<Rightarrow> route list \<Rightarrow> (bool \<times> route list) nl" where
  "parse_route_messages = parse_dump RTM_NEWROUTE parse_route"

definition push_event :: "('a \<Rightarrow> network_event) \<Rightarrow> network_event list \<Rightarrow> 'a option \<Rightarrow> network_event list" where
  "push_event f events x = (case x of None \<Rightarrow> events | Some y \<Rightarrow> events @ [f y])"

definition event_turn ::
  "nlmsghdr \<Rightarrow> bytes \<Rightarrow> network_event list \<Rightarrow> (network_event list, network_event list) turn nl" where
  "event_turn header payload events =
     (let t = nlmsg_type header; created = nlmsg_flags header AND NLM_F_CREATE \<noteq> 0 in
      if t = NLMSG_DONE then Ok (Return events)
      else if t = NLMSG_ERROR then parse_kernel_error payload
      else if t = RTM_NEWLINK then
        map_ok (\<lambda>x. Go (push_event (LinkEvent (if created then LinkCreated else LinkChanged)) events x)) (parse_link payload)
      else if t = RTM_DELLINK then map_ok (\<lambda>x. Go (push_event (LinkEvent LinkRemoved) events x)) (parse_link payload)
      else if t = RTM_NEWADDR then map_ok (\<lambda>x. Go (push_event (AddressEvent AddressAdded) events x)) (parse_address payload)
      else if t = RTM_DELADDR then map_ok (\<lambda>x. Go (push_event (AddressEvent AddressRemoved) events x)) (parse_address payload)
      else if t = RTM_NEWROUTE then
        map_ok (\<lambda>x. Go (push_event (RouteEvent (if created then RouteAdded else RouteChanged)) events x)) (parse_route payload)
      else if t = RTM_DELROUTE then map_ok (\<lambda>x. Go (push_event (RouteEvent RouteRemoved) events x)) (parse_route payload)
      else Ok (Go events))"

definition parse_network_events :: "bytes \<Rightarrow> network_event list nl" where
  "parse_network_events buf =
     and_then (message_loop ''invalid nlmsghdr length'' event_turn buf 0 [])
       (\<lambda>t. case t of
          Return events \<Rightarrow> Ok events
        | Go (events, offset) \<Rightarrow>
            if offset \<noteq> length buf then malformed ''trailing partial nlmsghdr'' else Ok events)"

section \<open>Conversations\<close>

record netlink_socket =
  ns_socket :: "(i32, io_error) result"
  ns_bind :: "u32 \<Rightarrow> io_error option"
  ns_getfl :: "(i32, io_error) result"
  ns_setfl :: "i32 \<Rightarrow> io_error option"
  ns_send :: "nat \<Rightarrow> (nat, io_error) result"
  ns_recv :: "(bytes, io_error) result list"

definition open_socket_with_groups :: "netlink_socket \<Rightarrow> u32 \<Rightarrow> i32 nl" where
  "open_socket_with_groups sock groups = (case ns_socket sock of
       Err e \<Rightarrow> Err (Raised (NlIo e))
     | Ok fd \<Rightarrow> (case ns_bind sock groups of Some e \<Rightarrow> Err (Raised (NlIo e)) | None \<Rightarrow> Ok fd))"

definition open_route_socket :: "netlink_socket \<Rightarrow> i32 nl" where
  "open_route_socket sock = open_socket_with_groups sock 0"

definition set_flag :: "netlink_socket \<Rightarrow> i32 \<Rightarrow> bool \<Rightarrow> unit nl" where
  "set_flag sock flag enabled = (case ns_getfl sock of
       Err e \<Rightarrow> Err (Raised (NlIo e))
     | Ok flags \<Rightarrow> (case ns_setfl sock (if enabled then flags OR flag else flags AND NOT flag) of
           Some e \<Rightarrow> Err (Raised (NlIo e))
         | None \<Rightarrow> Ok ()))"

definition set_nonblocking :: "netlink_socket \<Rightarrow> unit nl" where
  "set_nonblocking sock = set_flag sock 0x800 True"

definition send_all :: "netlink_socket \<Rightarrow> bytes \<Rightarrow> unit nl" where
  "send_all sock bs = (case ns_send sock (length bs) of
       Err e \<Rightarrow> Err (Raised (NlIo e))
     | Ok sent \<Rightarrow> if sent \<noteq> length bs then malformed ''short netlink send'' else Ok ())"

fun dump_loop ::
  "(bytes \<Rightarrow> 'a list \<Rightarrow> (bool \<times> 'a list) nl) \<Rightarrow> (bytes, io_error) result list \<Rightarrow> 'a list \<Rightarrow> 'a list nl option" where
  "dump_loop parse_chunk [] items = None"
| "dump_loop parse_chunk (Err e # rs) items = Some (Err (Raised (NlIo e)))"
| "dump_loop parse_chunk (Ok buf # rs) items = (case parse_chunk buf items of
       Err e \<Rightarrow> Some (Err e)
     | Ok (done, items') \<Rightarrow> if done then Some (Ok items') else dump_loop parse_chunk rs items')"

definition dump ::
  "netlink_socket \<Rightarrow> bytes \<Rightarrow> (bytes \<Rightarrow> 'a list \<Rightarrow> (bool \<times> 'a list) nl) \<Rightarrow> ('a list \<Rightarrow> 'a list) \<Rightarrow> 'a list nl option" where
  "dump sock request parse_chunk order = (case open_route_socket sock of
       Err e \<Rightarrow> Some (Err e)
     | Ok _ \<Rightarrow> (case send_all sock request of
           Err e \<Rightarrow> Some (Err e)
         | Ok _ \<Rightarrow> map_option (map_ok order) (dump_loop parse_chunk (ns_recv sock) [])))"

text \<open>The sort keys, compared as the derived orders of the Rust types compare them.\<close>

definition ip_addr_key :: "ip_addr \<Rightarrow> nat \<times> nat" where
  "ip_addr_key a = (case a of V4Addr v \<Rightarrow> (0, unat v) | V6Addr v \<Rightarrow> (1, unat v))"

definition link_key :: "link \<Rightarrow> int list" where
  "link_key l = [sint (link_index l)]"

definition address_key :: "address \<Rightarrow> int list" where
  "address_key a = [uint (addr_interface_index a), int (fst (ip_addr_key (addr_address a))), int (snd (ip_addr_key (addr_address a)))]"

text \<open>The key of a route: an absent metric or interface comes first, hence its presence is a component.\<close>

definition presence_key :: "('a \<Rightarrow> int) \<Rightarrow> 'a option \<Rightarrow> int list" where
  "presence_key f x = (case x of None \<Rightarrow> [0, 0] | Some y \<Rightarrow> [1, f y])"

definition route_key :: "route \<Rightarrow> int list" where
  "route_key r = [case rt_family r of V4 \<Rightarrow> 0 | V6 \<Rightarrow> 1,
     int (fst (ip_addr_key (rt_destination r))), int (snd (ip_addr_key (rt_destination r))), uint (rt_prefix_length r)]
     @ presence_key uint (rt_metric r) @ presence_key sint (rt_output_interface r)"

definition get_links :: "netlink_socket \<Rightarrow> link list nl option" where
  "get_links sock = dump sock (link_dump_request 1) parse_link_messages (sort_by (\<lambda>a b. link_key a \<le> link_key b))"

definition get_addresses :: "netlink_socket \<Rightarrow> address list nl option" where
  "get_addresses sock = dump sock (address_dump_request 2) parse_address_messages (sort_by (\<lambda>a b. address_key a \<le> address_key b))"

definition get_routes :: "netlink_socket \<Rightarrow> route list nl option" where
  "get_routes sock = dump sock (route_dump_request 3) parse_route_messages (sort_by (\<lambda>a b. route_key a \<le> route_key b))"

definition ack_turn :: "nlmsghdr \<Rightarrow> bytes \<Rightarrow> unit \<Rightarrow> (unit, unit nl) turn nl" where
  "ack_turn header payload s =
     (if nlmsg_type header = NLMSG_ERROR then
        and_then (parse_kernel_error_code payload)
          (\<lambda>code. Ok (Return (if code = 0 then Ok () else Err (Raised (NlKernel code)))))
      else Ok (Go s))"

fun ack_loop :: "(bytes, io_error) result list \<Rightarrow> unit nl option" where
  "ack_loop [] = None"
| "ack_loop (Err e # rs) = Some (Err (Raised (NlIo e)))"
| "ack_loop (Ok buf # rs) = (case message_loop ''invalid ack length'' ack_turn buf 0 () of
       Err e \<Rightarrow> Some (Err e)
     | Ok (Return r) \<Rightarrow> Some r
     | Ok (Go _) \<Rightarrow> ack_loop rs)"

definition transact_rtnetlink :: "netlink_socket \<Rightarrow> bytes \<Rightarrow> unit nl option" where
  "transact_rtnetlink sock message = (case open_route_socket sock of
       Err e \<Rightarrow> Some (Err e)
     | Ok _ \<Rightarrow> (case send_all sock message of
           Err e \<Rightarrow> Some (Err e)
         | Ok _ \<Rightarrow> ack_loop (ns_recv sock)))"

section \<open>The event source\<close>

text \<open>
  The shutdown flag is set by the signal handler and cleared when a source is opened. Opening the source
  subscribes to the groups of links, addresses and routes; the source starts with no pending event.
\<close>

definition request_shutdown :: "bool \<Rightarrow> bool" where
  "request_shutdown shutdown = True"

definition open_link_event_source :: "netlink_socket \<Rightarrow> bool \<Rightarrow> network_event list nl \<times> bool" where
  "open_link_event_source sock shutdown =
     (and_then (open_socket_with_groups sock (0x1 OR 0x10 OR 0x100 OR 0x40 OR 0x400)) (\<lambda>fd.
      and_then (set_nonblocking sock) (\<lambda>_. Ok [])), False)"

text \<open>
  One turn of the loop of \<open>next_event\<close>: the shutdown flag before the read, the read, and the flag
  after a read that would block. The pending events are in the order of the vector, the next one last.
\<close>

record event_turn_input =
  et_shutdown :: bool
  et_recv :: "(bytes, io_error) result"
  et_shutdown_after :: bool

text \<open>The loop is the same for the route events and the Wi-Fi events; they differ in the parser.\<close>

fun source_next ::
  "(bytes \<Rightarrow> 'e list nl) \<Rightarrow> 'e list \<Rightarrow> event_turn_input list \<Rightarrow>
     ('e option nl \<times> 'e list \<times> event_turn_input list) option" where
  "source_next parse_events pending turns =
     (if pending \<noteq> [] then Some (Ok (Some (last pending)), butlast pending, turns)
      else case turns of
        [] \<Rightarrow> None
      | t # ts \<Rightarrow>
          if et_shutdown t then Some (Ok None, pending, ts)
          else case et_recv t of
            Ok buf \<Rightarrow> (case parse_events buf of
                Err e \<Rightarrow> Some (Err e, pending, ts)
              | Ok events \<Rightarrow> source_next parse_events (rev events) ts)
          | Err e \<Rightarrow>
              if io_kind e = IoInterrupted \<or> io_kind e = IoWouldBlock then
                (if et_shutdown_after t then Some (Ok None, pending, ts) else source_next parse_events pending ts)
              else Some (Err (Raised (NlIo e)), pending, ts))"

declare source_next.simps [simp del]

definition next_event ::
  "network_event list \<Rightarrow> event_turn_input list \<Rightarrow>
     (network_event option nl \<times> network_event list \<times> event_turn_input list) option" where
  "next_event pending turns = source_next parse_network_events pending turns"

section \<open>No panic\<close>

text \<open>
  The loops read only inside the buffer: they panic only when their body does.
\<close>

lemma u32_at_panics: "u32_at bs i = Err Panicked \<longleftrightarrow> length bs < i + 4"
  by (simp add: u32_at_def slice_def le32c.dec_not_panicked)

lemma u16_at_panics: "u16_at bs i = Err Panicked \<longleftrightarrow> length bs < i + 2"
  by (simp add: u16_at_def slice_def le16c.dec_not_panicked)

lemma byte_at_panics: "byte_at bs i = Err Panicked \<longleftrightarrow> length bs \<le> i"
  by (auto simp: byte_at_def)

lemma slice_panics: "slice bs a b = Err Panicked \<longleftrightarrow> \<not> (a \<le> b \<and> b \<le> length bs)"
  by (auto simp: slice_def)

lemma malformed_safe [simp]: "malformed msg \<noteq> Err Panicked"
  by (simp add: malformed_def)

lemmas panics = u16_at_panics u32_at_panics byte_at_panics slice_panics and_then_eq_Err map_ok_eq_Err

lemma read_headers_safe [simp]:
  "read_nlmsghdr bs \<noteq> Err Panicked" "read_rtattr bs \<noteq> Err Panicked"
  "read_ifaddrmsg bs \<noteq> Err Panicked" "read_rtmsg bs \<noteq> Err Panicked" "read_ifinfomsg bs \<noteq> Err Panicked"
  by (auto simp: read_nlmsghdr_def read_rtattr_def read_ifaddrmsg_def read_rtmsg_def read_ifinfomsg_def panics)

lemma message_loop_safe:
  assumes "\<And>h p s. body h p s \<noteq> Err Panicked"
  shows "message_loop bad body buf offset s \<noteq> Err Panicked"
  using assms
proof (induction bad body buf offset s rule: message_loop.induct)
  case (1 bad body buf offset s)
  show ?case
  proof
    assume panic: "message_loop bad body buf offset s = Err Panicked"
    from panic [unfolded message_loop.simps [of bad body buf offset s]] obtain h p s' where
      "offset + 16 \<le> length buf" "read_nlmsghdr (drop offset buf) = Ok h"
      "\<not> (unat (nlmsg_len h) < 16 \<or> length buf < offset + unat (nlmsg_len h))"
      "slice buf (offset + 16) (offset + unat (nlmsg_len h)) = Ok p" "body h p s = Ok (Go s')"
      "message_loop bad body buf (offset + align (unat (nlmsg_len h)) 4) s' = Err Panicked"
      by (auto simp: panics Let_def "1.prems" case_turn_eq split: if_split_asm)
    with "1.IH" [of "drop offset buf" h "unat (nlmsg_len h)" p "Go s'" s'] "1.prems" show False
      by simp
  qed
qed

lemma attr_loop_safe:
  assumes "\<And>t v s. body t v s \<noteq> Err Panicked"
  shows "attr_loop bad body payload offset s \<noteq> Err Panicked"
  using assms
proof (induction bad body payload offset s rule: attr_loop.induct)
  case (1 bad body payload offset s)
  show ?case
  proof
    assume panic: "attr_loop bad body payload offset s = Err Panicked"
    from panic [unfolded attr_loop.simps [of bad body payload offset s]] obtain a v s' where
      "offset + 4 \<le> length payload" "read_rtattr (drop offset payload) = Ok a"
      "\<not> (unat (rta_len a) < 4 \<or> length payload < offset + unat (rta_len a))"
      "slice payload (offset + 4) (offset + unat (rta_len a)) = Ok v" "body (rta_type a) v s = Ok s'"
      "attr_loop bad body payload (offset + align (unat (rta_len a)) 4) s' = Err Panicked"
      by (auto simp: panics Let_def "1.prems" split: if_splits)
    with "1.IH" [of "drop offset payload" a "unat (rta_len a)" v s'] "1.prems" show False
      by simp
  qed
qed

lemma parse_kernel_error_safe [simp]:
  "parse_kernel_error_code p \<noteq> Err Panicked" "parse_kernel_error p \<noteq> Err Panicked"
  by (auto simp: parse_kernel_error_def parse_kernel_error_code_def le32c.dec_not_panicked split: result.split)

text \<open>An invariant of the accumulator that every attribute keeps holds after the loop.\<close>

lemma attr_loop_invariant:
  assumes "attr_loop bad body payload offset s = Ok s'" "P s"
    and "\<And>t v s s'. P s \<Longrightarrow> body t v s = Ok s' \<Longrightarrow> P s'"
  shows "P s'"
  using assms
proof (induction bad body payload offset s rule: attr_loop.induct)
  case (1 bad body payload offset s)
  show ?case
  proof (cases "offset + 4 \<le> length payload")
    case False
    with "1.prems" show ?thesis by (simp add: attr_loop.simps)
  next
    case True
    from "1.prems"(1) [unfolded attr_loop.simps [of bad body payload offset s]] True obtain a v s2 where
      step: "read_rtattr (drop offset payload) = Ok a"
      "\<not> (unat (rta_len a) < 4 \<or> length payload < offset + unat (rta_len a))"
      "slice payload (offset + 4) (offset + unat (rta_len a)) = Ok v" "body (rta_type a) v s = Ok s2"
      "attr_loop bad body payload (offset + align (unat (rta_len a)) 4) s2 = Ok s'"
      by (auto simp: and_then_eq_Ok Let_def malformed_def split: if_split_asm)
    moreover have "P s2" using "1.prems"(2,3) step(4) by blast
    ultimately show ?thesis
      using "1.IH" [of "drop offset payload" a "unat (rta_len a)" v s2] "1.prems"(3) True by simp
  qed
qed

lemma address_attr_safe: "address_attr n t v s \<noteq> Err Panicked"
  by (simp add: address_attr_def)

lemma route_attr_safe: "route_attr n t v s \<noteq> Err Panicked"
  by (auto simp: route_attr_def panics le32c.dec_not_panicked)

lemma link_attr_safe: "link_attr t v s \<noteq> Err Panicked"
  by (auto simp: link_attr_def panics Let_def split: option.split dest: position_le_length)

lemma address_loop_len:
  assumes "attr_loop ''invalid rtattr length'' (address_attr n) payload offset None = Ok (Some bs)"
  shows "length bs = n"
proof -
  have "pred_option (\<lambda>bs. length bs = n) (Some bs)"
    by (rule attr_loop_invariant [OF assms]) (auto simp: address_attr_def malformed_def split: if_split_asm)
  then show ?thesis by simp
qed

lemma v4_from_bytes_safe: "length bs = 4 \<Longrightarrow> v4_from_bytes bs \<noteq> Err Panicked"
  by (auto simp: v4_from_bytes_def panics)

lemma address_from_bytes_safe:
  "length bs = (if family = V4 then 4 else 16) \<Longrightarrow> address_from_bytes family bs \<noteq> Err Panicked"
  by (cases family) (auto simp: address_from_bytes_def octets16_def v4_from_bytes_safe)

lemma parse_address_safe: "parse_address payload \<noteq> Err Panicked"
  by (auto simp: parse_address_def panics attr_loop_safe address_attr_safe octets16_def v4_from_bytes_safe
      split: option.split_asm if_split_asm dest!: address_loop_len)

lemma route_loop_len:
  assumes "attr_loop ''invalid rtattr length'' (route_attr n) payload offset no_route_attrs = Ok s"
  shows "pred_option (\<lambda>bs. length bs = n) (ra_destination s) \<and> pred_option (\<lambda>bs. length bs = n) (ra_gateway s)"
  by (rule attr_loop_invariant [OF assms])
     (auto simp: no_route_attrs_def route_attr_def malformed_def and_then_eq_Ok split: if_split_asm)

lemma parse_route_safe: "parse_route payload \<noteq> Err Panicked"
  by (auto simp: parse_route_def panics attr_loop_safe route_attr_safe address_from_bytes_safe Let_def
      split: option.split_asm if_split_asm dest!: route_loop_len)

lemma parse_link_safe: "parse_link payload \<noteq> Err Panicked"
  by (auto simp: parse_link_def panics attr_loop_safe link_attr_safe)

lemmas parsers_safe = parse_link_safe parse_address_safe parse_route_safe

lemma dump_turn_safe: "(\<And>p. parse_item p \<noteq> Err Panicked) \<Longrightarrow> dump_turn wanted parse_item h p items \<noteq> Err Panicked"
  by (auto simp: dump_turn_def panics)

lemma parse_dump_safe: "(\<And>p. parse_item p \<noteq> Err Panicked) \<Longrightarrow> parse_dump wanted parse_item buf items \<noteq> Err Panicked"
  by (auto simp: parse_dump_def panics message_loop_safe dump_turn_safe split: turn.split_asm)

lemma event_turn_safe: "event_turn h p events \<noteq> Err Panicked"
  by (simp add: event_turn_def Let_def panics parsers_safe)

lemma ack_turn_safe: "ack_turn h p s \<noteq> Err Panicked"
  by (auto simp: ack_turn_def panics)

lemma parse_network_events_safe: "parse_network_events buf \<noteq> Err Panicked"
  by (auto simp: parse_network_events_def panics message_loop_safe event_turn_safe
      split: turn.split_asm if_split_asm)

text \<open>C20. Whatever bytes the kernel or another process sends, none of the parsers panics: not the three
  dump parsers, not the event parser.\<close>

theorem netlink_parsers_never_panic:
  "parse_network_events buf \<noteq> Err Panicked \<and> parse_link_messages buf links \<noteq> Err Panicked \<and>
   parse_address_messages buf addresses \<noteq> Err Panicked \<and> parse_route_messages buf routes \<noteq> Err Panicked"
  by (simp add: parse_network_events_safe parse_link_messages_def parse_address_messages_def
      parse_route_messages_def parse_dump_safe parsers_safe)

section \<open>Framing\<close>

text \<open>
  The reference for the loops: a datagram is a sequence of messages, a payload ends in a sequence of
  attributes. \<open>run_messages\<close> and \<open>run_attrs\<close> process the sequence; the loops over the
  bytes do the same.
\<close>

definition pad4 :: "nat \<Rightarrow> bytes" where
  "pad4 n = replicate (align n 4 - n) 0"

definition framed :: "nlmsghdr \<times> bytes \<Rightarrow> bytes" where
  "framed m = nlmsghdr_bytes (fst m) @ snd m @ pad4 (16 + length (snd m))"

definition frame_ok :: "nlmsghdr \<times> bytes \<Rightarrow> bool" where
  "frame_ok m \<longleftrightarrow> unat (nlmsg_len (fst m)) = 16 + length (snd m)"

fun run_messages ::
  "(nlmsghdr \<Rightarrow> bytes \<Rightarrow> 's \<Rightarrow> ('s, 'r) turn nl) \<Rightarrow> (nlmsghdr \<times> bytes) list \<Rightarrow> 's \<Rightarrow> ('s, 'r) turn nl" where
  "run_messages body [] s = Ok (Go s)"
| "run_messages body (m # ms) s = and_then (body (fst m) (snd m) s) (\<lambda>t. case t of
       Return r \<Rightarrow> Ok (Return r)
     | Go s' \<Rightarrow> run_messages body ms s')"

fun run_attrs :: "(u16 \<Rightarrow> bytes \<Rightarrow> 's \<Rightarrow> 's nl) \<Rightarrow> (u16 \<times> bytes) list \<Rightarrow> 's \<Rightarrow> 's nl" where
  "run_attrs body [] s = Ok s"
| "run_attrs body (a # as) s = and_then (body (fst a) (snd a) s) (run_attrs body as)"

lemma length_pad4: "length (pad4 n) = align n 4 - n"
  by (simp add: pad4_def)

lemma length_nlmsghdr_bytes [simp]: "length (nlmsghdr_bytes h) = 16"
  by (simp add: nlmsghdr_bytes_def)

lemma length_framed: "length (framed m) = align (16 + length (snd m)) 4"
  using align_bounds [of "16 + length (snd m)"] by (simp add: framed_def length_pad4)

lemma read_nlmsghdr_bytes [simp]: "read_nlmsghdr (nlmsghdr_bytes h @ xs) = Ok h"
  by (cases h) (simp add: read_nlmsghdr_def nlmsghdr_bytes_def u32_at_def u16_at_def
      to_le_bytes32_def to_le_bytes16_def)

lemma message_loop_framed:
  assumes "frame_ok m"
  shows "message_loop bad body (pre @ nlmsghdr_bytes (fst m) @ snd m @ post) (length pre) s =
     and_then (body (fst m) (snd m) s) (\<lambda>t. case t of
       Return r \<Rightarrow> Ok (Return r)
     | Go s' \<Rightarrow> message_loop bad body (pre @ nlmsghdr_bytes (fst m) @ snd m @ post)
                  (length pre + align (16 + length (snd m)) 4) s')"
  using assms
  by (subst message_loop.simps) (simp add: frame_ok_def Let_def)

lemma message_loop_end: "length buf < offset + 16 \<Longrightarrow> message_loop bad body buf offset s = Ok (Go (s, offset))"
  by (simp add: message_loop.simps)

lemma message_loop_messages:
  assumes "list_all frame_ok ms"
  shows "message_loop bad body (pre @ concat (map framed ms)) (length pre) s =
     map_ok (map_turn (\<lambda>s'. (s', length (pre @ concat (map framed ms)))) (\<lambda>r. r)) (run_messages body ms s)"
  using assms
proof (induction ms arbitrary: pre s)
  case Nil
  then show ?case by (simp add: message_loop_end)
next
  case (Cons m ms)
  have "length (pre @ framed m) = length pre + align (16 + length (snd m)) 4"
    by (simp add: length_framed)
  with Cons.IH [of "pre @ framed m"] Cons.prems
  have IH: "message_loop bad body (pre @ framed m @ concat (map framed ms)) (length pre + align (16 + length (snd m)) 4) s' =
     map_ok (map_turn (\<lambda>s'. (s', length (pre @ framed m @ concat (map framed ms)))) (\<lambda>r. r)) (run_messages body ms s')" for s'
    by simp
  let ?buf = "pre @ framed m @ concat (map framed ms)"
  from Cons.prems have "frame_ok m" by simp
  then have "message_loop bad body ?buf (length pre) s = and_then (body (fst m) (snd m) s) (\<lambda>t. case t of
       Return r \<Rightarrow> Ok (Return r)
     | Go s' \<Rightarrow> message_loop bad body ?buf (length pre + align (16 + length (snd m)) 4) s')"
    unfolding framed_def [of m] append_assoc by (rule message_loop_framed)
  then show ?case
    by (cases "body (fst m) (snd m) s") (auto simp: IH split: turn.split)
qed

text \<open>Attributes.\<close>

definition attr_bytes :: "u16 \<times> bytes \<Rightarrow> bytes" where
  "attr_bytes a = push_attr [] (fst a) (snd a)"

definition attr_ok :: "u16 \<times> bytes \<Rightarrow> bool" where
  "attr_ok a \<longleftrightarrow> 4 + length (snd a) < 2 ^ 16"

lemma push_attr_append: "push_attr p t v = p @ attr_bytes (t, v)"
  by (simp add: push_attr_def attr_bytes_def Let_def)

lemma push_attrs_eq: "push_attrs p as = p @ concat (map attr_bytes as)"
  by (induction as arbitrary: p) (auto simp: push_attrs_def push_attr_append split: prod.splits)

lemma attr_bytes_eq:
  "attr_bytes a = to_le_bytes16 (word_of_nat (4 + length (snd a))) @ to_le_bytes16 (fst a) @ snd a @ pad4 (4 + length (snd a))"
  by (simp add: attr_bytes_def push_attr_def Let_def pad4_def)

lemma length_attr_bytes: "length (attr_bytes a) = align (4 + length (snd a)) 4"
  using align_bounds [of "4 + length (snd a)"] by (simp add: attr_bytes_eq length_pad4)

lemma read_rtattr_bytes:
  "read_rtattr (to_le_bytes16 l @ to_le_bytes16 t @ xs) = Ok \<lparr> rta_len = l, rta_type = t \<rparr>"
  by (simp add: read_rtattr_def u16_at_def to_le_bytes16_def)

lemma attr_loop_attrs:
  assumes "list_all attr_ok as"
  shows "attr_loop bad body (pre @ concat (map attr_bytes as)) (length pre) s = run_attrs body as s"
  using assms
proof (induction as arbitrary: pre s)
  case Nil
  then show ?case by (simp add: attr_loop.simps)
next
  case (Cons a as)
  let ?all = "pre @ attr_bytes a @ concat (map attr_bytes as)"
  from Cons.prems have len: "unat (word_of_nat (4 + length (snd a)) :: u16) = 4 + length (snd a)"
    by (simp add: attr_ok_def unat_of_nat del: of_nat_add)
  have IH: "attr_loop bad body ?all (length pre + align (4 + length (snd a)) 4) s' = run_attrs body as s'" for s'
    using Cons.IH [of "pre @ attr_bytes a" s'] Cons.prems by (simp add: length_attr_bytes)
  have "attr_loop bad body ?all (length pre) s =
     and_then (body (fst a) (snd a) s) (attr_loop bad body ?all (length pre + align (4 + length (snd a)) 4))"
    by (subst attr_loop.simps)
       (simp add: attr_bytes_eq read_rtattr_bytes len Let_def del: of_nat_add)
  with IH show ?case by (cases "body (fst a) (snd a) s") simp_all
qed

lemmas push_attrs_loop = attr_loop_attrs [folded push_attrs_eq]

section \<open>Events of a datagram\<close>

text \<open>The reference for the event parser: the event a message stands for, and those of a datagram.\<close>

definition message_event :: "nlmsghdr \<Rightarrow> bytes \<Rightarrow> network_event option nl" where
  "message_event h p =
     (let created = nlmsg_flags h AND NLM_F_CREATE \<noteq> 0 in
      if nlmsg_type h = RTM_NEWLINK then map_ok (map_option (LinkEvent (if created then LinkCreated else LinkChanged))) (parse_link p)
      else if nlmsg_type h = RTM_DELLINK then map_ok (map_option (LinkEvent LinkRemoved)) (parse_link p)
      else if nlmsg_type h = RTM_NEWADDR then map_ok (map_option (AddressEvent AddressAdded)) (parse_address p)
      else if nlmsg_type h = RTM_DELADDR then map_ok (map_option (AddressEvent AddressRemoved)) (parse_address p)
      else if nlmsg_type h = RTM_NEWROUTE then map_ok (map_option (RouteEvent (if created then RouteAdded else RouteChanged))) (parse_route p)
      else if nlmsg_type h = RTM_DELROUTE then map_ok (map_option (RouteEvent RouteRemoved)) (parse_route p)
      else Ok None)"

fun datagram_events :: "(nlmsghdr \<times> bytes) list \<Rightarrow> network_event list nl" where
  "datagram_events [] = Ok []"
| "datagram_events (m # ms) =
     (if nlmsg_type (fst m) = NLMSG_DONE then Ok []
      else if nlmsg_type (fst m) = NLMSG_ERROR then parse_kernel_error (snd m)
      else and_then (message_event (fst m) (snd m)) (\<lambda>e. map_ok (\<lambda>es. (case e of None \<Rightarrow> es | Some x \<Rightarrow> x # es)) (datagram_events ms)))"

fun turn_value :: "('s, 's) turn \<Rightarrow> 's" where
  "turn_value (Go s) = s"
| "turn_value (Return s) = s"

lemma map_ok_id [simp]: "map_ok (\<lambda>x. x) r = r"
  by (cases r) auto

lemma map_ok_map_ok: "map_ok f (map_ok g r) = map_ok (\<lambda>x. f (g x)) r"
  by (cases r) auto

lemma event_turn_eq:
  "event_turn h p events =
     (if nlmsg_type h = NLMSG_DONE then Ok (Return events)
      else if nlmsg_type h = NLMSG_ERROR then parse_kernel_error p
      else map_ok (\<lambda>e. Go (push_event (\<lambda>x. x) events e)) (message_event h p))"
proof -
  have push: "push_event f evs x = push_event (\<lambda>x. x) evs (map_option f x)" for f :: "'a \<Rightarrow> network_event" and evs x
    by (cases x) (auto simp: push_event_def)
  show ?thesis
    unfolding event_turn_def message_event_def Let_def push [of "LinkEvent k" for k]
      push [of "AddressEvent k" for k] push [of "RouteEvent k" for k]
    by (simp add: map_ok_map_ok push_event_def)
qed

lemma run_events:
  "map_ok turn_value (run_messages event_turn ms events) = map_ok (\<lambda>es. events @ es) (datagram_events ms)"
proof (induction ms arbitrary: events)
  case Nil
  then show ?case by simp
next
  case (Cons m ms)
  obtain e where "(parse_kernel_error (snd m) :: network_event list nl) = Err e"
      "(parse_kernel_error (snd m) :: (network_event list, network_event list) turn nl) = Err e"
    by (cases "parse_kernel_error_code (snd m)") (auto simp: parse_kernel_error_def)
  moreover have "push_event (\<lambda>x. x) events x @ es = events @ (case x of None \<Rightarrow> es | Some x \<Rightarrow> x # es)" for x es
    by (simp add: push_event_def split: option.split)
  ultimately show ?case
    by (cases "message_event (fst m) (snd m)")
       (simp_all add: event_turn_eq [of "fst m" "snd m"] Cons.IH map_ok_map_ok)
qed

lemma parse_network_events_framed:
  assumes "list_all frame_ok ms"
  shows "parse_network_events (concat (map framed ms)) = datagram_events ms"
proof -
  have "parse_network_events (concat (map framed ms)) = map_ok turn_value (run_messages event_turn ms [])"
    unfolding parse_network_events_def
    using message_loop_messages [OF assms, of "''invalid nlmsghdr length''" event_turn "[]" "[]"]
    by (cases "run_messages event_turn ms []"; cases "case run_messages event_turn ms [] of Ok t \<Rightarrow> t") auto
  then show ?thesis by (simp add: run_events)
qed

section \<open>Dumps\<close>

text \<open>The objects a sequence of messages carries, and the parts of a dump.\<close>

fun items_of :: "u16 \<Rightarrow> (bytes \<Rightarrow> 'a option nl) \<Rightarrow> (nlmsghdr \<times> bytes) list \<Rightarrow> 'a list nl" where
  "items_of wanted parse_item [] = Ok []"
| "items_of wanted parse_item (m # ms) =
     (if nlmsg_type (fst m) = wanted then
        and_then (parse_item (snd m)) (\<lambda>x. map_ok (\<lambda>xs. (case x of None \<Rightarrow> xs | Some y \<Rightarrow> y # xs)) (items_of wanted parse_item ms))
      else items_of wanted parse_item ms)"

definition data_message :: "nlmsghdr \<times> bytes \<Rightarrow> bool" where
  "data_message m \<longleftrightarrow> frame_ok m \<and> nlmsg_type (fst m) \<noteq> NLMSG_DONE \<and> nlmsg_type (fst m) \<noteq> NLMSG_ERROR"

lemma items_of_append:
  "items_of wanted f (ms @ ns) = and_then (items_of wanted f ms) (\<lambda>xs. map_ok (\<lambda>ys. xs @ ys) (items_of wanted f ns))"
proof (induction ms)
  case Nil
  then show ?case by (cases "items_of wanted f ns") auto
next
  case (Cons m ms)
  then show ?case
    by (cases "f (snd m)"; cases "items_of wanted f ms"; cases "items_of wanted f ns") (auto split: option.split)
qed

lemma run_dump_data:
  assumes "list_all data_message ms" "items_of wanted f ms = Ok xs"
  shows "run_messages (dump_turn wanted f) (ms @ ns) items = run_messages (dump_turn wanted f) ns (items @ xs)"
  using assms
proof (induction ms arbitrary: items xs)
  case Nil
  then show ?case by simp
next
  case (Cons m ms)
  then show ?case
    by (auto simp: data_message_def dump_turn_def and_then_eq_Ok map_ok_eq_Ok split: if_split_asm option.split_asm)
qed

lemma parse_dump_framed:
  assumes "list_all frame_ok ms"
  shows "parse_dump wanted f (concat (map framed ms)) items =
    map_ok (\<lambda>t. case t of Return r \<Rightarrow> r | Go xs \<Rightarrow> (False, xs)) (run_messages (dump_turn wanted f) ms items)"
  unfolding parse_dump_def
  using message_loop_messages [OF assms, of "''invalid nlmsghdr length''" "dump_turn wanted f" "[]" items]
  by (cases "run_messages (dump_turn wanted f) ms items") (auto split: turn.split)

lemma data_frame_ok: "list_all data_message ms \<Longrightarrow> list_all frame_ok ms"
  by (auto simp: data_message_def list_all_iff)

lemma dump_loop_complete:
  assumes "list_all (list_all data_message) chunks" "list_all data_message ms"
    and "frame_ok d" "nlmsg_type (fst d) = NLMSG_DONE"
    and "list_all frame_ok ns"
    and "items_of wanted f (concat chunks @ ms) = Ok xs"
  shows "dump_loop (parse_dump wanted f)
     (map (\<lambda>c. Ok (concat (map framed c))) (chunks @ [ms @ d # ns]) @ later) items = Some (Ok (items @ xs))"
  using assms
proof (induction chunks arbitrary: items xs)
  case Nil
  then have "parse_dump wanted f (concat (map framed (ms @ d # ns))) items = Ok (True, items @ xs)"
    by (subst parse_dump_framed) (simp_all add: data_frame_ok run_dump_data dump_turn_def)
  then show ?case by simp
next
  case (Cons c chunks)
  then obtain ys zs where "items_of wanted f c = Ok ys" "items_of wanted f (concat chunks @ ms) = Ok zs" "xs = ys @ zs"
    by (auto simp: items_of_append [of _ _ c] and_then_eq_Ok map_ok_eq_Ok)
  with Cons show ?case
    using run_dump_data [of c wanted f ys "[]" items] by (simp add: parse_dump_framed data_frame_ok)
qed

text \<open>The keys are compared as lists of integers, a total order.\<close>

lemma key_preorder: "total_preorder_on (\<lambda>a b. (key a :: int list) \<le> key b)"
  by unfold_locales auto

lemmas sorted_by_key = total_preorder_on.sorted_sort_by [OF key_preorder]

lemma send_all_full: "ns_send sock (length bs) = Ok (length bs) \<Longrightarrow> send_all sock bs = Ok ()"
  by (simp add: send_all_def)

lemma length_dump_request: "length (dump_request t sq n) = 16 + n"
  by (simp add: dump_request_def)

section \<open>Acknowledgements and events\<close>

definition not_error :: "nlmsghdr \<times> bytes \<Rightarrow> bool" where
  "not_error m \<longleftrightarrow> frame_ok m \<and> nlmsg_type (fst m) \<noteq> NLMSG_ERROR"

lemma run_ack_skip: "list_all not_error ms \<Longrightarrow> run_messages ack_turn (ms @ ns) () = run_messages ack_turn ns ()"
  by (induction ms) (auto simp: ack_turn_def not_error_def)

lemma ack_loop_decides:
  assumes "list_all (list_all not_error) chunks" "list_all not_error ms" "list_all frame_ok ns"
    and "frame_ok a" "nlmsg_type (fst a) = NLMSG_ERROR" "parse_kernel_error_code (snd a) = Ok code"
  shows "ack_loop (map (\<lambda>c. Ok (concat (map framed c))) (chunks @ [ms @ a # ns]) @ later) =
     Some (if code = 0 then Ok () else Err (Raised (NlKernel code)))"
  using assms(1)
proof (induction chunks)
  case Nil
  have "list_all frame_ok (ms @ a # ns)"
    using assms(2-4) by (auto simp: list_all_iff not_error_def)
  from message_loop_messages [OF this, of "''invalid ack length''" ack_turn "[]" "()"]
  show ?case
    using assms(2,5,6) by (simp add: run_ack_skip ack_turn_def)
next
  case (Cons c chunks)
  then have "list_all frame_ok c" by (auto simp: list_all_iff not_error_def)
  from message_loop_messages [OF this, of "''invalid ack length''" ack_turn "[]" "()"]
  show ?case
    using Cons run_ack_skip [of c "[]"] by simp
qed

text \<open>A turn that brings nothing: the read would block or is interrupted, or its datagram has no event.\<close>

definition idle_turn :: "(bytes \<Rightarrow> 'e list nl) \<Rightarrow> event_turn_input \<Rightarrow> bool" where
  "idle_turn parse_events t \<longleftrightarrow> \<not> et_shutdown t \<and> (case et_recv t of
       Ok buf \<Rightarrow> parse_events buf = Ok []
     | Err e \<Rightarrow> (io_kind e = IoInterrupted \<or> io_kind e = IoWouldBlock) \<and> \<not> et_shutdown_after t)"

text \<open>The next \<open>n\<close> events, when that many calls of the source return one each.\<close>

fun deliver ::
  "(bytes \<Rightarrow> 'e list nl) \<Rightarrow> nat \<Rightarrow> 'e list \<Rightarrow> event_turn_input list \<Rightarrow>
     ('e list \<times> 'e list \<times> event_turn_input list) option" where
  "deliver parse_events 0 pending turns = Some ([], pending, turns)"
| "deliver parse_events (Suc n) pending turns = (case source_next parse_events pending turns of
       Some (Ok (Some e), pending', turns') \<Rightarrow>
         map_option (\<lambda>(es, rest). (e # es, rest)) (deliver parse_events n pending' turns')
     | _ \<Rightarrow> None)"

text \<open>What an event source owes to its parser: a parser that never panics makes a source that never does,
  and whatever the parser reads is delivered.\<close>

locale event_source =
  fixes parse_events :: "bytes \<Rightarrow> 'e list nl"
  assumes parse_events_safe: "parse_events buf \<noteq> Err Panicked"
begin

lemma source_idle:
  "list_all (idle_turn parse_events) idle \<Longrightarrow> source_next parse_events [] (idle @ turns) = source_next parse_events [] turns"
proof (induction idle)
  case Nil
  then show ?case by simp
next
  case (Cons t idle)
  then show ?case
    by (subst source_next.simps) (auto simp: idle_turn_def split: result.splits)
qed

lemma deliver_pending: "deliver parse_events (length es) (rev es) turns = Some (es, [], turns)"
  by (induction es) (simp_all add: source_next.simps)

lemma deliver_datagram:
  assumes "list_all (idle_turn parse_events) idle" "\<not> et_shutdown t" "et_recv t = Ok buf" "parse_events buf = Ok es" "es \<noteq> []"
  shows "deliver parse_events (length es) [] (idle @ t # turns) = Some (es, [], turns)"
proof -
  obtain e es' where es: "es = e # es'" using assms(5) by (cases es) auto
  have "source_next parse_events [] (idle @ t # turns) = source_next parse_events (rev es) turns"
    using assms by (simp add: source_idle source_next.simps [of parse_events "[]" "t # turns"])
  also have "\<dots> = Some (Ok (Some e), rev es', turns)"
    by (simp add: es source_next.simps)
  finally show ?thesis by (simp add: es deliver_pending)
qed

lemma source_shutdown:
  "list_all (idle_turn parse_events) idle \<Longrightarrow> et_shutdown t \<Longrightarrow>
     source_next parse_events [] (idle @ t # turns) = Some (Ok None, [], turns)"
  by (simp add: source_idle source_next.simps [of parse_events "[]" "t # turns"])

lemma source_safe: "source_next parse_events pending turns \<noteq> Some (Err Panicked, rest)"
proof (induction turns arbitrary: pending)
  case Nil
  then show ?case by (simp add: source_next.simps)
next
  case (Cons t turns)
  then show ?case
    using parse_events_safe
    by (subst source_next.simps) (auto split: result.split)
qed

end

interpretation rtnl: event_source parse_network_events
  by unfold_locales (rule parse_network_events_safe)

text \<open>An address as the kernel announces it, for the examples.\<close>

definition loopback_message :: "nlmsghdr \<times> bytes" where
  "loopback_message =
     (\<lparr> nlmsg_len = 32, nlmsg_type = RTM_NEWADDR, nlmsg_flags = 0, nlmsg_seq = 7, nlmsg_pid = 0 \<rparr>,
      [2, 8, 0, 0, 1, 0, 0, 0, 8, 0, 2, 0, 127, 0, 0, 1])"

definition loopback_address :: address where
  "loopback_address = \<lparr> addr_interface_index = 1, addr_address = V4Addr 0x7f000001, addr_prefix_length = 8 \<rparr>"

definition done_message :: "nlmsghdr \<times> bytes" where
  "done_message = (\<lparr> nlmsg_len = 16, nlmsg_type = NLMSG_DONE, nlmsg_flags = 2, nlmsg_seq = 3, nlmsg_pid = 0 \<rparr>, [])"

definition default_route_message :: "nlmsghdr \<times> bytes" where
  "default_route_message =
     (\<lparr> nlmsg_len = 36, nlmsg_type = RTM_NEWROUTE, nlmsg_flags = 2, nlmsg_seq = 3, nlmsg_pid = 0 \<rparr>,
      [2, 0, 0, 0, 254, 3, 0, 1, 0, 0, 0, 0, 8, 0, 5, 0, 10, 0, 0, 1])"

definition default_route_example :: route where
  "default_route_example = \<lparr> rt_family = V4, rt_destination = V4Addr 0, rt_prefix_length = 0,
     rt_gateway = Some (V4Addr 0x0a000001), rt_output_interface = None, rt_metric = None,
     rt_kind = Unicast, rt_scope = Universe \<rparr>"

definition ack_message :: "i32 \<Rightarrow> nlmsghdr \<times> bytes" where
  "ack_message code =
     (\<lparr> nlmsg_len = 20, nlmsg_type = NLMSG_ERROR, nlmsg_flags = 0, nlmsg_seq = 1, nlmsg_pid = 0 \<rparr>, to_le_bytes32 code)"

definition answering_socket :: "(bytes, io_error) result list \<Rightarrow> netlink_socket" where
  "answering_socket answers = \<lparr> ns_socket = Ok 3, ns_bind = (\<lambda>_. None), ns_getfl = Ok 2, ns_setfl = (\<lambda>_. None),
     ns_send = (\<lambda>n. Ok n), ns_recv = answers \<rparr>"

lemma examples_framed:
  "frame_ok loopback_message" "frame_ok done_message" "frame_ok default_route_message"
  "data_message loopback_message" "data_message default_route_message"
  by (simp_all add: frame_ok_def data_message_def loopback_message_def done_message_def default_route_message_def)

lemma ack_message_ok:
  "frame_ok (ack_message code)" "nlmsg_type (fst (ack_message code)) = NLMSG_ERROR"
  "parse_kernel_error_code (snd (ack_message code)) = Ok code"
  by (simp_all add: frame_ok_def ack_message_def parse_kernel_error_code_def)

lemma loopback_events: "datagram_events [loopback_message] = Ok [AddressEvent AddressAdded loopback_address]"
  by code_simp

lemma loopback_done_events:
  "datagram_events [loopback_message, done_message] = Ok [AddressEvent AddressAdded loopback_address]"
  by code_simp

lemma default_route_items:
  "items_of RTM_NEWROUTE parse_route [default_route_message, loopback_message] = Ok [default_route_example]"
  by code_simp

lemma example_types: "nlmsg_type (fst done_message) = NLMSG_DONE" "nlmsg_type (fst loopback_message) = RTM_NEWADDR"
  by (simp_all add: done_message_def loopback_message_def)

section \<open>Properties\<close>

text \<open>C17. The event parser does what the reference does on every datagram of well-framed messages:
  the events of its messages in order up to an NLMSG_DONE, or the first error.\<close>

theorem parse_network_events_in_order:
  assumes "list_all frame_ok ms"
  shows "parse_network_events (concat (map framed ms)) = datagram_events ms"
  by (rule parse_network_events_framed [OF assms])

text \<open>C21. A dump that the kernel answers with data messages in any number of datagrams and then NLMSG_DONE
  returns every route of the answer exactly as often as it occurs there, ordered by family, destination,
  prefix length, metric and interface.\<close>

theorem get_routes_complete:
  assumes "open_route_socket sock = Ok fd" "ns_send sock 28 = Ok 28"
    and "ns_recv sock = map (\<lambda>c. Ok (concat (map framed c))) (chunks @ [ms @ d # ns]) @ later"
    and "list_all (list_all data_message) chunks" "list_all data_message ms" "list_all frame_ok ns"
    and "frame_ok d" "nlmsg_type (fst d) = NLMSG_DONE"
    and "items_of RTM_NEWROUTE parse_route (concat chunks @ ms) = Ok items"
  shows "\<exists>rs. get_routes sock = Some (Ok rs) \<and> mset rs = mset items \<and>
    sorted_wrt (\<lambda>a b. route_key a \<le> route_key b) rs"
proof -
  have "send_all sock (route_dump_request 3) = Ok ()"
    using assms(2) by (simp add: send_all_full route_dump_request_def length_dump_request)
  moreover have "dump_loop parse_route_messages (ns_recv sock) [] = Some (Ok items)"
    unfolding parse_route_messages_def assms(3)
    using dump_loop_complete [OF assms(4,5,7,8,6,9), of later "[]"] by simp
  ultimately have "get_routes sock = Some (Ok (sort_by (\<lambda>a b. route_key a \<le> route_key b) items))"
    using assms(1) by (simp add: get_routes_def dump_def)
  then show ?thesis by (simp add: sorted_by_key)
qed

theorem get_routes_complete_witness:
  "\<exists>rs. get_routes (answering_socket (map (\<lambda>c. Ok (concat (map framed c)))
           [[default_route_message], [loopback_message, done_message]])) = Some (Ok rs) \<and>
     mset rs = {#default_route_example#} \<and> sorted_wrt (\<lambda>a b. route_key a \<le> route_key b) rs"
  using get_routes_complete [of "answering_socket (map (\<lambda>c. Ok (concat (map framed c)))
           [[default_route_message], [loopback_message, done_message]])" 3 "[[default_route_message]]"
           "[loopback_message]" done_message "[]" "[]" "[default_route_example]"]
    default_route_items
  by (simp add: answering_socket_def open_route_socket_def open_socket_with_groups_def examples_framed
      example_types del: items_of.simps)

theorem parse_network_events_in_order_witness:
  "parse_network_events (concat (map framed [loopback_message, done_message])) =
     Ok [AddressEvent AddressAdded loopback_address]"
  using parse_network_events_in_order [of "[loopback_message, done_message]"]
  unfolding loopback_done_events by (simp add: examples_framed)

text \<open>A request succeeds exactly when the first NLMSG_ERROR message the kernel answers has the code 0, in
  whatever datagram it comes and whatever other messages come before; another code is the error of the
  request.\<close>

theorem transact_decided_by_ack:
  assumes "open_route_socket sock = Ok fd" "ns_send sock (length message) = Ok (length message)"
    and "ns_recv sock = map (\<lambda>c. Ok (concat (map framed c))) (chunks @ [ms @ a # ns]) @ later"
    and "list_all (list_all not_error) chunks" "list_all not_error ms" "list_all frame_ok ns"
    and "frame_ok a" "nlmsg_type (fst a) = NLMSG_ERROR" "parse_kernel_error_code (snd a) = Ok code"
  shows "transact_rtnetlink sock message = Some (if code = 0 then Ok () else Err (Raised (NlKernel code)))"
  using assms(1,2) unfolding transact_rtnetlink_def assms(3) ack_loop_decides [OF assms(4-9)]
  by (simp add: send_all_full)

theorem transact_decided_by_ack_witness:
  "transact_rtnetlink (answering_socket [Ok (framed loopback_message), Ok (framed (ack_message 0))]) [1, 2, 3, 4] = Some (Ok ())"
  using transact_decided_by_ack [of "answering_socket [Ok (framed loopback_message), Ok (framed (ack_message 0))]" 3
      "[1, 2, 3, 4]" "[[loopback_message]]" "[]" "ack_message 0" "[]" "[]" 0]
  by (simp add: answering_socket_def open_route_socket_def open_socket_with_groups_def examples_framed
      example_types ack_message_ok not_error_def)

text \<open>C19. The event source waits through reads that would block, interruptions and datagrams without events;
  then it delivers the events of the next datagram one per call, in the order of the datagram. A shutdown
  request ends the wait with no event, and the source never panics.\<close>

theorem next_event_delivers_in_order:
  assumes "list_all (idle_turn parse_network_events) idle"
  shows "(\<not> et_shutdown t \<and> et_recv t = Ok buf \<and> parse_network_events buf = Ok es \<and> es \<noteq> [] \<longrightarrow>
          deliver parse_network_events (length es) [] (idle @ t # turns) = Some (es, [], turns)) \<and>
         (next_event pending turns' \<noteq> Some (Err Panicked, rest)) \<and>
         (et_shutdown t \<longrightarrow> next_event [] (idle @ t # turns) = Some (Ok None, [], turns))"
  using assms by (simp add: next_event_def rtnl.deliver_datagram rtnl.source_shutdown rtnl.source_safe)

theorem next_event_delivers_in_order_witness:
  "let idle = \<lparr> et_shutdown = False, et_recv = Err \<lparr> io_kind = IoWouldBlock, io_message = [] \<rparr>, et_shutdown_after = False \<rparr>;
       news = \<lparr> et_shutdown = False, et_recv = Ok (framed loopback_message), et_shutdown_after = False \<rparr>
   in deliver parse_network_events 1 [] [idle, news] = Some ([AddressEvent AddressAdded loopback_address], [], [])"
  using next_event_delivers_in_order
      [of "[\<lparr> et_shutdown = False, et_recv = Err \<lparr> io_kind = IoWouldBlock, io_message = [] \<rparr>, et_shutdown_after = False \<rparr>]"
          "\<lparr> et_shutdown = False, et_recv = Ok (framed loopback_message), et_shutdown_after = False \<rparr>"
          "framed loopback_message" "[AddressEvent AddressAdded loopback_address]" "[]"]
    parse_network_events_framed [of "[loopback_message]"] loopback_events
  by (simp add: examples_framed idle_turn_def Let_def)

end
