(* ===== verification/Nm_IpConfig.thy ===== *)
theory Nm_IpConfig
  imports Nm_Netlink Nm_Ip
begin

text \<open>
  The IP configurator (\<^verbatim>\<open>src/linux/ipconfig.rs\<close>): addresses and routes as acknowledged rtnetlink
  requests. Its state is what the kernel has in store for it, the sockets of the requests to come, and
  the messages sent so far; an operation that waits for ever has the result \<open>None\<close>.
\<close>

section \<open>Requests\<close>

abbreviation (input) RTN_UNICAST :: u8 where "RTN_UNICAST \<equiv> 1"
abbreviation (input) RT_SCOPE_LINK :: u8 where "RT_SCOPE_LINK \<equiv> 253"

record configurator =
  ic_sockets :: "netlink_socket list"
  ic_sent :: "bytes list"

type_synonym 'a ic = "configurator \<Rightarrow> (('a, ip_config_error thrown) result \<times> configurator) option"

definition transact :: "bytes \<Rightarrow> unit ic" where
  "transact message s = (case ic_sockets s of
       [] \<Rightarrow> None
     | sock # socks \<Rightarrow> map_option (\<lambda>r. (map_err (map_thrown IpNetlink) r,
          \<lparr> ic_sockets = socks, ic_sent = ic_sent s @ [message] \<rparr>)) (transact_rtnetlink sock message))"

text \<open>The \<open>?\<close> operator, and a result that is dropped.\<close>

definition ic_then :: "unit ic \<Rightarrow> unit ic \<Rightarrow> unit ic" where
  "ic_then f g s = (case f s of
       None \<Rightarrow> None
     | Some (Err e, s') \<Rightarrow> Some (Err e, s')
     | Some (Ok _, s') \<Rightarrow> g s')"

definition ic_ignore :: "unit ic \<Rightarrow> unit ic \<Rightarrow> unit ic" where
  "ic_ignore f g s = (case f s of None \<Rightarrow> None | Some (_, s') \<Rightarrow> g s')"

definition add_address :: "u8 \<Rightarrow> u8 \<Rightarrow> i32 \<Rightarrow> bytes \<Rightarrow> unit ic" where
  "add_address family prefix_length interface_index address =
     transact (build_netlink_message RTM_NEWADDR (NLM_F_REQUEST OR NLM_F_CREATE OR NLM_F_EXCL OR NLM_F_ACK)
       (ifaddr_payload family prefix_length interface_index [(IFA_LOCAL, address), (IFA_ADDRESS, address)]))"

definition remove_address :: "u8 \<Rightarrow> u8 \<Rightarrow> i32 \<Rightarrow> bytes \<Rightarrow> unit ic" where
  "remove_address family prefix_length interface_index address =
     transact (build_netlink_message RTM_DELADDR (NLM_F_REQUEST OR NLM_F_ACK)
       (ifaddr_payload family prefix_length interface_index [(IFA_LOCAL, address), (IFA_ADDRESS, address)]))"

definition ip_bytes :: "ip_addr \<Rightarrow> bytes" where
  "ip_bytes ip = (case ip of V4Addr a \<Rightarrow> ipv4_octets a | V6Addr a \<Rightarrow> ipv6_octets a)"

definition family_bytes :: "ip_family \<Rightarrow> u8" where
  "family_bytes family = (case family of V4 \<Rightarrow> AF_INET | V6 \<Rightarrow> AF_INET6)"

definition route_type :: "route_kind \<Rightarrow> u8" where
  "route_type kind = (case kind of Unicast \<Rightarrow> RTN_UNICAST | other \<Rightarrow> route_kind_as_u8 other)"

definition route_scope_u8 :: "route_scope \<Rightarrow> u8" where
  "route_scope_u8 scope = (case scope of LinkScope \<Rightarrow> RT_SCOPE_LINK | other \<Rightarrow> route_scope_as_u8 other)"

definition route_message_attrs :: "route \<Rightarrow> (u16 \<times> bytes) list" where
  "route_message_attrs r =
     (if \<not> route_is_default r then [(RTA_DST, ip_bytes (rt_destination r))] else [])
     @ (case rt_gateway r of Some gateway \<Rightarrow> [(RTA_GATEWAY, ip_bytes gateway)] | None \<Rightarrow> [])
     @ [(RTA_OIF, to_le_bytes32 (case rt_output_interface r of None \<Rightarrow> 0 | Some i \<Rightarrow> i))]
     @ (case rt_metric r of Some metric \<Rightarrow> [(RTA_PRIORITY, to_le_bytes32 metric)] | None \<Rightarrow> [])"

definition build_route_message :: "u16 \<Rightarrow> u16 \<Rightarrow> route \<Rightarrow> bytes" where
  "build_route_message message_type flags r =
     build_netlink_message message_type flags
       (rtmsg_payload (family_bytes (rt_family r)) (rt_prefix_length r) RT_TABLE_MAIN
         (route_scope_u8 (rt_scope r)) (route_type (rt_kind r)) (route_message_attrs r))"

section \<open>The operations of the trait\<close>

definition add_route :: "route \<Rightarrow> unit ic" where
  "add_route r = transact (build_route_message RTM_NEWROUTE (NLM_F_REQUEST OR NLM_F_CREATE OR NLM_F_REPLACE OR NLM_F_ACK) r)"

definition remove_route :: "route \<Rightarrow> unit ic" where
  "remove_route r = transact (build_route_message RTM_DELROUTE (NLM_F_REQUEST OR NLM_F_ACK) r)"

definition gateway_route :: "ip_family \<Rightarrow> ip_addr \<Rightarrow> ip_addr \<Rightarrow> i32 \<Rightarrow> route" where
  "gateway_route family unspecified gateway interface_index =
     \<lparr> rt_family = family, rt_destination = unspecified, rt_prefix_length = 0, rt_gateway = Some gateway,
       rt_output_interface = Some interface_index, rt_metric = None, rt_kind = Unicast, rt_scope = Universe \<rparr>"

definition configure_ipv4 :: "i32 \<Rightarrow> ipv4_config \<Rightarrow> unit ic" where
  "configure_ipv4 interface_index config s =
     (if c4_prefix_length config > 32 then Some (Err (Raised (IpInvalidConfig ''ipv4 prefix length exceeds 32'')), s)
      else ic_then (add_address AF_INET (c4_prefix_length config) interface_index (ipv4_octets (c4_address config)))
        (case c4_gateway config of
           Some gateway \<Rightarrow> add_route (gateway_route V4 (V4Addr 0) (V4Addr gateway) interface_index)
         | None \<Rightarrow> (\<lambda>s'. Some (Ok (), s'))) s)"

definition remove_ipv4 :: "i32 \<Rightarrow> ipv4_config \<Rightarrow> unit ic" where
  "remove_ipv4 interface_index config s =
     (let removal = remove_address AF_INET (c4_prefix_length config) interface_index (ipv4_octets (c4_address config)) in
      case c4_gateway config of
        Some gateway \<Rightarrow> ic_ignore (remove_route (gateway_route V4 (V4Addr 0) (V4Addr gateway) interface_index)) removal s
      | None \<Rightarrow> removal s)"

definition configure_ipv6 :: "i32 \<Rightarrow> ipv6_config \<Rightarrow> unit ic" where
  "configure_ipv6 interface_index config s =
     (if c6_prefix_length config > 128 then Some (Err (Raised (IpInvalidConfig ''ipv6 prefix length exceeds 128'')), s)
      else ic_then (add_address AF_INET6 (c6_prefix_length config) interface_index (ipv6_octets (c6_address config)))
        (case c6_gateway config of
           Some gateway \<Rightarrow> add_route (gateway_route V6 (V6Addr 0) (V6Addr gateway) interface_index)
         | None \<Rightarrow> (\<lambda>s'. Some (Ok (), s'))) s)"

definition remove_ipv6 :: "i32 \<Rightarrow> ipv6_config \<Rightarrow> unit ic" where
  "remove_ipv6 interface_index config s =
     (let removal = remove_address AF_INET6 (c6_prefix_length config) interface_index (ipv6_octets (c6_address config)) in
      case c6_gateway config of
        Some gateway \<Rightarrow> ic_ignore (remove_route (gateway_route V6 (V6Addr 0) (V6Addr gateway) interface_index)) removal s
      | None \<Rightarrow> removal s)"

section \<open>Octets of IPv6 addresses\<close>

lemma ipv6_of_octets_snoc: "ipv6_of_octets (bs @ [b]) = push_bit 8 (ipv6_of_octets bs) OR ucast b"
  by (simp add: ipv6_of_octets_def)

lemma bit_ipv6_of_octets:
  "n < 8 * length bs \<Longrightarrow> n < 128 \<Longrightarrow> bit (ipv6_of_octets bs) n = bit (rev bs ! (n div 8)) (n mod 8)"
proof (induction bs arbitrary: n rule: rev_induct)
  case Nil
  then show ?case by simp
next
  case (snoc b bs)
  show ?case
  proof (cases "n < 8")
    case True
    then show ?thesis by (simp add: ipv6_of_octets_snoc bit_simps)
  next
    case False
    then obtain m where n: "n = m + 8" by (metis add.commute le_Suc_ex not_less)
    then have "n div 8 = Suc (m div 8)" "n mod 8 = m mod 8" by simp_all
    with snoc n show ?thesis by (simp add: ipv6_of_octets_snoc bit_simps)
  qed
qed

lemma rev_ipv6_octets: "rev (ipv6_octets a) = map (\<lambda>i. ucast (drop_bit (8 * i) a)) [0..<16]"
  by (simp add: ipv6_octets_def to_be_bytes32_def to_le_bytes32_def upt_rec)
     (auto intro!: bit_word_eqI simp: bit_simps)

lemma ipv6_of_ipv6_octets [simp]: "ipv6_of_octets (ipv6_octets a) = a"
proof (rule bit_word_eqI)
  fix n assume "n < LENGTH(128)"
  then have n: "n < 128" by simp
  then have "n div 8 < 16" by auto
  with n show "bit (ipv6_of_octets (ipv6_octets a)) n = bit a n"
    by (simp add: bit_ipv6_of_octets rev_ipv6_octets bit_simps)
qed

section \<open>What the daemon reads back\<close>

definition ip_matches :: "ip_family \<Rightarrow> ip_addr \<Rightarrow> bool" where
  "ip_matches family a = (case (family, a) of (V4, V4Addr _) \<Rightarrow> True | (V6, V6Addr _) \<Rightarrow> True | _ \<Rightarrow> False)"

definition ip_family_of :: "ip_addr \<Rightarrow> ip_family" where
  "ip_family_of a = (case a of V4Addr _ \<Rightarrow> V4 | V6Addr _ \<Rightarrow> V6)"

lemma v4_from_octets: "v4_from_bytes (ipv4_octets a) = Ok (V4Addr a)"
  by (rule ipv4_octets_cases [of a]) (simp add: v4_from_bytes_def)

lemma length_ip_bytes: "length (ip_bytes a) = (if ip_family_of a = V4 then 4 else 16)"
  by (cases a) (simp_all add: ip_bytes_def ip_family_of_def)

lemma address_from_ip_bytes: "address_from_bytes (ip_family_of a) (ip_bytes a) = Ok a"
  by (cases a) (simp_all add: ip_bytes_def ip_family_of_def address_from_bytes_def v4_from_octets octets16_def)

lemma attr_ok_small: "length v \<le> 16 \<Longrightarrow> attr_ok (t, v)"
  by (simp add: attr_ok_def)

lemma read_ifaddrmsg_bytes:
  "read_ifaddrmsg ([family, prefix_length, x, y] @ to_le_bytes32 index @ rest) =
     Ok \<lparr> ifa_family = family, ifa_prefixlen = prefix_length, ifa_index = index \<rparr>"
  by (simp add: read_ifaddrmsg_def u32_at_def to_le_bytes32_def)

lemma parse_ifaddr_payload:
  "parse_address (ifaddr_payload (family_bytes (ip_family_of a)) prefix_length index
     [(IFA_LOCAL, ip_bytes a), (IFA_ADDRESS, ip_bytes a)]) =
   Ok (Some \<lparr> addr_interface_index = index, addr_address = a, addr_prefix_length = prefix_length \<rparr>)"
proof -
  let ?pre = "[family_bytes (ip_family_of a), prefix_length, 0, 0] @ to_le_bytes32 index"
  let ?as = "[(IFA_LOCAL, ip_bytes a), (IFA_ADDRESS, ip_bytes a)]"
  let ?n = "if ip_family_of a = V4 then 4 else 16 :: nat"
  have "list_all attr_ok ?as" by (simp add: attr_ok_small length_ip_bytes)
  then have loop: "attr_loop ''invalid rtattr length'' (address_attr ?n) (push_attrs ?pre ?as) 8 None = Ok (Some (ip_bytes a))"
    using push_attrs_loop [of ?as "''invalid rtattr length''" "address_attr ?n" ?pre None] by (simp add: address_attr_def length_ip_bytes)
  show ?thesis
  proof (cases a)
    case (V4Addr x)
    with loop show ?thesis
      by (simp add: parse_address_def ifaddr_payload_def push_attrs_eq read_ifaddrmsg_bytes family_bytes_def
          ip_family_of_def ip_bytes_def v4_from_octets read_ifaddrmsg_bytes [simplified])
  next
    case (V6Addr x)
    with loop show ?thesis
      by (simp add: parse_address_def ifaddr_payload_def push_attrs_eq read_ifaddrmsg_bytes family_bytes_def
          ip_family_of_def ip_bytes_def octets16_def read_ifaddrmsg_bytes [simplified])
  qed
qed

definition route_sendable :: "route \<Rightarrow> bool" where
  "route_sendable r \<longleftrightarrow> ip_family_of (rt_destination r) = rt_family r \<and>
     pred_option (\<lambda>g. ip_family_of g = rt_family r) (rt_gateway r) \<and>
     rt_kind r \<in> {Unicast, Blackhole, Unreachable} \<and> route_scope_canonical (rt_scope r)"

definition as_read_back :: "route \<Rightarrow> route" where
  "as_read_back r = r\<lparr> rt_output_interface := Some (case rt_output_interface r of None \<Rightarrow> 0 | Some i \<Rightarrow> i) \<rparr>"

lemma read_rtmsg_bytes:
  "read_rtmsg ([family, dst_len, x, y, table, z, scope, typ] @ to_le_bytes32 w @ rest) =
     Ok \<lparr> rtm_family = family, rtm_dst_len = dst_len, rtm_table = table, rtm_scope = scope, rtm_type = typ \<rparr>"
  by (simp add: read_rtmsg_def to_le_bytes32_def)

lemma route_type_from: "k \<in> {Unicast, Blackhole, Unreachable} \<Longrightarrow> route_kind_from_u8 (route_type k) = k"
  by (auto simp: route_type_def route_kind_from_u8_def)

lemma route_scope_from: "route_scope_canonical sc \<Longrightarrow> route_scope_from_u8 (route_scope_u8 sc) = sc"
  using route_scope_from_as [of sc] by (cases sc) (simp_all add: route_scope_u8_def)

lemma run_route_attrs:
  assumes "route_sendable r"
  shows "run_attrs (route_attr (if rt_family r = V4 then 4 else 16)) (route_message_attrs r) no_route_attrs =
    Ok \<lparr> ra_destination = (if route_is_default r then None else Some (ip_bytes (rt_destination r))),
         ra_gateway = map_option ip_bytes (rt_gateway r),
         ra_output_interface = Some (case rt_output_interface r of None \<Rightarrow> 0 | Some i \<Rightarrow> i),
         ra_metric = rt_metric r \<rparr>"
  using assms
  by (auto simp: route_sendable_def route_message_attrs_def route_attr_def no_route_attrs_def length_ip_bytes
      split: option.split)

lemma route_attrs_ok: "list_all attr_ok (route_message_attrs r)"
  by (auto simp: route_message_attrs_def attr_ok_small length_ip_bytes split: option.split)

lemma default_destination:
  "route_is_default r \<Longrightarrow> rt_destination r = (if rt_family r = V4 then V4Addr 0 else V6Addr 0)"
  by (auto simp: route_is_default_def split: ip_family.splits ip_addr.splits)

lemma parse_rtmsg_payload:
  assumes "route_sendable r"
  shows "parse_route (rtmsg_payload (family_bytes (rt_family r)) (rt_prefix_length r) RT_TABLE_MAIN
     (route_scope_u8 (rt_scope r)) (route_type (rt_kind r)) (route_message_attrs r)) = Ok (Some (as_read_back r))"
proof -
  let ?pre = "[family_bytes (rt_family r), rt_prefix_length r, 0, 0, RT_TABLE_MAIN, RTPROT_STATIC,
     route_scope_u8 (rt_scope r), route_type (rt_kind r)] @ to_le_bytes32 0"
  let ?n = "if rt_family r = V4 then 4 else 16 :: nat"
  define p where "p = push_attrs ?pre (route_message_attrs r)"
  have loop: "attr_loop ''invalid rtattr length'' (route_attr ?n) p 12 no_route_attrs =
     Ok \<lparr> ra_destination = (if route_is_default r then None else Some (ip_bytes (rt_destination r))),
          ra_gateway = map_option ip_bytes (rt_gateway r),
          ra_output_interface = Some (case rt_output_interface r of None \<Rightarrow> 0 | Some i \<Rightarrow> i),
          ra_metric = rt_metric r \<rparr>"
    using push_attrs_loop [OF route_attrs_ok, of "''invalid rtattr length''" "route_attr ?n" ?pre r no_route_attrs] run_route_attrs [OF assms]
    by (simp add: p_def)
  have head: "read_rtmsg p = Ok \<lparr> rtm_family = family_bytes (rt_family r), rtm_dst_len = rt_prefix_length r,
     rtm_table = RT_TABLE_MAIN, rtm_scope = route_scope_u8 (rt_scope r), rtm_type = route_type (rt_kind r) \<rparr>"
    using read_rtmsg_bytes by (simp add: p_def push_attrs_eq)
  have len: "\<not> length p < 12" by (simp add: p_def push_attrs_eq)
  have fam: "(family_bytes (rt_family r) = AF_INET) = (rt_family r = V4)"
      "family_bytes (rt_family r) = AF_INET \<or> family_bytes (rt_family r) = AF_INET6"
      "(if rt_family r = V4 then V4 else V6) = rt_family r"
    by (cases "rt_family r"; simp add: family_bytes_def)+
  from assms have dst: "address_from_bytes (rt_family r) (ip_bytes (rt_destination r)) = Ok (rt_destination r)"
      and gw: "rt_gateway r = Some g \<Longrightarrow> address_from_bytes (rt_family r) (ip_bytes g) = Ok g" for g
    using address_from_ip_bytes by (auto simp: route_sendable_def) metis+
  from assms have kind: "route_kind_from_u8 (route_type (rt_kind r)) = rt_kind r"
      "rt_kind r = Unicast \<or> rt_kind r = Blackhole \<or> rt_kind r = Unreachable"
      and scope: "route_scope_from_u8 (route_scope_u8 (rt_scope r)) = rt_scope r"
    by (auto simp: route_sendable_def route_type_from route_scope_from)
  have payload: "rtmsg_payload (family_bytes (rt_family r)) (rt_prefix_length r) RT_TABLE_MAIN
     (route_scope_u8 (rt_scope r)) (route_type (rt_kind r)) (route_message_attrs r) = p"
    by (simp add: rtmsg_payload_def p_def)
  have "parse_route p = Ok (Some \<lparr> rt_family = rt_family r, rt_destination = rt_destination r,
      rt_prefix_length = rt_prefix_length r, rt_gateway = rt_gateway r,
      rt_output_interface = Some (case rt_output_interface r of None \<Rightarrow> 0 | Some i \<Rightarrow> i),
      rt_metric = rt_metric r, rt_kind = rt_kind r, rt_scope = rt_scope r \<rparr>)"
    unfolding parse_route_def Let_def
    using loop len fam kind(2) dst gw default_destination [of r]
    by (cases "rt_family r"; cases "rt_gateway r"; cases "route_is_default r")
       (auto simp add: head kind(1) scope)
  then show ?thesis
    unfolding payload by (cases r) (simp add: as_read_back_def)
qed

section \<open>Messages as requests\<close>

text \<open>
  What a message asks of the kernel, read with the daemon's own parser of kernel messages: the abstract
  view of what the configurator sends.
\<close>

datatype kernel_request =
    AddAddress address | RemoveAddress address | AddRoute route | RemoveRoute route

fun request_of_event :: "network_event \<Rightarrow> kernel_request option" where
  "request_of_event (AddressEvent AddressAdded a) = Some (AddAddress a)"
| "request_of_event (AddressEvent AddressRemoved a) = Some (RemoveAddress a)"
| "request_of_event (RouteEvent RouteAdded r) = Some (AddRoute r)"
| "request_of_event (RouteEvent RouteRemoved r) = Some (RemoveRoute r)"
| "request_of_event e = None"

definition decode_request :: "bytes \<Rightarrow> kernel_request option" where
  "decode_request message = (case parse_network_events message of Ok [e] \<Rightarrow> request_of_event e | _ \<Rightarrow> None)"

lemma length_attrs_mod: "length (concat (map attr_bytes as)) mod 4 = 0"
  by (induction as) (simp_all add: length_attr_bytes align_mult mod_add_eq [symmetric])

lemma length_attrs_bound:
  "list_all (\<lambda>a. length (snd a) \<le> 16) as \<Longrightarrow> length (concat (map attr_bytes as)) \<le> 24 * length as"
proof (induction as)
  case Nil
  then show ?case by simp
next
  case (Cons a as)
  then show ?case
    using align_bounds(2) [of "4 + length (snd a)"] by (auto simp: length_attr_bytes)
qed

lemma events_of_built:
  assumes "length p mod 4 = 0" "length p < 1000"
  shows "parse_network_events (build_netlink_message t f p) = datagram_events
    [(\<lparr> nlmsg_len = word_of_nat (16 + length p), nlmsg_type = t, nlmsg_flags = f, nlmsg_seq = 1, nlmsg_pid = 0 \<rparr>, p)]"
    (is "_ = datagram_events [(?h, p)]")
proof -
  have "(16 + length p) mod 4 = 0" using assms(1) by presburger
  then have "align (16 + length p) 4 = 16 + length p"
    using align_bounds [of "16 + length p"] align_mult [of "16 + length p"] by presburger
  then have "build_netlink_message t f p = concat (map framed [(?h, p)])"
    by (simp add: build_netlink_message_def framed_def pad4_def)
  moreover have "frame_ok (?h, p)"
    using assms(2) by (simp add: frame_ok_def unat_of_nat del: of_nat_add)
  ultimately show ?thesis
    by (simp only: parse_network_events_framed list.pred_inject)
qed

lemma ifaddr_payload_size:
  "length (ifaddr_payload family n i [(t, ip_bytes a), (t', ip_bytes a)]) mod 4 = 0"
  "length (ifaddr_payload family n i [(t, ip_bytes a), (t', ip_bytes a)]) < 1000"
proof -
  let ?as = "[(t, ip_bytes a), (t', ip_bytes a)]"
  have "list_all (\<lambda>a. length (snd a) \<le> 16) ?as" by (simp add: length_ip_bytes)
  from length_attrs_bound [OF this] length_attrs_mod [of ?as]
  show "length (ifaddr_payload family n i ?as) mod 4 = 0" "length (ifaddr_payload family n i ?as) < 1000"
    unfolding ifaddr_payload_def push_attrs_eq by (simp_all, presburger+)
qed

lemma route_payload_size:
  "length (rtmsg_payload a b c d e (route_message_attrs r)) mod 4 = 0"
  "length (rtmsg_payload a b c d e (route_message_attrs r)) < 1000"
proof -
  let ?as = "route_message_attrs r"
  have "list_all (\<lambda>a. length (snd a) \<le> 16) ?as" "length ?as \<le> 4"
    by (auto simp: route_message_attrs_def length_ip_bytes split: option.split)
  with length_attrs_bound [of ?as] length_attrs_mod [of ?as]
  show "length (rtmsg_payload a b c d e ?as) mod 4 = 0" "length (rtmsg_payload a b c d e ?as) < 1000"
    unfolding rtmsg_payload_def push_attrs_eq by (simp_all, presburger+)
qed

definition address_message :: "u16 \<Rightarrow> u16 \<Rightarrow> ip_addr \<Rightarrow> u8 \<Rightarrow> i32 \<Rightarrow> bytes" where
  "address_message t f a prefix_length index = build_netlink_message t f
     (ifaddr_payload (family_bytes (ip_family_of a)) prefix_length index [(IFA_LOCAL, ip_bytes a), (IFA_ADDRESS, ip_bytes a)])"

lemma decode_address_message:
  "decode_request (address_message RTM_NEWADDR f a n i) =
     Some (AddAddress \<lparr> addr_interface_index = i, addr_address = a, addr_prefix_length = n \<rparr>)"
  "decode_request (address_message RTM_DELADDR f a n i) =
     Some (RemoveAddress \<lparr> addr_interface_index = i, addr_address = a, addr_prefix_length = n \<rparr>)"
  unfolding decode_request_def address_message_def events_of_built [OF ifaddr_payload_size]
  by (simp_all add: message_event_def Let_def parse_ifaddr_payload)

lemma events_of_route_message:
  assumes "route_sendable r"
  shows "parse_network_events (build_route_message RTM_NEWROUTE f r) =
      Ok [RouteEvent (if f AND NLM_F_CREATE \<noteq> 0 then RouteAdded else RouteChanged) (as_read_back r)]"
    "parse_network_events (build_route_message RTM_DELROUTE f r) = Ok [RouteEvent RouteRemoved (as_read_back r)]"
  unfolding build_route_message_def events_of_built [OF route_payload_size]
  by (simp_all add: message_event_def Let_def parse_rtmsg_payload [OF assms])

text \<open>The operations as sequences of messages.\<close>

fun issue :: "bytes list \<Rightarrow> unit ic" where
  "issue [] = (\<lambda>s. Some (Ok (), s))"
| "issue (m # ms) = ic_then (transact m) (issue ms)"

definition address_request :: "ip_addr \<Rightarrow> u8 \<Rightarrow> i32 \<Rightarrow> address" where
  "address_request a n i = \<lparr> addr_interface_index = i, addr_address = a, addr_prefix_length = n \<rparr>"

definition configuration_requests :: "i32 \<Rightarrow> ip_addr \<Rightarrow> u8 \<Rightarrow> ip_addr option \<Rightarrow> kernel_request list" where
  "configuration_requests i a n gateway =
     AddAddress (address_request a n i) #
     (case gateway of None \<Rightarrow> [] | Some g \<Rightarrow>
        [AddRoute (gateway_route (ip_family_of g) (case g of V4Addr _ \<Rightarrow> V4Addr 0 | V6Addr _ \<Rightarrow> V6Addr 0) g i)])"

lemma transact_sent:
  "transact m s = Some (r, s') \<Longrightarrow> ic_sent s' = ic_sent s @ [m] \<and> ic_sockets s' = tl (ic_sockets s)"
  by (auto simp: transact_def split: list.splits)

lemma issue_sent:
  "issue ms s = Some (r, s') \<Longrightarrow>
     \<exists>n \<le> length ms. ic_sent s' = ic_sent s @ take n ms \<and> (r = Ok () \<longrightarrow> n = length ms) \<and> (ms \<noteq> [] \<longrightarrow> 0 < n)"
proof (induction ms arbitrary: s)
  case Nil
  then show ?case by simp
next
  case (Cons m ms)
  then obtain r1 s1 where step: "transact m s = Some (r1, s1)"
    by (auto simp: ic_then_def split: option.splits)
  note sent = transact_sent [OF step]
  show ?case
  proof (cases r1)
    case (Err e)
    with Cons.prems step sent show ?thesis
      by (intro exI [of _ 1]) (auto simp: ic_then_def)
  next
    case (Ok u)
    with Cons.prems step have "issue ms s1 = Some (r, s')" by (simp add: ic_then_def)
    from Cons.IH [OF this] obtain n where "n \<le> length ms" "ic_sent s' = ic_sent s1 @ take n ms" "r = Ok () \<longrightarrow> n = length ms"
      by blast
    with sent show ?thesis by (intro exI [of _ "Suc n"]) auto
  qed
qed

text \<open>A socket that acknowledges whatever is sent on it.\<close>

definition acknowledges :: "netlink_socket \<Rightarrow> bool" where
  "acknowledges sock \<longleftrightarrow> (\<forall>message. transact_rtnetlink sock message = Some (Ok ()))"

lemma issue_acknowledged:
  "length ms \<le> length (ic_sockets s) \<Longrightarrow> list_all acknowledges (take (length ms) (ic_sockets s)) \<Longrightarrow>
     issue ms s = Some (Ok (), \<lparr> ic_sockets = drop (length ms) (ic_sockets s), ic_sent = ic_sent s @ ms \<rparr>)"
proof (induction ms arbitrary: s)
  case Nil
  then show ?case by simp
next
  case (Cons m ms)
  then obtain sock socks where socks: "ic_sockets s = sock # socks" by (cases "ic_sockets s") auto
  with Cons.prems have "transact m s = Some (Ok (), \<lparr> ic_sockets = socks, ic_sent = ic_sent s @ [m] \<rparr>)"
    by (simp add: transact_def acknowledges_def)
  with Cons socks show ?case by (simp add: ic_then_def)
qed

definition configuration_messages :: "i32 \<Rightarrow> ip_addr \<Rightarrow> u8 \<Rightarrow> ip_addr option \<Rightarrow> bytes list" where
  "configuration_messages i a n gateway =
     address_message RTM_NEWADDR (NLM_F_REQUEST OR NLM_F_CREATE OR NLM_F_EXCL OR NLM_F_ACK) a n i #
     (case gateway of None \<Rightarrow> [] | Some g \<Rightarrow>
        [build_route_message RTM_NEWROUTE (NLM_F_REQUEST OR NLM_F_CREATE OR NLM_F_REPLACE OR NLM_F_ACK)
           (gateway_route (ip_family_of g) (case g of V4Addr _ \<Rightarrow> V4Addr 0 | V6Addr _ \<Rightarrow> V6Addr 0) g i)])"

lemma gateway_route_sendable:
  "route_sendable (gateway_route (ip_family_of g) (case g of V4Addr _ \<Rightarrow> V4Addr 0 | V6Addr _ \<Rightarrow> V6Addr 0) g i)"
  "as_read_back (gateway_route f u g i) = gateway_route f u g i"
  by (cases g; simp add: route_sendable_def gateway_route_def ip_family_of_def route_scope_canonical_def)
     (simp add: as_read_back_def gateway_route_def)

lemma decode_configuration:
  "map decode_request (configuration_messages i a n gateway) = map Some (configuration_requests i a n gateway)"
  by (auto simp: configuration_messages_def configuration_requests_def decode_address_message address_request_def
      decode_request_def [of "build_route_message t f r" for t f r] events_of_route_message gateway_route_sendable
      split: option.split)

lemma ic_then_Ok: "ic_then f (\<lambda>s. Some (Ok (), s)) = f"
  by (auto simp: ic_then_def fun_eq_iff split: option.split result.split)

lemma configure_ipv4_issues:
  "c4_prefix_length c \<le> 32 \<Longrightarrow> configure_ipv4 i c =
     issue (configuration_messages i (V4Addr (c4_address c)) (c4_prefix_length c) (map_option V4Addr (c4_gateway c)))"
  by (cases "c4_gateway c")
     (auto simp: fun_eq_iff configure_ipv4_def configuration_messages_def add_address_def add_route_def
       address_message_def ip_bytes_def ip_family_of_def family_bytes_def ic_then_Ok)

lemma configure_ipv6_issues:
  "c6_prefix_length c \<le> 128 \<Longrightarrow> configure_ipv6 i c =
     issue (configuration_messages i (V6Addr (c6_address c)) (c6_prefix_length c) (map_option V6Addr (c6_gateway c)))"
  by (cases "c6_gateway c")
     (auto simp: fun_eq_iff configure_ipv6_def configuration_messages_def add_address_def add_route_def
       address_message_def ip_bytes_def ip_family_of_def family_bytes_def ic_then_Ok)

lemma issued_requests:
  assumes "issue (configuration_messages i a n gateway) s = Some (r, s')"
  shows "\<exists>k. map decode_request (ic_sent s') =
      map decode_request (ic_sent s) @ map Some (take k (configuration_requests i a n gateway)) \<and>
      0 < k \<and> (r = Ok () \<longrightarrow> length (configuration_requests i a n gateway) \<le> k)"
proof -
  have len: "length (configuration_messages i a n gateway) = length (configuration_requests i a n gateway)"
    using decode_configuration [of i a n gateway] by (metis length_map)
  from issue_sent [OF assms] obtain k where k:
    "ic_sent s' = ic_sent s @ take k (configuration_messages i a n gateway)"
    "r = Ok () \<longrightarrow> k = length (configuration_messages i a n gateway)" "0 < k"
    by (auto simp: configuration_messages_def)
  have "map decode_request (take k (configuration_messages i a n gateway)) = map Some (take k (configuration_requests i a n gateway))"
    by (metis decode_configuration take_map)
  with k len show ?thesis by (intro exI [of _ k]) auto
qed

lemma ack_socket: "transact_rtnetlink (answering_socket [Ok (framed (ack_message code))]) message =
    Some (if code = 0 then Ok () else Err (Raised (NlKernel code)))"
  using ack_loop_decides [of "[]" "[]" "[]" "ack_message code" code "[]"]
  by (simp add: transact_rtnetlink_def open_route_socket_def open_socket_with_groups_def answering_socket_def
      send_all_def ack_message_ok)

definition answering_kernel :: "i32 list \<Rightarrow> configurator" where
  "answering_kernel codes =
     \<lparr> ic_sockets = map (\<lambda>code. answering_socket [Ok (framed (ack_message code))]) codes, ic_sent = [] \<rparr>"

definition example_config :: ipv4_config where
  "example_config = \<lparr> c4_address = 0x0a000002, c4_prefix_length = 24, c4_gateway = Some 0x0a000001 \<rparr>"

lemma answering_kernel_issue:
  "issue [m, n] (answering_kernel [0, 0]) = Some (Ok (), \<lparr> ic_sockets = [], ic_sent = [m, n] \<rparr>)"
  by (simp add: answering_kernel_def ic_then_def transact_def ack_socket)

section \<open>Properties\<close>



text \<open>Against a kernel that acknowledges, configuring IPv6 returns success and has asked for the address and the
  gateway route; above 128 the prefix length is refused.\<close>

theorem configure_ipv6_succeeds:
  assumes "list_all acknowledges (ic_sockets s)" "2 \<le> length (ic_sockets s)" "c6_prefix_length c \<le> 128"
  shows "\<exists>s'. configure_ipv6 i c s = Some (Ok (), s') \<and>
    map decode_request (ic_sent s') = map decode_request (ic_sent s) @
      map Some (configuration_requests i (V6Addr (c6_address c)) (c6_prefix_length c) (map_option V6Addr (c6_gateway c)))"
proof -
  let ?ms = "configuration_messages i (V6Addr (c6_address c)) (c6_prefix_length c) (map_option V6Addr (c6_gateway c))"
  have "length ?ms \<le> 2" by (auto simp: configuration_messages_def split: option.split)
  with assms(1,2) have "issue ?ms s = Some (Ok (), \<lparr> ic_sockets = drop (length ?ms) (ic_sockets s), ic_sent = ic_sent s @ ?ms \<rparr>)"
    by (intro issue_acknowledged) (auto simp: list_all_iff dest: in_set_takeD)
  with assms(3) show ?thesis
    by (simp add: configure_ipv6_issues decode_configuration)
qed

theorem configure_ipv6_succeeds_witness:
  "\<exists>s'. configure_ipv6 3 \<lparr> c6_address = 1, c6_prefix_length = 64, c6_gateway = None \<rparr> (answering_kernel [0, 0]) = Some (Ok (), s') \<and>
     map decode_request (ic_sent s') = [Some (AddAddress (address_request (V6Addr 1) 64 3))]"
  using configure_ipv6_succeeds [of "answering_kernel [0, 0]" "\<lparr> c6_address = 1, c6_prefix_length = 64, c6_gateway = None \<rparr>" 3]
  by (simp add: answering_kernel_def acknowledges_def ack_socket configuration_requests_def)

text \<open>A route the configurator sends is the route the daemon reads when the kernel announces it: the event
  parser returns every field of it (an absent interface comes back as interface 0).\<close>

theorem route_message_round_trip:
  assumes "route_sendable r"
  shows "parse_network_events (build_route_message RTM_NEWROUTE flags r) =
     Ok [RouteEvent (if flags AND NLM_F_CREATE \<noteq> 0 then RouteAdded else RouteChanged) (as_read_back r)]"
  by (rule events_of_route_message [OF assms])

theorem route_message_round_trip_witness:
  "parse_network_events (build_route_message RTM_NEWROUTE 0x400 default_route_example) =
     Ok [RouteEvent RouteAdded (default_route_example\<lparr> rt_output_interface := Some 0 \<rparr>)]"
  using route_message_round_trip [of default_route_example "0x400"]
  by (simp add: default_route_example_def route_sendable_def ip_family_of_def route_scope_canonical_def as_read_back_def)

text \<open>Removing an IPv4 configuration attempts both removals, the gateway route first, whatever the kernel
  answers to the first, and reports the answer to the removal of the address.\<close>

theorem remove_ipv4_attempts_both:
  assumes "remove_ipv4 i c s = Some (r, s')"
  shows "let n = (case c4_gateway c of None \<Rightarrow> 0 | Some _ \<Rightarrow> 1) in
    map decode_request (ic_sent s') = map decode_request (ic_sent s) @
      (case c4_gateway c of None \<Rightarrow> [] | Some g \<Rightarrow> [Some (RemoveRoute (gateway_route V4 (V4Addr 0) (V4Addr g) i))]) @
      [Some (RemoveAddress (address_request (V4Addr (c4_address c)) (c4_prefix_length c) i))] \<and>
      r = map_err (map_thrown IpNetlink) (the (transact_rtnetlink (ic_sockets s ! n) (last (ic_sent s'))))"
proof -
  have address: "remove_address AF_INET (c4_prefix_length c) i (ipv4_octets (c4_address c)) =
      transact (address_message RTM_DELADDR (NLM_F_REQUEST OR NLM_F_ACK) (V4Addr (c4_address c)) (c4_prefix_length c) i)"
    by (simp add: fun_eq_iff remove_address_def address_message_def ip_bytes_def ip_family_of_def family_bytes_def)
  have answer: "r = map_err (map_thrown IpNetlink) (the (transact_rtnetlink (hd (ic_sockets t)) m)) \<and> ic_sockets t \<noteq> []"
    if "transact m t = Some (r, t')" for t t' m and r :: "(unit, ip_config_error thrown) result"
    using that by (auto simp: transact_def split: list.splits)
  show ?thesis
  proof (cases "c4_gateway c")
    case None
    with assms have "transact (address_message RTM_DELADDR (NLM_F_REQUEST OR NLM_F_ACK) (V4Addr (c4_address c)) (c4_prefix_length c) i) s = Some (r, s')"
      by (simp add: remove_ipv4_def address)
    with None transact_sent [OF this] answer [OF this] show ?thesis
      by (simp add: decode_address_message address_request_def hd_conv_nth)
  next
    case (Some g)
    let ?route = "gateway_route V4 (V4Addr 0) (V4Addr g) i"
    from assms Some obtain r1 s1 where
      first: "transact (build_route_message RTM_DELROUTE (NLM_F_REQUEST OR NLM_F_ACK) ?route) s = Some (r1, s1)" and
      second: "transact (address_message RTM_DELADDR (NLM_F_REQUEST OR NLM_F_ACK) (V4Addr (c4_address c)) (c4_prefix_length c) i) s1 = Some (r, s')"
      by (auto simp: remove_ipv4_def address ic_ignore_def remove_route_def split: option.splits)
    have "decode_request (build_route_message RTM_DELROUTE (NLM_F_REQUEST OR NLM_F_ACK) ?route) = Some (RemoveRoute ?route)"
      using gateway_route_sendable(1) [of "V4Addr g" i] gateway_route_sendable(2)
      by (simp add: decode_request_def events_of_route_message ip_family_of_def)
    with Some transact_sent [OF first] transact_sent [OF second] answer [OF first] answer [OF second] show ?thesis
      by (cases "ic_sockets s") (simp_all add: decode_address_message address_request_def hd_conv_nth)
  qed
qed

theorem remove_ipv4_attempts_both_witness:
  "\<exists>s'. remove_ipv4 3 example_config (answering_kernel [-3, 0]) = Some (Ok (), s') \<and>
     map decode_request (ic_sent s') =
       [Some (RemoveRoute (gateway_route V4 (V4Addr 0) (V4Addr 0x0a000001) 3)),
        Some (RemoveAddress (address_request (V4Addr 0x0a000002) 24 3))]"
proof -
  obtain s' where "remove_ipv4 3 example_config (answering_kernel [-3, 0]) = Some (Ok (), s')"
    by (simp add: remove_ipv4_def example_config_def remove_address_def remove_route_def ic_ignore_def
        transact_def answering_kernel_def ack_socket)
  with remove_ipv4_attempts_both [OF this] show ?thesis
    by (simp add: example_config_def answering_kernel_def)
qed

end
