(* ===== verification/Nm_Nl80211.thy ===== *)
theory Nm_Nl80211
  imports Nm_Netlink
begin

text \<open>
  Wi-Fi discovery: the generic netlink codec, the nl80211 messages, the information elements of access
  points and the connection (\<^verbatim>\<open>src/linux/nl80211.rs\<close>), and the discovery and events on top of it
  (\<^verbatim>\<open>src/linux/wifi.rs\<close>). The loops are those of the netlink theory; a connection is its family id
  and its socket, whose answers are consumed from call to call.
\<close>

section \<open>Messages and attributes\<close>

abbreviation (input) GENL_ID_CTRL :: u16 where "GENL_ID_CTRL \<equiv> 0x10"
abbreviation (input) CTRL_CMD_GETFAMILY :: u8 where "CTRL_CMD_GETFAMILY \<equiv> 3"
abbreviation (input) NLA_F_NESTED :: u16 where "NLA_F_NESTED \<equiv> 0x8000"
abbreviation (input) NLA_TYPE_MASK :: u16 where "NLA_TYPE_MASK \<equiv> 0x3fff"
abbreviation (input) NL80211_CMD_GET_WIPHY :: u8 where "NL80211_CMD_GET_WIPHY \<equiv> 1"
abbreviation (input) NL80211_CMD_NEW_WIPHY :: u8 where "NL80211_CMD_NEW_WIPHY \<equiv> 3"
abbreviation (input) NL80211_CMD_GET_INTERFACE :: u8 where "NL80211_CMD_GET_INTERFACE \<equiv> 5"
abbreviation (input) NL80211_CMD_NEW_INTERFACE :: u8 where "NL80211_CMD_NEW_INTERFACE \<equiv> 7"
abbreviation (input) NL80211_CMD_GET_SCAN :: u8 where "NL80211_CMD_GET_SCAN \<equiv> 32"
abbreviation (input) NL80211_CMD_TRIGGER_SCAN :: u8 where "NL80211_CMD_TRIGGER_SCAN \<equiv> 33"
abbreviation (input) NL80211_CMD_NEW_SCAN_RESULTS :: u8 where "NL80211_CMD_NEW_SCAN_RESULTS \<equiv> 34"
abbreviation (input) NL80211_CMD_SCAN_ABORTED :: u8 where "NL80211_CMD_SCAN_ABORTED \<equiv> 35"
abbreviation (input) NL80211_ATTR_WIPHY :: u16 where "NL80211_ATTR_WIPHY \<equiv> 1"
abbreviation (input) NL80211_ATTR_WIPHY_NAME :: u16 where "NL80211_ATTR_WIPHY_NAME \<equiv> 2"
abbreviation (input) NL80211_ATTR_IFINDEX :: u16 where "NL80211_ATTR_IFINDEX \<equiv> 3"
abbreviation (input) NL80211_ATTR_IFNAME :: u16 where "NL80211_ATTR_IFNAME \<equiv> 4"
abbreviation (input) NL80211_ATTR_IFTYPE :: u16 where "NL80211_ATTR_IFTYPE \<equiv> 5"
abbreviation (input) NL80211_ATTR_MAC :: u16 where "NL80211_ATTR_MAC \<equiv> 6"
abbreviation (input) NL80211_ATTR_WIPHY_BANDS :: u16 where "NL80211_ATTR_WIPHY_BANDS \<equiv> 22"
abbreviation (input) NL80211_ATTR_SUPPORTED_IFTYPES :: u16 where "NL80211_ATTR_SUPPORTED_IFTYPES \<equiv> 32"
abbreviation (input) NL80211_ATTR_WIPHY_FREQ :: u16 where "NL80211_ATTR_WIPHY_FREQ \<equiv> 38"
abbreviation (input) NL80211_ATTR_MAX_NUM_SCAN_SSIDS :: u16 where "NL80211_ATTR_MAX_NUM_SCAN_SSIDS \<equiv> 43"
abbreviation (input) NL80211_ATTR_BSS :: u16 where "NL80211_ATTR_BSS \<equiv> 47"
abbreviation (input) NL80211_ATTR_SSID :: u16 where "NL80211_ATTR_SSID \<equiv> 52"
abbreviation (input) NL80211_ATTR_CIPHER_SUITES :: u16 where "NL80211_ATTR_CIPHER_SUITES \<equiv> 57"
abbreviation (input) IE_SSID :: u8 where "IE_SSID \<equiv> 0"
abbreviation (input) IE_RSN :: u8 where "IE_RSN \<equiv> 48"
abbreviation (input) IE_VENDOR :: u8 where "IE_VENDOR \<equiv> 221"
abbreviation (input) BSS_CAPABILITY_PRIVACY :: u16 where "BSS_CAPABILITY_PRIVACY \<equiv> 0x10"
abbreviation (input) RSN_CAPABILITY_MFP :: u16 where "RSN_CAPABILITY_MFP \<equiv> 0xc0"

record raw_attr =
  at_typ :: u16
  at_nested :: bool
  at_payload :: bytes

record raw_msg =
  rm_type :: u16
  rm_flags :: u16
  rm_cmd :: "u8 option"
  rm_attrs :: "raw_attr list"
  rm_payload :: bytes

record family_info =
  fi_id :: u16
  fi_mcast_groups :: "(string \<times> u32) list"

fun push_genl_attrs :: "bytes \<Rightarrow> (u16 \<times> bytes) list \<Rightarrow> bytes" where
  "push_genl_attrs buf [] = buf"
| "push_genl_attrs buf ((typ, payload) # attrs) =
     (let buf' = buf @ to_le_bytes16 (word_of_nat (4 + length payload)) @ to_le_bytes16 typ @ payload in
      push_genl_attrs (buf' @ replicate ((4 - length buf' mod 4) mod 4) 0) attrs)"

definition build_message :: "u16 \<Rightarrow> u8 \<Rightarrow> u16 \<Rightarrow> u32 \<Rightarrow> (u16 \<times> bytes) list \<Rightarrow> bytes" where
  "build_message family_id cmd flags seq attrs =
     (let attr_len = sum_list (map (\<lambda>(_, payload). align (4 + length payload) 4) attrs);
          len = 16 + 4 + attr_len in
      push_genl_attrs (to_le_bytes32 (word_of_nat len) @ to_le_bytes16 family_id @ to_le_bytes16 flags
        @ to_le_bytes32 seq @ to_le_bytes32 0 @ [cmd, 1, 0, 0]) attrs)"

definition raw_attr_of :: "u16 \<Rightarrow> bytes \<Rightarrow> raw_attr" where
  "raw_attr_of t v = \<lparr> at_typ = t AND NLA_TYPE_MASK, at_nested = (t AND NLA_F_NESTED \<noteq> 0), at_payload = v \<rparr>"

definition parse_attrs :: "bytes \<Rightarrow> raw_attr list nl" where
  "parse_attrs payload = attr_loop ''invalid nlattr length'' (\<lambda>t v attrs. Ok (attrs @ [raw_attr_of t v])) payload 0 []"

definition genl_message :: "nlmsghdr \<Rightarrow> bytes \<Rightarrow> raw_msg nl" where
  "genl_message header payload =
     (if nlmsg_type header = NLMSG_DONE \<or> nlmsg_type header = NLMSG_ERROR then
        Ok \<lparr> rm_type = nlmsg_type header, rm_flags = nlmsg_flags header, rm_cmd = None, rm_attrs = [], rm_payload = payload \<rparr>
      else if length payload < 4 then malformed ''short genl header''
      else and_then (byte_at payload 0) (\<lambda>cmd.
        and_then (slice payload 4 (length payload)) (\<lambda>rest.
        and_then (parse_attrs rest) (\<lambda>attrs.
        Ok \<lparr> rm_type = nlmsg_type header, rm_flags = nlmsg_flags header, rm_cmd = Some cmd, rm_attrs = attrs, rm_payload = payload \<rparr>))))"

definition genl_turn :: "nlmsghdr \<Rightarrow> bytes \<Rightarrow> raw_msg list \<Rightarrow> (raw_msg list, raw_msg list) turn nl" where
  "genl_turn header payload messages = map_ok (\<lambda>m. Go (messages @ [m])) (genl_message header payload)"

definition parse_genl_messages :: "bytes \<Rightarrow> raw_msg list nl" where
  "parse_genl_messages buf =
     and_then (message_loop ''invalid nlmsghdr length'' genl_turn buf 0 []) (\<lambda>t. case t of
       Return messages \<Rightarrow> Ok messages
     | Go (messages, offset) \<Rightarrow>
         if offset \<noteq> length buf then malformed ''trailing partial nlmsghdr'' else Ok messages)"

definition parse_ack_error :: "bytes \<Rightarrow> unit nl" where
  "parse_ack_error payload =
     (if length payload < 4 then malformed ''short nlmsgerr''
      else and_then (and_then (slice payload 0 4) from_le_bytes32) (\<lambda>code.
        if code = 0 then Ok () else Err (Raised (NlKernel code))))"

section \<open>Reading attributes\<close>

definition find_attr :: "raw_attr list \<Rightarrow> u16 \<Rightarrow> raw_attr option" where
  "find_attr attrs typ = List.find (\<lambda>attr. at_typ attr = typ) attrs"

definition nested_attrs :: "raw_attr list \<Rightarrow> u16 \<Rightarrow> raw_attr list nl" where
  "nested_attrs attrs typ = (case find_attr attrs typ of
       Some attr \<Rightarrow> parse_attrs (at_payload attr)
     | None \<Rightarrow> Ok [])"

definition read_u8 :: "raw_attr list \<Rightarrow> u16 \<Rightarrow> u8 option nl" where
  "read_u8 attrs typ = (case find_attr attrs typ of
       None \<Rightarrow> Ok None
     | Some attr \<Rightarrow>
         if length (at_payload attr) \<noteq> 1 then malformed ''invalid u8 attribute length''
         else map_ok Some (byte_at (at_payload attr) 0))"

definition read_u16 :: "raw_attr list \<Rightarrow> u16 \<Rightarrow> u16 option nl" where
  "read_u16 attrs typ = (case find_attr attrs typ of
       None \<Rightarrow> Ok None
     | Some attr \<Rightarrow>
         if length (at_payload attr) \<noteq> 2 then malformed ''invalid u16 attribute length''
         else map_ok Some (from_le_bytes16 (at_payload attr)))"

definition read_u32 :: "raw_attr list \<Rightarrow> u16 \<Rightarrow> u32 option nl" where
  "read_u32 attrs typ = (case find_attr attrs typ of
       None \<Rightarrow> Ok None
     | Some attr \<Rightarrow>
         if length (at_payload attr) \<noteq> 4 then malformed ''invalid u32 attribute length''
         else map_ok Some (from_le_bytes32 (at_payload attr)))"

definition read_i32 :: "raw_attr list \<Rightarrow> u16 \<Rightarrow> i32 option nl" where
  "read_i32 attrs typ = (case find_attr attrs typ of
       None \<Rightarrow> Ok None
     | Some attr \<Rightarrow>
         if length (at_payload attr) \<noteq> 4 then malformed ''invalid i32 attribute length''
         else map_ok Some (from_le_bytes32 (at_payload attr)))"

definition read_mac :: "raw_attr list \<Rightarrow> u16 \<Rightarrow> mac option nl" where
  "read_mac attrs typ = (case find_attr attrs typ of
       None \<Rightarrow> Ok None
     | Some attr \<Rightarrow>
         if length (at_payload attr) \<noteq> 6 then malformed ''invalid mac attribute length''
         else Ok (Some (at_payload attr)))"

definition read_string :: "raw_attr list \<Rightarrow> u16 \<Rightarrow> string option nl" where
  "read_string attrs typ = (case find_attr attrs typ of
       None \<Rightarrow> Ok None
     | Some attr \<Rightarrow>
         (let end = (case position (\<lambda>b. b = 0) (at_payload attr) of None \<Rightarrow> length (at_payload attr) | Some i \<Rightarrow> i)
          in and_then (slice (at_payload attr) 0 end) (\<lambda>bs. Ok (Some (from_utf8_lossy bs)))))"

definition read_ssid :: "raw_attr list \<Rightarrow> u16 \<Rightarrow> ssid option nl" where
  "read_ssid attrs typ = (case find_attr attrs typ of
       None \<Rightarrow> Ok None
     | Some attr \<Rightarrow>
         if length (at_payload attr) > 32 then malformed ''invalid ssid length''
         else Ok (ssid_from_bytes (at_payload attr)))"

definition read_bytes :: "raw_attr list \<Rightarrow> u16 \<Rightarrow> bytes option" where
  "read_bytes attrs typ = map_option at_payload (find_attr attrs typ)"

text \<open>A \<open>for\<close> loop whose body may return an error.\<close>

fun for_each :: "('a \<Rightarrow> 's \<Rightarrow> 's nl) \<Rightarrow> 'a list \<Rightarrow> 's \<Rightarrow> 's nl" where
  "for_each body [] s = Ok s"
| "for_each body (x # xs) s = and_then (body x s) (for_each body xs)"

definition family_group :: "raw_attr \<Rightarrow> (string \<times> u32) list \<Rightarrow> (string \<times> u32) list nl" where
  "family_group grp groups =
     and_then (parse_attrs (at_payload grp)) (\<lambda>inner.
     and_then (read_string inner 1) (\<lambda>name.
     and_then (read_u32 inner 2) (\<lambda>group_id.
     Ok (case (name, group_id) of (Some n, Some i) \<Rightarrow> groups @ [(n, i)] | _ \<Rightarrow> groups))))"

definition family_info_from_attrs :: "raw_attr list \<Rightarrow> family_info option nl" where
  "family_info_from_attrs attrs = (case find_attr attrs 1 of
       None \<Rightarrow> Ok None
     | Some id_attr \<Rightarrow>
         if length (at_payload id_attr) \<noteq> 2 then malformed ''invalid family id length''
         else and_then (from_le_bytes16 (at_payload id_attr)) (\<lambda>fid.
           and_then (case find_attr attrs 7 of
               Some groups_attr \<Rightarrow>
                 and_then (parse_attrs (at_payload groups_attr)) (\<lambda>groups. for_each family_group groups [])
             | None \<Rightarrow> Ok []) (\<lambda>mcast_groups.
           Ok (Some \<lparr> fi_id = fid, fi_mcast_groups = mcast_groups \<rparr>))))"

section \<open>Interfaces and wiphys\<close>

definition interface_from_attrs :: "raw_attr list \<Rightarrow> wireless_interface option nl" where
  "interface_from_attrs attrs =
     and_then (read_u32 attrs NL80211_ATTR_IFINDEX) (\<lambda>found. case found of
       None \<Rightarrow> Ok None
     | Some index \<Rightarrow>
         and_then (read_string attrs NL80211_ATTR_IFNAME) (\<lambda>name.
         and_then (read_u32 attrs NL80211_ATTR_WIPHY) (\<lambda>wiphy_index.
         and_then (read_u8 attrs NL80211_ATTR_IFTYPE) (\<lambda>typ.
         and_then (read_mac attrs NL80211_ATTR_MAC) (\<lambda>m.
         Ok (Some \<lparr> wi_index = index, wi_name = (case name of None \<Rightarrow> [] | Some n \<Rightarrow> n), wi_wiphy_index = wiphy_index,
           wi_wiphy_name = None,
           wi_interface_type = (case typ of Some v \<Rightarrow> interface_type_from_u8 v | None \<Rightarrow> Unspecified),
           wi_mac = m, wi_up = False, wi_capabilities = default_capabilities \<rparr>))))))"

definition band_entry :: "raw_attr \<Rightarrow> wifi_band \<Rightarrow> wifi_band nl" where
  "band_entry entry band =
     and_then (parse_attrs (at_payload entry)) (\<lambda>inner.
     if list_ex (\<lambda>attr. at_typ attr = 2) inner then Ok band
     else and_then (read_u32 inner 1) (\<lambda>frequency. Ok (case frequency of
         None \<Rightarrow> band
       | Some f \<Rightarrow> band\<lparr> band_channels := band_channels band @ [at_typ entry],
                         band_frequencies := band_frequencies band @ [f] \<rparr>)))"

definition band_from_attrs :: "u8 \<Rightarrow> bytes \<Rightarrow> wifi_band option nl" where
  "band_from_attrs bid payload =
     and_then (parse_attrs payload) (\<lambda>attrs.
     and_then (case find_attr attrs 1 of
         Some freqs \<Rightarrow> and_then (parse_attrs (at_payload freqs)) (\<lambda>entries.
           for_each band_entry entries \<lparr> band_id = wifi_band_id_from_u8 bid, band_channels = [], band_frequencies = [],
             band_ht_capabilities = None, band_vht_capabilities = None \<rparr>)
       | None \<Rightarrow> Ok \<lparr> band_id = wifi_band_id_from_u8 bid, band_channels = [], band_frequencies = [],
             band_ht_capabilities = None, band_vht_capabilities = None \<rparr>) (\<lambda>band.
     and_then (read_u16 attrs 4) (\<lambda>ht.
     and_then (read_u32 attrs 8) (\<lambda>vht.
     Ok (Some (band\<lparr> band_ht_capabilities := ht, band_vht_capabilities := vht \<rparr>))))))"

definition parse_cipher_suites :: "bytes \<Rightarrow> wifi_cipher list nl" where
  "parse_cipher_suites payload =
     (if length payload mod 4 \<noteq> 0 then malformed ''invalid cipher suite length''
      else collect_ok (\<lambda>chunk. map_ok wifi_cipher_from_u32 (from_le_bytes32 chunk)) (chunks4 payload))"

record wiphy_info =
  wy_index :: u32
  wy_name :: string
  wy_capabilities :: wifi_capabilities

definition wiphy_band :: "raw_attr \<Rightarrow> wifi_band list \<Rightarrow> wifi_band list nl" where
  "wiphy_band band bands =
     map_ok (\<lambda>b. case b of None \<Rightarrow> bands | Some x \<Rightarrow> bands @ [x]) (band_from_attrs (ucast (at_typ band)) (at_payload band))"

definition wiphy_from_attrs :: "raw_attr list \<Rightarrow> wiphy_info option nl" where
  "wiphy_from_attrs attrs =
     and_then (read_u32 attrs NL80211_ATTR_WIPHY) (\<lambda>found. case found of
       None \<Rightarrow> Ok None
     | Some index \<Rightarrow>
         and_then (read_string attrs NL80211_ATTR_WIPHY_NAME) (\<lambda>name.
         and_then (nested_attrs attrs NL80211_ATTR_SUPPORTED_IFTYPES) (\<lambda>supported.
         and_then (case find_attr attrs NL80211_ATTR_CIPHER_SUITES of
             Some ciphers \<Rightarrow> parse_cipher_suites (at_payload ciphers)
           | None \<Rightarrow> Ok []) (\<lambda>ciphers.
         and_then (read_u8 attrs NL80211_ATTR_MAX_NUM_SCAN_SSIDS) (\<lambda>max_ssids.
         and_then (nested_attrs attrs NL80211_ATTR_WIPHY_BANDS) (\<lambda>band_attrs.
         and_then (for_each wiphy_band band_attrs []) (\<lambda>bands.
         Ok (Some \<lparr> wy_index = index, wy_name = (case name of None \<Rightarrow> [] | Some n \<Rightarrow> n),
           wy_capabilities = \<lparr> cap_supported_interfaces = map (\<lambda>a. interface_type_from_u8 (ucast (at_typ a))) supported,
             cap_cipher_suites = ciphers, cap_bands = bands,
             cap_max_scan_ssids = map_option ucast max_ssids, cap_scan_supported = (max_ssids \<noteq> None) \<rparr> \<rparr>))))))))"

section \<open>Information elements\<close>

definition read_ie_u16 :: "bytes \<Rightarrow> nat \<Rightarrow> (u16 \<times> nat) nl" where
  "read_ie_u16 data offset =
     (if offset + 2 > length data then malformed ''malformed information element''
      else and_then (and_then (slice data offset (offset + 2)) from_le_bytes16) (\<lambda>v. Ok (v, offset + 2)))"

definition skip_ie_bytes :: "bytes \<Rightarrow> nat \<Rightarrow> nat \<Rightarrow> nat nl" where
  "skip_ie_bytes data offset n =
     (if offset + n > length data then malformed ''malformed information element'' else Ok (offset + n))"

definition skip_ie_counted :: "bytes \<Rightarrow> nat \<Rightarrow> nat \<Rightarrow> nat nl" where
  "skip_ie_counted data offset element_size =
     and_then (read_ie_u16 data offset) (\<lambda>(n, offset'). skip_ie_bytes data offset' (unat n * element_size))"

text \<open>The loop over the counted suites of an element; the offset after it is returned.\<close>

fun read_suites :: "string \<Rightarrow> (u32 \<Rightarrow> wifi_auth_suite) \<Rightarrow> bytes \<Rightarrow> nat \<Rightarrow> nat \<Rightarrow> (wifi_auth_suite list \<times> nat) nl" where
  "read_suites bad suite data 0 offset = Ok ([], offset)"
| "read_suites bad suite data (Suc n) offset =
     (if offset + 4 > length data then malformed bad
      else and_then (and_then (slice data offset (offset + 4)) from_le_bytes32) (\<lambda>v.
        map_ok (\<lambda>(suites, offset'). (suite v # suites, offset')) (read_suites bad suite data n (offset + 4))))"

definition parse_rsn_ie :: "bytes \<Rightarrow> (wifi_auth_suite list \<times> bool) nl" where
  "parse_rsn_ie data =
     and_then (read_ie_u16 data 0) (\<lambda>(_, offset1).
     and_then (skip_ie_bytes data offset1 4) (\<lambda>offset2.
     and_then (skip_ie_counted data offset2 4) (\<lambda>offset3.
     and_then (read_ie_u16 data offset3) (\<lambda>(akm_count, offset4).
     if offset4 + unat akm_count * 4 > length data then malformed ''malformed rsn ie''
     else and_then (read_suites ''malformed rsn ie'' wifi_auth_suite_from_rsn_akm data (unat akm_count) offset4) (\<lambda>(suites, offset5).
       if offset5 + 2 \<le> length data then
         and_then (and_then (slice data offset5 (offset5 + 2)) from_le_bytes16) (\<lambda>capabilities.
           Ok (suites, capabilities AND RSN_CAPABILITY_MFP \<noteq> 0))
       else Ok (suites, False))))))"

definition wpa_suite :: "u32 \<Rightarrow> wifi_auth_suite" where
  "wpa_suite v = (if v = 1 then Wpa18021x else if v = 2 then Wpa1Psk else OtherSuite v)"

definition parse_wpa_ie :: "bytes \<Rightarrow> wifi_auth_suite list nl" where
  "parse_wpa_ie data =
     and_then (skip_ie_bytes data 0 2) (\<lambda>offset1.
     and_then (skip_ie_bytes data offset1 4) (\<lambda>offset2.
     and_then (skip_ie_counted data offset2 4) (\<lambda>offset3.
     and_then (read_ie_u16 data offset3) (\<lambda>(auth_count, offset4).
     if offset4 + unat auth_count * 4 > length data then malformed ''malformed wpa ie''
     else map_ok fst (read_suites ''malformed wpa ie'' wpa_suite data (unat auth_count) offset4)))))"

text \<open>The loop over the elements, as \<open>parse_security\<close> has it.\<close>

function ie_loop :: "(u8 \<Rightarrow> bytes \<Rightarrow> 's \<Rightarrow> 's nl) \<Rightarrow> bytes \<Rightarrow> nat \<Rightarrow> 's \<Rightarrow> 's nl" where
  "ie_loop body ies offset s =
     (if \<not> offset + 2 \<le> length ies then Ok s
      else and_then (byte_at ies offset) (\<lambda>ie.
        and_then (byte_at ies (offset + 1)) (\<lambda>n.
        let len = unat n in
        if offset + 2 + len > length ies then malformed ''malformed information element''
        else and_then (slice ies (offset + 2) (offset + 2 + len)) (\<lambda>data.
          and_then (body ie data s) (ie_loop body ies (offset + (2 + len)))))))"
  by pat_completeness auto
termination
  by (relation "measure (\<lambda>(_, ies, offset, _). length ies - offset)") auto

declare ie_loop.simps [simp del]

record security_scan =
  ss_auth_suites :: "wifi_auth_suite list"
  ss_mfp :: bool
  ss_rsn_seen :: bool
  ss_wpa_seen :: bool

definition no_security :: security_scan where
  "no_security = \<lparr> ss_auth_suites = [], ss_mfp = False, ss_rsn_seen = False, ss_wpa_seen = False \<rparr>"

definition security_element :: "u8 \<Rightarrow> bytes \<Rightarrow> security_scan \<Rightarrow> security_scan nl" where
  "security_element ie data s =
     (if ie = IE_RSN then
        and_then (parse_rsn_ie data) (\<lambda>(suites, mfp).
          Ok (s\<lparr> ss_rsn_seen := True, ss_auth_suites := ss_auth_suites s @ suites, ss_mfp := ss_mfp s \<or> mfp \<rparr>))
      else if ie = IE_VENDOR \<and> length data \<ge> 4 \<and> take 3 data = [0x00, 0x50, 0xf2] \<and> data ! 3 = 1 then
        and_then (and_then (slice data 4 (length data)) parse_wpa_ie) (\<lambda>suites.
          Ok (s\<lparr> ss_wpa_seen := True, ss_auth_suites := ss_auth_suites s @ suites \<rparr>))
      else Ok s)"

fun wpa3_suite :: "wifi_auth_suite \<Rightarrow> bool" where
  "wpa3_suite RsnSae = True" | "wpa3_suite RsnSaeFt = True" | "wpa3_suite RsnOwe = True"
| "wpa3_suite RsnPskSha384 = True" | "wpa3_suite RsnFt8021xSha384 = True" | "wpa3_suite RsnFtPskSha384 = True"
| "wpa3_suite RsnSuiteB192 = True" | "wpa3_suite RsnPasn = True" | "wpa3_suite _ = False"

fun wpa2_suite :: "wifi_auth_suite \<Rightarrow> bool" where
  "wpa2_suite RsnSae = False" | "wpa2_suite RsnSaeFt = False" | "wpa2_suite RsnOwe = False"
| "wpa2_suite RsnPasn = False" | "wpa2_suite (OtherSuite _) = False" | "wpa2_suite _ = True"

fun enterprise_suite :: "wifi_auth_suite \<Rightarrow> bool" where
  "enterprise_suite Wpa18021x = True" | "enterprise_suite Rsn8021x = True" | "enterprise_suite RsnFt8021x = True"
| "enterprise_suite Rsn8021xSha256 = True" | "enterprise_suite RsnFt8021xSha384 = True"
| "enterprise_suite RsnSuiteB = True" | "enterprise_suite RsnSuiteB192 = True" | "enterprise_suite _ = False"

definition parse_security :: "bytes \<Rightarrow> u16 option \<Rightarrow> access_point_security nl" where
  "parse_security ies capability =
     and_then (ie_loop security_element ies 0 no_security) (\<lambda>s.
     Ok \<lparr> sec_wep = ((case capability of Some cap \<Rightarrow> cap AND BSS_CAPABILITY_PRIVACY \<noteq> 0 | None \<Rightarrow> False)
                       \<and> \<not> ss_rsn_seen s \<and> \<not> ss_wpa_seen s),
          sec_wpa1 = ss_wpa_seen s,
          sec_wpa2 = (ss_rsn_seen s \<and> list_ex wpa2_suite (ss_auth_suites s)),
          sec_wpa3 = list_ex wpa3_suite (ss_auth_suites s),
          sec_enterprise = list_ex enterprise_suite (ss_auth_suites s),
          sec_management_frame_protection = ss_mfp s,
          sec_auth_suites = ss_auth_suites s \<rparr>)"

text \<open>The panics of its reads are kept: an \<open>Err Panicked\<close> would be a panic of the source.\<close>

function ssid_from_ies :: "bytes \<Rightarrow> nat \<Rightarrow> ssid option nl" where
  "ssid_from_ies ies offset =
     (if \<not> offset + 2 \<le> length ies then Ok None
      else and_then (byte_at ies offset) (\<lambda>ie.
        and_then (byte_at ies (offset + 1)) (\<lambda>n.
        let len = unat n in
        if offset + 2 + len > length ies then Ok None
        else if ie = IE_SSID then map_ok ssid_from_bytes (slice ies (offset + 2) (offset + 2 + len))
        else ssid_from_ies ies (offset + (2 + len)))))"
  by pat_completeness auto
termination
  by (relation "measure (\<lambda>(ies, offset). length ies - offset)") auto

declare ssid_from_ies.simps [simp del]

section \<open>Access points\<close>

text \<open>Division of an \<open>i32\<close> by 100, which truncates towards zero.\<close>

definition i32_div_100 :: "i32 \<Rightarrow> i32" where
  "i32_div_100 w = word_of_int (if sint w < 0 then - ((- sint w) div 100) else sint w div 100)"

definition bss_from_attrs :: "raw_attr list \<Rightarrow> access_point option nl" where
  "bss_from_attrs attrs = (case find_attr attrs NL80211_ATTR_BSS of
       None \<Rightarrow> Ok None
     | Some bss_attr \<Rightarrow>
         and_then (parse_attrs (at_payload bss_attr)) (\<lambda>bss.
         and_then (read_mac bss 1) (\<lambda>bssid.
         and_then (read_u32 bss 2) (\<lambda>frequency.
         and_then (read_u16 bss 5) (\<lambda>capability.
         and_then (read_i32 bss 7) (\<lambda>mbm.
         and_then (read_u8 bss 8) (\<lambda>unspecified.
         and_then (read_u32 bss 10) (\<lambda>seen.
         (let elements = (case read_bytes bss 6 of Some ies \<Rightarrow> Some ies | None \<Rightarrow> read_bytes bss 11) in
         and_then (read_ssid attrs NL80211_ATTR_SSID) (\<lambda>direct.
         and_then (case (direct, elements) of
             (Some name, _) \<Rightarrow> Ok (Some name)
           | (None, Some ies) \<Rightarrow> ssid_from_ies ies 0
           | (None, None) \<Rightarrow> Ok None) (\<lambda>name.
         and_then (parse_security (case elements of None \<Rightarrow> [] | Some ies \<Rightarrow> ies) capability) (\<lambda>security.
         Ok (Some \<lparr> ap_bssid = bssid, ap_ssid = name, ap_frequency = frequency,
           ap_channel = Option.bind frequency frequency_to_channel, ap_signal_dbm = map_option i32_div_100 mbm,
           ap_signal_unspecified = unspecified, ap_capability = capability, ap_security = security,
           ap_seen_millis_ago = seen \<rparr>)))))))))))))"

definition scan_event :: "raw_msg \<Rightarrow> wifi_event list \<Rightarrow> wifi_event list nl" where
  "scan_event message events =
     (case (if rm_cmd message = Some NL80211_CMD_NEW_SCAN_RESULTS then Some ScanResults
            else if rm_cmd message = Some NL80211_CMD_SCAN_ABORTED then Some ScanAborted else None) of
        None \<Rightarrow> Ok events
      | Some kind \<Rightarrow>
          and_then (read_u32 (rm_attrs message) NL80211_ATTR_IFINDEX) (\<lambda>found. case found of
            None \<Rightarrow> Ok events
          | Some index \<Rightarrow>
              and_then (read_u32 (rm_attrs message) NL80211_ATTR_WIPHY_FREQ) (\<lambda>freq.
              Ok (events @ [\<lparr> we_kind = kind, we_interface_index = index, we_interface_name = None,
                we_frequency = (if freq = Some 0 then None else freq) \<rparr>]))))"

definition parse_scan_events :: "bytes \<Rightarrow> wifi_event list nl" where
  "parse_scan_events buf = and_then (parse_genl_messages buf) (\<lambda>messages. for_each scan_event messages [])"

section \<open>The connection\<close>

record nl80211_connection =
  nc_family_id :: u16
  nc_socket :: netlink_socket

type_synonym 'a conn = "nl80211_connection \<Rightarrow> ('a nl \<times> nl80211_connection) option"

text \<open>The body of the loop over a datagram of answers: go on, or return.\<close>

fun scan_messages :: "(raw_msg \<Rightarrow> 's \<Rightarrow> ('s, 'r) turn nl) \<Rightarrow> raw_msg list \<Rightarrow> 's \<Rightarrow> ('s, 'r) turn nl" where
  "scan_messages body [] s = Ok (Go s)"
| "scan_messages body (m # ms) s = and_then (body m s) (\<lambda>t. case t of
       Return r \<Rightarrow> Ok (Return r)
     | Go s' \<Rightarrow> scan_messages body ms s')"

fun answer_loop ::
  "(raw_msg \<Rightarrow> 's \<Rightarrow> ('s, 'r) turn nl) \<Rightarrow> (bytes, io_error) result list \<Rightarrow> 's \<Rightarrow>
     ('r nl \<times> (bytes, io_error) result list) option" where
  "answer_loop body [] s = None"
| "answer_loop body (Err e # rs) s = Some (Err (Raised (NlIo e)), rs)"
| "answer_loop body (Ok buf # rs) s = (case and_then (parse_genl_messages buf) (\<lambda>ms. scan_messages body ms s) of
       Err e \<Rightarrow> Some (Err e, rs)
     | Ok (Return r) \<Rightarrow> Some (Ok r, rs)
     | Ok (Go s') \<Rightarrow> answer_loop body rs s')"

definition converse ::
  "bytes \<Rightarrow> (raw_msg \<Rightarrow> 's \<Rightarrow> ('s, 'r) turn nl) \<Rightarrow> 's \<Rightarrow> netlink_socket \<Rightarrow> ('r nl \<times> netlink_socket) option" where
  "converse request body s sock = (case send_all sock request of
       Err e \<Rightarrow> Some (Err e, sock)
     | Ok _ \<Rightarrow> map_option (\<lambda>(r, rs). (r, sock\<lparr> ns_recv := rs \<rparr>)) (answer_loop body (ns_recv sock) s))"

definition on_connection :: "(netlink_socket \<Rightarrow> ('a nl \<times> netlink_socket) option) \<Rightarrow> 'a conn" where
  "on_connection f c = map_option (\<lambda>(r, sock). (r, c\<lparr> nc_socket := sock \<rparr>)) (f (nc_socket c))"

definition dump_message :: "raw_msg \<Rightarrow> raw_msg list \<Rightarrow> (raw_msg list, raw_msg list) turn nl" where
  "dump_message message messages =
     (if rm_type message = NLMSG_DONE then Ok (Return messages)
      else if rm_type message = NLMSG_ERROR then parse_kernel_error (rm_payload message)
      else Ok (Go (messages @ [message])))"

definition transact_dump :: "u8 \<Rightarrow> (u16 \<times> bytes) list \<Rightarrow> raw_msg list conn" where
  "transact_dump cmd attrs c =
     on_connection (converse (build_message (nc_family_id c) cmd (NLM_F_REQUEST OR NLM_F_DUMP) 1 attrs) dump_message []) c"

definition ack_message_turn :: "raw_msg \<Rightarrow> unit \<Rightarrow> (unit, unit) turn nl" where
  "ack_message_turn message s =
     (if rm_type message = NLMSG_ERROR then map_ok Return (parse_ack_error (rm_payload message)) else Ok (Go s))"

definition transact_ack :: "u8 \<Rightarrow> (u16 \<times> bytes) list \<Rightarrow> unit conn" where
  "transact_ack cmd attrs c =
     on_connection (converse (build_message (nc_family_id c) cmd (NLM_F_REQUEST OR NLM_F_ACK) 1 attrs) ack_message_turn ()) c"

definition family_message :: "raw_msg \<Rightarrow> unit \<Rightarrow> (unit, family_info) turn nl" where
  "family_message message s =
     (if rm_cmd message = None then Ok (Go s)
      else map_ok (\<lambda>found. case found of Some info \<Rightarrow> Return info | None \<Rightarrow> Go s) (family_info_from_attrs (rm_attrs message)))"

definition resolve_nl80211_family :: "netlink_socket \<Rightarrow> family_info nl option" where
  "resolve_nl80211_family sock = (case open_socket_with_groups sock 0 of
       Err e \<Rightarrow> Some (Err e)
     | Ok _ \<Rightarrow> map_option fst
         (converse (build_message GENL_ID_CTRL CTRL_CMD_GETFAMILY NLM_F_REQUEST 1 [(2, string_bytes ''nl80211'')])
            family_message () sock))"

definition connection_open :: "netlink_socket \<Rightarrow> netlink_socket \<Rightarrow> nl80211_connection nl option" where
  "connection_open resolver sock =
     map_option (\<lambda>r. and_then r (\<lambda>family.
       let groups = (case List.find (\<lambda>(name, _). name = ''scan'') (fi_mcast_groups family) of
                       Some (_, i) \<Rightarrow> i | None \<Rightarrow> 0) in
       and_then (open_socket_with_groups sock groups) (\<lambda>_.
       Ok \<lparr> nc_family_id = fi_id family, nc_socket = sock \<rparr>))) (resolve_nl80211_family resolver)"

text \<open>The three dumps: the messages of a command, each turned into an object or skipped.\<close>

definition keep_objects :: "u8 \<Rightarrow> u8 \<Rightarrow> (raw_attr list \<Rightarrow> 'a option nl) \<Rightarrow> raw_msg \<Rightarrow> 'a list \<Rightarrow> 'a list nl" where
  "keep_objects cmd1 cmd2 from_attrs message out =
     (if rm_cmd message = Some cmd1 \<or> rm_cmd message = Some cmd2 then
        map_ok (\<lambda>x. case x of None \<Rightarrow> out | Some y \<Rightarrow> out @ [y]) (from_attrs (rm_attrs message))
      else Ok out)"

definition dump_objects ::
  "u8 \<Rightarrow> u8 \<Rightarrow> (raw_attr list \<Rightarrow> 'a option nl) \<Rightarrow> (u16 \<times> bytes) list \<Rightarrow> ('a list \<Rightarrow> 'a list) \<Rightarrow> 'a list conn" where
  "dump_objects cmd1 cmd2 from_attrs attrs order c =
     map_option (\<lambda>(r, c'). (and_then r (\<lambda>messages. map_ok order (for_each (keep_objects cmd1 cmd2 from_attrs) messages [])), c'))
       (transact_dump cmd1 attrs c)"

definition dump_interfaces :: "wireless_interface list conn" where
  "dump_interfaces = dump_objects NL80211_CMD_GET_INTERFACE NL80211_CMD_NEW_INTERFACE interface_from_attrs []
     (sort_by (\<lambda>a b. sint (wi_index a) \<le> sint (wi_index b)))"

definition dump_wiphys :: "wiphy_info list conn" where
  "dump_wiphys = dump_objects NL80211_CMD_GET_WIPHY NL80211_CMD_NEW_WIPHY wiphy_from_attrs []
     (sort_by (\<lambda>a b. wy_index a \<le> wy_index b))"

definition trigger_scan :: "i32 \<Rightarrow> unit conn" where
  "trigger_scan ifindex = transact_ack NL80211_CMD_TRIGGER_SCAN [(NL80211_ATTR_IFINDEX, to_le_bytes32 ifindex)]"

definition dump_scan :: "i32 \<Rightarrow> access_point list conn" where
  "dump_scan ifindex = dump_objects NL80211_CMD_GET_SCAN NL80211_CMD_NEW_SCAN_RESULTS bss_from_attrs
     [(NL80211_ATTR_IFINDEX, to_le_bytes32 ifindex)] (\<lambda>out. out)"

section \<open>Discovery\<close>

definition lookup_wiphy :: "wiphy_info list \<Rightarrow> u32 option \<Rightarrow> wiphy_info option" where
  "lookup_wiphy wiphys index = Option.bind index (\<lambda>i. List.find (\<lambda>w. wy_index w = i) wiphys)"

definition merge_wiphy :: "wiphy_info list \<Rightarrow> wireless_interface \<Rightarrow> wireless_interface" where
  "merge_wiphy wiphys interface = (case lookup_wiphy wiphys (wi_wiphy_index interface) of
       None \<Rightarrow> interface
     | Some w \<Rightarrow> interface\<lparr> wi_wiphy_name := Some (wy_name w), wi_capabilities := wy_capabilities w \<rparr>)"

text \<open>The \<open>?\<close> operator on calls of the connection.\<close>

definition conn_then :: "'a conn \<Rightarrow> ('a \<Rightarrow> 'b conn) \<Rightarrow> 'b conn" where
  "conn_then f g c = (case f c of
       None \<Rightarrow> None
     | Some (Err e, c') \<Rightarrow> Some (Err e, c')
     | Some (Ok x, c') \<Rightarrow> g x c')"

definition with_nl80211 :: "netlink_socket \<Rightarrow> netlink_socket \<Rightarrow> 'a conn \<Rightarrow> 'a nl option" where
  "with_nl80211 resolver sock f = (case connection_open resolver sock of
       None \<Rightarrow> None
     | Some (Err e) \<Rightarrow> Some (Err e)
     | Some (Ok c) \<Rightarrow> map_option fst (f c))"

definition wifi_interfaces :: "netlink_socket \<Rightarrow> netlink_socket \<Rightarrow> wireless_interface list nl option" where
  "wifi_interfaces resolver sock = with_nl80211 resolver sock
     (conn_then dump_interfaces (\<lambda>interfaces. conn_then dump_wiphys (\<lambda>wiphys c.
        Some (Ok (map (merge_wiphy wiphys) interfaces), c))))"

definition scan_interface_index :: "wireless_interface list \<Rightarrow> i32 nl" where
  "scan_interface_index interfaces =
     (case (case List.find (\<lambda>i. wi_interface_type i = Station) interfaces of
              Some i \<Rightarrow> Some i
            | None \<Rightarrow> List.find (\<lambda>i. wi_interface_type i \<noteq> Monitor) interfaces) of
        Some i \<Rightarrow> Ok (wi_index i)
      | None \<Rightarrow> malformed ''no wireless interface available for scanning'')"

definition access_points :: "netlink_socket \<Rightarrow> netlink_socket \<Rightarrow> access_point list nl option" where
  "access_points resolver sock = with_nl80211 resolver sock
     (conn_then dump_interfaces (\<lambda>interfaces c. case scan_interface_index interfaces of
        Err e \<Rightarrow> Some (Err e, c)
      | Ok index \<Rightarrow> dump_scan index c))"

definition scan_wifi :: "netlink_socket \<Rightarrow> netlink_socket \<Rightarrow> access_point list nl option" where
  "scan_wifi resolver sock = with_nl80211 resolver sock
     (conn_then dump_interfaces (\<lambda>interfaces c. case scan_interface_index interfaces of
        Err e \<Rightarrow> Some (Err e, c)
      | Ok index \<Rightarrow> conn_then (trigger_scan index) (\<lambda>_. dump_scan index) c))"

definition wifi_source_open :: "netlink_socket \<Rightarrow> netlink_socket \<Rightarrow> (nl80211_connection \<times> wifi_event list) nl option" where
  "wifi_source_open resolver sock = map_option (\<lambda>r. and_then r (\<lambda>c.
     and_then (set_nonblocking (nc_socket c)) (\<lambda>_. Ok (c, [])))) (connection_open resolver sock)"

definition wifi_next_event ::
  "wifi_event list \<Rightarrow> event_turn_input list \<Rightarrow> (network_event option nl \<times> wifi_event list \<times> event_turn_input list) option" where
  "wifi_next_event pending turns =
     map_option (\<lambda>(r, rest). (map_ok (map_option WifiEvent) r, rest)) (source_next parse_scan_events pending turns)"

section \<open>No panic\<close>

lemma parse_attrs_safe [simp]: "parse_attrs payload \<noteq> Err Panicked"
  by (simp add: parse_attrs_def attr_loop_safe)

lemma from_le_bytes_panics:
  "from_le_bytes16 bs = Err Panicked \<longleftrightarrow> length bs \<noteq> 2" "from_le_bytes32 bs = Err Panicked \<longleftrightarrow> length bs \<noteq> 4"
  using le16c.dec_total [of bs] le16c.dec_other [of bs] le32c.dec_total [of bs] le32c.dec_other [of bs] by auto

lemmas nl_panics = panics from_le_bytes_panics

lemma readers_safe [simp]:
  "read_u8 attrs t \<noteq> Err Panicked" "read_u16 attrs t \<noteq> Err Panicked" "read_u32 attrs t \<noteq> Err Panicked"
  "read_i32 attrs t \<noteq> Err Panicked" "read_mac attrs t \<noteq> Err Panicked" "read_ssid attrs t \<noteq> Err Panicked"
  "nested_attrs attrs t \<noteq> Err Panicked"
  by (auto simp: read_u8_def read_u16_def read_u32_def read_i32_def read_mac_def read_ssid_def nested_attrs_def
      nl_panics split: option.split)

lemma read_string_safe [simp]: "read_string attrs t \<noteq> Err Panicked"
  by (auto simp: read_string_def nl_panics Let_def split: option.split dest: position_le_length)

lemma for_each_safe: "(\<And>x s. body x s \<noteq> Err Panicked) \<Longrightarrow> for_each body xs s \<noteq> Err Panicked"
  by (induction xs arbitrary: s) (auto simp: nl_panics)

lemma genl_message_safe [simp]: "genl_message h p \<noteq> Err Panicked"
  by (auto simp: genl_message_def nl_panics)

lemma parse_genl_messages_safe [simp]: "parse_genl_messages buf \<noteq> Err Panicked"
  by (auto simp: parse_genl_messages_def nl_panics message_loop_safe genl_turn_def split: turn.split_asm if_split_asm)

lemma parse_scan_events_safe: "parse_scan_events buf \<noteq> Err Panicked"
proof -
  have "scan_event m events \<noteq> Err Panicked" for m events
    by (auto simp: scan_event_def nl_panics split: option.split if_split_asm)
  then show ?thesis by (simp add: parse_scan_events_def nl_panics for_each_safe)
qed

interpretation wifi: event_source parse_scan_events
  by unfold_locales (rule parse_scan_events_safe)

lemma interface_from_attrs_safe: "interface_from_attrs attrs \<noteq> Err Panicked"
  by (auto simp: interface_from_attrs_def nl_panics split: option.split_asm)

lemma parse_cipher_suites_safe [simp]: "parse_cipher_suites payload \<noteq> Err Panicked"
proof -
  have "(map_ok wifi_cipher_from_u32 (from_le_bytes32 c) :: wifi_cipher nl) \<noteq> Err Panicked" if "c \<in> set (chunks4 payload)" for c
    using length_in_chunks4 [OF that] by (simp add: nl_panics)
  then have "collect_ok (\<lambda>c. map_ok wifi_cipher_from_u32 (from_le_bytes32 c)) (chunks4 payload) \<noteq> (Err Panicked :: wifi_cipher list nl)"
    by (intro collect_ok_safe) auto
  then show ?thesis by (simp add: parse_cipher_suites_def)
qed

lemma band_from_attrs_safe: "band_from_attrs i payload \<noteq> Err Panicked"
proof -
  have "band_entry e b \<noteq> Err Panicked" for e b
    by (auto simp: band_entry_def nl_panics split: if_split_asm)
  then show ?thesis
    by (auto simp: band_from_attrs_def nl_panics for_each_safe split: option.split_asm)
qed

lemma wiphy_from_attrs_safe: "wiphy_from_attrs attrs \<noteq> Err Panicked"
proof -
  have "wiphy_band b bs \<noteq> Err Panicked" for b bs
    by (simp add: wiphy_band_def nl_panics band_from_attrs_safe)
  then have "for_each wiphy_band xs [] \<noteq> Err Panicked" for xs by (rule for_each_safe)
  then show ?thesis
    by (auto simp: wiphy_from_attrs_def nl_panics split: option.split_asm)
qed

lemma read_ie_safe [simp]:
  "read_ie_u16 data offset \<noteq> Err Panicked" "skip_ie_bytes data offset n \<noteq> Err Panicked"
  by (auto simp: read_ie_u16_def skip_ie_bytes_def nl_panics slice_eq_Ok)

lemma skip_ie_counted_safe [simp]: "skip_ie_counted data offset n \<noteq> Err Panicked"
  by (auto simp: skip_ie_counted_def nl_panics)

lemma read_suites_safe [simp]: "read_suites bad suite data n offset \<noteq> Err Panicked"
  by (induction n arbitrary: offset) (auto simp: nl_panics slice_eq_Ok)

lemma parse_rsn_ie_safe [simp]: "parse_rsn_ie data \<noteq> Err Panicked"
  by (auto simp: parse_rsn_ie_def nl_panics slice_eq_Ok split: if_split_asm)

lemma parse_wpa_ie_safe [simp]: "parse_wpa_ie data \<noteq> Err Panicked"
  by (auto simp: parse_wpa_ie_def nl_panics split: if_split_asm)

lemma ie_loop_safe:
  assumes "\<And>i d s. body i d s \<noteq> Err Panicked"
  shows "ie_loop body ies offset s \<noteq> Err Panicked"
  using assms
proof (induction body ies offset s rule: ie_loop.induct)
  case (1 body ies offset s)
  show ?case
  proof
    assume panic: "ie_loop body ies offset s = Err Panicked"
    from panic [unfolded ie_loop.simps [of body ies offset s]] obtain s' where
      "offset + 2 \<le> length ies" "\<not> offset + 2 + unat (ies ! (offset + 1)) > length ies"
      "body (ies ! offset) (take (unat (ies ! (offset + 1))) (drop (offset + 2) ies)) s = Ok s'"
      "ie_loop body ies (offset + (2 + unat (ies ! (offset + 1)))) s' = Err Panicked"
      by (auto simp: nl_panics Let_def "1.prems" split: if_split_asm)
    with "1.IH" [of "ies ! offset" "ies ! (offset + 1)" "unat (ies ! (offset + 1))"
        "take (unat (ies ! (offset + 1))) (drop (offset + 2) ies)" s'] "1.prems" show False
      by simp
  qed
qed

lemma parse_security_safe [simp]: "parse_security ies capability \<noteq> Err Panicked"
proof -
  have "security_element i d s \<noteq> Err Panicked" for i d s
    by (auto simp: security_element_def nl_panics split: if_split_asm)
  then show ?thesis by (simp add: parse_security_def nl_panics ie_loop_safe)
qed

lemma ssid_from_ies_safe [simp]: "ssid_from_ies ies offset \<noteq> Err Panicked"
proof (induction ies offset rule: ssid_from_ies.induct)
  case (1 ies offset)
  then show ?case
    by (subst ssid_from_ies.simps) (auto simp: nl_panics Let_def)
qed

lemma bss_from_attrs_safe: "bss_from_attrs attrs \<noteq> Err Panicked"
  by (auto simp: bss_from_attrs_def nl_panics Let_def split: option.split_asm)

section \<open>Reading back\<close>

lemma run_attrs_collect:
  "run_attrs (\<lambda>t v attrs. Ok (attrs @ [raw_attr_of t v])) as s = Ok (s @ map (\<lambda>a. raw_attr_of (fst a) (snd a)) as)"
  by (induction as arbitrary: s) simp_all

lemma parse_attrs_bytes:
  "list_all attr_ok as \<Longrightarrow> parse_attrs (concat (map attr_bytes as)) = Ok (map (\<lambda>a. raw_attr_of (fst a) (snd a)) as)"
  using attr_loop_attrs [of as "''invalid nlattr length''" "\<lambda>t v attrs. Ok (attrs @ [raw_attr_of t v])" "[]" "[]"]
  by (simp add: parse_attrs_def run_attrs_collect)

lemma run_genl:
  "map_ok turn_value (run_messages genl_turn ms out) = map_ok (\<lambda>xs. out @ xs) (collect_ok (\<lambda>m. genl_message (fst m) (snd m)) ms)"
proof (induction ms arbitrary: out)
  case Nil
  then show ?case by simp
next
  case (Cons m ms)
  then show ?case
    by (cases "genl_message (fst m) (snd m)") (simp_all add: genl_turn_def [of "fst m" "snd m"] map_ok_map_ok)
qed

lemma parse_genl_framed:
  assumes "list_all frame_ok ms"
  shows "parse_genl_messages (concat (map framed ms)) = collect_ok (\<lambda>m. genl_message (fst m) (snd m)) ms"
proof -
  have "parse_genl_messages (concat (map framed ms)) = map_ok turn_value (run_messages genl_turn ms [])"
    unfolding parse_genl_messages_def
    using message_loop_messages [OF assms, of "''invalid nlmsghdr length''" genl_turn "[]" "[]"]
    by (cases "run_messages genl_turn ms []"; cases "case run_messages genl_turn ms [] of Ok t \<Rightarrow> t") auto
  then show ?thesis by (simp add: run_genl)
qed

lemma align_aligned: "n mod 4 = 0 \<Longrightarrow> align n 4 = n"
  using align_bounds [of n] align_mult [of n] by presburger

lemma align_pad: "align n 4 - n = (4 - n mod 4) mod 4"
proof -
  have n: "n = 4 * (n div 4) + n mod 4" "n mod 4 < 4" by simp_all
  then consider "n mod 4 = 0" | "n mod 4 = 1" | "n mod 4 = 2" | "n mod 4 = 3" by linarith
  then obtain q r where q: "n = 4 * q + r" "r = 0 \<or> r = 1 \<or> r = 2 \<or> r = 3" "n mod 4 = r"
    using n(1) by cases metis+
  then have "align n 4 = (if r = 0 then 4 * q else 4 * q + 4)"
    using align_bounds [of n] align_mult [of n] by auto presburger+
  with q show ?thesis by auto
qed

lemma mod4_add: "a mod 4 = 0 \<Longrightarrow> (a + b) mod 4 = b mod (4 :: nat)"
  by presburger

lemma push_genl_attrs_eq: "length buf mod 4 = 0 \<Longrightarrow> push_genl_attrs buf as = buf @ concat (map attr_bytes as)"
proof (induction as arbitrary: buf)
  case Nil
  then show ?case by simp
next
  case (Cons a as)
  obtain t v where a: "a = (t, v)" by (cases a)
  let ?b = "buf @ to_le_bytes16 (word_of_nat (4 + length v)) @ to_le_bytes16 t @ v"
  have "length ?b = length buf + (4 + length v)" by simp
  then have "length ?b mod 4 = (4 + length v) mod 4" by (simp only: mod4_add [OF Cons.prems])
  then have "replicate ((4 - length ?b mod 4) mod 4) 0 = pad4 (4 + length v)"
    by (simp only: pad4_def align_pad)
  then have pad: "?b @ replicate ((4 - length ?b mod 4) mod 4) 0 = buf @ attr_bytes (t, v)"
    by (simp only: attr_bytes_eq append_assoc fst_conv snd_conv)
  have "length (buf @ attr_bytes (t, v)) mod 4 = 0"
    using mod4_add [OF Cons.prems] align_mult by (simp add: length_attr_bytes)
  then have "push_genl_attrs (buf @ attr_bytes (t, v)) as = (buf @ attr_bytes (t, v)) @ concat (map attr_bytes as)"
    by (rule Cons.IH)
  then show ?case
    unfolding a push_genl_attrs.simps Let_def pad by simp
qed

lemma sum_attr_lengths: "sum_list (map (\<lambda>(_, payload). align (4 + length payload) 4) as) = length (concat (map attr_bytes as))"
  by (induction as) (auto simp: length_attr_bytes)

lemma length_attr_list_mod: "length (concat (map attr_bytes as)) mod 4 = 0"
  by (induction as) (simp_all add: length_attr_bytes align_mult mod_add_eq [symmetric])

lemma build_message_framed:
  fixes family flags :: u16 and sq :: u32
  assumes "20 + length (concat (map attr_bytes as)) < 2 ^ 32"
  defines "h \<equiv> \<lparr> nlmsg_len = word_of_nat (20 + length (concat (map attr_bytes as))), nlmsg_type = family,
     nlmsg_flags = flags, nlmsg_seq = sq, nlmsg_pid = 0 \<rparr>"
  shows "build_message family cmd flags sq as = framed (h, [cmd, 1, 0, 0] @ concat (map attr_bytes as))"
    and "frame_ok (h, [cmd, 1, 0, 0] @ concat (map attr_bytes as))"
proof -
  let ?p = "[cmd, 1, 0, 0] @ concat (map attr_bytes as)"
  have "(16 + length ?p) mod 4 = 0" using length_attr_list_mod [of as] by simp presburger
  then have pad: "pad4 (16 + length ?p) = []" by (simp only: pad4_def align_aligned) simp
  have len: "(16 + 4 :: nat) + x = 20 + x" for x by simp
  show "build_message family cmd flags sq as = framed (h, ?p)"
    unfolding build_message_def Let_def sum_attr_lengths len
    by (subst push_genl_attrs_eq) (simp_all add: framed_def nlmsghdr_bytes_def h_def pad [simplified])
  show "frame_ok (h, ?p)"
    using assms(1) by (simp add: frame_ok_def h_def unat_of_nat del: of_nat_add)
qed

lemma genl_message_command:
  assumes "list_all attr_ok as" "nlmsg_type h \<noteq> NLMSG_DONE" "nlmsg_type h \<noteq> NLMSG_ERROR"
  shows "genl_message h ([cmd, 1, 0, 0] @ concat (map attr_bytes as)) =
    Ok \<lparr> rm_type = nlmsg_type h, rm_flags = nlmsg_flags h, rm_cmd = Some cmd,
         rm_attrs = map (\<lambda>a. raw_attr_of (fst a) (snd a)) as, rm_payload = [cmd, 1, 0, 0] @ concat (map attr_bytes as) \<rparr>"
  using assms by (simp add: genl_message_def parse_attrs_bytes)

section \<open>Suites of information elements\<close>

text \<open>An RSN element as IEEE 802.11 lays it out: the suite selectors are the OUI 00-0F-AC followed by the
  suite type.\<close>

definition rsn_selector :: "u8 \<Rightarrow> bytes" where
  "rsn_selector n = [0x00, 0x0f, 0xac, n]"

definition rsn_body :: "u8 \<Rightarrow> u8 list \<Rightarrow> u8 list \<Rightarrow> u16 \<Rightarrow> bytes" where
  "rsn_body group_cipher pair_ciphers akms capabilities =
     to_le_bytes16 1 @ rsn_selector group_cipher
     @ to_le_bytes16 (word_of_nat (length pair_ciphers)) @ concat (map rsn_selector pair_ciphers)
     @ to_le_bytes16 (word_of_nat (length akms)) @ concat (map rsn_selector akms)
     @ to_le_bytes16 capabilities"

lemma length_rsn_selector [simp]: "length (rsn_selector n) = 4"
  by (simp add: rsn_selector_def)

lemma dec_selector [simp]: "from_le_bytes32 (rsn_selector n) = Ok (le32 0x00 0x0f 0xac n)"
  by (simp add: rsn_selector_def)

lemma length_selectors: "length (concat (map rsn_selector ns)) = 4 * length ns"
  by (induction ns) (simp_all add: rsn_selector_def)

lemma selector_not_standard: "wifi_auth_suite_from_rsn_akm (le32 0x00 0x0f 0xac n) = OtherSuite (le32 0x00 0x0f 0xac n)"
proof -
  have low: "(ucast (le32 0x00 0x0f 0xac n) :: u8) = 0"
    using to_le32_le32 [of "0x00" "0x0f" "0xac" n] by (simp add: to_le_bytes32_def)
  have "le32 0x00 0x0f 0xac n \<noteq> c" if "(ucast c :: u8) \<noteq> 0" for c
    using low that by auto
  then show ?thesis by (simp add: wifi_auth_suite_from_rsn_akm_def)
qed

lemma read_ie_u16_at: "read_ie_u16 (pre @ to_le_bytes16 w @ post) (length pre) = Ok (w, length pre + 2)"
  by (simp add: read_ie_u16_def)

lemma read_suites_selectors:
  "read_suites bad f (pre @ concat (map rsn_selector ns) @ post) (length ns) (length pre) =
     Ok (map (\<lambda>n. f (le32 0x00 0x0f 0xac n)) ns, length pre + 4 * length ns)"
proof (induction ns arbitrary: pre)
  case Nil
  then show ?case by simp
next
  case (Cons n ns)
  have "read_suites bad f (pre @ rsn_selector n @ concat (map rsn_selector ns) @ post) (length ns) (length pre + 4) =
     Ok (map (\<lambda>n. f (le32 0x00 0x0f 0xac n)) ns, length pre + 4 + 4 * length ns)"
    using Cons.IH [of "pre @ rsn_selector n"] by simp
  then show ?case by simp
qed

lemma unat_length16: "length xs < 2 ^ 16 \<Longrightarrow> unat (word_of_nat (length xs) :: u16) = length xs"
  by (simp add: unat_of_nat)

lemma parse_rsn_body:
  assumes "length ps < 2 ^ 16" "length ks < 2 ^ 16"
  shows "parse_rsn_ie (rsn_body g ps ks c) =
    Ok (map (\<lambda>k. OtherSuite (le32 0x00 0x0f 0xac k)) ks, c AND RSN_CAPABILITY_MFP \<noteq> 0)"
proof -
  let ?a = "to_le_bytes16 1 @ rsn_selector g"
  let ?b = "?a @ to_le_bytes16 (word_of_nat (length ps)) @ concat (map rsn_selector ps)"
  let ?c = "?b @ to_le_bytes16 (word_of_nat (length ks))"
  define d where "d = rsn_body g ps ks c"
  have lens: "length ?a = 6" "length ?b = 8 + 4 * length ps" "length ?c = 10 + 4 * length ps"
    by (simp_all add: rsn_selector_def length_selectors)
  have len: "length d = 12 + 4 * length ps + 4 * length ks"
    by (simp add: d_def rsn_body_def rsn_selector_def length_selectors)
  have d0: "read_ie_u16 d 0 = Ok (1, 2)"
    using read_ie_u16_at [of "[]" 1] by (simp add: d_def rsn_body_def)
  have d1: "read_ie_u16 d 6 = Ok (word_of_nat (length ps), 8)"
    using read_ie_u16_at [of ?a "word_of_nat (length ps)"] lens by (simp add: d_def rsn_body_def)
  have d2: "read_ie_u16 d (8 + 4 * length ps) = Ok (word_of_nat (length ks), 10 + 4 * length ps)"
    using read_ie_u16_at [of ?b "word_of_nat (length ks)"] lens by (simp add: d_def rsn_body_def)
  have d3: "read_suites bad wifi_auth_suite_from_rsn_akm d (length ks) (10 + 4 * length ps) =
      Ok (map (\<lambda>k. OtherSuite (le32 0x00 0x0f 0xac k)) ks, 10 + 4 * length ps + 4 * length ks)" for bad
    using read_suites_selectors [of bad wifi_auth_suite_from_rsn_akm ?c ks "to_le_bytes16 c"] lens
    by (simp add: d_def rsn_body_def selector_not_standard)
  have "d = (?c @ concat (map rsn_selector ks)) @ to_le_bytes16 c" by (simp add: d_def rsn_body_def)
  moreover have "length (?c @ concat (map rsn_selector ks)) = 10 + 4 * length ps + 4 * length ks"
    using lens by (simp add: length_selectors)
  ultimately have d4: "drop (10 + 4 * length ps + 4 * length ks) d = to_le_bytes16 c"
    by (metis append_eq_conv_conj)
  show ?thesis
    unfolding d_def [symmetric] parse_rsn_ie_def
    using assms
    by (simp add: d0 d1 d2 d3 d4 skip_ie_bytes_def skip_ie_counted_def len unat_length16 mult.commute [of _ 4])
qed

text \<open>Elements one after the other, as a beacon carries them.\<close>

definition ie_bytes :: "u8 \<times> bytes \<Rightarrow> bytes" where
  "ie_bytes e = [fst e, word_of_nat (length (snd e))] @ snd e"

lemma length_ie_bytes [simp]: "length (ie_bytes e) = 2 + length (snd e)"
  by (simp add: ie_bytes_def)

lemma for_each_Nil [simp]: "for_each body [] = Ok"
  by (rule ext) simp

lemma ie_loop_elements:
  assumes "list_all (\<lambda>e. length (snd e) < 256) es"
  shows "ie_loop body (pre @ concat (map ie_bytes es)) (length pre) s = for_each (\<lambda>e. body (fst e) (snd e)) es s"
  using assms
proof (induction es arbitrary: pre s)
  case Nil
  then show ?case by (simp add: ie_loop.simps)
next
  case (Cons e es)
  let ?all = "pre @ ie_bytes e @ concat (map ie_bytes es)"
  from Cons.prems have len: "unat (word_of_nat (length (snd e)) :: u8) = length (snd e)"
    by (simp add: unat_of_nat)
  have IH: "ie_loop body ?all (length pre + (2 + length (snd e))) s' = for_each (\<lambda>e. body (fst e) (snd e)) es s'" for s'
    using Cons.IH [of "pre @ ie_bytes e" s'] Cons.prems by simp
  have "ie_loop body ?all (length pre) s =
     and_then (body (fst e) (snd e) s) (ie_loop body ?all (length pre + (2 + length (snd e))))"
    by (subst ie_loop.simps) (simp add: ie_bytes_def len Let_def nth_append)
  with IH show ?case by (cases "body (fst e) (snd e) s") simp_all
qed

lemma parse_security_elements:
  "list_all (\<lambda>e. length (snd e) < 256) es \<Longrightarrow>
     ie_loop security_element (concat (map ie_bytes es)) 0 no_security =
       for_each (\<lambda>e. security_element (fst e) (snd e)) es no_security"
  using ie_loop_elements [of es security_element "[]"] by simp

definition rsn_element :: "u8 \<times> bytes \<Rightarrow> bool" where
  "rsn_element e \<longleftrightarrow> fst e = IE_RSN"

definition wpa_element :: "u8 \<times> bytes \<Rightarrow> bool" where
  "wpa_element e \<longleftrightarrow> fst e = IE_VENDOR \<and> length (snd e) \<ge> 4 \<and> take 3 (snd e) = [0x00, 0x50, 0xf2] \<and> snd e ! 3 = 1"

lemma seen_elements:
  "for_each (\<lambda>e. security_element (fst e) (snd e)) es s = Ok s' \<Longrightarrow>
     ss_rsn_seen s' = (ss_rsn_seen s \<or> list_ex rsn_element es) \<and> ss_wpa_seen s' = (ss_wpa_seen s \<or> list_ex wpa_element es)"
proof (induction es arbitrary: s)
  case Nil
  then show ?case by simp
next
  case (Cons e es)
  then obtain s1 where s1: "security_element (fst e) (snd e) s = Ok s1"
    "for_each (\<lambda>e. security_element (fst e) (snd e)) es s1 = Ok s'"
    by (auto simp: and_then_eq_Ok)
  from s1(1) have "ss_rsn_seen s1 = (ss_rsn_seen s \<or> rsn_element e)" "ss_wpa_seen s1 = (ss_wpa_seen s \<or> wpa_element e)"
    by (auto simp: security_element_def rsn_element_def wpa_element_def and_then_eq_Ok split: if_split_asm)
  with Cons.IH [OF s1(2)] show ?case by auto
qed

section \<open>Properties\<close>

text \<open>Whatever bytes arrive on the generic netlink socket, decoding them never panics: not the messages,
  not the scan events, not the interfaces, wiphys and access points, information elements included.\<close>

theorem nl80211_decoding_never_panics:
  "parse_genl_messages buf \<noteq> Err Panicked \<and> parse_scan_events buf \<noteq> Err Panicked \<and>
   interface_from_attrs attrs \<noteq> Err Panicked \<and> wiphy_from_attrs attrs \<noteq> Err Panicked \<and>
   bss_from_attrs attrs \<noteq> Err Panicked \<and> parse_security ies capability \<noteq> Err Panicked"
  by (simp add: parse_scan_events_safe interface_from_attrs_safe wiphy_from_attrs_safe bss_from_attrs_safe)

text \<open>A request the connection builds decodes to one message with its family, command and attributes.\<close>

theorem genl_request_round_trip:
  assumes "list_all attr_ok as" "20 + length (concat (map attr_bytes as)) < 2 ^ 32"
    and "family \<noteq> NLMSG_DONE" "family \<noteq> NLMSG_ERROR"
  shows "parse_genl_messages (build_message family cmd flags sq as) =
    Ok [\<lparr> rm_type = family, rm_flags = flags, rm_cmd = Some cmd,
          rm_attrs = map (\<lambda>a. raw_attr_of (fst a) (snd a)) as,
          rm_payload = [cmd, 1, 0, 0] @ concat (map attr_bytes as) \<rparr>]"
  using assms parse_genl_framed [of "[m]" for m] build_message_framed [OF assms(2), where family = family and flags = flags and sq = sq]
    genl_message_command [OF assms(1)]
  by simp

theorem genl_request_round_trip_witness:
  "parse_genl_messages (build_message 28 33 5 1 [(3, to_le_bytes32 7)]) =
    Ok [\<lparr> rm_type = 28, rm_flags = 5, rm_cmd = Some 33,
          rm_attrs = [\<lparr> at_typ = 3, at_nested = False, at_payload = to_le_bytes32 7 \<rparr>],
          rm_payload = [33, 1, 0, 0] @ attr_bytes (3, to_le_bytes32 7) \<rparr>]"
  using genl_request_round_trip [of "[(3, to_le_bytes32 7)]" 28 33 5 1]
  by (simp add: attr_ok_def length_attr_bytes align_def raw_attr_of_def)

text \<open>C25. A network is taken for WEP exactly when it announces privacy and carries neither an RSN nor a WPA
  element, for WPA exactly when it carries the WPA vendor element; a network without an RSN element is never
  taken for WPA2.\<close>

theorem security_flags_follow_elements:
  assumes "list_all (\<lambda>e. length (snd e) < 256) es"
    and "parse_security (concat (map ie_bytes es)) capability = Ok sec"
  shows "sec_wep sec = ((\<exists>cap. capability = Some cap \<and> cap AND BSS_CAPABILITY_PRIVACY \<noteq> 0) \<and>
           \<not> list_ex rsn_element es \<and> \<not> list_ex wpa_element es) \<and>
    sec_wpa1 sec = list_ex wpa_element es \<and> (sec_wpa2 sec \<longrightarrow> list_ex rsn_element es)"
proof -
  obtain s where s: "for_each (\<lambda>e. security_element (fst e) (snd e)) es no_security = Ok s"
    using assms(2) unfolding parse_security_def parse_security_elements [OF assms(1)]
    by (cases "for_each (\<lambda>e. security_element (fst e) (snd e)) es no_security") simp_all
  note sec = assms(2) [unfolded parse_security_def parse_security_elements [OF assms(1)] s and_then.simps result.inject, symmetric]
  show ?thesis
    using seen_elements [OF s] unfolding sec by (simp add: no_security_def split: option.split)
qed

theorem security_flags_follow_elements_witness:
  "\<exists>sec. parse_security (concat (map ie_bytes [(0, [0x61])])) (Some 0x11) = Ok sec \<and> sec_wep sec \<and> \<not> sec_wpa1 sec"
proof -
  obtain sec where "parse_security (concat (map ie_bytes [(0, [0x61])])) (Some 0x11) = Ok sec"
    using parse_security_elements [of "[(0, [0x61])]"] by (simp add: parse_security_def security_element_def)
  with security_flags_follow_elements [of "[(0, [0x61])]" "Some 0x11" sec] show ?thesis
    by (simp add: rsn_element_def wpa_element_def)
qed

text \<open>C26. The suite selectors of an RSN element are read in the wrong byte order: a standard element, whatever
  its suites are, gives only unknown suites, so a WPA2 or WPA3 network is reported as neither.\<close>

theorem standard_rsn_not_recognised:
  assumes "length ps < 2 ^ 16" "length ks < 2 ^ 16" "length (rsn_body g ps ks c) < 256"
  shows "\<exists>sec. parse_security (ie_bytes (IE_RSN, rsn_body g ps ks c)) capability = Ok sec \<and>
    sec_auth_suites sec = map (\<lambda>k. OtherSuite (le32 0x00 0x0f 0xac k)) ks \<and>
    \<not> sec_wpa2 sec \<and> \<not> sec_wpa3 sec \<and> \<not> sec_enterprise sec \<and> \<not> sec_wep sec"
proof -
  have "list_ex P (map (\<lambda>k. OtherSuite (le32 0x00 0x0f 0xac k)) ks) = False"
    if "\<And>v. \<not> P (OtherSuite v)" for P
    using that by (auto simp: list_ex_iff)
  moreover have "ie_loop security_element (ie_bytes (IE_RSN, rsn_body g ps ks c)) 0 no_security =
      security_element IE_RSN (rsn_body g ps ks c) no_security"
    using parse_security_elements [of "[(IE_RSN, rsn_body g ps ks c)]"] assms(3) by simp
  ultimately show ?thesis
    by (simp add: parse_security_def security_element_def parse_rsn_body [OF assms(1,2)] no_security_def)
qed

theorem standard_rsn_not_recognised_witness:
  "\<exists>sec. parse_security (ie_bytes (IE_RSN, rsn_body 4 [4] [2] 0)) (Some 0x11) = Ok sec \<and> \<not> sec_wpa2 sec \<and> \<not> sec_wpa3 sec"
  using standard_rsn_not_recognised [of "[4]" "[2]" 4 0 "Some 0x11"]
  by (auto simp: rsn_body_def rsn_selector_def)

end
