(* ===== verification/Nm_Slot.thy ===== *)
theory Nm_Slot
  imports Nm_Activation
begin

text \<open>
  The contract of the engines that hold one connection at a time, and what the activation manager
  guarantees on top of any of them. The supplicant engine and the Linux engine are shown to keep the
  contract in their own theories.
\<close>

text \<open>The managers a new manager on the engine state \<open>e\<close> can become.\<close>

inductive am_reach :: "'e engine_ops \<Rightarrow> 's store_ops \<Rightarrow> 'e \<Rightarrow> 'e activation_manager \<Rightarrow> bool"
  for eng store e where
  new: "am_reach eng store e (am_new e)"
| step: "am_reach eng store e m \<Longrightarrow> am_step eng store m es m' \<Longrightarrow> am_reach eng store e m'"

lemma reach_run: "am_reach eng store e m \<Longrightarrow> \<exists>es. am_run eng store m es"
proof (induction rule: am_reach.induct)
  case new
  show ?case by (rule exI, rule am_run.start)
next
  case (step m es m')
  then obtain es0 where "am_run eng store m es0" by blast
  from am_run.call [OF this step.hyps(2)] show ?case by (rule exI)
qed

lemma reach_inv: "am_reach eng store e m \<Longrightarrow> am_inv m"
  using reach_run [of eng store e m] run_keeps [of eng store m] by auto

definition activated_profiles :: "'e activation_manager \<Rightarrow> profile_id list" where
  "activated_profiles m = map (\<lambda>a. cp_id (ac_profile a)) (filter (\<lambda>a. ac_state a = Activated) (am_active m))"

lemma activated_append:
  "activated_profiles (m\<lparr> am_active := am_active m @ [a] \<rparr>) =
     activated_profiles m @ (if ac_state a = Activated then [cp_id (ac_profile a)] else [])"
  by (simp add: activated_profiles_def)

locale single_slot_engine =
  fixes eng :: "'e engine_ops"
    and slot :: "'e \<Rightarrow> profile_id option"
  assumes act_busy: "slot e \<noteq> None \<Longrightarrow> \<exists>err. eo_activate eng e p d = (Err err, e)"
    and act_ok: "eo_activate eng e p d = (Ok out, e') \<Longrightarrow> slot e' = Some (cp_id p)"
    and act_err: "slot e = None \<Longrightarrow> eo_activate eng e p d = (Err err, e') \<Longrightarrow> slot e' = None"
    and deact_other: "slot e \<noteq> Some (cp_id p) \<Longrightarrow> \<exists>err. eo_deactivate eng e p = (Err err, e)"
    and deact_owner: "slot e = Some (cp_id p) \<Longrightarrow> eo_deactivate eng e p = (r, e') \<Longrightarrow> slot e' = None"
begin

definition slot_ok :: "'e activation_manager \<Rightarrow> bool" where
  "slot_ok m \<longleftrightarrow> activated_profiles m = (case slot (am_engine m) of None \<Rightarrow> [] | Some i \<Rightarrow> [i])"

lemma attempt_slot:
  assumes "slot_ok m" "am_activate_matching eng m p d = (r, m')"
  shows "slot_ok m'"
proof -
  obtain r0 e where run: "eo_activate eng (am_engine m) p d = (r0, e)" by fastforce
  have m': "am_engine m' = e" "am_active m' = am_active m @ [attempted (am_next_id m) p d r0]"
    using assms(2) am_activate_matching_eq [OF run] by auto
  have act: "activated_profiles m' = activated_profiles m @ (if is_ok r0 then [cp_id p] else [])"
    by (cases r0) (simp_all add: activated_profiles_def m' attempted_def)
  show ?thesis
  proof (cases "slot (am_engine m)")
    case None
    then show ?thesis
      using assms(1) act act_ok act_err run by (cases r0) (auto simp: slot_ok_def m')
  next
    case (Some i)
    then have "slot (am_engine m) \<noteq> None" by simp
    from act_busy [OF this, of p d] run obtain err where "r0 = Err err" "e = am_engine m" by auto
    then show ?thesis using assms(1) act by (simp add: slot_ok_def m')
  qed
qed

lemma filter_activated_split:
  assumes "cs = xs @ a # ys" "ac_state a = Activated"
    and "map (\<lambda>a. cp_id (ac_profile a)) (filter (\<lambda>a. ac_state a = Activated) cs) = [i]"
  shows "filter (\<lambda>a. ac_state a = Activated) xs = []" "filter (\<lambda>a. ac_state a = Activated) ys = []" "cp_id (ac_profile a) = i"
  using assms by (auto simp: append_eq_Cons_conv)

lemma deactivate_slot:
  assumes "slot_ok m" "am_deactivate eng m aid = (r, m')"
  shows "slot_ok m'"
  using assms(2)
proof (cases rule: am_deactivate_cases)
  case 1
  with assms(1) show ?thesis by simp
next
  case (2 k)
  obtain xs a ys where split: "am_active m = xs @ a # ys" "k = length xs" "ac_id a = aid"
    using position_split [OF 2(1)] by blast
  then have a: "am_active m ! k = a" "ac_state a = Activated" using 2(2) by simp_all
  obtain i where i: "slot (am_engine m) = Some i" "activated_profiles m = [i]"
    using assms(1) split a by (auto simp: slot_ok_def activated_profiles_def split: option.splits)
  note parts = filter_activated_split [OF split(1) a(2) i(2) [unfolded activated_profiles_def]]
  obtain r0 e where run: "eo_deactivate eng (am_engine m) (ac_profile a) = (r0, e)" by fastforce
  have "slot e = None" using deact_owner [OF _ run] i(1) parts(3) by simp
  moreover have "am_engine m' = e \<and> activated_profiles m' = []"
    using am_deactivate_eq [OF 2, of eng r0 e] run a assms(2) parts split
    by (cases r0) (auto simp: activated_profiles_def Let_def list_update_append)
  ultimately show ?thesis by (simp add: slot_ok_def)
qed

lemma step_slot:
  assumes "am_step eng store m es m'" "slot_ok m"
  shows "slot_ok m'"
  using assms(1)
proof (cases rule: am_step.cases)
  case (activate st d r)
  from this(4) show ?thesis
    by (cases rule: am_activate_cases) (use assms(2) attempt_slot in blast)+
next
  case (activate_profile st i d r)
  from this(4) show ?thesis
    by (cases rule: am_activate_profile_cases) (use assms(2) attempt_slot in blast)+
next
  case (deactivate aid r)
  with assms(2) deactivate_slot show ?thesis by blast
next
  case drain
  with assms(2) show ?thesis by (auto simp: am_drain_events_def slot_ok_def activated_profiles_def)
qed

lemma reach_slot:
  assumes "slot e = None" "am_reach eng store e m"
  shows "activated_profiles m = (case slot (am_engine m) of None \<Rightarrow> [] | Some i \<Rightarrow> [i])"
proof -
  from assms(2) have "slot_ok m"
  proof (induction rule: am_reach.induct)
    case new
    with assms(1) show ?case by (simp add: slot_ok_def am_new_def activated_profiles_def)
  next
    case (step m es m')
    then show ?case using step_slot by blast
  qed
  then show ?thesis by (simp add: slot_ok_def)
qed

end

end
