(* ===== verification/Nm_Supplicant.thy ===== *)
theory Nm_Supplicant
  imports Nm_Slot Nm_Utf8
begin

text \<open>
  wpa_supplicant: the typed control client over D-Bus (\<^verbatim>\<open>src/linux/supplicant.rs\<close>) and the
  activation engine on top of the control trait (\<^verbatim>\<open>src/connection/supplicant_engine.rs\<close>). The bus
  library is a parameter of the client: its calls as functions on the state of the bus. The polls of the
  association loop are a list of what each turn reads; running out of turns is the result \<open>None\<close>.
\<close>

section \<open>Errors and the control trait\<close>

datatype supplicant_error =
    SupBus string
  | SupInterfaceNotFound string
  | SupNetworkRejected string
  | SupDisassociated i32
  | SupNotConnected string
  | SupAssociationTimeout

definition supplicant_error_string :: "supplicant_error \<Rightarrow> string" where
  "supplicant_error_string e = (case e of
       SupBus err \<Rightarrow> ''wpa_supplicant D-Bus failure: '' @ err
     | SupInterfaceNotFound name \<Rightarrow> ''wireless interface '' @ name @ '' is not registered with wpa_supplicant''
     | SupNetworkRejected reason \<Rightarrow> ''wpa_supplicant rejected the network configuration: '' @ reason
     | SupDisassociated reason \<Rightarrow> ''wpa_supplicant disassociated (reason code '' @ show_i32 reason @ '')''
     | SupNotConnected state \<Rightarrow> ''wpa_supplicant stopped connecting while in state '' @ debug_str state
     | SupAssociationTimeout \<Rightarrow> ''wpa_supplicant did not complete association within the timeout'')"

record 'c supplicant_control =
  sc_ifname :: "'c \<Rightarrow> string"
  sc_add_network :: "'c \<Rightarrow> ssid \<Rightarrow> string \<Rightarrow> bytes option \<Rightarrow> string option \<Rightarrow> mac option \<Rightarrow> bool \<Rightarrow>
    (string, supplicant_error) result \<times> 'c"
  sc_select_network :: "'c \<Rightarrow> string \<Rightarrow> (unit, supplicant_error) result \<times> 'c"
  sc_remove_network :: "'c \<Rightarrow> string \<Rightarrow> (unit, supplicant_error) result \<times> 'c"
  sc_disconnect :: "'c \<Rightarrow> (unit, supplicant_error) result \<times> 'c"
  sc_wait_for_completed :: "'c \<Rightarrow> duration \<Rightarrow> (unit, supplicant_error) result \<times> 'c"

section \<open>The D-Bus client\<close>

datatype dict_value = BytesValue bytes | StringValue string | U32Value u32

definition network_config_dict ::
  "ssid \<Rightarrow> string \<Rightarrow> bytes option \<Rightarrow> string option \<Rightarrow> mac option \<Rightarrow> bool \<Rightarrow> (string \<rightharpoonup> dict_value)" where
  "network_config_dict name key_mgmt psk identity bssid hidden =
     (let c1 = Map.empty(''ssid'' \<mapsto> BytesValue name, ''key_mgmt'' \<mapsto> StringValue key_mgmt);
          c2 = (case psk of None \<Rightarrow> c1 | Some passphrase \<Rightarrow> c1(''psk'' \<mapsto> StringValue (from_utf8_lossy passphrase)));
          c3 = (case identity of None \<Rightarrow> c2 | Some i \<Rightarrow> c2(''identity'' \<mapsto> StringValue i));
          c4 = (case bssid of None \<Rightarrow> c3 | Some b \<Rightarrow> c3(''bssid'' \<mapsto> StringValue (format_mac_address b)))
      in if hidden then c4(''scan_ssid'' \<mapsto> U32Value 1) else c4)"

record 'b wpa_bus =
  wb_system :: "'b \<Rightarrow> (unit, string) result \<times> 'b"
  wb_proxy :: "'b \<Rightarrow> string \<Rightarrow> (unit, string) result \<times> 'b"
  wb_get_interface :: "'b \<Rightarrow> string \<Rightarrow> (string, string) result \<times> 'b"
  wb_add_network :: "'b \<Rightarrow> string \<Rightarrow> (string \<rightharpoonup> dict_value) \<Rightarrow> (string, string) result \<times> 'b"
  wb_select_network :: "'b \<Rightarrow> string \<Rightarrow> string \<Rightarrow> (unit, string) result \<times> 'b"
  wb_remove_network :: "'b \<Rightarrow> string \<Rightarrow> string \<Rightarrow> (unit, string) result \<times> 'b"
  wb_disconnect :: "'b \<Rightarrow> string \<Rightarrow> (unit, string) result \<times> 'b"
  wb_object_path :: "string \<Rightarrow> (unit, string) result"

type_synonym ('b, 'a) bus_call = "'b \<Rightarrow> ('a, supplicant_error) result \<times> 'b"

definition bus_then :: "('b, 'a) bus_call \<Rightarrow> ('a \<Rightarrow> ('b, 'r) bus_call) \<Rightarrow> ('b, 'r) bus_call" where
  "bus_then f g b = (case f b of (Err e, b') \<Rightarrow> (Err e, b') | (Ok x, b') \<Rightarrow> g x b')"

definition bus_err :: "(string \<Rightarrow> supplicant_error) \<Rightarrow> ('b \<Rightarrow> ('a, string) result \<times> 'b) \<Rightarrow> ('b, 'a) bus_call" where
  "bus_err f call b = (let (r, b') = call b in (map_err f r, b'))"

definition root_proxy :: "'b wpa_bus \<Rightarrow> ('b, unit) bus_call" where
  "root_proxy bus = bus_err SupBus (\<lambda>b. wb_proxy bus b ''/fi/w1/wpa_supplicant1'')"

definition with_connection :: "'b wpa_bus \<Rightarrow> string \<Rightarrow> ('b, string) bus_call" where
  "with_connection bus ifname = bus_then (root_proxy bus) (\<lambda>_.
     bus_then (bus_err (\<lambda>_. SupInterfaceNotFound ifname) (\<lambda>b. wb_get_interface bus b ifname)) (\<lambda>_ b. (Ok ifname, b)))"

definition connect :: "'b wpa_bus \<Rightarrow> string \<Rightarrow> ('b, string) bus_call" where
  "connect bus ifname = bus_then (bus_err SupBus (wb_system bus)) (\<lambda>_. with_connection bus ifname)"

definition interface_proxy :: "'b wpa_bus \<Rightarrow> string \<Rightarrow> ('b, string) bus_call" where
  "interface_proxy bus ifname = bus_then (root_proxy bus) (\<lambda>_.
     bus_then (bus_err SupBus (\<lambda>b. wb_get_interface bus b ifname)) (\<lambda>path.
     bus_then (bus_err SupBus (\<lambda>b. wb_proxy bus b path)) (\<lambda>_ b. (Ok path, b))))"

definition owned_path :: "'b wpa_bus \<Rightarrow> string \<Rightarrow> ('b, unit) bus_call" where
  "owned_path bus path b = (map_err SupBus (wb_object_path bus path), b)"

definition client_add_network ::
  "'b wpa_bus \<Rightarrow> string \<Rightarrow> ssid \<Rightarrow> string \<Rightarrow> bytes option \<Rightarrow> string option \<Rightarrow> mac option \<Rightarrow> bool \<Rightarrow> ('b, string) bus_call" where
  "client_add_network bus ifname name key_mgmt psk identity bssid hidden =
     bus_then (interface_proxy bus ifname) (\<lambda>path.
     bus_err SupNetworkRejected (\<lambda>b. wb_add_network bus b path (network_config_dict name key_mgmt psk identity bssid hidden)))"

definition client_select_network :: "'b wpa_bus \<Rightarrow> string \<Rightarrow> string \<Rightarrow> ('b, unit) bus_call" where
  "client_select_network bus ifname network = bus_then (owned_path bus network) (\<lambda>_.
     bus_then (interface_proxy bus ifname) (\<lambda>path. bus_err SupBus (\<lambda>b. wb_select_network bus b path network)))"

definition client_remove_network :: "'b wpa_bus \<Rightarrow> string \<Rightarrow> string \<Rightarrow> ('b, unit) bus_call" where
  "client_remove_network bus ifname network = bus_then (owned_path bus network) (\<lambda>_.
     bus_then (interface_proxy bus ifname) (\<lambda>path. bus_err SupBus (\<lambda>b. wb_remove_network bus b path network)))"

definition client_disconnect :: "'b wpa_bus \<Rightarrow> string \<Rightarrow> ('b, unit) bus_call" where
  "client_disconnect bus ifname = bus_then (interface_proxy bus ifname) (\<lambda>path. bus_err SupBus (\<lambda>b. wb_disconnect bus b path))"

definition classify_state :: "string \<Rightarrow> i32 \<Rightarrow> (unit, supplicant_error) result option" where
  "classify_state state disconnect_reason =
     (if state = ''completed'' then Some (Ok ())
      else if state = ''disconnected'' then
        (if disconnect_reason \<noteq> 0 then Some (Err (SupDisassociated disconnect_reason)) else None)
      else if state = ''inactive'' then Some (Err (SupNotConnected state))
      else None)"

text \<open>One turn of the polling loop: the two properties and the clock after them.\<close>

record poll_turn =
  po_state :: "(string, string) result"
  po_reason :: "(i32, string) result"
  po_now :: nat

fun poll_turns :: "nat \<Rightarrow> poll_turn list \<Rightarrow> (unit, supplicant_error) result option" where
  "poll_turns deadline [] = None"
| "poll_turns deadline (t # ts) = (case po_state t of
       Err e \<Rightarrow> Some (Err (SupBus e))
     | Ok state \<Rightarrow> (case po_reason t of
           Err e \<Rightarrow> Some (Err (SupBus e))
         | Ok reason \<Rightarrow> (case classify_state state reason of
               Some r \<Rightarrow> Some r
             | None \<Rightarrow> if po_now t \<ge> deadline then Some (Err SupAssociationTimeout) else poll_turns deadline ts)))"

definition wait_for_completed :: "nat \<Rightarrow> duration \<Rightarrow> poll_turn list \<Rightarrow> (unit, supplicant_error) result option" where
  "wait_for_completed start timeout turns = poll_turns (start + timeout) turns"

section \<open>The engine\<close>

record 'c wpa_engine =
  wpe_control :: 'c
  wpe_timeout :: duration
  wpe_active_network :: "(profile_id \<times> string) option"

definition wpa_with_timeout :: "'c \<Rightarrow> duration \<Rightarrow> 'c wpa_engine" where
  "wpa_with_timeout control timeout = \<lparr> wpe_control = control, wpe_timeout = timeout, wpe_active_network = None \<rparr>"

definition wpa_new :: "'c \<Rightarrow> 'c wpa_engine" where
  "wpa_new control = wpa_with_timeout control (30 * 10 ^ 9)"

definition supplicant_key_mgmt :: "key_management \<Rightarrow> string" where
  "supplicant_key_mgmt k = (case k of
       Open \<Rightarrow> ''NONE'' | WpaPsk \<Rightarrow> ''WPA-PSK'' | WpaEap \<Rightarrow> ''WPA-EAP'' | Sae \<Rightarrow> ''SAE'' | Owe \<Rightarrow> ''OWE'')"

definition sup_engine_err :: "supplicant_error \<Rightarrow> activation_error" where
  "sup_engine_err e = EngineErr (supplicant_error_string e)"

type_synonym secret_provider = "secret_reference \<Rightarrow> (bytes option, secret_error) result"

definition retrieve_passphrase :: "secret_provider \<Rightarrow> wifi_security \<Rightarrow> (bytes, activation_error) result" where
  "retrieve_passphrase secrets security =
     and_then (ok_or (ws_secret security) (EngineErr ''profile is missing a secret reference'')) (\<lambda>reference.
     case secrets reference of
       Ok (Some secret) \<Rightarrow> Ok secret
     | Ok None \<Rightarrow> Err (EngineErr ''no secret is available for this profile's authentication'')
     | Err SecretNotFound \<Rightarrow> Err (EngineErr ''no secret is available for this profile's authentication'')
     | Err SecretUnavailable \<Rightarrow> Err (EngineErr ''the secret provider is unavailable''))"

definition passphrase_for :: "secret_provider \<Rightarrow> wifi_security \<Rightarrow> (bytes option, activation_error) result" where
  "passphrase_for secrets security = (case ws_key_management security of
       WpaPsk \<Rightarrow> map_ok Some (retrieve_passphrase secrets security)
     | Sae \<Rightarrow> map_ok Some (retrieve_passphrase secrets security)
     | Open \<Rightarrow> Ok None | Owe \<Rightarrow> Ok None | WpaEap \<Rightarrow> Ok None)"

text \<open>From the selection of the network on: a network that does not come up is removed again.\<close>

definition associate ::
  "'c supplicant_control \<Rightarrow> 'c \<Rightarrow> duration \<Rightarrow> string \<Rightarrow> (unit, activation_error) result \<times> 'c" where
  "associate ctl c timeout network_path = (case sc_select_network ctl c network_path of
       (Err e, c1) \<Rightarrow> (Err (sup_engine_err e), snd (sc_remove_network ctl c1 network_path))
     | (Ok _, c1) \<Rightarrow> (case sc_wait_for_completed ctl c1 timeout of
           (Err e, c2) \<Rightarrow> (Err (sup_engine_err e), snd (sc_remove_network ctl c2 network_path))
         | (Ok _, c2) \<Rightarrow> (Ok (), c2)))"

definition wpa_activate ::
  "'c supplicant_control \<Rightarrow> secret_provider \<Rightarrow> 'c wpa_engine \<Rightarrow> connection_profile \<Rightarrow> device_info \<Rightarrow>
     (activation_outcome, activation_error) result \<times> 'c wpa_engine" where
  "wpa_activate ctl secrets e p device =
     (if wpe_active_network e \<noteq> None then (Err (EngineErr ''an activation is already in progress''), e)
      else case cp_connection_type p of
        Ethernet _ \<Rightarrow> (Err (EngineErr ''the supplicant engine only activates Wi-Fi profiles''), e)
      | Wifi settings \<Rightarrow>
          (let security = wf_security settings; c = wpe_control e in
           if sc_ifname ctl c \<noteq> dev_interface_name device then
             (Err (EngineErr (''the supplicant control is bound to interface '' @ sc_ifname ctl c
                @ '' but the profile was requested for '' @ dev_interface_name device)), e)
           else if ws_key_management security = WpaEap then
             (Err (EngineErr ''enterprise (WPA-EAP) authentication is not yet implemented''), e)
           else case passphrase_for secrets security of
             Err err \<Rightarrow> (Err err, e)
           | Ok passphrase \<Rightarrow>
               (case sc_add_network ctl c (wf_ssid settings) (supplicant_key_mgmt (ws_key_management security)) passphrase
                       (ws_identity security) (wf_bssid settings) (wf_hidden settings) of
                  (Err err, c1) \<Rightarrow> (Err (sup_engine_err err), e\<lparr> wpe_control := c1 \<rparr>)
                | (Ok network_path, c1) \<Rightarrow>
                    (case associate ctl c1 (wpe_timeout e) network_path of
                       (Err err, c2) \<Rightarrow> (Err err, e\<lparr> wpe_control := c2 \<rparr>)
                     | (Ok _, c2) \<Rightarrow> (Ok outcome_default,
                         e\<lparr> wpe_control := c2, wpe_active_network := Some (cp_id p, network_path) \<rparr>)))))"

definition wpa_deactivate ::
  "'c supplicant_control \<Rightarrow> 'c wpa_engine \<Rightarrow> connection_profile \<Rightarrow> (unit, activation_error) result \<times> 'c wpa_engine" where
  "wpa_deactivate ctl e p = (case wpe_active_network e of
       None \<Rightarrow> (Err (EngineErr ''there is no active supplicant network for this profile''), e)
     | Some (active_profile, network_path) \<Rightarrow>
         if active_profile \<noteq> cp_id p then
           (Err (EngineErr ''the active supplicant network belongs to a different profile''), e)
         else
           (let (disconnected, c1) = sc_disconnect ctl (wpe_control e);
                (removed, c2) = sc_remove_network ctl c1 network_path
            in (and_then (map_err sup_engine_err disconnected) (\<lambda>_. map_err sup_engine_err removed),
                e\<lparr> wpe_control := c2, wpe_active_network := None \<rparr>)))"

definition wpa_engine_ops :: "'c supplicant_control \<Rightarrow> secret_provider \<Rightarrow> 'c wpa_engine engine_ops" where
  "wpa_engine_ops ctl secrets = \<lparr> eo_activate = wpa_activate ctl secrets, eo_deactivate = wpa_deactivate ctl \<rparr>"

definition wpa_slot :: "'c wpa_engine \<Rightarrow> profile_id option" where
  "wpa_slot e = map_option fst (wpe_active_network e)"

section \<open>One network at a time\<close>

lemma wpa_activate_busy:
  "wpe_active_network e \<noteq> None \<Longrightarrow> wpa_activate ctl secrets e p d = (Err (EngineErr ''an activation is already in progress''), e)"
  by (simp add: wpa_activate_def)

lemma wpa_activate_cases:
  assumes "wpa_activate ctl secrets e p d = (r, e')" "wpe_active_network e = None"
  obtains (refused) err where "r = Err err" "e' = e"
  | (not_added) s k psk i b h err c1 where "r = Err (sup_engine_err err)"
      "sc_add_network ctl (wpe_control e) s k psk i b h = (Err err, c1)" "e' = e\<lparr> wpe_control := c1 \<rparr>"
  | (failed) s k psk i b h path c1 c2 err where "r = Err err"
      "sc_add_network ctl (wpe_control e) s k psk i b h = (Ok path, c1)"
      "associate ctl c1 (wpe_timeout e) path = (Err err, c2)" "e' = e\<lparr> wpe_control := c2 \<rparr>"
  | (connected) s k psk i b h path c1 c2 where "r = Ok outcome_default"
      "sc_add_network ctl (wpe_control e) s k psk i b h = (Ok path, c1)"
      "associate ctl c1 (wpe_timeout e) path = (Ok (), c2)"
      "e' = e\<lparr> wpe_control := c2, wpe_active_network := Some (cp_id p, path) \<rparr>"
proof (cases "cp_connection_type p")
  case (Ethernet x)
  with assms have "\<exists>err. r = Err err \<and> e' = e" by (auto simp: wpa_activate_def)
  with refused show thesis by blast
next
  case (Wifi settings)
  let ?sec = "wf_security settings" and ?c = "wpe_control e"
  note run = assms(1) [unfolded wpa_activate_def Wifi connection_type.case Let_def]
  show thesis
  proof (cases "sc_ifname ctl ?c \<noteq> dev_interface_name d \<or> ws_key_management ?sec = WpaEap")
    case True
    with run assms(2) have "\<exists>err. r = Err err \<and> e' = e" by (auto split: if_split_asm)
    with refused show thesis by blast
  next
    case False
    show thesis
    proof (cases "passphrase_for secrets ?sec")
      case (Err err)
      with run assms(2) False have "\<exists>err. r = Err err \<and> e' = e" by auto
      with refused show thesis by blast
    next
      case (Ok psk)
      obtain r1 c1 where add: "sc_add_network ctl ?c (wf_ssid settings) (supplicant_key_mgmt (ws_key_management ?sec)) psk
          (ws_identity ?sec) (wf_bssid settings) (wf_hidden settings) = (r1, c1)" by (meson surj_pair)
      show thesis
      proof (cases r1)
        case (Err err)
        with run assms(2) False Ok add show thesis by (intro not_added [OF _ add [unfolded Err]]) simp_all
      next
        case path: (Ok path)
        obtain r2 c2 where assoc: "associate ctl c1 (wpe_timeout e) path = (r2, c2)" by (meson surj_pair)
        show thesis
        proof (cases r2)
          case (Ok u)
          with assoc have assoc': "associate ctl c1 (wpe_timeout e) path = (Ok (), c2)" by simp
          with run assms(2) False \<open>passphrase_for secrets ?sec = Ok psk\<close> add path show thesis
            by (intro connected [OF _ add [unfolded path] assoc']) simp_all
        next
          case (Err err)
          with run assms(2) False \<open>passphrase_for secrets ?sec = Ok psk\<close> add path assoc show thesis
            by (intro failed [OF _ add [unfolded path] assoc [unfolded Err]]) simp_all
        qed
      qed
    qed
  qed
qed

lemma wpa_deactivate_cases:
  assumes "wpa_deactivate ctl e p = (r, e')"
  obtains (refused) err where "r = Err err" "e' = e" "wpa_slot e \<noteq> Some (cp_id p)"
  | (ended) path c1 c2 r1 r2 where "wpe_active_network e = Some (cp_id p, path)"
      "sc_disconnect ctl (wpe_control e) = (r1, c1)" "sc_remove_network ctl c1 path = (r2, c2)"
      "e' = e\<lparr> wpe_control := c2, wpe_active_network := None \<rparr>"
  using assms unfolding wpa_deactivate_def wpa_slot_def
  by (auto simp: Let_def split: if_split_asm option.split_asm prod.split_asm)

interpretation wpa: single_slot_engine "wpa_engine_ops ctl secrets" wpa_slot for ctl secrets
proof
  fix e :: "'a wpa_engine" and p d out e' err r
  show "\<exists>err. eo_activate (wpa_engine_ops ctl secrets) e p d = (Err err, e)" if "wpa_slot e \<noteq> None"
    using that wpa_activate_busy [of e] by (auto simp: wpa_engine_ops_def wpa_slot_def)
  show "wpa_slot e' = Some (cp_id p)" if "eo_activate (wpa_engine_ops ctl secrets) e p d = (Ok out, e')"
  proof (cases "wpe_active_network e = None")
    case True
    from that have "wpa_activate ctl secrets e p d = (Ok out, e')" by (simp add: wpa_engine_ops_def)
    from this True show ?thesis
      by (cases rule: wpa_activate_cases) (use that in \<open>auto simp: wpa_slot_def\<close>)
  next
    case False
    with that wpa_activate_busy [of e ctl secrets p d] show ?thesis by (simp add: wpa_engine_ops_def)
  qed
  show "wpa_slot e' = None" if "wpa_slot e = None" "eo_activate (wpa_engine_ops ctl secrets) e p d = (Err err, e')"
  proof -
    from that have "wpa_activate ctl secrets e p d = (Err err, e')" "wpe_active_network e = None"
      by (simp_all add: wpa_engine_ops_def wpa_slot_def)
    then show ?thesis
      by (cases rule: wpa_activate_cases) (use that in \<open>auto simp: wpa_slot_def\<close>)
  qed
  show "\<exists>err. eo_deactivate (wpa_engine_ops ctl secrets) e p = (Err err, e)" if "wpa_slot e \<noteq> Some (cp_id p)"
    using that by (auto simp: wpa_engine_ops_def wpa_slot_def wpa_deactivate_def split: option.split)
  show "wpa_slot e' = None" if "wpa_slot e = Some (cp_id p)" "eo_deactivate (wpa_engine_ops ctl secrets) e p = (r, e')"
  proof -
    from that(2) have "wpa_deactivate ctl e p = (r, e')" by (simp add: wpa_engine_ops_def)
    then show ?thesis
      by (cases rule: wpa_deactivate_cases) (use that(1) in \<open>auto simp: wpa_slot_def\<close>)
  qed
qed

section \<open>The networks left with the supplicant\<close>

text \<open>
  The control with a log of what was asked of it and answered: the configurations that were added and not
  asked to be removed since.
\<close>

datatype sup_op = NetAdded string | NetNotAdded | NetSelected | NetRemoved string | NetDisconnected | NetWaited

fun registered_step :: "string list \<Rightarrow> sup_op \<Rightarrow> string list" where
  "registered_step reg (NetAdded path) = reg @ [path]"
| "registered_step reg (NetRemoved path) = remove1 path reg"
| "registered_step reg _ = reg"

definition registered :: "sup_op list \<Rightarrow> string list" where
  "registered ops = foldl registered_step [] ops"

definition log_control :: "('r \<Rightarrow> sup_op) \<Rightarrow> ('c \<Rightarrow> 'r \<times> 'c) \<Rightarrow> 'c \<times> sup_op list \<Rightarrow> 'r \<times> ('c \<times> sup_op list)" where
  "log_control op f s = (let (r, c) = f (fst s) in (r, (c, snd s @ [op r])))"

definition logged_control :: "'c supplicant_control \<Rightarrow> ('c \<times> sup_op list) supplicant_control" where
  "logged_control ctl = \<lparr>
     sc_ifname = (\<lambda>s. sc_ifname ctl (fst s)),
     sc_add_network = (\<lambda>s n k psk i b h.
       log_control (\<lambda>r. case r of Ok path \<Rightarrow> NetAdded path | Err _ \<Rightarrow> NetNotAdded) (\<lambda>c. sc_add_network ctl c n k psk i b h) s),
     sc_select_network = (\<lambda>s path. log_control (\<lambda>_. NetSelected) (\<lambda>c. sc_select_network ctl c path) s),
     sc_remove_network = (\<lambda>s path. log_control (\<lambda>_. NetRemoved path) (\<lambda>c. sc_remove_network ctl c path) s),
     sc_disconnect = log_control (\<lambda>_. NetDisconnected) (sc_disconnect ctl),
     sc_wait_for_completed = (\<lambda>s t. log_control (\<lambda>_. NetWaited) (\<lambda>c. sc_wait_for_completed ctl c t) s) \<rparr>"

lemma registered_append: "registered (ops @ ops') = foldl registered_step (registered ops) ops'"
  by (simp add: registered_def)

lemma logged_results:
  "sc_add_network (logged_control ctl) s n k psk i b h = (r, s') \<Longrightarrow>
     snd s' = snd s @ [case r of Ok path \<Rightarrow> NetAdded path | Err _ \<Rightarrow> NetNotAdded]"
  "sc_select_network (logged_control ctl) s path = (r', s') \<Longrightarrow> snd s' = snd s @ [NetSelected]"
  "sc_remove_network (logged_control ctl) s path = (r', s') \<Longrightarrow> snd s' = snd s @ [NetRemoved path]"
  "sc_disconnect (logged_control ctl) s = (r', s') \<Longrightarrow> snd s' = snd s @ [NetDisconnected]"
  "sc_wait_for_completed (logged_control ctl) s t = (r', s') \<Longrightarrow> snd s' = snd s @ [NetWaited]"
  by (auto simp: logged_control_def log_control_def split: prod.splits)

lemma associate_registered:
  assumes "associate (logged_control ctl) s t path = (r, s')"
  shows "registered (snd s') = (case r of Ok _ \<Rightarrow> registered (snd s) | Err _ \<Rightarrow> remove1 path (registered (snd s)))"
proof -
  obtain r1 s1 where sel: "sc_select_network (logged_control ctl) s path = (r1, s1)" by (meson surj_pair)
  obtain r2 s2 where wait: "sc_wait_for_completed (logged_control ctl) s1 t = (r2, s2)" by (meson surj_pair)
  obtain q1 s3 where rem1: "sc_remove_network (logged_control ctl) s1 path = (q1, s3)" by (meson surj_pair)
  obtain q2 s4 where rem2: "sc_remove_network (logged_control ctl) s2 path = (q2, s4)" by (meson surj_pair)
  have regs: "registered (snd s1) = registered (snd s)" "registered (snd s2) = registered (snd s)"
    "registered (snd s3) = remove1 path (registered (snd s))" "registered (snd s4) = remove1 path (registered (snd s))"
    by (simp_all add: logged_results(2) [OF sel] logged_results(5) [OF wait] logged_results(3) [OF rem1]
        logged_results(3) [OF rem2] registered_append)
  show ?thesis
    using assms regs unfolding associate_def sel prod.case
    by (cases r1; cases r2) (auto simp: wait rem1 rem2)
qed

text \<open>The calls the manager may make on an engine, in any order.\<close>

inductive engine_calls :: "'e engine_ops \<Rightarrow> 'e \<Rightarrow> 'e \<Rightarrow> bool" for eng e0 where
  none: "engine_calls eng e0 e0"
| activate: "engine_calls eng e0 e \<Longrightarrow> eo_activate eng e p d = (r, e') \<Longrightarrow> engine_calls eng e0 e'"
| deactivate: "engine_calls eng e0 e \<Longrightarrow> eo_deactivate eng e p = (r, e') \<Longrightarrow> engine_calls eng e0 e'"

definition owned_networks :: "'c wpa_engine \<Rightarrow> string list" where
  "owned_networks e = (case wpe_active_network e of None \<Rightarrow> [] | Some (_, path) \<Rightarrow> [path])"

lemma wpa_activate_owned:
  assumes "wpa_activate (logged_control ctl) secrets e p d = (r, e')" "registered (snd (wpe_control e)) = owned_networks e"
  shows "registered (snd (wpe_control e')) = owned_networks e'"
proof (cases "wpe_active_network e = None")
  case True
  from assms(1) True show ?thesis
  proof (cases rule: wpa_activate_cases)
    case refused
    with assms(2) show ?thesis by simp
  next
    case (not_added s k psk i b h err c1)
    with logged_results(1) [OF not_added(2)] assms(2) True show ?thesis
      by (simp add: registered_append owned_networks_def)
  next
    case (failed s k psk i b h path c1 c2 err)
    with logged_results(1) [OF failed(2)] associate_registered [OF failed(3)] assms(2) True show ?thesis
      by (simp add: registered_append owned_networks_def)
  next
    case (connected s k psk i b h path c1 c2)
    with logged_results(1) [OF connected(2)] associate_registered [OF connected(3)] assms(2) True show ?thesis
      by (simp add: registered_append owned_networks_def)
  qed
next
  case False
  with assms wpa_activate_busy [OF False, of "logged_control ctl" secrets p d] show ?thesis by simp
qed

lemma wpa_deactivate_owned:
  assumes "wpa_deactivate (logged_control ctl) e p = (r, e')" "registered (snd (wpe_control e)) = owned_networks e"
  shows "registered (snd (wpe_control e')) = owned_networks e'"
  using assms(1)
proof (cases rule: wpa_deactivate_cases)
  case refused
  with assms(2) show ?thesis by simp
next
  case (ended path c1 c2 r1 r2)
  with logged_results(4) [OF ended(2)] logged_results(3) [OF ended(3)] assms(2) show ?thesis
    by (simp add: registered_append owned_networks_def)
qed

text \<open>A control that answers every call well, and a Wi-Fi profile, for the examples.\<close>

definition obliging_control :: "unit supplicant_control" where
  "obliging_control = \<lparr> sc_ifname = (\<lambda>_. ''wlan0''), sc_add_network = (\<lambda>c n k psk i b h. (Ok ''/net/0'', c)),
     sc_select_network = (\<lambda>c path. (Ok (), c)), sc_remove_network = (\<lambda>c path. (Ok (), c)),
     sc_disconnect = (\<lambda>c. (Ok (), c)), sc_wait_for_completed = (\<lambda>c t. (Ok (), c)) \<rparr>"

definition cafe :: connection_profile where
  "cafe = base_profile ''cafe'' ''Cafe'' (Wifi \<lparr> wf_ssid = string_bytes ''cafe'', wf_bssid = None, wf_hidden = False,
     wf_security = security_open \<rparr>)"

definition wlan0 :: device_info where
  "wlan0 = \<lparr> dev_kind = WifiDevice, dev_interface_name = ''wlan0'', dev_mac_address = None \<rparr>"

lemma cafe_activates:
  "wpa_activate (logged_control obliging_control) secrets (wpa_new ((), [])) cafe wlan0 =
     (Ok outcome_default, \<lparr> wpe_control = ((), [NetAdded ''/net/0'', NetSelected, NetWaited]), wpe_timeout = 30 * 10 ^ 9,
        wpe_active_network = Some (''cafe'', ''/net/0'') \<rparr>)"
  by (simp add: wpa_activate_def wpa_new_def wpa_with_timeout_def cafe_def base_profile_def security_open_def
      logged_control_def log_control_def obliging_control_def wlan0_def passphrase_for_def associate_def Let_def)

section \<open>Properties\<close>

text \<open>C24. Whatever the supplicant answers, and after any sequence of activations and deactivations, the network
  configurations the engine added and did not ask to be removed again are exactly the one of its active
  connection: no configuration, and no passphrase in it, is left behind.\<close>

theorem no_network_left_behind:
  assumes "engine_calls (wpa_engine_ops (logged_control ctl) secrets) (wpa_with_timeout (c, []) timeout) e"
  shows "registered (snd (wpe_control e)) = owned_networks e"
  using assms
proof (induction rule: engine_calls.induct)
  case none
  show ?case by (simp add: wpa_with_timeout_def registered_def owned_networks_def)
next
  case (activate e p d r e')
  then show ?case by (auto simp: wpa_engine_ops_def intro: wpa_activate_owned)
next
  case (deactivate e p r e')
  then show ?case by (auto simp: wpa_engine_ops_def intro: wpa_deactivate_owned)
qed

theorem no_network_left_behind_witness:
  "\<exists>e. registered (snd (wpe_control e)) = [''/net/0''] \<and> owned_networks e = [''/net/0''] \<and>
     engine_calls (wpa_engine_ops (logged_control obliging_control) (\<lambda>_. Ok None)) (wpa_with_timeout ((), []) (30 * 10 ^ 9)) e"
proof -
  let ?eng = "wpa_engine_ops (logged_control obliging_control) (\<lambda>_. Ok None)"
  let ?e = "\<lparr> wpe_control = ((), [NetAdded ''/net/0'', NetSelected, NetWaited]), wpe_timeout = 30 * 10 ^ 9,
        wpe_active_network = Some (''cafe'', ''/net/0'') \<rparr>"
  have "eo_activate ?eng (wpa_with_timeout ((), []) (30 * 10 ^ 9)) cafe wlan0 = (Ok outcome_default, ?e)"
    using cafe_activates [of "\<lambda>_. Ok None"] by (simp add: wpa_engine_ops_def wpa_new_def)
  then have run: "engine_calls ?eng (wpa_with_timeout ((), []) (30 * 10 ^ 9)) ?e"
    by (rule engine_calls.activate [OF engine_calls.none])
  from no_network_left_behind [OF run] have "registered (snd (wpe_control ?e)) = [''/net/0'']"
    by (simp add: owned_networks_def)
  with run show ?thesis by (intro exI [of _ ?e]) (simp add: owned_networks_def)
qed

text \<open>Waiting for the association returns as soon as the clock has reached the deadline, whatever states the
  supplicant reports, and it reports success only when a poll before that saw the state \<open>completed\<close>.\<close>

theorem wait_for_completed_returns:
  assumes "t \<in> set turns" "start + timeout \<le> po_now t"
  shows "\<exists>r. wait_for_completed start timeout turns = Some r \<and>
    (r = Ok () \<longrightarrow> (\<exists>u \<in> set turns. po_state u = Ok ''completed''))"
  using assms unfolding wait_for_completed_def
proof (induction turns)
  case Nil
  then show ?case by simp
next
  case (Cons u turns)
  have completed: "state = ''completed''" if "classify_state state reason = Some (Ok ())" for state reason
    using that by (simp add: classify_state_def split: if_split_asm)
  show ?case
  proof (cases "t = u")
    case True
    with Cons.prems show ?thesis
      by (auto simp: completed split: result.split option.split)
  next
    case False
    with Cons show ?thesis
      by (auto simp: completed split: result.split option.split)
  qed
qed

theorem wait_for_completed_returns_witness:
  "\<exists>r. wait_for_completed 0 10 [\<lparr> po_state = Ok ''scanning'', po_reason = Ok 0, po_now = 4 \<rparr>,
      \<lparr> po_state = Ok ''associating'', po_reason = Ok 0, po_now = 12 \<rparr>] = Some r"
  using wait_for_completed_returns [of "\<lparr> po_state = Ok ''associating'', po_reason = Ok 0, po_now = 12 \<rparr>"
      "[\<lparr> po_state = Ok ''scanning'', po_reason = Ok 0, po_now = 4 \<rparr>, \<lparr> po_state = Ok ''associating'', po_reason = Ok 0, po_now = 12 \<rparr>]" 0 10]
  by auto

end
