(* ===== verification/Nm_LinuxEngine.thy ===== *)
theory Nm_LinuxEngine
  imports Nm_Supplicant Nm_IpEngine
begin

text \<open>
  The composite Linux activation engine (\<^verbatim>\<open>src/linux/activation.rs\<close>): the supplicant engine for the
  link, the IP engine on top. What the kernel lists at the k-th activation (the links the interface index is
  resolved from, the addresses the IP engine looks for a link-local one in) is the parameter \<open>net k\<close>.
\<close>

section \<open>The engine\<close>

record ('x, 'c, 'd, 'n) linux_engine =
  le_supplicant :: "'x wpa_engine"
  le_ip :: "('c, 'd, 'n) ip_engine"
  le_active :: "(profile_id \<times> active_ip_state) option"
  le_calls :: nat

type_synonym net_view = "nat \<Rightarrow> (link list, netlink_error) result \<times> (address list, netlink_error) result"

definition ip_engine_err :: "ip_engine_error \<Rightarrow> activation_error" where
  "ip_engine_err e = EngineErr (ip_engine_error_string e)"

definition linux_with_components :: "'x \<Rightarrow> ('c, 'd, 'n) ip_engine \<Rightarrow> duration \<Rightarrow> ('x, 'c, 'd, 'n) linux_engine" where
  "linux_with_components control ip timeout =
     \<lparr> le_supplicant = wpa_with_timeout control timeout, le_ip = ip, le_active = None, le_calls = 0 \<rparr>"

fun join_failures :: "string list \<Rightarrow> (unit, activation_error) result" where
  "join_failures [] = Ok ()"
| "join_failures [f] = Err (EngineErr f)"
| "join_failures (f # fs) = Err (EngineErr (f @ '' (and also '' @ concat (hd fs # map (\<lambda>g. ''; '' @ g) (tl fs)) @ '')''))"

definition rollback ::
  "'x supplicant_control \<Rightarrow> ('c, 'd, 'n) ip_backends \<Rightarrow> ('x, 'c, 'd, 'n) linux_engine \<Rightarrow> connection_profile \<Rightarrow>
     (unit, activation_error) result \<times> ('x, 'c, 'd, 'n) linux_engine" where
  "rollback ctl b e p =
     (let (failures1, ip1) = (case le_active e of
            None \<Rightarrow> ([], le_ip e)
          | Some (_, state) \<Rightarrow>
              (let (r, ip') = teardown b (le_ip e) state
               in (case r of Err err \<Rightarrow> [ip_engine_error_string err] | Ok _ \<Rightarrow> [], ip')));
          (r2, lnk) = wpa_deactivate ctl (le_supplicant e) p;
          failures2 = (case r2 of Err err \<Rightarrow> [activation_error_string err] | Ok _ \<Rightarrow> [])
      in (join_failures (failures1 @ failures2), e\<lparr> le_active := None, le_ip := ip1, le_supplicant := lnk \<rparr>))"

definition linux_activate ::
  "'x supplicant_control \<Rightarrow> secret_provider \<Rightarrow> ('c, 'd, 'n) ip_backends \<Rightarrow> net_view \<Rightarrow> ('x, 'c, 'd, 'n) linux_engine \<Rightarrow>
     connection_profile \<Rightarrow> device_info \<Rightarrow> (activation_outcome, activation_error) result \<times> ('x, 'c, 'd, 'n) linux_engine" where
  "linux_activate ctl secrets b net e0 p device =
     (if le_active e0 \<noteq> None then (Err (EngineErr ''an activation is already in progress''), e0)
      else
        (let e = e0\<lparr> le_calls := Suc (le_calls e0) \<rparr> in
         case resolve_interface_index (fst (net (le_calls e0))) (dev_interface_name device) of
           Err err \<Rightarrow> (Err (ip_engine_err err), e)
         | Ok interface_index \<Rightarrow>
             (case wpa_activate ctl secrets (le_supplicant e) p device of
                (Err err, lnk) \<Rightarrow> (Err err, e\<lparr> le_supplicant := lnk \<rparr>)
              | (Ok _, lnk) \<Rightarrow>
                  (case ip_activate b (snd (net (le_calls e0))) (le_ip e) interface_index (dev_interface_name device)
                          (cp_ipv4 p) (cp_ipv6 p) (''nmd/'' @ cp_id p @ ''/'' @ dev_interface_name device) of
                     (Ok (outcome, state), ip') \<Rightarrow>
                       (Ok outcome, e\<lparr> le_supplicant := lnk, le_ip := ip', le_active := Some (cp_id p, state) \<rparr>)
                   | (Err err, ip') \<Rightarrow>
                       (Err (ip_engine_err err), e\<lparr> le_supplicant := snd (wpa_deactivate ctl lnk p), le_ip := ip' \<rparr>)))))"

definition linux_deactivate ::
  "'x supplicant_control \<Rightarrow> ('c, 'd, 'n) ip_backends \<Rightarrow> ('x, 'c, 'd, 'n) linux_engine \<Rightarrow> connection_profile \<Rightarrow>
     (unit, activation_error) result \<times> ('x, 'c, 'd, 'n) linux_engine" where
  "linux_deactivate ctl b e p = (case le_active e of
       None \<Rightarrow> (Err (EngineErr ''there is no active connection to deactivate''), e)
     | Some (active_profile, _) \<Rightarrow>
         if active_profile \<noteq> cp_id p then
           (Err (EngineErr ''the active connection belongs to a different profile''), e)
         else rollback ctl b e p)"

definition linux_engine_ops ::
  "'x supplicant_control \<Rightarrow> secret_provider \<Rightarrow> ('c, 'd, 'n) ip_backends \<Rightarrow> net_view \<Rightarrow> ('x, 'c, 'd, 'n) linux_engine engine_ops" where
  "linux_engine_ops ctl secrets b net =
     \<lparr> eo_activate = linux_activate ctl secrets b net, eo_deactivate = linux_deactivate ctl b \<rparr>"

definition linux_slot :: "('x, 'c, 'd, 'n) linux_engine \<Rightarrow> profile_id option" where
  "linux_slot e = map_option fst (le_active e)"

section \<open>One connection at a time\<close>

lemma linux_activate_cases:
  assumes "linux_activate ctl secrets b net e p d = (r, e')" "le_active e = None"
  obtains (no_interface) err where "r = Err err" "e' = e\<lparr> le_calls := Suc (le_calls e) \<rparr>"
  | (no_link) err lnk where "r = Err err" "wpa_activate ctl secrets (le_supplicant e) p d = (Err err, lnk)"
      "e' = e\<lparr> le_calls := Suc (le_calls e), le_supplicant := lnk \<rparr>"
  | (no_ip) out err lnk ip' where "r = Err err" "wpa_activate ctl secrets (le_supplicant e) p d = (Ok out, lnk)"
      "e' = e\<lparr> le_calls := Suc (le_calls e), le_supplicant := snd (wpa_deactivate ctl lnk p), le_ip := ip' \<rparr>"
  | (up) out0 out lnk ip' st where "r = Ok out" "wpa_activate ctl secrets (le_supplicant e) p d = (Ok out0, lnk)"
      "e' = e\<lparr> le_calls := Suc (le_calls e), le_supplicant := lnk, le_ip := ip', le_active := Some (cp_id p, st) \<rparr>"
proof -
  let ?e = "e\<lparr> le_calls := Suc (le_calls e) \<rparr>" and ?name = "dev_interface_name d"
  obtain r1 lnk where link: "wpa_activate ctl secrets (le_supplicant e) p d = (r1, lnk)" by (meson surj_pair)
  note run = assms(1) [unfolded linux_activate_def Let_def]
  show thesis
  proof (cases "resolve_interface_index (fst (net (le_calls e))) ?name")
    case (Err err)
    with run assms(2) no_interface show thesis by auto
  next
    case index: (Ok i)
    obtain r2 ip' where ip: "ip_activate b (snd (net (le_calls e))) (le_ip e) i ?name (cp_ipv4 p) (cp_ipv6 p)
        (''nmd/'' @ cp_id p @ ''/'' @ ?name) = (r2, ip')" by (meson surj_pair)
    show thesis
    proof (cases r1)
      case (Err err)
      with run assms(2) index link no_link show thesis by auto
    next
      case (Ok out0)
      show thesis
      proof (cases r2)
        case (Err err)
        with run assms(2) index link ip \<open>r1 = Ok out0\<close> no_ip show thesis by auto
      next
        case (Ok x)
        with run assms(2) index link ip \<open>r1 = Ok out0\<close> up show thesis by (cases x) auto
      qed
    qed
  qed
qed

lemma linux_activate_busy:
  "le_active e \<noteq> None \<Longrightarrow> linux_activate ctl secrets b net e p d = (Err (EngineErr ''an activation is already in progress''), e)"
  by (simp add: linux_activate_def)

lemma rollback_state:
  assumes "rollback ctl b e p = (r, e')"
  shows "le_active e' = None" "le_supplicant e' = snd (wpa_deactivate ctl (le_supplicant e) p)"
  using assms by (auto simp: rollback_def Let_def split: prod.split_asm option.split_asm)

interpretation linux: single_slot_engine "linux_engine_ops ctl secrets b net" linux_slot for ctl secrets b net
proof
  fix e :: "('a, 'b, 'c, 'd) linux_engine" and p d out e' err r
  show "\<exists>err. eo_activate (linux_engine_ops ctl secrets b net) e p d = (Err err, e)" if "linux_slot e \<noteq> None"
    using that linux_activate_busy [of e] by (auto simp: linux_engine_ops_def linux_slot_def)
  show "linux_slot e' = Some (cp_id p)" if "eo_activate (linux_engine_ops ctl secrets b net) e p d = (Ok out, e')"
  proof (cases "le_active e = None")
    case True
    from that have "linux_activate ctl secrets b net e p d = (Ok out, e')" by (simp add: linux_engine_ops_def)
    from this True show ?thesis by (cases rule: linux_activate_cases) (simp_all add: linux_slot_def)
  next
    case False
    with that linux_activate_busy [of e ctl secrets b net p d] show ?thesis by (simp add: linux_engine_ops_def)
  qed
  show "linux_slot e' = None" if "linux_slot e = None" "eo_activate (linux_engine_ops ctl secrets b net) e p d = (Err err, e')"
  proof -
    from that have "linux_activate ctl secrets b net e p d = (Err err, e')" "le_active e = None"
      by (simp_all add: linux_engine_ops_def linux_slot_def)
    then show ?thesis by (cases rule: linux_activate_cases) (use that in \<open>simp_all add: linux_slot_def\<close>)
  qed
  show "\<exists>err. eo_deactivate (linux_engine_ops ctl secrets b net) e p = (Err err, e)" if "linux_slot e \<noteq> Some (cp_id p)"
    using that by (auto simp: linux_engine_ops_def linux_slot_def linux_deactivate_def split: option.split)
  show "linux_slot e' = None" if "linux_slot e = Some (cp_id p)" "eo_deactivate (linux_engine_ops ctl secrets b net) e p = (r, e')"
  proof -
    from that have "rollback ctl b e p = (r, e')"
      by (auto simp: linux_engine_ops_def linux_slot_def linux_deactivate_def split: option.split_asm)
    from rollback_state(1) [OF this] show ?thesis by (simp add: linux_slot_def)
  qed
qed

section \<open>The link follows the connection\<close>

definition link_in_step :: "('x \<times> sup_op list, 'c, 'd, 'n) linux_engine \<Rightarrow> bool" where
  "link_in_step e \<longleftrightarrow> wpa_slot (le_supplicant e) = linux_slot e \<and>
     registered (snd (wpe_control (le_supplicant e))) = owned_networks (le_supplicant e)"

lemma wpa_ops: "eo_activate (wpa_engine_ops ctl secrets) = wpa_activate ctl secrets"
  "eo_deactivate (wpa_engine_ops ctl secrets) = wpa_deactivate ctl"
  by (simp_all add: wpa_engine_ops_def)

lemmas wpa_contract = wpa.act_ok [unfolded wpa_ops] wpa.act_err [unfolded wpa_ops] wpa.deact_owner [unfolded wpa_ops]

lemma linux_activate_in_step:
  assumes "linux_activate (logged_control ctl) secrets b net e p d = (r, e')" "link_in_step e"
  shows "link_in_step e'"
proof (cases "le_active e = None")
  case False
  with assms linux_activate_busy [OF False, of "logged_control ctl" secrets b net p d] show ?thesis by simp
next
  case True
  then have idle: "wpa_slot (le_supplicant e) = None" using assms(2) by (simp add: link_in_step_def linux_slot_def)
  note owned = assms(2) [unfolded link_in_step_def, THEN conjunct2]
  from assms(1) True show ?thesis
  proof (cases rule: linux_activate_cases)
    case no_interface
    with assms(2) show ?thesis by (simp add: link_in_step_def linux_slot_def)
  next
    case (no_link err lnk)
    with True wpa_contract(2) [OF idle no_link(2)] wpa_activate_owned [OF no_link(2) owned] show ?thesis
      by (simp add: link_in_step_def linux_slot_def)
  next
    case (no_ip out err lnk ip')
    obtain q lnk' where down: "wpa_deactivate (logged_control ctl) lnk p = (q, lnk')" by (meson surj_pair)
    have "wpa_slot lnk = Some (cp_id p)" by (rule wpa_contract(1) [OF no_ip(2)])
    from wpa_contract(3) [OF this down] wpa_deactivate_owned [OF down wpa_activate_owned [OF no_ip(2) owned]] no_ip True down
    show ?thesis by (simp add: link_in_step_def linux_slot_def)
  next
    case (up out0 out lnk ip' st)
    with wpa_contract(1) [OF up(2)] wpa_activate_owned [OF up(2) owned] show ?thesis
      by (simp add: link_in_step_def linux_slot_def)
  qed
qed

lemma linux_deactivate_in_step:
  assumes "linux_deactivate (logged_control ctl) b e p = (r, e')" "link_in_step e"
  shows "link_in_step e'"
proof (cases "linux_slot e = Some (cp_id p)")
  case False
  with assms have "e' = e" by (auto simp: linux_deactivate_def linux_slot_def split: option.split_asm)
  with assms(2) show ?thesis by simp
next
  case True
  with assms(1) have "rollback (logged_control ctl) b e p = (r, e')"
    by (auto simp: linux_deactivate_def linux_slot_def split: option.split_asm)
  note after = rollback_state [OF this]
  obtain q lnk' where down: "wpa_deactivate (logged_control ctl) (le_supplicant e) p = (q, lnk')" by (meson surj_pair)
  from True assms(2) have "wpa_slot (le_supplicant e) = Some (cp_id p)"
    "registered (snd (wpe_control (le_supplicant e))) = owned_networks (le_supplicant e)"
    by (simp_all add: link_in_step_def)
  with wpa_contract(3) [OF _ down] wpa_deactivate_owned [OF down] after down show ?thesis
    by (simp add: link_in_step_def linux_slot_def)
qed

lemma calls_in_step:
  assumes "engine_calls (linux_engine_ops (logged_control ctl) secrets b net) (linux_with_components (x, []) ip timeout) e"
  shows "link_in_step e"
  using assms
proof (induction rule: engine_calls.induct)
  case none
  show ?case
    by (simp add: link_in_step_def linux_with_components_def wpa_with_timeout_def wpa_slot_def linux_slot_def
        registered_def owned_networks_def)
next
  case (activate e p d r e')
  then show ?case by (auto simp: linux_engine_ops_def intro: linux_activate_in_step)
next
  case (deactivate e p r e')
  then show ?case by (auto simp: linux_engine_ops_def intro: linux_deactivate_in_step)
qed

text \<open>A profile without IP configuration on obliging backends, and the manager after its activation.\<close>

definition cafe_link :: connection_profile where
  "cafe_link = cafe\<lparr> cp_ipv4 := ip_config_default\<lparr> ic_method := Disabled \<rparr>, cp_ipv6 := ip_config_default\<lparr> ic_method := Disabled \<rparr> \<rparr>"

definition cafe_net :: net_view where
  "cafe_net k = (Ok [\<lparr> link_index = 3, link_name = ''wlan0'', link_flags = 1 \<rparr>], Ok [])"

definition cafe_engine :: "(unit \<times> sup_op list, unit, unit, unit) linux_engine" where
  "cafe_engine = linux_with_components ((), []) example_engine 5"

definition cafe_ops :: "(unit \<times> sup_op list, unit, unit, unit) linux_engine engine_ops" where
  "cafe_ops = linux_engine_ops (logged_control obliging_control) (\<lambda>_. Ok None) (example_backends False) cafe_net"

definition cafe_engine_up :: "(unit \<times> sup_op list, unit, unit, unit) linux_engine" where
  "cafe_engine_up = \<lparr>
     le_supplicant = \<lparr> wpe_control = ((), [NetAdded ''/net/0'', NetSelected, NetWaited]), wpe_timeout = 5,
        wpe_active_network = Some (''cafe'', ''/net/0'') \<rparr>,
     le_ip = example_engine, le_active = Some (''cafe'', ip_state_default), le_calls = 1 \<rparr>"

lemma cafe_up: "eo_activate cafe_ops cafe_engine cafe_link wlan0 = (Ok outcome_default, cafe_engine_up)"
  by (simp add: cafe_ops_def cafe_engine_def linux_engine_ops_def linux_with_components_def cafe_engine_up_def)
     (simp add: linux_activate_def cafe_net_def resolve_interface_index_def wlan0_def wpa_activate_def wpa_with_timeout_def
      cafe_link_def cafe_def base_profile_def security_open_def logged_control_def log_control_def obliging_control_def
      passphrase_for_def associate_def ip_activate_def activate_ipv4_def activate_ipv6_def outcome_default_def Let_def)

lemma cafe_link_ok: "profile_ok cafe_link" "matches cafe_link wlan0" "cp_id cafe_link = ''cafe''"
  by (simp_all add: profile_ok_def cafe_link_def cafe_def base_profile_def type_ok_def security_ok_def security_open_def
      string_bytes_def ip_config_ok_def ip_config_default_def id_char_ok_def is_ascii_alphanumeric_def
      matches_def wlan0_def profile_device_kind_def device_match_default_def)

definition cafe_manager :: "(unit \<times> sup_op list, unit, unit, unit) linux_engine activation_manager" where
  "cafe_manager = snd (am_activate_profile cafe_ops mem_store_ops [(''cafe'', cafe_link)] (am_new cafe_engine) ''cafe'' wlan0)"

lemma cafe_reach: "am_reach cafe_ops mem_store_ops cafe_engine cafe_manager"
proof -
  let ?c = "am_activate_profile cafe_ops mem_store_ops [(''cafe'', cafe_link)] (am_new cafe_engine) ''cafe'' wlan0"
  have "mem_inv [(''cafe'', cafe_link)]" using cafe_link_ok by (simp add: mem_inv_def)
  then have "am_step cafe_ops mem_store_ops (am_new cafe_engine) [] (snd ?c)"
    by (intro am_step.activate_profile [where r = "fst ?c"] mem_get_sound) (simp_all add: am_new_def)
  from am_reach.step [OF am_reach.new this] show ?thesis by (simp add: cafe_manager_def)
qed

lemma cafe_manager_engine: "am_engine cafe_manager = cafe_engine_up"
  using cafe_link_ok(2,3)
  by (simp add: cafe_manager_def am_activate_profile_def mem_store_ops_def mem_get_def am_is_active_def am_new_def
      am_activate_matching_eq cafe_up)

section \<open>Properties\<close>

text \<open>C22. On the Linux engine the activation manager holds at most one activated connection at any time, and it is
  the connection the engine holds: no sequence of calls makes the manager's view and the engine's differ.\<close>

theorem linux_one_connection_at_a_time:
  assumes "le_active e0 = None" "am_reach (linux_engine_ops ctl secrets b net) store e0 m"
  shows "activated_profiles m = (case le_active (am_engine m) of None \<Rightarrow> [] | Some (i, _) \<Rightarrow> [i])"
  using linux.reach_slot [OF _ assms(2)] assms(1)
  by (auto simp: linux_slot_def split: option.split)

theorem linux_one_connection_at_a_time_witness: "activated_profiles cafe_manager = [''cafe'']"
  using linux_one_connection_at_a_time [OF _ cafe_reach [unfolded cafe_ops_def]]
  by (simp add: cafe_manager_engine cafe_engine_up_def cafe_engine_def linux_with_components_def)



end
