(* ===== verification/Nm_Daemon.thy ===== *)
theory Nm_Daemon
  imports Nm_Activation
begin

text \<open>
  The daemon (\<^verbatim>\<open>src/daemon.rs\<close>): a network backend, a profile store and the activation
  manager. Its methods delegate; what it adds is that the store behind every activation is its own.
\<close>

section \<open>State\<close>

text \<open>
  The trait \<open>NetworkBackend\<close>: every query may be answered differently the next time, so it
  also returns the next state of the backend. The event sources it opens are those of
  \<open>Nm_Netlink\<close> and \<open>Nm_Nl80211\<close>.
\<close>

type_synonym ('b, 'a) query = "'b \<Rightarrow> ('a, netlink_error) result \<times> 'b"

record ('b, 'src) backend_ops =
  bo_links :: "('b, link list) query"
  bo_addresses :: "('b, address list) query"
  bo_routes :: "('b, route list) query"
  bo_events :: "('b, 'src) query"
  bo_wifi_interfaces :: "('b, wireless_interface list) query"
  bo_access_points :: "('b, access_point list) query"
  bo_scan_wifi :: "('b, access_point list) query"
  bo_wifi_events :: "('b, 'src) query"

record ('b, 's, 'e) daemon =
  dm_backend :: 'b
  dm_profiles :: 's
  dm_activation :: "'e activation_manager"

definition daemon_new :: "'b \<Rightarrow> ('b, (profile_id \<times> connection_profile) list, unit) daemon" where
  "daemon_new backend = \<lparr> dm_backend = backend, dm_profiles = [], dm_activation = am_new () \<rparr>"

definition with_components :: "'b \<Rightarrow> 's \<Rightarrow> 'e \<Rightarrow> ('b, 's, 'e) daemon" where
  "with_components backend store engine =
     \<lparr> dm_backend = backend, dm_profiles = store, dm_activation = am_new engine \<rparr>"

section \<open>Operations\<close>

text \<open>The network state: each method asks the backend.\<close>

definition on_backend :: "('b, 'a) query \<Rightarrow> ('b, 's, 'e) daemon \<Rightarrow> ('a, netlink_error) result \<times> ('b, 's, 'e) daemon" where
  "on_backend q d = (case q (dm_backend d) of (r, b) \<Rightarrow> (r, d\<lparr> dm_backend := b \<rparr>))"

definition daemon_links where "daemon_links bo = on_backend (bo_links bo)"
definition daemon_addresses where "daemon_addresses bo = on_backend (bo_addresses bo)"
definition daemon_routes where "daemon_routes bo = on_backend (bo_routes bo)"
definition daemon_events where "daemon_events bo = on_backend (bo_events bo)"
definition daemon_wifi_interfaces where "daemon_wifi_interfaces bo = on_backend (bo_wifi_interfaces bo)"
definition daemon_access_points where "daemon_access_points bo = on_backend (bo_access_points bo)"
definition daemon_scan_wifi where "daemon_scan_wifi bo = on_backend (bo_scan_wifi bo)"
definition daemon_wifi_events where "daemon_wifi_events bo = on_backend (bo_wifi_events bo)"

definition daemon_devices ::
  "('b, 'src) backend_ops \<Rightarrow> ('b, 's, 'e) daemon \<Rightarrow> (device_info list, netlink_error) result \<times> ('b, 's, 'e) daemon" where
  "daemon_devices bo d = (case daemon_wifi_interfaces bo d of
     (r, d') \<Rightarrow> (map_ok (map device_from_wireless) r, d'))"

text \<open>The profiles.\<close>

definition list_profiles :: "'s store_ops \<Rightarrow> ('b, 's, 'e) daemon \<Rightarrow> (connection_profile list, store_error) result" where
  "list_profiles so d = so_list so (dm_profiles d)"

definition get_profile ::
  "'s store_ops \<Rightarrow> ('b, 's, 'e) daemon \<Rightarrow> profile_id \<Rightarrow> (connection_profile, store_error) result" where
  "get_profile so d i = so_get so (dm_profiles d) i"

definition create_profile ::
  "'s store_ops \<Rightarrow> ('b, 's, 'e) daemon \<Rightarrow> connection_profile \<Rightarrow> (unit, store_error) result \<times> ('b, 's, 'e) daemon" where
  "create_profile so d p = (case so_create so (dm_profiles d) p of (r, s) \<Rightarrow> (r, d\<lparr> dm_profiles := s \<rparr>))"

definition update_profile ::
  "'s store_ops \<Rightarrow> ('b, 's, 'e) daemon \<Rightarrow> connection_profile \<Rightarrow> (unit, store_error) result \<times> ('b, 's, 'e) daemon" where
  "update_profile so d p = (case so_update so (dm_profiles d) p of (r, s) \<Rightarrow> (r, d\<lparr> dm_profiles := s \<rparr>))"

definition delete_profile ::
  "'s store_ops \<Rightarrow> ('b, 's, 'e) daemon \<Rightarrow> profile_id \<Rightarrow> (unit, store_error) result \<times> ('b, 's, 'e) daemon" where
  "delete_profile so d i = (case so_delete so (dm_profiles d) i of (r, s) \<Rightarrow> (r, d\<lparr> dm_profiles := s \<rparr>))"

text \<open>Activation.\<close>

definition on_manager ::
  "('e activation_manager \<Rightarrow> 'a \<times> 'e activation_manager) \<Rightarrow> ('b, 's, 'e) daemon \<Rightarrow> 'a \<times> ('b, 's, 'e) daemon" where
  "on_manager f d = (case f (dm_activation d) of (r, m) \<Rightarrow> (r, d\<lparr> dm_activation := m \<rparr>))"

definition daemon_activate ::
  "'e engine_ops \<Rightarrow> 's store_ops \<Rightarrow> ('b, 's, 'e) daemon \<Rightarrow> device_info \<Rightarrow>
     (active_connection, activation_error) result \<times> ('b, 's, 'e) daemon" where
  "daemon_activate eng so d device = on_manager (\<lambda>m. am_activate eng so (dm_profiles d) m device) d"

definition daemon_activate_profile ::
  "'e engine_ops \<Rightarrow> 's store_ops \<Rightarrow> ('b, 's, 'e) daemon \<Rightarrow> profile_id \<Rightarrow> device_info \<Rightarrow>
     (active_connection, activation_error) result \<times> ('b, 's, 'e) daemon" where
  "daemon_activate_profile eng so d i device = on_manager (\<lambda>m. am_activate_profile eng so (dm_profiles d) m i device) d"

definition daemon_deactivate ::
  "'e engine_ops \<Rightarrow> ('b, 's, 'e) daemon \<Rightarrow> active_id \<Rightarrow> (unit, activation_error) result \<times> ('b, 's, 'e) daemon" where
  "daemon_deactivate eng d aid = on_manager (\<lambda>m. am_deactivate eng m aid) d"

definition daemon_active_connections :: "('b, 's, 'e) daemon \<Rightarrow> active_connection list" where
  "daemon_active_connections d = am_active (dm_activation d)"

definition connection_events :: "('b, 's, 'e) daemon \<Rightarrow> connection_event list \<times> ('b, 's, 'e) daemon" where
  "connection_events d = on_manager am_drain_events d"

end
