(* ===== verification/Nm_Facade.thy ===== *)
theory Nm_Facade
  imports Nm_Activation
begin

text \<open>
  The boundary of the D-Bus facade: its errors and how the errors of the domain become them
  (\<^verbatim>\<open>src/dbus/error.rs\<close>), the object paths and the numbers of the NetworkManager API
  (\<^verbatim>\<open>src/dbus/mod.rs\<close>), and the authorization of callers
  (\<^verbatim>\<open>src/authorization/\<close>).
\<close>

section \<open>Errors\<close>

datatype facade_error =
    FeUnknownConnection string
  | FeInvalidSetting string
  | FeInvalidProperty string
  | FeMissingSetting string
  | FeUnknownDevice string
  | FeUnknownActiveConnection string
  | FeNotActive string
  | FeAlreadyActive string
  | FePermissionDenied string
  | FeNotSupported string
  | FeInternal string

definition facade_error_name :: "facade_error \<Rightarrow> string" where
  "facade_error_name e = (case e of
       FeUnknownConnection _ \<Rightarrow> ''org.freedesktop.NetworkManager.Settings.Connection.UnknownConnection''
     | FeInvalidSetting _ \<Rightarrow> ''org.freedesktop.NetworkManager.Settings.Connection.InvalidSetting''
     | FeInvalidProperty _ \<Rightarrow> ''org.freedesktop.NetworkManager.Settings.Connection.InvalidProperty''
     | FeMissingSetting _ \<Rightarrow> ''org.freedesktop.NetworkManager.Settings.Connection.MissingSetting''
     | FeUnknownDevice _ \<Rightarrow> ''org.freedesktop.NetworkManager.UnknownDevice''
     | FeUnknownActiveConnection _ \<Rightarrow> ''org.freedesktop.NetworkManager.UnknownActiveConnection''
     | FeNotActive _ \<Rightarrow> ''org.freedesktop.NetworkManager.NotActive''
     | FeAlreadyActive _ \<Rightarrow> ''org.freedesktop.NetworkManager.AlreadyActive''
     | FePermissionDenied _ \<Rightarrow> ''org.freedesktop.NetworkManager.PermissionDenied''
     | FeNotSupported _ \<Rightarrow> ''org.freedesktop.NetworkManager.NotSupported''
     | FeInternal _ \<Rightarrow> ''org.freedesktop.DBus.Error.Failed'')"

definition facade_error_description :: "facade_error \<Rightarrow> string" where
  "facade_error_description e = (case e of
       FeUnknownConnection d \<Rightarrow> d | FeInvalidSetting d \<Rightarrow> d | FeInvalidProperty d \<Rightarrow> d
     | FeMissingSetting d \<Rightarrow> d | FeUnknownDevice d \<Rightarrow> d | FeUnknownActiveConnection d \<Rightarrow> d
     | FeNotActive d \<Rightarrow> d | FeAlreadyActive d \<Rightarrow> d | FePermissionDenied d \<Rightarrow> d
     | FeNotSupported d \<Rightarrow> d | FeInternal d \<Rightarrow> d)"

definition facade_error_string :: "facade_error \<Rightarrow> string" where
  "facade_error_string e = facade_error_name e @ '': '' @ facade_error_description e"

definition not_supported :: "string \<Rightarrow> facade_error" where
  "not_supported operation = FeNotSupported (operation @ '' is not supported by this daemon'')"

definition facade_of_store :: "store_error \<Rightarrow> facade_error" where
  "facade_of_store e = (case e of
       StoreNotFound i \<Rightarrow> FeUnknownConnection i
     | StoreAlreadyExists i \<Rightarrow> FeInvalidSetting (''connection '' @ debug_str i @ '' already exists'')
     | StoreInvalid reason \<Rightarrow> FeInvalidSetting (validation_error_string reason)
     | StoreMalformed i reason \<Rightarrow>
         FeInvalidSetting (''profile '' @ debug_str i @ '' is malformed: '' @ reason)
     | StoreIo err \<Rightarrow> FeInvalidSetting (''store I/O failed: '' @ io_message err))"

definition facade_of_validation :: "profile_validation_error \<Rightarrow> facade_error" where
  "facade_of_validation e = FeInvalidSetting (validation_error_string e)"

definition facade_of_netlink :: "netlink_error \<Rightarrow> facade_error" where
  "facade_of_netlink e = FeInternal (netlink_error_string e)"

definition facade_of_activation :: "activation_error \<Rightarrow> facade_error" where
  "facade_of_activation e = (case e of
       ProfileNotFound i \<Rightarrow> FeUnknownConnection i
     | DeviceIncompatible i d \<Rightarrow> FeInvalidProperty (''profile '' @ debug_str i
         @ '' does not match device '' @ dev_interface_name d @ '' ('' @ device_kind_string (dev_kind d) @ '')'')
     | NoSuitableProfile d \<Rightarrow> FeInvalidSetting (''no suitable connection profile for device ''
         @ dev_interface_name d @ '' ('' @ device_kind_string (dev_kind d) @ '')'')
     | AlreadyActive i \<Rightarrow> FeAlreadyActive i
     | UnknownActiveConnection a \<Rightarrow> FeUnknownActiveConnection (show_word a)
     | InvalidState a s \<Rightarrow> FeNotActive (''active connection '' @ show_word a @ '' is not active'')
     | StateErr err \<Rightarrow> FeNotActive (state_error_string err)
     | StoreErr err \<Rightarrow> facade_of_store err
     | EngineErr reason \<Rightarrow> FeNotSupported reason)"

section \<open>Object paths\<close>

definition ROOT_PATH :: string where
  "ROOT_PATH = ''/org/freedesktop/NetworkManager''"

definition SETTINGS_PATH :: string where
  "SETTINGS_PATH = ''/org/freedesktop/NetworkManager/Settings''"

definition root_object_path :: string where
  "root_object_path = ''/''"

definition device_path :: "i32 \<Rightarrow> string" where
  "device_path i = ''/org/freedesktop/NetworkManager/Devices/'' @ show_i32 i"

definition active_path :: "active_id \<Rightarrow> string" where
  "active_path a = ''/org/freedesktop/NetworkManager/ActiveConnection/'' @ show_word a"

definition ip4_path :: "active_id \<Rightarrow> string" where
  "ip4_path a = ''/org/freedesktop/NetworkManager/IP4Config/'' @ show_word a"

definition ip6_path :: "active_id \<Rightarrow> string" where
  "ip6_path a = ''/org/freedesktop/NetworkManager/IP6Config/'' @ show_word a"

definition dhcp4_path :: "active_id \<Rightarrow> string" where
  "dhcp4_path a = ''/org/freedesktop/NetworkManager/DHCP4Config/'' @ show_word a"

definition dhcp6_path :: "active_id \<Rightarrow> string" where
  "dhcp6_path a = ''/org/freedesktop/NetworkManager/DHCP6Config/'' @ show_word a"

definition settings_connection_path :: "string \<Rightarrow> string" where
  "settings_connection_path uuid =
     ''/org/freedesktop/NetworkManager/Settings/'' @ filter (\<lambda>c. c \<noteq> CHR ''-'') uuid"

definition access_point_path :: "i32 \<Rightarrow> mac \<Rightarrow> string" where
  "access_point_path i bssid =
     ''/org/freedesktop/NetworkManager/AccessPoint/'' @ show_i32 i @ ''_'' @ concat (map hex2 bssid)"

section \<open>Numbers of the NetworkManager API\<close>

abbreviation (input) "NM_DEVICE_TYPE_ETHERNET \<equiv> 1 :: u32"
abbreviation (input) "NM_DEVICE_TYPE_WIFI \<equiv> 2 :: u32"
abbreviation (input) "NM_DEVICE_TYPE_LOOPBACK \<equiv> 32 :: u32"

abbreviation (input) "NM_DEVICE_STATE_UNKNOWN \<equiv> 0 :: u32"
abbreviation (input) "NM_DEVICE_STATE_UNAVAILABLE \<equiv> 20 :: u32"
abbreviation (input) "NM_DEVICE_STATE_DISCONNECTED \<equiv> 30 :: u32"
abbreviation (input) "NM_DEVICE_STATE_PREPARE \<equiv> 40 :: u32"
abbreviation (input) "NM_DEVICE_STATE_CONFIG \<equiv> 50 :: u32"
abbreviation (input) "NM_DEVICE_STATE_IP_CONFIG \<equiv> 70 :: u32"
abbreviation (input) "NM_DEVICE_STATE_ACTIVATED \<equiv> 100 :: u32"
abbreviation (input) "NM_DEVICE_STATE_DEACTIVATING \<equiv> 110 :: u32"
abbreviation (input) "NM_DEVICE_STATE_FAILED \<equiv> 120 :: u32"

abbreviation (input) "NM_CONNECTIVITY_NONE \<equiv> 1 :: u32"
abbreviation (input) "NM_CONNECTIVITY_FULL \<equiv> 4 :: u32"

abbreviation (input) "NM_STATE_DISCONNECTED \<equiv> 20 :: u32"
abbreviation (input) "NM_STATE_CONNECTED_GLOBAL \<equiv> 70 :: u32"

abbreviation (input) "NM_ACTIVE_CONNECTION_STATE_ACTIVATING \<equiv> 1 :: u32"
abbreviation (input) "NM_ACTIVE_CONNECTION_STATE_ACTIVATED \<equiv> 2 :: u32"
abbreviation (input) "NM_ACTIVE_CONNECTION_STATE_DEACTIVATING \<equiv> 3 :: u32"
abbreviation (input) "NM_ACTIVE_CONNECTION_STATE_DEACTIVATED \<equiv> 4 :: u32"

abbreviation (input) "NM_ACCESS_POINT_FLAGS_NONE \<equiv> 0 :: u32"
abbreviation (input) "NM_ACCESS_POINT_FLAGS_PRIVACY \<equiv> 1 :: u32"

abbreviation (input) "NM_802_11_AP_SEC_KEY_MGMT_PSK \<equiv> 0x100 :: u32"
abbreviation (input) "NM_802_11_AP_SEC_KEY_MGMT_802_1X \<equiv> 0x200 :: u32"
abbreviation (input) "NM_802_11_AP_SEC_KEY_MGMT_SAE \<equiv> 0x400 :: u32"
abbreviation (input) "NM_802_11_AP_SEC_KEY_MGMT_OWE \<equiv> 0x800 :: u32"

section \<open>Authorization\<close>

datatype caller_identity = UniqueName string | Unidentifiable

definition from_sender :: "string option \<Rightarrow> caller_identity" where
  "from_sender sender = (case sender of Some name \<Rightarrow> UniqueName name | None \<Rightarrow> Unidentifiable)"

definition unique_name :: "caller_identity \<Rightarrow> string option" where
  "unique_name c = (case c of UniqueName name \<Rightarrow> Some name | Unidentifiable \<Rightarrow> None)"

definition caller_string :: "caller_identity \<Rightarrow> string" where
  "caller_string c = (case c of UniqueName name \<Rightarrow> name | Unidentifiable \<Rightarrow> ''<unidentifiable>'')"

datatype authorization_decision = AuthYes | AuthNo | AuthUnknown

datatype authorization_error = UnidentifiableCaller | AuthBackend string

definition authorization_error_string :: "authorization_error \<Rightarrow> string" where
  "authorization_error_string e = (case e of
       UnidentifiableCaller \<Rightarrow> ''the caller'' @ [CHR 0x27] @ ''s identity could not be determined''
     | AuthBackend reason \<Rightarrow> ''authorization backend error: '' @ reason)"

text \<open>The trait \<open>Authorization\<close>: a backend answers a check, possibly changing its own state.\<close>

type_synonym 'p authorization =
  "'p \<Rightarrow> caller_identity \<Rightarrow> string \<Rightarrow> (authorization_decision, authorization_error) result \<times> 'p"

definition allow_all_check :: "unit authorization" where
  "allow_all_check p caller action = (Ok AuthYes, p)"

definition deny_all_check :: "unit authorization" where
  "deny_all_check p caller action = (Ok AuthNo, p)"

text \<open>The recording backend keeps the calls it forwards, oldest first.\<close>

definition recording_check ::
  "'p authorization \<Rightarrow> ('p \<times> (caller_identity \<times> string) list) authorization" where
  "recording_check inner s caller action =
     (case s of (p, calls) \<Rightarrow>
        (case inner p caller action of (decision, p') \<Rightarrow> (decision, (p', calls @ [(caller, action)]))))"

text \<open>
  Polkit. The authority is a parameter: its answer to \<open>CheckAuthorization\<close> for the subject
  named by a bus name, with no details, the given flags and an empty cancellation id: whether the
  action is authorized, or the text of the error of the call.
\<close>

record polkit_request =
  pk_subject_kind :: string
  pk_subject_name :: string
  pk_action :: string
  pk_details :: "(string \<times> string) list"
  pk_flags :: u32
  pk_cancellation_id :: string

definition polkit_check :: "('p \<Rightarrow> polkit_request \<Rightarrow> (bool, string) result \<times> 'p) \<Rightarrow> 'p authorization" where
  "polkit_check call p caller action =
     (case unique_name caller of
        None \<Rightarrow> (Err UnidentifiableCaller, p)
      | Some sender \<Rightarrow>
          (case call p \<lparr> pk_subject_kind = ''system-bus-name'', pk_subject_name = sender,
                         pk_action = action, pk_details = [], pk_flags = 0, pk_cancellation_id = [] \<rparr> of
             (Err error, p') \<Rightarrow> (Err (AuthBackend error), p')
           | (Ok authorized, p') \<Rightarrow> (Ok (if authorized then AuthYes else AuthNo), p')))"

definition ACTION_ENABLE_DISABLE_NETWORK :: string where
  "ACTION_ENABLE_DISABLE_NETWORK = ''org.freedesktop.NetworkManager.enable-disable-network''"

definition ACTION_ENABLE_DISABLE_WIFI :: string where
  "ACTION_ENABLE_DISABLE_WIFI = ''org.freedesktop.NetworkManager.enable-disable-wifi''"

definition ACTION_NETWORK_CONTROL :: string where
  "ACTION_NETWORK_CONTROL = ''org.freedesktop.NetworkManager.network-control''"

definition ACTION_RELOAD :: string where
  "ACTION_RELOAD = ''org.freedesktop.NetworkManager.reload''"

definition ACTION_SETTINGS_MODIFY_SYSTEM :: string where
  "ACTION_SETTINGS_MODIFY_SYSTEM = ''org.freedesktop.NetworkManager.settings.modify.system''"

definition ACTION_SETTINGS_MODIFY_OWN :: string where
  "ACTION_SETTINGS_MODIFY_OWN = ''org.freedesktop.NetworkManager.settings.modify.own''"

definition PERMISSION_ACTIONS :: "string list" where
  "PERMISSION_ACTIONS = [ACTION_ENABLE_DISABLE_NETWORK, ACTION_ENABLE_DISABLE_WIFI,
     ACTION_NETWORK_CONTROL,
     ''org.freedesktop.NetworkManager.wifi.share.protected'',
     ''org.freedesktop.NetworkManager.wifi.share.open'',
     ACTION_SETTINGS_MODIFY_SYSTEM, ACTION_SETTINGS_MODIFY_OWN, ACTION_RELOAD,
     ''org.freedesktop.NetworkManager.checkpoint-rollback'',
     ''org.freedesktop.NetworkManager.enable-disable-statistics'',
     ''org.freedesktop.NetworkManager.enable-disable-connectivity-check'']"

text \<open>
  \<open>Shared::authorize\<close> and \<open>Shared::permission\<close> (\<^verbatim>\<open>src/dbus/shared.rs\<close>): only
  a positive answer passes; denials, unknown answers and failures of the backend do not.
\<close>

definition authorize_call ::
  "'p authorization \<Rightarrow> 'p \<Rightarrow> string option \<Rightarrow> string \<Rightarrow> (unit, facade_error) result \<times> 'p" where
  "authorize_call check p sender action =
     (case check p (from_sender sender) action of
        (Ok AuthYes, p') \<Rightarrow> (Ok (), p')
      | (Ok AuthNo, p') \<Rightarrow> (Err (FePermissionDenied action), p')
      | (Ok AuthUnknown, p') \<Rightarrow> (Err (FePermissionDenied action), p')
      | (Err UnidentifiableCaller, p') \<Rightarrow> (Err (FePermissionDenied action), p')
      | (Err (AuthBackend _), p') \<Rightarrow> (Err (FePermissionDenied action), p'))"

definition permission_string ::
  "'p authorization \<Rightarrow> 'p \<Rightarrow> string option \<Rightarrow> string \<Rightarrow> string \<times> 'p" where
  "permission_string check p sender action =
     (case check p (from_sender sender) action of
        (Ok AuthYes, p') \<Rightarrow> (''yes'', p')
      | (Ok AuthNo, p') \<Rightarrow> (''no'', p')
      | (Ok AuthUnknown, p') \<Rightarrow> (''unknown'', p')
      | (Err UnidentifiableCaller, p') \<Rightarrow> (''unknown'', p')
      | (Err (AuthBackend _), p') \<Rightarrow> (''unknown'', p'))"

section \<open>Only a positive answer passes\<close>

lemma authorize_call_Ok:
  "fst (authorize_call check p sender action) = Ok () \<longleftrightarrow>
     fst (check p (from_sender sender) action) = Ok AuthYes"
  by (auto simp: authorize_call_def
      split: prod.splits result.splits authorization_decision.splits authorization_error.splits)

lemma authorize_call_denied:
  "fst (check p (from_sender sender) action) \<noteq> Ok AuthYes \<Longrightarrow>
     fst (authorize_call check p sender action) = Err (FePermissionDenied action)"
  by (auto simp: authorize_call_def
      split: prod.splits result.splits authorization_decision.splits authorization_error.splits)

lemma authorize_call_state:
  "snd (authorize_call check p sender action) = snd (check p (from_sender sender) action)"
  by (auto simp: authorize_call_def
      split: prod.splits result.splits authorization_decision.splits authorization_error.splits)

lemma permission_yes_iff:
  "fst (permission_string check p sender action) = ''yes'' \<longleftrightarrow>
     fst (authorize_call check p sender action) = Ok ()"
  by (auto simp: permission_string_def authorize_call_def
      split: prod.splits result.splits authorization_decision.splits authorization_error.splits)

lemma polkit_unidentified:
  "fst (authorize_call (polkit_check call) p None action) = Err (FePermissionDenied action)"
  by (simp add: authorize_call_def polkit_check_def from_sender_def unique_name_def)

end
