(* ===== verification/Nm_Addr.thy ===== *)
theory Nm_Addr
  imports Nm_Dns
begin

text \<open>
  The parser of IP addresses of the standard library (\<open>str::parse::<IpAddr>\<close>), which the
  settings conversion uses on the addresses of a dictionary. The state of the parser is the rest of
  the text; a reader that fails leaves it unchanged, so a failing reader is \<^const>\<open>None\<close> and its
  caller goes on with the text it had. The printers of \<open>Nm_Dns\<close> are inverted by it.
\<close>

section \<open>The parser\<close>

definition to_digit :: "nat \<Rightarrow> char \<Rightarrow> nat option" where
  "to_digit radix c =
     (case to_digit16 (of_char c) of None \<Rightarrow> None | Some d \<Rightarrow> if d < radix then Some d else None)"

text \<open>The digits of a number: its value and their count so far, at most \<open>limit\<close> of them.\<close>

fun read_digits :: "nat \<Rightarrow> nat \<Rightarrow> nat \<times> nat \<Rightarrow> string \<Rightarrow> (nat \<times> nat \<times> string) option" where
  "read_digits radix limit (value, count') [] = Some (value, count', [])"
| "read_digits radix limit (value, count') (c # cs) = (case to_digit radix c of
     None \<Rightarrow> Some (value, count', c # cs)
   | Some d \<Rightarrow> if count' + 1 > limit then None
               else read_digits radix limit (value * radix + d, count' + 1) cs)"

definition read_number ::
  "nat \<Rightarrow> nat \<Rightarrow> bool \<Rightarrow> nat \<Rightarrow> string \<Rightarrow> (nat \<times> string) option" where
  "read_number radix limit allow_zero_prefix max_value cs =
     (case read_digits radix limit (0, 0) cs of
        None \<Rightarrow> None
      | Some (value, count', rest) \<Rightarrow>
          if count' = 0 then None
          else if \<not> allow_zero_prefix \<and> take 1 cs = ''0'' \<and> count' > 1 then None
          else if value > max_value then None else Some (value, rest))"

definition read_separator :: "char \<Rightarrow> nat \<Rightarrow> (string \<Rightarrow> 'a option) \<Rightarrow> string \<Rightarrow> 'a option" where
  "read_separator sep i inner cs =
     (if i > 0 then (case cs of [] \<Rightarrow> None | c # rest \<Rightarrow> if c = sep then inner rest else None)
      else inner cs)"

fun read_octets :: "nat \<Rightarrow> nat \<Rightarrow> string \<Rightarrow> (nat list \<times> string) option" where
  "read_octets 0 i cs = Some ([], cs)"
| "read_octets (Suc n) i cs =
     (case read_separator CHR ''.'' i (read_number 10 3 False 255) cs of
        None \<Rightarrow> None
      | Some (octet, rest) \<Rightarrow>
          map_option (\<lambda>(octets, rest'). (octet # octets, rest')) (read_octets n (Suc i) rest))"

definition of_groups :: "nat \<Rightarrow> nat list \<Rightarrow> nat" where
  "of_groups base gs = foldl (\<lambda>acc g. acc * base + g) 0 gs"

definition read_ipv4_addr :: "string \<Rightarrow> (ipv4_addr \<times> string) option" where
  "read_ipv4_addr cs =
     map_option (\<lambda>(octets, rest). (word_of_nat (of_groups 256 octets), rest)) (read_octets 4 0 cs)"

text \<open>
  Up to \<open>k\<close> groups of an IPv6 address from index \<open>i\<close> on, the last two possibly as an
  embedded IPv4 address: the groups, whether they end in such an address, and the rest.
\<close>

fun read_groups :: "nat \<Rightarrow> nat \<Rightarrow> string \<Rightarrow> nat list \<times> bool \<times> string" where
  "read_groups 0 i cs = ([], False, cs)"
| "read_groups (Suc k) i cs =
     (case (if k > 0 then read_separator CHR '':'' i read_ipv4_addr cs else None) of
        Some (a, rest) \<Rightarrow> ([unat a div 65536, unat a mod 65536], True, rest)
      | None \<Rightarrow>
          (case read_separator CHR '':'' i (read_number 16 4 True 65535) cs of
             None \<Rightarrow> ([], False, cs)
           | Some (g, rest) \<Rightarrow>
               (case read_groups k (Suc i) rest of (gs, v4, rest') \<Rightarrow> (g # gs, v4, rest'))))"

definition ipv6_of_segments :: "nat list \<Rightarrow> ipv6_addr" where
  "ipv6_of_segments gs = word_of_nat (of_groups 65536 gs)"

definition read_ipv6_addr :: "string \<Rightarrow> (ipv6_addr \<times> string) option" where
  "read_ipv6_addr cs = (case read_groups 8 0 cs of (head, head_ipv4, rest) \<Rightarrow>
     if length head = 8 then Some (ipv6_of_segments head, rest)
     else if head_ipv4 then None
     else case strip_prefix ''::'' rest of
       None \<Rightarrow> None
     | Some rest' \<Rightarrow>
         (case read_groups (8 - (length head + 1)) 0 rest' of (tail, _, rest'') \<Rightarrow>
            Some (ipv6_of_segments (head @ replicate (8 - length head - length tail) 0 @ tail), rest'')))"

definition parse_ip_addr :: "string \<Rightarrow> ip_addr option" where
  "parse_ip_addr s =
     (case (case read_ipv4_addr s of
              Some (a, rest) \<Rightarrow> Some (V4Addr a, rest)
            | None \<Rightarrow> map_option (\<lambda>(a, rest). (V6Addr a, rest)) (read_ipv6_addr s)) of
        Some (a, []) \<Rightarrow> Some a
      | _ \<Rightarrow> None)"

definition ip_addr_string :: "ip_addr \<Rightarrow> string" where
  "ip_addr_string a = (case a of V4Addr w \<Rightarrow> ipv4_string w | V6Addr w \<Rightarrow> ipv6_string w)"

section \<open>Numbers\<close>

lemma to_digit_hex_digit: "d < 16 \<Longrightarrow> d < radix \<Longrightarrow> to_digit radix (hex_digit d) = Some d"
  by (simp add: to_digit_def)

lemma to_digit_decimal: "d < 10 \<Longrightarrow> to_digit 10 (char_of (48 + d)) = Some d"
  using to_digit_hex_digit [of d 10] by (simp add: hex_digit_def)

definition no_digit :: "nat \<Rightarrow> string \<Rightarrow> bool" where
  "no_digit radix cs \<longleftrightarrow> (case cs of [] \<Rightarrow> True | c # _ \<Rightarrow> to_digit radix c = None)"

lemma read_digits_stop: "no_digit radix cs \<Longrightarrow> read_digits radix limit (v, n) cs = Some (v, n, cs)"
  by (cases cs) (auto simp: no_digit_def)

lemma read_digits_digit:
  "to_digit radix c = Some d \<Longrightarrow> n < limit \<Longrightarrow>
     read_digits radix limit (v, n) (c # cs) = read_digits radix limit (v * radix + d, Suc n) cs"
  by simp

lemma no_digit_number: "no_digit radix cs \<Longrightarrow> read_number radix limit z m cs = None"
  by (simp add: read_number_def read_digits_stop)

lemma decimal_digit_zero: "d < 10 \<Longrightarrow> char_of (48 + d) = CHR ''0'' \<longleftrightarrow> d = (0 :: nat)"
proof -
  assume d: "d < 10"
  have "char_of (48 + d) = CHR ''0'' \<longleftrightarrow> (of_char (char_of (48 + d) :: char) :: nat) = of_char (CHR ''0'')"
    by (metis char_of_char)
  with d show ?thesis by simp
qed

lemma show_nat_octet:
  assumes "n < 1000"
  shows "show_nat n =
    (if n < 10 then [char_of (48 + n)]
     else if n < 100 then [char_of (48 + n div 10), char_of (48 + n mod 10)]
     else [char_of (48 + n div 100), char_of (48 + n div 10 mod 10), char_of (48 + n mod 10)])"
proof -
  have *: "show_nat n = (if n < 10 then [char_of (48 + n)] else show_nat (n div 10) @ [char_of (48 + n mod 10)])" for n
    by (rule show_nat.simps)
  show ?thesis
    using assms * [of n] * [of "n div 10"] * [of "n div 100"] div_mult2_eq [of n 10 10]
    by (auto simp: div_less_iff_less_mult)
qed

lemma read_number_show_nat:
  assumes n: "n < 256" and rest: "no_digit 10 rest"
  shows "read_number 10 3 False 255 (show_nat n @ rest) = Some (n, rest)"
proof -
  consider "n < 10" | "10 \<le> n" "n < 100" | "100 \<le> n" by linarith
  then show ?thesis
  proof cases
    case 1
    then show ?thesis
      using rest by (simp add: show_nat_octet read_number_def read_digits_digit to_digit_decimal
          read_digits_stop)
  next
    case 2
    then have d: "n div 10 < 10" "n div 10 \<noteq> 0" "n div 10 * 10 + n mod 10 = n" by auto
    then show ?thesis
      using rest 2 by (simp add: show_nat_octet read_number_def read_digits_digit to_digit_decimal
          read_digits_stop decimal_digit_zero)
  next
    case 3
    have "n div 100 = n div 10 div 10" by (simp add: div_mult2_eq [symmetric])
    then have d: "n div 100 < 10" "n div 100 \<noteq> 0" "n div 10 mod 10 < 10"
        "(n div 100 * 10 + n div 10 mod 10) * 10 + n mod 10 = n"
      using 3 n by (auto simp: div_less_iff_less_mult)
    show ?thesis
      using rest 3 n d by (simp add: show_nat_octet read_number_def read_digits_digit to_digit_decimal
          read_digits_stop decimal_digit_zero)
  qed
qed

lemma show_hex_group:
  assumes "n < 65536"
  shows "show_hex n =
    (if n < 16 then [hex_digit n]
     else if n < 256 then [hex_digit (n div 16), hex_digit (n mod 16)]
     else if n < 4096 then [hex_digit (n div 256), hex_digit (n div 16 mod 16), hex_digit (n mod 16)]
     else [hex_digit (n div 4096), hex_digit (n div 256 mod 16), hex_digit (n div 16 mod 16),
           hex_digit (n mod 16)])"
proof -
  have *: "show_hex n = (if n < 16 then [hex_digit n] else show_hex (n div 16) @ [hex_digit (n mod 16)])" for n
    by (rule show_hex.simps)
  show ?thesis
    using assms * [of n] * [of "n div 16"] * [of "n div 256"] * [of "n div 4096"]
      div_mult2_eq [of n 16 16] div_mult2_eq [of n 16 256] div_mult2_eq [of n 256 16]
    by (auto simp: div_less_iff_less_mult)
qed

lemma read_number_show_hex:
  assumes n: "n < 65536" and rest: "no_digit 16 rest"
  shows "read_number 16 4 True 65535 (show_hex n @ rest) = Some (n, rest)"
proof -
  have e: "n div 16 * 16 + n mod 16 = n" "n div 256 * 16 + n div 16 mod 16 = n div 16"
      "n div 4096 * 16 + n div 256 mod 16 = n div 256"
    using div_mult2_eq [of n 16 16] div_mult2_eq [of n 256 16] by simp_all
  have b: "n < 256 \<Longrightarrow> n div 16 < 16" "n < 4096 \<Longrightarrow> n div 256 < 16" "n div 4096 < 16"
    using n by (simp_all add: div_less_iff_less_mult)
  show ?thesis
    using n rest b e
    by (simp add: show_hex_group read_number_def read_digits_digit to_digit_hex_digit read_digits_stop)
qed

section \<open>IPv4\<close>

lemma no_digit_dot [simp]: "no_digit radix (CHR ''.'' # cs)" "no_digit radix []"
    "no_digit radix (CHR '':'' # cs)"
  by (simp_all add: no_digit_def to_digit_def to_digit16_def)

lemma read_octets_step:
  "i > 0 \<Longrightarrow> b < 256 \<Longrightarrow> no_digit 10 rest \<Longrightarrow>
     read_octets (Suc n) i (CHR ''.'' # show_nat b @ rest) =
       map_option (\<lambda>(octets, rest'). (b # octets, rest')) (read_octets n (Suc i) rest)"
  by (simp add: read_separator_def read_number_show_nat)

lemma read_octets_first:
  "b < 256 \<Longrightarrow> no_digit 10 rest \<Longrightarrow> read_octets (Suc n) 0 (show_nat b @ rest) =
       map_option (\<lambda>(octets, rest'). (b # octets, rest')) (read_octets n 1 rest)"
  by (simp add: read_separator_def read_number_show_nat)

lemma be_groups: "of_groups 256 (map unat (ipv4_octets a)) = unat a"
proof -
  have "map unat (ipv4_octets a) = [unat a div 2 ^ 24 mod 256, unat a div 2 ^ 16 mod 256,
      unat a div 2 ^ 8 mod 256, unat a mod 256]"
    by (simp add: ipv4_octets_def to_be_bytes32_def to_le_bytes32_def unsigned_ucast_eq take_bit_eq_mod
        unat_drop_bit_eq drop_bit_eq_div unat_div)
  moreover have "unat a < 2 ^ 32" using unsigned_less [of a] by simp
  moreover have "unat a div 256 = unat a div 65536 * 256 + unat a div 256 mod 256"
    "unat a div 65536 = unat a div 16777216 * 256 + unat a div 65536 mod 256"
    using div_mult2_eq [of "unat a" 256 256] div_mult2_eq [of "unat a" 65536 256] by simp_all
  ultimately show ?thesis
    by (simp add: of_groups_def)
qed

lemma read_ipv4_string:
  assumes "no_digit 10 rest"
  shows "read_ipv4_addr (ipv4_string a @ rest) = Some (a, rest)"
proof -
  obtain o1 o2 o3 o4 where o: "ipv4_octets a = [o1, o2, o3, o4]"
    by (metis ipv4_octets_cases)
  have four: "(4 :: nat) = Suc (Suc (Suc (Suc 0)))" by simp
  have "read_octets 4 0 (ipv4_string a @ rest) = Some (map unat (ipv4_octets a), rest)"
    using assms by (simp add: o ipv4_string_def show_word_def four read_octets_first read_octets_step
        del: read_octets.simps(2))
  then show ?thesis by (simp add: read_ipv4_addr_def be_groups)
qed

text \<open>A text without dots holds no IPv4 address.\<close>

lemma read_digits_rest: "read_digits radix limit (v, n) cs = Some (w, m, rest) \<Longrightarrow> set rest \<subseteq> set cs"
proof (induction cs arbitrary: v n)
  case Nil
  then show ?case by simp
next
  case (Cons c cs)
  show ?case
  proof (cases "to_digit radix c")
    case None
    with Cons.prems show ?thesis by simp
  next
    case (Some d)
    with Cons.prems have "read_digits radix limit (v * radix + d, n + 1) cs = Some (w, m, rest)"
      by (simp split: if_splits)
    then show ?thesis using Cons.IH by fastforce
  qed
qed

lemma read_number_rest: "read_number radix limit z m cs = Some (v, rest) \<Longrightarrow> set rest \<subseteq> set cs"
  using read_digits_rest [of radix limit 0 0 cs]
  by (auto simp: read_number_def split: option.splits if_splits)

lemma read_ipv4_no_dot:
  assumes "CHR ''.'' \<notin> set cs"
  shows "read_ipv4_addr cs = None"
proof -
  have four: "(4 :: nat) = Suc (Suc (Suc (Suc 0)))" by simp
  have later: "i > 0 \<Longrightarrow> CHR ''.'' \<notin> set ds \<Longrightarrow> read_octets (Suc n) i ds = None" for i ds n
    by (cases ds) (auto simp: read_separator_def)
  have "read_octets (Suc (Suc n)) 0 cs = None" for n
  proof (cases "read_number 10 3 False 255 cs")
    case (Some r)
    obtain octet rest where r: "r = (octet, rest)" by (cases r)
    with Some assms have "CHR ''.'' \<notin> set rest" using read_number_rest by blast
    then have "read_octets (Suc n) 1 rest = None" by (intro later) auto
    with Some r show ?thesis by (simp add: read_separator_def del: read_octets.simps(2))
        (simp add: read_separator_def)
  qed (simp add: read_separator_def)
  then show ?thesis by (simp add: read_ipv4_addr_def four del: read_octets.simps)
qed

section \<open>IPv6\<close>

lemma hex_digit_plain: "n < 16 \<Longrightarrow> hex_digit n \<noteq> CHR ''.''"
  using hex_digit_code [of n] by (auto split: if_splits)

lemma show_hex_no_dot: "n < 65536 \<Longrightarrow> CHR ''.'' \<notin> set (show_hex n)"
  by (auto simp: show_hex_group div_less_iff_less_mult dest!: hex_digit_plain [THEN notE, rotated, OF sym])

definition stops :: "nat \<Rightarrow> string \<Rightarrow> bool" where
  "stops i cs \<longleftrightarrow> no_digit 16 cs \<and> CHR ''.'' \<notin> set cs \<and>
     read_separator CHR '':'' i (read_number 16 4 True 65535) cs = None"

definition group_text :: "nat list \<Rightarrow> string" where
  "group_text gs = concat (map (\<lambda>g. CHR '':'' # show_hex g) gs)"

lemma join_groups: "join_with '':'' (map show_hex (g # gs)) = show_hex g @ group_text gs"
  by (induction gs arbitrary: g) (auto simp: group_text_def)

lemma group_text_no_digit: "no_digit r rest \<Longrightarrow> no_digit r (group_text gs @ rest)"
  by (cases gs) (auto simp: group_text_def)

lemma group_text_no_dot: "\<forall>g \<in> set gs. g < 65536 \<Longrightarrow> CHR ''.'' \<notin> set (group_text gs)"
  by (auto simp: group_text_def show_hex_no_dot)

lemma read_separator_no_dot:
  "CHR ''.'' \<notin> set cs \<Longrightarrow> read_separator sep i read_ipv4_addr cs = None"
  by (auto simp: read_separator_def read_ipv4_no_dot split: list.splits)

lemma read_groups_stop:
  "stops i cs \<Longrightarrow> read_groups k i cs = ([], False, cs)"
  by (cases k) (auto simp: stops_def read_separator_no_dot)

lemma read_groups_Suc:
  assumes "read_separator CHR '':'' i read_ipv4_addr cs = None"
    "read_separator CHR '':'' i (read_number 16 4 True 65535) cs = Some (g, rest)"
    "read_groups k (Suc i) rest = (gs, v4, rest')"
  shows "read_groups (Suc k) i cs = (g # gs, v4, rest')"
  unfolding read_groups.simps(2) assms(1,2) by (simp add: assms(3))

lemma read_groups_text:
  assumes "\<forall>g \<in> set gs. g < 65536" "length gs \<le> k" "i > 0" "no_digit 16 rest" "CHR ''.'' \<notin> set rest"
    "length gs < k \<Longrightarrow> stops (i + length gs) rest"
  shows "read_groups k i (group_text gs @ rest) = (gs, False, rest)"
  using assms
proof (induction gs arbitrary: k i)
  case Nil
  then show ?case
    by (cases k) (auto simp: group_text_def read_groups_stop simp del: read_groups.simps(2))
next
  case (Cons g gs)
  obtain k' where k: "k = Suc k'" using Cons.prems by (cases k) auto
  let ?rest = "group_text gs @ rest"
  have eq: "group_text (g # gs) @ rest = CHR '':'' # show_hex g @ ?rest"
    by (simp add: group_text_def)
  have "CHR ''.'' \<notin> set (group_text (g # gs) @ rest)"
    using Cons.prems group_text_no_dot [of "g # gs"] by simp
  then have dot: "read_separator CHR '':'' i read_ipv4_addr (CHR '':'' # show_hex g @ ?rest) = None"
    unfolding eq by (rule read_separator_no_dot)
  have num: "read_separator CHR '':'' i (read_number 16 4 True 65535) (CHR '':'' # show_hex g @ ?rest)
      = Some (g, ?rest)"
    using Cons.prems by (simp add: read_separator_def read_number_show_hex group_text_no_digit)
  have "read_groups k' (Suc i) ?rest = (gs, False, rest)"
    using Cons.prems k by (intro Cons.IH) auto
  with dot num show ?case unfolding eq k by (rule read_groups_Suc)
qed

lemma read_groups_joined:
  assumes "\<forall>g \<in> set gs. g < 65536" "length gs \<le> k" "no_digit 16 rest" "CHR ''.'' \<notin> set rest"
    "length gs < k \<Longrightarrow> stops (length gs) rest"
  shows "read_groups k 0 (join_with '':'' (map show_hex gs) @ rest) = (gs, False, rest)"
proof (cases gs)
  case Nil
  with assms show ?thesis by (cases k) (auto simp: read_groups_stop simp del: read_groups.simps(2))
next
  case (Cons g gs')
  then obtain k' where k: "k = Suc k'" using assms by (cases k) auto
  let ?text = "show_hex g @ group_text gs' @ rest"
  have "CHR ''.'' \<notin> set ?text"
    using assms Cons group_text_no_dot [of gs'] by (simp add: show_hex_no_dot)
  then have dot: "read_separator CHR '':'' 0 read_ipv4_addr ?text = None"
    by (rule read_separator_no_dot)
  have num: "read_separator CHR '':'' 0 (read_number 16 4 True 65535) ?text = Some (g, group_text gs' @ rest)"
    using assms Cons by (simp add: read_separator_def read_number_show_hex group_text_no_digit)
  have "read_groups k' (Suc 0) (group_text gs' @ rest) = (gs', False, rest)"
    using assms Cons k by (intro read_groups_text) auto
  then show ?thesis
    unfolding Cons k join_groups append_assoc by (intro read_groups_Suc [OF dot num]) simp
qed

lemma longest_zeros_run:
  assumes "longest_zeros i (cs, cl) (ls, ll) xs = (s, l)"
    "i = length pre" "segs = pre @ xs"
    "cl > 0 \<Longrightarrow> cs + cl = i \<and> take cl (drop cs segs) = replicate cl 0"
    "ls + ll \<le> i" "take ll (drop ls segs) = replicate ll (0 :: nat)"
  shows "s + l \<le> length segs \<and> take l (drop s segs) = replicate l 0"
  using assms
proof (induction xs arbitrary: i cs cl ls ll pre)
  case Nil
  then show ?case by simp
next
  case (Cons x xs)
  let ?cs = "if cl = 0 then i else cs"
  show ?case
  proof (cases "x = 0")
    case True
    have run: "?cs + (cl + 1) = Suc i \<and> take (cl + 1) (drop ?cs segs) = replicate (cl + 1) 0"
    proof (cases "cl = 0")
      case False
      then have cur: "cs + cl = i" "take cl (drop cs segs) = replicate cl 0" using Cons.prems by auto
      then have "take (Suc cl) (drop cs segs) = take cl (drop cs segs) @ [segs ! i]"
        using Cons.prems by (simp add: take_Suc_conv_app_nth)
      with cur show ?thesis
        using Cons.prems True False by (simp add: replicate_append_same)
    qed (use Cons.prems True in simp)
    define best where "best = (if cl + 1 > ll then (?cs, cl + 1) else (ls, ll))"
    obtain bs bl where b: "best = (bs, bl)" by (cases best)
    have best: "bs + bl \<le> Suc i \<and> take bl (drop bs segs) = replicate bl 0"
      using run Cons.prems(5,6) b unfolding best_def by (auto split: if_splits)
    have "longest_zeros i (cs, cl) (ls, ll) (x # xs) = longest_zeros (Suc i) (?cs, cl + 1) best xs"
      by (simp add: True best_def Let_def)
    with Cons.prems(1) b have "longest_zeros (Suc i) (?cs, cl + 1) (bs, bl) xs = (s, l)" by simp
    from this _ _ run best [THEN conjunct1] best [THEN conjunct2] show ?thesis
      by (rule Cons.IH [where pre = "pre @ [x]"]) (use Cons.prems in auto)
  next
    case False
    with Cons.prems have "longest_zeros (Suc i) (0, 0) (ls, ll) xs = (s, l)" by simp
    from this _ _ _ _ Cons.prems(6) show ?thesis
      by (rule Cons.IH [where pre = "pre @ [x]"]) (use Cons.prems(2,3,5) in auto)
  qed
qed

lemma longest_zeros_split:
  assumes "longest_zeros 0 (0, 0) (0, 0) segs = (s, l)"
  shows "s + l \<le> length segs" "segs = take s segs @ replicate l 0 @ drop (s + l) segs"
proof -
  have "s + l \<le> length segs \<and> take l (drop s segs) = replicate l 0"
    by (rule longest_zeros_run [OF assms, of "[]"]) auto
  then show "s + l \<le> length segs" "segs = take s segs @ replicate l 0 @ drop (s + l) segs"
    by (simp_all, metis append_take_drop_id drop_drop add.commute)
qed

lemma ipv6_segments_value:
  "ipv6_segments a = map (\<lambda>i. unat a div 2 ^ (112 - 16 * i) mod 65536) [0..<8]"
  unfolding ipv6_segments_def
  by (rule map_cong)
     (simp_all add: unsigned_ucast_eq take_bit_eq_mod unat_drop_bit_eq,
      simp add: drop_bit_eq_div)

lemma ipv6_segments_small: "g \<in> set (ipv6_segments a) \<Longrightarrow> g < 65536"
  by (auto simp: ipv6_segments_value)

lemma length_ipv6_segments [simp]: "length (ipv6_segments a) = 8"
  by (simp add: ipv6_segments_def)

lemma ipv6_of_segments_segments: "ipv6_of_segments (ipv6_segments a) = a"
proof -
  define n where "n = unat a"
  have top: "n div 2 ^ 112 < 65536"
    using unsigned_less [of a] by (simp add: n_def div_less_iff_less_mult)
  have step: "n div 2 ^ k = n div 2 ^ (k + 16) * 65536 + n div 2 ^ k mod 65536" for k
    using div_mult2_eq [of n "2 ^ k" 65536] by (simp add: power_add)
  have "of_groups 65536 (ipv6_segments a) = n"
    unfolding ipv6_segments_value n_def [symmetric]
    using top step [of 0] step [of 16] step [of 32] step [of 48] step [of 64] step [of 80] step [of 96]
    by (simp add: of_groups_def upt_rec)
  then show ?thesis by (simp add: ipv6_of_segments_def n_def)
qed

lemma mapped_value:
  assumes "drop_bit 32 a = (0xFFFF :: ipv6_addr)"
  shows "unat a = 0xFFFF * 2 ^ 32 + unat (ucast a :: u32)"
proof -
  have "unat a div 2 ^ 32 = 0xFFFF"
    using arg_cong [OF assms, of unat] by (simp add: unat_drop_bit_eq) (simp add: drop_bit_eq_div)
  moreover have "unat (ucast a :: u32) = unat a mod 2 ^ 32"
    by (simp add: unsigned_ucast_eq take_bit_eq_mod)
  ultimately show ?thesis by (metis div_mult_mod_eq)
qed

lemma no_digit_colon_f: "read_ipv4_addr (CHR ''f'' # cs) = None" "read_ipv4_addr (CHR '':'' # cs) = None"
proof -
  have "no_digit 10 (CHR ''f'' # cs)" by (simp add: no_digit_def to_digit_def to_digit16_def)
  then show "read_ipv4_addr (CHR ''f'' # cs) = None" "read_ipv4_addr (CHR '':'' # cs) = None"
    using read_octets.simps(2) [of 3 0 "CHR ''f'' # cs"] read_octets.simps(2) [of 3 0 "CHR '':'' # cs"]
    by (simp_all add: read_ipv4_addr_def read_separator_def no_digit_number)
qed

lemma read_mapped: "read_ipv6_addr (''::ffff:'' @ ipv4_string w) =
    Some (word_of_nat (0xFFFF * 2 ^ 32 + unat w), [])"
proof -
  let ?s = "CHR '':'' # ipv4_string w"
  have colon: "read_number 16 4 True 65535 (CHR '':'' # cs) = None" for cs
    by (simp add: no_digit_number)
  have head: "read_groups 8 0 (CHR '':'' # cs) = ([], False, CHR '':'' # cs)" for cs
    using read_groups.simps(2) [of 7 0 "CHR '':'' # cs"]
    by (simp add: read_separator_def no_digit_colon_f colon)
  have f: "hex_digit 15 = CHR ''f''" by code_simp
  have ffff: "read_number 16 4 True 65535 (''ffff'' @ ?s) = Some (0xFFFF, ?s)"
    using read_number_show_hex [where n = "0xFFFF" and rest = ?s] by (simp add: show_hex_group f)
  have embedded: "read_groups 6 1 ?s = ([unat w div 65536, unat w mod 65536], True, [])"
    using read_groups.simps(2) [of 5 1 ?s] read_ipv4_string [where rest = "[]" and a = w] by (simp add: read_separator_def)
  have "read_groups 7 0 (''ffff'' @ ?s) = ([0xFFFF, unat w div 65536, unat w mod 65536], True, [])"
    using read_groups.simps(2) [of 6 0 "''ffff'' @ ?s"] ffff embedded
    by (simp add: read_separator_def no_digit_colon_f)
  moreover have "replicate 5 (0 :: nat) = [0, 0, 0, 0, 0]" by (simp add: eval_nat_numeral)
  ultimately have "read_ipv6_addr (''::ffff:'' @ ipv4_string w) =
      Some (ipv6_of_segments [0, 0, 0, 0, 0, 0xFFFF, unat w div 65536, unat w mod 65536], [])"
    using head by (simp add: read_ipv6_addr_def strip_prefix_def)
  then show ?thesis by (simp add: ipv6_of_segments_def of_groups_def)
qed

lemma stops_colons: "CHR ''.'' \<notin> set cs \<Longrightarrow> stops i (CHR '':'' # CHR '':'' # cs)" "stops i []"
  by (auto simp: stops_def read_separator_def no_digit_number)

lemma read_ipv6_string: "read_ipv6_addr (ipv6_string a) = Some (a, [])"
proof (cases "drop_bit 32 a = 0xFFFF")
  case True
  have "word_of_nat (0xFFFF * 2 ^ 32 + unat (ucast a :: u32)) = a"
    unfolding mapped_value [OF True, symmetric] by simp
  with True show ?thesis
    using read_mapped [of "ucast a"] by (simp add: ipv6_string_def)
next
  case False
  define segs where "segs = ipv6_segments a"
  obtain s l where z: "longest_zeros 0 (0, 0) (0, 0) segs = (s, l)" by (cases "longest_zeros 0 (0, 0) (0, 0) segs")
  let ?join = "\<lambda>gs. join_with '':'' (map show_hex gs)"
  have small: "\<forall>g \<in> set segs. g < 65536" and len: "length segs = 8"
    using ipv6_segments_small by (auto simp: segs_def)
  have whole: "ipv6_of_segments segs = a" by (simp add: segs_def ipv6_of_segments_segments)
  show ?thesis
  proof (cases "l > 1")
    case True
    let ?head = "take s segs" and ?tail = "drop (s + l) segs"
    have le: "s + l \<le> 8" and split: "segs = ?head @ replicate l 0 @ ?tail"
      using longest_zeros_split [OF z] len by auto
    have sh: "\<forall>g \<in> set ?head. g < 65536" "\<forall>g \<in> set ?tail. g < 65536"
      using small by (auto dest: in_set_takeD in_set_dropD)
    then have dot: "CHR ''.'' \<notin> set (?join ?tail)"
      by (cases ?tail) (auto simp: join_groups group_text_no_dot show_hex_no_dot simp del: list.map(2))
    have string: "ipv6_string a = ?join ?head @ ''::'' @ ?join ?tail"
      using False True z by (simp add: ipv6_string_def segs_def Let_def)
    have head: "read_groups 8 0 (?join ?head @ ''::'' @ ?join ?tail) = (?head, False, ''::'' @ ?join ?tail)"
      using sh dot len by (intro read_groups_joined) (auto simp: stops_colons)
    have tail: "read_groups (7 - s) 0 (?join ?tail @ []) = (?tail, False, [])"
      using sh len True le by (intro read_groups_joined) (auto simp: stops_colons)
    have "8 - s - (8 - (s + l)) = l" using le by simp
    then show ?thesis
      using head tail len le True whole split unfolding string
      by (simp add: read_ipv6_addr_def strip_prefix_def min_def)
  next
    case short: False
    then have string: "ipv6_string a = ?join segs @ []"
      using False z by (simp add: ipv6_string_def segs_def Let_def)
    have "read_groups 8 0 (?join segs @ []) = (segs, False, [])"
      using small len by (intro read_groups_joined) auto
    then show ?thesis unfolding string by (simp add: read_ipv6_addr_def len whole)
  qed
qed

lemma read_ipv4_ipv6_string: "read_ipv4_addr (ipv6_string a) = None"
proof (cases "drop_bit 32 a = 0xFFFF")
  case True
  then show ?thesis by (simp add: ipv6_string_def no_digit_colon_f)
next
  case False
  have dot: "\<forall>g \<in> set gs. g < 65536 \<Longrightarrow> CHR ''.'' \<notin> set (join_with '':'' (map show_hex gs))" for gs
    by (cases gs) (auto simp: join_groups group_text_no_dot show_hex_no_dot simp del: list.map(2))
  have "CHR ''.'' \<notin> set (ipv6_string a)"
    using False ipv6_segments_small [of _ a]
    by (auto simp: ipv6_string_def Let_def split: prod.splits dest!: dot [THEN notE, rotated]
        dest: in_set_takeD in_set_dropD)
  then show ?thesis by (rule read_ipv4_no_dot)
qed

text \<open>An address printed by the standard library parses back to itself.\<close>

lemma parse_ip_addr_string [simp]: "parse_ip_addr (ip_addr_string a) = Some a"
  using read_ipv4_string [of "[]"]
  by (cases a) (simp_all add: parse_ip_addr_def ip_addr_string_def read_ipv4_ipv6_string read_ipv6_string)

end
