(* ===== verification/Nm_Convert.thy ===== *)
theory Nm_Convert
  imports Nm_Facade Nm_Addr Nm_IpConfig
begin

text \<open>
  The translation between profiles and the settings dictionaries of D-Bus
  (\<^verbatim>\<open>src/dbus/convert.rs\<close>): \<open>profile_to_settings\<close>, \<open>settings_to_profile\<close> and
  the stable identifiers. The values of the \<open>zvariant\<close> crate are a type variable; its
  conversions are the operations of a record, and what the code relies on is \<open>zv_laws\<close>: a value
  made from a Rust value converts back to it.
\<close>

section \<open>Values\<close>

type_synonym 'v sect = "string \<rightharpoonup> 'v"
type_synonym 'v settings = "string \<rightharpoonup> 'v sect"
type_synonym v6_route = "bytes \<times> u32 \<times> bytes \<times> u32"

text \<open>
  Conversions into an \<open>OwnedValue\<close> (the fallible ones give an option) and out of it.
  \<open>zv_elements\<close> is the match on \<open>Value::Array\<close>, \<open>zv_as_str\<close> the match on
  \<open>Value::Str\<close>.
\<close>

record 'v zv =
  zv_str :: "string \<Rightarrow> 'v"
  zv_u32 :: "u32 \<Rightarrow> 'v"
  zv_i32 :: "i32 \<Rightarrow> 'v"
  zv_bool :: "bool \<Rightarrow> 'v"
  zv_bytes :: "bytes \<Rightarrow> 'v option"
  zv_dicts :: "'v sect list \<Rightarrow> 'v option"
  zv_strs :: "string list \<Rightarrow> 'v option"
  zv_v4_routes :: "u32 list list \<Rightarrow> 'v option"
  zv_v6_routes :: "v6_route list \<Rightarrow> 'v option"
  zv_to_str :: "'v \<Rightarrow> string option"
  zv_to_u32 :: "'v \<Rightarrow> u32 option"
  zv_to_i32 :: "'v \<Rightarrow> i32 option"
  zv_to_bool :: "'v \<Rightarrow> bool option"
  zv_to_bytes :: "'v \<Rightarrow> bytes option"
  zv_to_dicts :: "'v \<Rightarrow> 'v sect list option"
  zv_to_v4_routes :: "'v \<Rightarrow> u32 list list option"
  zv_to_v6_routes :: "'v \<Rightarrow> v6_route list option"
  zv_elements :: "'v \<Rightarrow> 'v list option"
  zv_as_str :: "'v \<Rightarrow> string option"

definition converts :: "('a \<Rightarrow> 'v option) \<Rightarrow> ('v \<Rightarrow> 'a option) \<Rightarrow> bool" where
  "converts wrap unwrap \<longleftrightarrow> (\<forall>x. \<exists>v. wrap x = Some v \<and> unwrap v = Some x)"

definition zv_laws :: "'v zv \<Rightarrow> bool" where
  "zv_laws z \<longleftrightarrow>
     (\<forall>s. zv_to_str z (zv_str z s) = Some s) \<and> (\<forall>w. zv_to_u32 z (zv_u32 z w) = Some w) \<and>
     (\<forall>w. zv_to_i32 z (zv_i32 z w) = Some w) \<and> (\<forall>b. zv_to_bool z (zv_bool z b) = Some b) \<and>
     converts (zv_bytes z) (zv_to_bytes z) \<and> converts (zv_dicts z) (zv_to_dicts z) \<and>
     converts (zv_v4_routes z) (zv_to_v4_routes z) \<and> converts (zv_v6_routes z) (zv_to_v6_routes z) \<and>
     (\<forall>xs. \<exists>v vs. zv_strs z xs = Some v \<and> zv_elements z v = Some vs \<and> map (zv_as_str z) vs = map Some xs)"

text \<open>\<open>expect\<close> panics on a failed conversion.\<close>

definition expect :: "'a option \<Rightarrow> ('a, 'e thrown) result" where
  "expect x = ok_or x Panicked"

section \<open>Accessors\<close>

definition get_str :: "'v zv \<Rightarrow> 'v sect \<Rightarrow> string \<Rightarrow> string option" where
  "get_str z section key = Option.bind (section key) (zv_to_str z)"

fun collect_some :: "('a \<Rightarrow> 'b option) \<Rightarrow> 'a list \<Rightarrow> 'b list option" where
  "collect_some f [] = Some []"
| "collect_some f (x # xs) =
     (case f x of None \<Rightarrow> None | Some y \<Rightarrow> map_option ((#) y) (collect_some f xs))"

definition get_str_array :: "'v zv \<Rightarrow> 'v sect \<Rightarrow> string \<Rightarrow> string list option" where
  "get_str_array z section key = (case section key of
       None \<Rightarrow> None
     | Some value \<Rightarrow>
         (case zv_elements z value of None \<Rightarrow> None | Some array \<Rightarrow> collect_some (zv_as_str z) array))"

definition get_u32 :: "'v zv \<Rightarrow> 'v sect \<Rightarrow> string \<Rightarrow> u32 option" where
  "get_u32 z section key = Option.bind (section key) (zv_to_u32 z)"

definition get_i32 :: "'v zv \<Rightarrow> 'v sect \<Rightarrow> string \<Rightarrow> i32 option" where
  "get_i32 z section key = Option.bind (section key) (zv_to_i32 z)"

definition get_bool :: "'v zv \<Rightarrow> 'v sect \<Rightarrow> string \<Rightarrow> bool option" where
  "get_bool z section key = Option.bind (section key) (zv_to_bool z)"

definition get_bytes :: "'v zv \<Rightarrow> 'v sect \<Rightarrow> string \<Rightarrow> bytes option" where
  "get_bytes z section key = Option.bind (section key) (zv_to_bytes z)"

definition get_dict_array :: "'v zv \<Rightarrow> 'v sect \<Rightarrow> string \<Rightarrow> 'v sect list option" where
  "get_dict_array z section key = Option.bind (section key) (zv_to_dicts z)"

section \<open>Static routes\<close>

definition ipv4_of_le :: "u32 \<Rightarrow> ipv4_addr" where
  "ipv4_of_le w = (case to_le_bytes32 w of [a, b, c, d] \<Rightarrow> ipv4_of_octets a b c d | _ \<Rightarrow> 0)"

definition ipv4_u32 :: "ipv4_addr \<Rightarrow> u32" where
  "ipv4_u32 addr = (case ipv4_octets addr of [a, b, c, d] \<Rightarrow> le32 a b c d | _ \<Rightarrow> 0)"

definition parsed_route :: "ip_family \<Rightarrow> ip_addr \<Rightarrow> u32 \<Rightarrow> ip_addr option \<Rightarrow> u32 \<Rightarrow> route" where
  "parsed_route family destination prefix gateway metric = \<lparr>
     rt_family = family, rt_destination = destination, rt_prefix_length = ucast prefix,
     rt_gateway = gateway, rt_output_interface = None,
     rt_metric = (if metric \<noteq> 0 then Some metric else None),
     rt_kind = Unicast, rt_scope = (if prefix = 0 then Universe else LinkScope) \<rparr>"

definition parse_route_v4 :: "u32 list \<Rightarrow> (route, facade_error) result" where
  "parse_route_v4 entry =
     (if length entry \<noteq> 4 then
        Err (FeInvalidProperty ''ipv4.routes entry is not [dest, prefix, next-hop, metric]'')
      else
        let prefix = entry ! 1 in
        if prefix > 32 then Err (FeInvalidProperty ''ipv4.routes prefix exceeds 32'')
        else
          let next_hop = entry ! 2 in
          Ok (parsed_route V4 (V4Addr (ipv4_of_le (entry ! 0))) prefix
                (if next_hop \<noteq> 0 then Some (V4Addr (ipv4_of_le next_hop)) else None) (entry ! 3)))"

definition parse_route_v6 :: "v6_route \<Rightarrow> (route, facade_error) result" where
  "parse_route_v6 entry = (case entry of (dest, prefix, next_hop, metric) \<Rightarrow>
     if length dest \<noteq> 16 \<or> length next_hop \<noteq> 16 then
       Err (FeInvalidProperty ''ipv6.routes addresses are not 16 octets'')
     else if prefix > 128 then Err (FeInvalidProperty ''ipv6.routes prefix exceeds 128'')
     else
       let gateway = ipv6_of_octets next_hop in
       Ok (parsed_route V6 (V6Addr (ipv6_of_octets dest)) prefix
             (if \<not> is_unspecified (V6Addr gateway) then Some (V6Addr gateway) else None) metric))"

definition parse_routes :: "'v zv \<Rightarrow> 'v sect \<Rightarrow> bool \<Rightarrow> (route list, facade_error) result" where
  "parse_routes z section expect_v4 = (case section ''routes'' of
       None \<Rightarrow> Ok []
     | Some value \<Rightarrow>
         if expect_v4 then
           and_then (ok_or (zv_to_v4_routes z value)
               (FeInvalidProperty ''ipv4.routes is not an array of u32 tuples''))
             (collect_ok parse_route_v4)
         else
           and_then (ok_or (zv_to_v6_routes z value)
               (FeInvalidProperty ''ipv6.routes is not a(ayuayu)''))
             (collect_ok parse_route_v6))"

definition route_v4_entry :: "route \<Rightarrow> u32 list" where
  "route_v4_entry r =
     (let destination = (case rt_destination r of V4Addr a \<Rightarrow> a | V6Addr _ \<Rightarrow> 0);
          next_hop = (case rt_gateway r of Some (V4Addr a) \<Rightarrow> a | _ \<Rightarrow> 0)
      in [ipv4_u32 destination, ucast (rt_prefix_length r), ipv4_u32 next_hop,
          (case rt_metric r of Some m \<Rightarrow> m | None \<Rightarrow> 0)])"

definition route_v6_entry :: "route \<Rightarrow> v6_route" where
  "route_v6_entry r =
     (let destination = (case rt_destination r of V6Addr a \<Rightarrow> a | V4Addr _ \<Rightarrow> 0);
          next_hop = (case rt_gateway r of Some (V6Addr a) \<Rightarrow> a | _ \<Rightarrow> 0)
      in (ipv6_octets destination, ucast (rt_prefix_length r), ipv6_octets next_hop,
          (case rt_metric r of Some m \<Rightarrow> m | None \<Rightarrow> 0)))"

section \<open>Types and key management\<close>

definition connection_type_string :: "connection_profile \<Rightarrow> string" where
  "connection_type_string p = (case cp_connection_type p of
     Wifi _ \<Rightarrow> ''802-11-wireless'' | Ethernet _ \<Rightarrow> ''802-3-ethernet'')"

definition key_management_string :: "key_management \<Rightarrow> string" where
  "key_management_string k = (case k of Open \<Rightarrow> ''none'' | WpaPsk \<Rightarrow> ''wpa-psk''
     | WpaEap \<Rightarrow> ''wpa-eap'' | Sae \<Rightarrow> ''sae'' | Owe \<Rightarrow> ''owe'')"

definition parse_key_management :: "string \<Rightarrow> (wifi_security, facade_error) result" where
  "parse_key_management value =
     (if value = ''none'' \<or> value = [] then Ok security_open
      else if value = ''owe'' then Ok security_owe
      else if value = ''wpa-psk'' then Ok (security_psk (Keyring ''nmd/wifi-psk''))
      else if value = ''sae'' then Ok (security_sae (Keyring ''nmd/wifi-sae''))
      else if value = ''wpa-eap'' then Ok (security_enterprise ''nmd-enterprise'')
      else Err (FeInvalidSetting (''unsupported key management '' @ debug_str value)))"

section \<open>Stable identifiers\<close>

definition fnv1a :: "bytes \<Rightarrow> u64 \<Rightarrow> u64" where
  "fnv1a bs hash = foldl (\<lambda>h b. (h XOR ucast b) * 0x100000001b3) hash bs"

definition hex_padded :: "nat \<Rightarrow> nat \<Rightarrow> string" where
  "hex_padded width n = (let s = show_hex n in replicate (width - length s) CHR ''0'' @ s)"

definition stable_uuid :: "string \<Rightarrow> string" where
  "stable_uuid i =
     (let first = fnv1a (string_bytes i) 0xcbf29ce484222325;
          second = fnv1a (string_bytes i) 0x84222325cbf29ce4
      in hex_padded 8 (unat (ucast (drop_bit 32 first) :: u32)) @ ''-''
         @ hex_padded 4 (unat (ucast (first AND 0xffff) :: u16)) @ ''-5''
         @ hex_padded 3 (unat (ucast (drop_bit 16 first AND 0x0fff) :: u16)) @ ''-8''
         @ hex_padded 3 (unat (ucast (second AND 0x0fff) :: u16)) @ ''-''
         @ hex_padded 12 (unat (drop_bit 16 second AND 0xffffffffffff)))"

section \<open>From profiles to settings\<close>

definition method_string :: "ip_method \<Rightarrow> string" where
  "method_string m = (case m of Automatic \<Rightarrow> ''auto'' | Manual \<Rightarrow> ''manual'' | Disabled \<Rightarrow> ''disabled'')"

text \<open>The entry of \<open>address-data\<close>, and the settings only a manual configuration has.\<close>

definition address_entry :: "'v zv \<Rightarrow> ip_addr \<Rightarrow> u8 option \<Rightarrow> 'v sect" where
  "address_entry z addr prefix =
     (let entry = [''address'' \<mapsto> zv_str z (ip_addr_string addr)]
      in case prefix of None \<Rightarrow> entry | Some p \<Rightarrow> entry(''prefix'' \<mapsto> zv_u32 z (ucast p)))"

definition manual_section :: "'v zv \<Rightarrow> ip_config \<Rightarrow> 'v sect \<Rightarrow> ('v sect, unit thrown) result" where
  "manual_section z config sect =
     and_then (case ic_address config of
         None \<Rightarrow> Ok sect
       | Some addr \<Rightarrow> map_ok (\<lambda>v. sect(''address-data'' \<mapsto> v))
           (expect (zv_dicts z [address_entry z addr (ic_prefix_length config)]))) (\<lambda>sect.
     let sect = (case ic_gateway config of
         None \<Rightarrow> sect
       | Some gateway \<Rightarrow> sect(''gateway'' \<mapsto> zv_str z (ip_addr_string gateway))) in
     if ic_dns_servers config \<noteq> [] then
       map_ok (\<lambda>v. sect(''dns'' \<mapsto> v)) (expect (zv_strs z (map ip_addr_string (ic_dns_servers config))))
     else Ok sect)"

definition ip_config_section :: "'v zv \<Rightarrow> ip_config \<Rightarrow> bool \<Rightarrow> ('v sect, unit thrown) result" where
  "ip_config_section z config expect_v4 =
     (let sect = [''method'' \<mapsto> zv_str z (method_string (ic_method config))] in
      and_then (if ic_method config = Manual then manual_section z config sect else Ok sect) (\<lambda>sect.
      if ic_routes config \<noteq> [] then
        map_ok (\<lambda>v. sect(''routes'' \<mapsto> v))
          (expect (if expect_v4
             then zv_v4_routes z (map route_v4_entry (filter (\<lambda>r. rt_family r = V4) (ic_routes config)))
             else zv_v6_routes z (map route_v6_entry (filter (\<lambda>r. rt_family r = V6) (ic_routes config)))))
      else Ok sect))"

definition connection_section :: "'v zv \<Rightarrow> connection_profile \<Rightarrow> 'v sect" where
  "connection_section z p =
     (let sect = [''id'' \<mapsto> zv_str z (cp_id p), ''uuid'' \<mapsto> zv_str z (stable_uuid (cp_id p)),
                  ''type'' \<mapsto> zv_str z (connection_type_string p)];
          sect = (case dm_interface_name (cp_device_match p) of
                    None \<Rightarrow> sect
                  | Some name \<Rightarrow> sect(''interface-name'' \<mapsto> zv_str z name))
      in sect(''autoconnect'' \<mapsto> zv_bool z (cp_autoconnect p),
              ''priority'' \<mapsto> zv_i32 z (cp_priority p)))"

definition wifi_section :: "'v zv \<Rightarrow> wifi_settings \<Rightarrow> ('v sect, unit thrown) result" where
  "wifi_section z w =
     map_ok (\<lambda>v.
       let sect = [''ssid'' \<mapsto> v, ''mode'' \<mapsto> zv_str z ''infrastructure''];
           sect = (if wf_hidden w then sect(''hidden'' \<mapsto> zv_bool z True) else sect)
       in if ws_key_management (wf_security w) \<noteq> Open
          then sect(''security'' \<mapsto> zv_str z ''802-11-wireless-security'') else sect)
     (expect (zv_bytes z (wf_ssid w)))"

definition type_sections ::
  "'v zv \<Rightarrow> connection_type \<Rightarrow> 'v settings \<Rightarrow> ('v settings, unit thrown) result" where
  "type_sections z t dict = (case t of
       Wifi w \<Rightarrow>
         map_ok (\<lambda>wifi.
           let dict = dict(''802-11-wireless'' \<mapsto> wifi) in
           if ws_key_management (wf_security w) \<noteq> Open
           then dict(''802-11-wireless-security'' \<mapsto>
             [''key-mgmt'' \<mapsto> zv_str z (key_management_string (ws_key_management (wf_security w)))])
           else dict) (wifi_section z w)
     | Ethernet _ \<Rightarrow> Ok dict)"

definition profile_to_settings :: "'v zv \<Rightarrow> connection_profile \<Rightarrow> ('v settings, unit thrown) result" where
  "profile_to_settings z p =
     and_then (type_sections z (cp_connection_type p) [''connection'' \<mapsto> connection_section z p]) (\<lambda>dict.
     and_then (ip_config_section z (cp_ipv4 p) True) (\<lambda>ipv4.
     and_then (ip_config_section z (cp_ipv6 p) False) (\<lambda>ipv6.
     Ok (dict(''ipv4'' \<mapsto> ipv4, ''ipv6'' \<mapsto> ipv6)))))"

section \<open>From settings to profiles\<close>

definition parse_method :: "string \<Rightarrow> (ip_method, facade_error) result" where
  "parse_method m =
     (if m = ''auto'' \<or> m = [] then Ok Automatic
      else if m = ''manual'' then Ok Manual
      else if m = ''disabled'' then Ok Disabled
      else Err (FeInvalidSetting (''unsupported IP method '' @ debug_str m)))"

definition parse_manual :: "'v zv \<Rightarrow> 'v sect \<Rightarrow> bool \<Rightarrow> ip_config \<Rightarrow> (ip_config, facade_error) result" where
  "parse_manual z sect expect_v4 config =
     and_then (ok_or (get_dict_array z sect ''address-data'')
         (FeMissingSetting ''ip method requires address-data'')) (\<lambda>address_data.
     and_then (ok_or (case address_data of [] \<Rightarrow> None | first # _ \<Rightarrow> Some first)
         (FeMissingSetting ''manual IP configuration requires an address'')) (\<lambda>first.
     and_then (ok_or (get_str z first ''address'') (FeInvalidProperty ''address missing'')) (\<lambda>text.
     and_then (ok_or (parse_ip_addr text) (FeInvalidProperty ''address is not a valid IP address'')) (\<lambda>addr.
     if is_ipv4 addr \<noteq> expect_v4 then
       Err (FeInvalidProperty ''address family does not match the setting'')
     else
     and_then (ok_or (get_u32 z first ''prefix'') (FeMissingSetting ''address prefix required'')) (\<lambda>prefix.
     Ok (config\<lparr> ic_address := Some addr, ic_prefix_length := Some (ucast prefix),
          ic_gateway := Option.bind (get_str z sect ''gateway'') parse_ip_addr,
          ic_dns_servers := (case get_str_array z sect ''dns'' of
             None \<Rightarrow> []
           | Some dns \<Rightarrow> List.map_filter parse_ip_addr dns) \<rparr>))))))"

definition parse_ip_config :: "'v zv \<Rightarrow> 'v sect \<Rightarrow> bool \<Rightarrow> (ip_config, facade_error) result" where
  "parse_ip_config z sect expect_v4 =
     and_then (parse_method (case get_str z sect ''method'' of None \<Rightarrow> ''auto'' | Some m \<Rightarrow> m)) (\<lambda>m.
     let config = ip_config_default\<lparr> ic_method := m \<rparr> in
     and_then (if m = Manual then parse_manual z sect expect_v4 config else Ok config) (\<lambda>config.
     map_ok (\<lambda>routes. config\<lparr> ic_routes := routes \<rparr>) (parse_routes z sect expect_v4)))"

definition parse_wifi ::
  "'v zv \<Rightarrow> 'v settings \<Rightarrow> string \<Rightarrow> string \<Rightarrow> (connection_profile, facade_error) result" where
  "parse_wifi z dict i name =
     and_then (ok_or (dict ''802-11-wireless'') (FeMissingSetting ''802-11-wireless'')) (\<lambda>wifi.
     and_then (ok_or (get_bytes z wifi ''ssid'')
         (FeInvalidProperty ''802-11-wireless.ssid is required'')) (\<lambda>ssid_bytes.
     and_then (ok_or (ssid_from_bytes ssid_bytes)
         (FeInvalidProperty ''802-11-wireless.ssid exceeds 32 octets'')) (\<lambda>ssid.
     let key_management = (case Option.bind (dict ''802-11-wireless-security'')
             (\<lambda>security. get_str z security ''key-mgmt'') of
           None \<Rightarrow> ''none'' | Some k \<Rightarrow> k) in
     and_then (parse_key_management key_management) (\<lambda>security.
     map_err facade_of_validation (profile_wifi i name ssid security)))))"

definition parse_typed ::
  "'v zv \<Rightarrow> 'v settings \<Rightarrow> string \<Rightarrow> string \<Rightarrow> string \<Rightarrow> (connection_profile, facade_error) result" where
  "parse_typed z dict type_name i name =
     (if type_name = ''802-11-wireless'' then parse_wifi z dict i name
      else if type_name = ''802-3-ethernet'' then map_err facade_of_validation (profile_ethernet i name)
      else Err (FeInvalidSetting (''unsupported connection type '' @ debug_str type_name)))"

definition override :: "'a option \<Rightarrow> ('a \<Rightarrow> 'b \<Rightarrow> 'b) \<Rightarrow> 'b \<Rightarrow> 'b" where
  "override x f y = (case x of None \<Rightarrow> y | Some v \<Rightarrow> f v y)"

definition connection_overrides :: "'v zv \<Rightarrow> 'v sect \<Rightarrow> connection_profile \<Rightarrow> connection_profile" where
  "connection_overrides z connection profile =
     (let profile = override (get_str z connection ''interface-name'') (\<lambda>n p.
            p\<lparr> cp_device_match := (cp_device_match p)\<lparr> dm_interface_name := Some n \<rparr> \<rparr>) profile;
          profile = override (get_bool z connection ''autoconnect'') (\<lambda>b p. p\<lparr> cp_autoconnect := b \<rparr>) profile
      in override (get_i32 z connection ''priority'') (\<lambda>i p. p\<lparr> cp_priority := i \<rparr>) profile)"

definition optional_section ::
  "'v sect option \<Rightarrow> ('v sect \<Rightarrow> (ip_config, facade_error) result) \<Rightarrow>
   (ip_config \<Rightarrow> connection_profile) \<Rightarrow> connection_profile \<Rightarrow> (connection_profile, facade_error) result" where
  "optional_section sect parse put p =
     (case sect of None \<Rightarrow> Ok p | Some s \<Rightarrow> map_ok put (parse s))"

definition settings_to_profile :: "'v zv \<Rightarrow> 'v settings \<Rightarrow> (connection_profile, facade_error) result" where
  "settings_to_profile z dict =
     and_then (ok_or (dict ''connection'') (FeMissingSetting ''connection'')) (\<lambda>connection.
     and_then (ok_or (get_str z connection ''id'') (FeInvalidProperty ''connection.id is required'')) (\<lambda>i.
     let name = (case get_str z connection ''id'' of None \<Rightarrow> [] | Some n \<Rightarrow> n) in
     and_then (ok_or (get_str z connection ''type'') (FeMissingSetting ''connection.type'')) (\<lambda>type_name.
     and_then (parse_typed z dict type_name i name) (\<lambda>profile.
     let profile = connection_overrides z connection profile in
     and_then (optional_section (dict ''ipv4'') (\<lambda>s. parse_ip_config z s True)
         (\<lambda>c. profile\<lparr> cp_ipv4 := c \<rparr>) profile) (\<lambda>profile.
     and_then (optional_section (dict ''ipv6'') (\<lambda>s. parse_ip_config z s False)
         (\<lambda>c. profile\<lparr> cp_ipv6 := c \<rparr>) profile) (\<lambda>profile.
     and_then (map_err facade_of_validation (validate profile)) (\<lambda>_. Ok profile)))))))"

section \<open>What a dictionary can say\<close>

text \<open>
  The part of a profile that a settings dictionary carries: no display name, no MAC address or
  BSSID, no link settings of a wired connection, no \<open>hidden\<close> or \<open>enabled\<close> flag, a fixed
  reference in place of the secret, and routes of the right family only, unicast and without an
  interface.
\<close>

definition canonical_security :: "key_management \<Rightarrow> wifi_security" where
  "canonical_security k = (case k of
       Open \<Rightarrow> security_open | Owe \<Rightarrow> security_owe
     | WpaPsk \<Rightarrow> security_psk (Keyring ''nmd/wifi-psk'') | Sae \<Rightarrow> security_sae (Keyring ''nmd/wifi-sae'')
     | WpaEap \<Rightarrow> security_enterprise ''nmd-enterprise'')"

definition carried_type :: "connection_type \<Rightarrow> connection_type" where
  "carried_type t = (case t of
       Wifi w \<Rightarrow> Wifi \<lparr> wf_ssid = wf_ssid w, wf_bssid = None, wf_hidden = False,
         wf_security = canonical_security (ws_key_management (wf_security w)) \<rparr>
     | Ethernet _ \<Rightarrow> Ethernet ethernet_default)"

definition carried_route :: "bool \<Rightarrow> route \<Rightarrow> route" where
  "carried_route v4 r =
     (let keep = (\<lambda>a. is_ipv4 a = v4); unspecified = (if v4 then V4Addr 0 else V6Addr 0) in
      \<lparr> rt_family = (if v4 then V4 else V6),
        rt_destination = (if keep (rt_destination r) then rt_destination r else unspecified),
        rt_prefix_length = rt_prefix_length r,
        rt_gateway = (case rt_gateway r of None \<Rightarrow> None
           | Some g \<Rightarrow> if keep g \<and> g \<noteq> unspecified then Some g else None),
        rt_output_interface = None,
        rt_metric = (if rt_metric r = Some 0 then None else rt_metric r),
        rt_kind = Unicast,
        rt_scope = (if rt_prefix_length r = 0 then Universe else LinkScope) \<rparr>)"

definition carried_ip :: "bool \<Rightarrow> ip_config \<Rightarrow> ip_config" where
  "carried_ip v4 c =
     (let manual = (ic_method c = Manual) in
      \<lparr> ic_method = ic_method c,
        ic_address = (if manual then ic_address c else None),
        ic_prefix_length = (if manual then ic_prefix_length c else None),
        ic_gateway = (if manual then ic_gateway c else None),
        ic_dns_servers = (if manual then ic_dns_servers c else []),
        ic_routes = map (carried_route v4)
          (filter (\<lambda>r. rt_family r = (if v4 then V4 else V6)) (ic_routes c)) \<rparr>)"

definition carried_profile :: "connection_profile \<Rightarrow> connection_profile" where
  "carried_profile p =
     \<lparr> cp_id = cp_id p, cp_name = cp_id p, cp_connection_type = carried_type (cp_connection_type p),
       cp_device_match =
         \<lparr> dm_interface_name = dm_interface_name (cp_device_match p), dm_mac_address = None \<rparr>,
       cp_priority = cp_priority p, cp_autoconnect = cp_autoconnect p, cp_enabled = True,
       cp_ipv4 = carried_ip True (cp_ipv4 p), cp_ipv6 = carried_ip False (cp_ipv6 p) \<rparr>"

definition routes_in_range :: "bool \<Rightarrow> ip_config \<Rightarrow> bool" where
  "routes_in_range v4 c \<longleftrightarrow> list_all (\<lambda>r. rt_family r = (if v4 then V4 else V6) \<longrightarrow>
     rt_prefix_length r \<le> (if v4 then 32 else 128)) (ic_routes c)"

section \<open>The round trip\<close>

lemma zv_scalars:
  assumes "zv_laws z"
  shows "zv_to_str z (zv_str z s) = Some s" "zv_to_u32 z (zv_u32 z w) = Some w"
    "zv_to_i32 z (zv_i32 z w) = Some w" "zv_to_bool z (zv_bool z b) = Some b"
  using assms by (simp_all add: zv_laws_def)

lemma zv_containers:
  assumes "zv_laws z"
  shows "\<exists>v. zv_bytes z bs = Some v \<and> zv_to_bytes z v = Some bs"
    "\<exists>v. zv_dicts z ds = Some v \<and> zv_to_dicts z v = Some ds"
    "\<exists>v. zv_v4_routes z rs = Some v \<and> zv_to_v4_routes z v = Some rs"
    "\<exists>v. zv_v6_routes z rs6 = Some v \<and> zv_to_v6_routes z v = Some rs6"
    "\<exists>v vs. zv_strs z xs = Some v \<and> zv_elements z v = Some vs \<and> map (zv_as_str z) vs = map Some xs"
  using assms by (simp_all add: zv_laws_def converts_def)

lemma collect_some_map: "map f xs = map Some ys \<Longrightarrow> collect_some f xs = Some ys"
  by (induction xs arbitrary: ys) (auto simp: Cons_eq_map_conv)

lemma collect_ok_map: "(\<And>x. x \<in> set xs \<Longrightarrow> f (g x) = Ok (h x)) \<Longrightarrow> collect_ok f (map g xs) = Ok (map h xs)"
  by (induction xs) auto

lemma ipv4_of_le_u32 [simp]: "ipv4_of_le (ipv4_u32 a) = a"
proof -
  obtain x y z w where a: "a = ipv4_of_octets x y z w" "ipv4_octets a = [x, y, z, w]"
    by (rule ipv4_octets_cases)
  then show ?thesis by (simp add: ipv4_u32_def ipv4_of_le_def to_le32_le32)
qed

lemma ipv4_u32_zero [simp]: "ipv4_u32 0 = 0" "ipv4_u32 a = 0 \<longleftrightarrow> a = 0"
proof -
  show zero: "ipv4_u32 0 = 0"
    by (simp add: ipv4_u32_def ipv4_octets_def to_be_bytes32_def to_le_bytes32_def le32_def)
  show "ipv4_u32 a = 0 \<longleftrightarrow> a = 0" using ipv4_of_le_u32 zero by metis
qed

lemma prefix_u32:
  "(ucast (ucast (p :: u8) :: u32) :: u8) = p" "(ucast p :: u32) = 0 \<longleftrightarrow> p = 0"
  "unat (ucast p :: u32) = unat p"
proof -
  have "unat p < 2 ^ 32" using unat_u8_less [of p] by (rule order.strict_trans) simp
  then show u: "unat (ucast p :: u32) = unat p"
    by (simp add: unsigned_ucast_eq take_bit_nat_eq_self)
  show "(ucast p :: u32) = 0 \<longleftrightarrow> p = 0" using u by (metis unsigned_0 unat_eq_zero)
  show "(ucast (ucast p :: u32) :: u8) = p" by (rule bit_word_eqI) (simp add: bit_simps)
qed

lemma parse_route_v4_entry:
  assumes "rt_prefix_length r \<le> 32"
  shows "parse_route_v4 (route_v4_entry r) = Ok (carried_route True r)"
proof -
  have "\<not> (ucast (rt_prefix_length r) :: u32) > 32"
    using assms by (simp add: word_le_nat_alt word_less_nat_alt prefix_u32)
  then show ?thesis
    by (auto simp: parse_route_v4_def route_v4_entry_def carried_route_def parsed_route_def Let_def
        is_ipv4_def prefix_u32 split: ip_addr.splits option.splits)
qed

lemma parse_route_v6_entry:
  assumes "rt_prefix_length r \<le> 128"
  shows "parse_route_v6 (route_v6_entry r) = Ok (carried_route False r)"
proof -
  have "\<not> (ucast (rt_prefix_length r) :: u32) > 128"
    using assms by (simp add: word_le_nat_alt word_less_nat_alt prefix_u32)
  then show ?thesis
    by (auto simp: parse_route_v6_def route_v6_entry_def carried_route_def parsed_route_def Let_def
        is_ipv4_def is_unspecified_def prefix_u32 split: ip_addr.splits option.splits)
qed

lemma parse_key_management_string:
  "parse_key_management (key_management_string k) = Ok (canonical_security k)"
  by (cases k) (simp_all add: parse_key_management_def key_management_string_def canonical_security_def)

lemma map_filter_parse: "List.map_filter parse_ip_addr (map ip_addr_string as) = as"
  by (induction as) (simp_all add: map_filter_simps)

lemma manual_round_trip:
  assumes laws: "zv_laws z" and ok: "ip_config_ok v4 c" and m: "ic_method c = Manual"
    and sect: "sect = [''method'' \<mapsto> zv_str z ''manual'']"
  shows "\<exists>sect'. manual_section z c sect = Ok sect' \<and> sect' ''method'' = sect ''method'' \<and>
    sect' ''routes'' = None \<and>
    parse_manual z (sect'(''routes'' := r)) v4 config = Ok (config\<lparr> ic_address := ic_address c,
      ic_prefix_length := ic_prefix_length c, ic_gateway := ic_gateway c, ic_dns_servers := ic_dns_servers c \<rparr>)"
proof -
  obtain a p where ap: "ic_address c = Some a" "ic_prefix_length c = Some p" "is_ipv4 a = v4"
    using ok m by (auto simp: ip_config_ok_def)
  obtain v where v: "zv_dicts z [address_entry z a (Some p)] = Some v"
      "zv_to_dicts z v = Some [address_entry z a (Some p)]"
    using zv_containers(2) [OF laws] by blast
  obtain d ds where d: "zv_strs z (map ip_addr_string (ic_dns_servers c)) = Some d"
      "zv_elements z d = Some ds" "map (zv_as_str z) ds = map Some (map ip_addr_string (ic_dns_servers c))"
    using zv_containers(5) [OF laws] by blast
  note dns = collect_some_map [OF d(3)]
  show ?thesis
    using ap v d dns laws sect
    by (cases "ic_gateway c"; cases "ic_dns_servers c = []")
       (simp_all add: manual_section_def parse_manual_def expect_def Let_def get_dict_array_def get_str_def
        get_u32_def get_str_array_def address_entry_def zv_scalars [OF laws] prefix_u32 map_filter_parse)
qed

lemma routes_round_trip:
  assumes "zv_laws z" and range: "routes_in_range v4 c"
  shows "\<exists>v. (if v4
      then zv_v4_routes z (map route_v4_entry (filter (\<lambda>r. rt_family r = V4) (ic_routes c)))
      else zv_v6_routes z (map route_v6_entry (filter (\<lambda>r. rt_family r = V6) (ic_routes c)))) = Some v \<and>
    (\<forall>sect. sect ''routes'' = Some v \<longrightarrow> parse_routes z sect v4 = Ok (ic_routes (carried_ip v4 c)))"
proof (cases v4)
  case True
  let ?rs = "filter (\<lambda>r. rt_family r = V4) (ic_routes c)"
  obtain v where v: "zv_v4_routes z (map route_v4_entry ?rs) = Some v"
      "zv_to_v4_routes z v = Some (map route_v4_entry ?rs)"
    using zv_containers(3) [OF assms(1)] by blast
  have "collect_ok parse_route_v4 (map route_v4_entry ?rs) = Ok (map (carried_route True) ?rs)"
    using range True by (intro collect_ok_map parse_route_v4_entry) (auto simp: routes_in_range_def list_all_iff)
  with v True show ?thesis by (simp add: parse_routes_def carried_ip_def Let_def)
next
  case False
  let ?rs = "filter (\<lambda>r. rt_family r = V6) (ic_routes c)"
  obtain v where v: "zv_v6_routes z (map route_v6_entry ?rs) = Some v"
      "zv_to_v6_routes z v = Some (map route_v6_entry ?rs)"
    using zv_containers(4) [OF assms(1)] by blast
  have "collect_ok parse_route_v6 (map route_v6_entry ?rs) = Ok (map (carried_route False) ?rs)"
    using range False by (intro collect_ok_map parse_route_v6_entry) (auto simp: routes_in_range_def list_all_iff)
  with v False show ?thesis by (simp add: parse_routes_def carried_ip_def Let_def)
qed

lemma parse_method_string: "parse_method (method_string m) = Ok m"
  by (cases m) (simp_all add: parse_method_def method_string_def)

lemma ip_config_round_trip:
  assumes laws: "zv_laws z" and ok: "ip_config_ok v4 c" and range: "routes_in_range v4 c"
  shows "\<exists>sect. ip_config_section z c v4 = Ok sect \<and> parse_ip_config z sect v4 = Ok (carried_ip v4 c)"
proof -
  obtain v where routes: "(if v4
      then zv_v4_routes z (map route_v4_entry (filter (\<lambda>r. rt_family r = V4) (ic_routes c)))
      else zv_v6_routes z (map route_v6_entry (filter (\<lambda>r. rt_family r = V6) (ic_routes c)))) = Some v"
    "sect ''routes'' = Some v \<Longrightarrow> parse_routes z sect v4 = Ok (ic_routes (carried_ip v4 c))" for sect
    using routes_round_trip [OF laws range] by blast
  define rv where "rv = (if ic_routes c \<noteq> [] then Some v else None)"
  have parsed: "sect ''routes'' = rv \<Longrightarrow> parse_routes z sect v4 = Ok (ic_routes (carried_ip v4 c))" for sect
    using routes(2) [of sect]
    by (cases "ic_routes c = []") (simp_all add: rv_def parse_routes_def carried_ip_def Let_def)
  let ?sect = "[''method'' \<mapsto> zv_str z (method_string (ic_method c))]"
  let ?config = "ip_config_default\<lparr> ic_method := ic_method c \<rparr>"
  have section_eq: "ip_config_section z c v4 = Ok (sect(''routes'' := rv))"
    if "(if ic_method c = Manual then manual_section z c ?sect else Ok ?sect) = Ok sect" "sect ''routes'' = None"
    for sect
    using that by (simp add: ip_config_section_def routes(1) expect_def rv_def fun_upd_idem Let_def)
  show ?thesis
  proof (cases "ic_method c = Manual")
    case True
    obtain sect where sect: "manual_section z c ?sect = Ok sect" "sect ''method'' = ?sect ''method''"
        "sect ''routes'' = None"
        "parse_manual z (sect(''routes'' := rv)) v4 ?config = Ok (?config\<lparr> ic_address := ic_address c,
          ic_prefix_length := ic_prefix_length c, ic_gateway := ic_gateway c, ic_dns_servers := ic_dns_servers c \<rparr>)"
      using manual_round_trip [OF laws ok True, of ?sect rv ?config] True by (auto simp: method_string_def)
    then have "parse_ip_config z (sect(''routes'' := rv)) v4 = Ok (carried_ip v4 c)"
      using True parsed [of "sect(''routes'' := rv)"]
      by (simp add: parse_ip_config_def get_str_def zv_scalars [OF laws] parse_method_string carried_ip_def
          ip_config_default_def Let_def)
    with section_eq [of sect] sect(1,3) True show ?thesis by auto
  next
    case False
    then have "parse_ip_config z (?sect(''routes'' := rv)) v4 = Ok (carried_ip v4 c)"
      using parsed [of "?sect(''routes'' := rv)"]
      by (simp add: parse_ip_config_def get_str_def zv_scalars [OF laws] parse_method_string carried_ip_def
          ip_config_default_def Let_def)
    with section_eq [of ?sect] False show ?thesis by auto
  qed
qed

lemma carried_ip_ok: "ip_config_ok v4 c \<Longrightarrow> ip_config_ok v4 (carried_ip v4 c)"
  by (auto simp: ip_config_ok_def carried_ip_def Let_def)

lemma canonical_security_ok: "security_ok (canonical_security k)"
  by (cases k) (simp_all add: security_ok_def canonical_security_def security_open_def security_owe_def
      security_psk_def security_sae_def security_enterprise_def)

lemma carried_type_ok: "type_ok t \<Longrightarrow> type_ok (carried_type t)"
  by (cases t) (auto simp: type_ok_def carried_type_def canonical_security_ok ethernet_default_def)

lemma carried_profile_ok: "profile_ok p \<Longrightarrow> profile_ok (carried_profile p)"
  by (simp add: profile_ok_def carried_profile_def carried_ip_ok carried_type_ok)

lemma base_carried_ok:
  "profile_ok p \<Longrightarrow> profile_ok (base_profile (cp_id p) (cp_id p) (carried_type (cp_connection_type p)))"
  by (simp add: profile_ok_def base_profile_def ip_config_ok_def ip_config_default_def carried_type_ok)

lemma profile_wifi_carried:
  assumes "profile_ok p" "cp_connection_type p = Wifi w"
  shows "profile_wifi (cp_id p) (cp_id p) (wf_ssid w) (canonical_security (ws_key_management (wf_security w)))
    = Ok (base_profile (cp_id p) (cp_id p) (carried_type (cp_connection_type p)))"
  using base_carried_ok [OF assms(1)] assms(2)
  by (simp add: profile_wifi_Ok) (simp add: carried_type_def)

lemma profile_ethernet_carried:
  assumes "profile_ok p" "cp_connection_type p = Ethernet e"
  shows "profile_ethernet (cp_id p) (cp_id p)
    = Ok (base_profile (cp_id p) (cp_id p) (carried_type (cp_connection_type p)))"
  using base_carried_ok [OF assms(1)] assms(2)
  by (simp add: profile_ethernet_Ok) (simp add: carried_type_def)

lemma type_round_trip:
  assumes laws: "zv_laws z" and ok: "profile_ok p"
  shows "\<exists>dict. type_sections z (cp_connection_type p) [''connection'' \<mapsto> sect] = Ok dict \<and>
    dict ''connection'' = Some sect \<and>
    (\<forall>a b. parse_typed z (dict(''ipv4'' \<mapsto> a, ''ipv6'' \<mapsto> b)) (connection_type_string p) (cp_id p) (cp_id p)
      = Ok (base_profile (cp_id p) (cp_id p) (carried_type (cp_connection_type p))))"
proof (cases "cp_connection_type p")
  case (Wifi w)
  let ?k = "ws_key_management (wf_security w)"
  obtain v where v: "zv_bytes z (wf_ssid w) = Some v" "zv_to_bytes z v = Some (wf_ssid w)"
    using zv_containers(1) [OF laws] by blast
  have len: "length (wf_ssid w) \<le> 32" using ok Wifi by (simp add: profile_ok_def type_ok_def)
  have none: "parse_key_management ''none'' = Ok (canonical_security Open)"
    using parse_key_management_string [of Open] by (simp add: key_management_string_def)
  show ?thesis
    using v len profile_wifi_carried [OF ok Wifi] Wifi
    by (cases "?k = Open")
       (simp_all add: type_sections_def wifi_section_def expect_def Let_def parse_typed_def parse_wifi_def
        connection_type_string_def get_bytes_def get_str_def ssid_from_bytes_def zv_scalars [OF laws]
        parse_key_management_string none)
next
  case (Ethernet e)
  with profile_ethernet_carried [OF ok Ethernet] show ?thesis
    by (simp add: type_sections_def parse_typed_def connection_type_string_def)
qed

lemma profile_settings_profile:
  assumes laws: "zv_laws z" and ok: "profile_ok p"
    and range: "routes_in_range True (cp_ipv4 p)" "routes_in_range False (cp_ipv6 p)"
  shows "\<exists>dict. profile_to_settings z p = Ok dict \<and> settings_to_profile z dict = Ok (carried_profile p)"
proof -
  let ?conn = "connection_section z p"
  obtain dict where dict: "type_sections z (cp_connection_type p) [''connection'' \<mapsto> ?conn] = Ok dict"
      "dict ''connection'' = Some ?conn"
      "parse_typed z (dict(''ipv4'' \<mapsto> a, ''ipv6'' \<mapsto> b)) (connection_type_string p) (cp_id p) (cp_id p)
        = Ok (base_profile (cp_id p) (cp_id p) (carried_type (cp_connection_type p)))" for a b
    using type_round_trip [OF laws ok] by blast
  obtain v4 v6 where ip: "ip_config_section z (cp_ipv4 p) True = Ok v4"
      "parse_ip_config z v4 True = Ok (carried_ip True (cp_ipv4 p))"
      "ip_config_section z (cp_ipv6 p) False = Ok v6"
      "parse_ip_config z v6 False = Ok (carried_ip False (cp_ipv6 p))"
    using ip_config_round_trip [OF laws _ range(1)] ip_config_round_trip [OF laws _ range(2)] ok
    by (auto simp: profile_ok_def)
  let ?dict = "dict(''ipv4'' \<mapsto> v4, ''ipv6'' \<mapsto> v6)"
  have conn: "get_str z ?conn ''id'' = Some (cp_id p)"
      "get_str z ?conn ''type'' = Some (connection_type_string p)"
      "get_str z ?conn ''interface-name'' = dm_interface_name (cp_device_match p)"
      "get_bool z ?conn ''autoconnect'' = Some (cp_autoconnect p)"
      "get_i32 z ?conn ''priority'' = Some (cp_priority p)"
    by (simp_all add: connection_section_def get_str_def get_bool_def get_i32_def zv_scalars [OF laws] Let_def
        split: option.splits)
  have valid: "validate (carried_profile p) = Ok ()"
    using carried_profile_ok [OF ok] by (simp add: validate_Ok_iff)
  have "settings_to_profile z ?dict = Ok (carried_profile p)"
    using dict(2,3) conn ip valid
    by (cases "dm_interface_name (cp_device_match p)")
       (simp_all add: settings_to_profile_def connection_overrides_def override_def optional_section_def carried_profile_def
        base_profile_def device_match_default_def Let_def)
  moreover have "profile_to_settings z p = Ok ?dict"
    using dict(1) ip by (simp add: profile_to_settings_def)
  ultimately show ?thesis by blast
qed

section \<open>Concrete values\<close>

text \<open>
  The part of the D-Bus type system the settings use, as an instance of the conversions: it
  satisfies the laws, so they can be discharged on concrete dictionaries.
\<close>

datatype dbus_value =
    DStr string | DU32 u32 | DI32 i32 | DBool bool | DBytes bytes
  | DDicts "(string \<Rightarrow> dbus_value option) list" | DStrs "string list"
  | DV4Routes "u32 list list" | DV6Routes "v6_route list"

definition dbus_zv :: "dbus_value zv" where
  "dbus_zv = \<lparr> zv_str = DStr, zv_u32 = DU32, zv_i32 = DI32, zv_bool = DBool,
     zv_bytes = (\<lambda>b. Some (DBytes b)), zv_dicts = (\<lambda>d. Some (DDicts d)), zv_strs = (\<lambda>s. Some (DStrs s)),
     zv_v4_routes = (\<lambda>r. Some (DV4Routes r)), zv_v6_routes = (\<lambda>r. Some (DV6Routes r)),
     zv_to_str = (\<lambda>v. case v of DStr s \<Rightarrow> Some s | _ \<Rightarrow> None),
     zv_to_u32 = (\<lambda>v. case v of DU32 w \<Rightarrow> Some w | _ \<Rightarrow> None),
     zv_to_i32 = (\<lambda>v. case v of DI32 w \<Rightarrow> Some w | _ \<Rightarrow> None),
     zv_to_bool = (\<lambda>v. case v of DBool b \<Rightarrow> Some b | _ \<Rightarrow> None),
     zv_to_bytes = (\<lambda>v. case v of DBytes b \<Rightarrow> Some b | _ \<Rightarrow> None),
     zv_to_dicts = (\<lambda>v. case v of DDicts d \<Rightarrow> Some d | _ \<Rightarrow> None),
     zv_to_v4_routes = (\<lambda>v. case v of DV4Routes r \<Rightarrow> Some r | _ \<Rightarrow> None),
     zv_to_v6_routes = (\<lambda>v. case v of DV6Routes r \<Rightarrow> Some r | _ \<Rightarrow> None),
     zv_elements = (\<lambda>v. case v of DStrs xs \<Rightarrow> Some (map DStr xs) | _ \<Rightarrow> None),
     zv_as_str = (\<lambda>v. case v of DStr s \<Rightarrow> Some s | _ \<Rightarrow> None) \<rparr>"

lemma dbus_zv_laws: "zv_laws dbus_zv"
  by (simp add: zv_laws_def dbus_zv_def converts_def)

text \<open>A hidden Wi-Fi profile with a static IPv4 configuration and a route.\<close>

definition office_route :: route where
  "office_route = \<lparr> rt_family = V4, rt_destination = V4Addr 0x0A010000, rt_prefix_length = 16,
     rt_gateway = Some (V4Addr 0x0A000001), rt_output_interface = Some 3, rt_metric = Some 100,
     rt_kind = Unicast, rt_scope = Universe \<rparr>"

definition office :: connection_profile where
  "office = (base_profile ''office'' ''Office'' (Wifi \<lparr> wf_ssid = [0x6F, 0x66], wf_bssid = None,
       wf_hidden = True, wf_security = security_psk (Keyring ''psk'') \<rparr>))
     \<lparr> cp_priority := 5, cp_ipv4 := \<lparr> ic_method = Manual, ic_address = Some (V4Addr 0x0A000002),
         ic_prefix_length = Some 8, ic_gateway = Some (V4Addr 0x0A000001),
         ic_dns_servers = [V4Addr 0x01010101, V6Addr 1], ic_routes = [office_route] \<rparr> \<rparr>"

lemma office_ok: "profile_ok office" "routes_in_range True (cp_ipv4 office)"
    "routes_in_range False (cp_ipv6 office)"
  by (simp_all add: profile_ok_def office_def base_profile_def type_ok_def security_ok_def security_psk_def
      ip_config_ok_def ip_config_default_def id_char_ok_def is_ascii_alphanumeric_def is_ipv4_def
      routes_in_range_def office_route_def)

section \<open>What the conversions guarantee\<close>

lemma prefix_in_range:
  "\<not> prefix > (32 :: u32) \<Longrightarrow> (ucast prefix :: u8) \<le> 32" "\<not> prefix > (128 :: u32) \<Longrightarrow> (ucast prefix :: u8) \<le> 128"
  by (simp_all add: word_le_nat_alt word_less_nat_alt unsigned_ucast_eq take_bit_nat_eq_self)

lemma parse_route_v4_Ok: "parse_route_v4 e = Ok r \<Longrightarrow> rt_family r = V4 \<and> rt_prefix_length r \<le> 32"
  by (auto simp: parse_route_v4_def parsed_route_def Let_def prefix_in_range split: if_splits)

lemma parse_route_v6_Ok: "parse_route_v6 e = Ok r \<Longrightarrow> rt_family r = V6 \<and> rt_prefix_length r \<le> 128"
  by (auto simp: parse_route_v6_def parsed_route_def Let_def prefix_in_range split: if_splits prod.splits)

lemma collect_ok_all: "collect_ok f xs = Ok ys \<Longrightarrow> (\<And>x y. f x = Ok y \<Longrightarrow> P y) \<Longrightarrow> \<forall>y \<in> set ys. P y"
  by (induction xs arbitrary: ys) (auto simp: result_simps)

lemma parse_routes_cases:
  assumes "parse_routes z sect v4 = Ok rs"
  obtains "rs = []" | e where "v4" "collect_ok parse_route_v4 e = Ok rs"
    | e where "\<not> v4" "collect_ok parse_route_v6 e = Ok rs"
  using assms by (auto simp: parse_routes_def result_simps split: option.splits if_splits)

lemma parse_routes_Ok:
  assumes "parse_routes z sect v4 = Ok rs"
  shows "\<forall>r \<in> set rs. rt_family r = (if v4 then V4 else V6) \<and> rt_prefix_length r \<le> (if v4 then 32 else 128)"
  using assms
proof (cases rule: parse_routes_cases)
  case (2 e)
  from collect_ok_all [OF this(2), of "\<lambda>r. rt_family r = V4 \<and> rt_prefix_length r \<le> 32"] 2(1)
  show ?thesis by (simp add: parse_route_v4_Ok)
next
  case (3 e)
  from collect_ok_all [OF this(2), of "\<lambda>r. rt_family r = V6 \<and> rt_prefix_length r \<le> 128"] 3(1)
  show ?thesis by (simp add: parse_route_v6_Ok)
qed simp

lemma parse_ip_config_routes: "parse_ip_config z sect v4 = Ok c \<Longrightarrow> routes_in_range v4 c"
  by (auto simp: parse_ip_config_def result_simps Let_def routes_in_range_def list_all_iff
      dest!: parse_routes_Ok)

lemma parse_key_management_Ok:
  "parse_key_management s = Ok sec \<Longrightarrow> \<exists>k. sec = canonical_security k"
  unfolding parse_key_management_def canonical_security_def
  by (auto split: if_splits intro: exI [of _ Open] exI [of _ Owe] exI [of _ WpaPsk] exI [of _ Sae] exI [of _ WpaEap])

lemma parse_typed_Ok:
  assumes "parse_typed z dict t i n = Ok p"
  shows "cp_id p = i \<and> cp_name p = n \<and> cp_enabled p \<and> cp_ipv4 p = ip_config_default \<and>
    cp_ipv6 p = ip_config_default \<and> dm_mac_address (cp_device_match p) = None \<and>
    carried_type (cp_connection_type p) = cp_connection_type p"
proof -
  have idem: "canonical_security (ws_key_management (canonical_security k)) = canonical_security k" for k
    by (cases k) (simp_all add: canonical_security_def security_open_def security_owe_def security_psk_def
        security_sae_def security_enterprise_def)
  show ?thesis
    using assms
    by (auto simp: parse_typed_def parse_wifi_def result_simps profile_wifi_Ok profile_ethernet_Ok
        base_profile_def device_match_default_def carried_type_def idem Let_def dest!: parse_key_management_Ok split: if_splits)
qed

lemma connection_overrides_keep:
  "cp_id (connection_overrides z conn p) = cp_id p" "cp_name (connection_overrides z conn p) = cp_name p"
  "cp_enabled (connection_overrides z conn p) = cp_enabled p"
  "cp_connection_type (connection_overrides z conn p) = cp_connection_type p"
  "dm_mac_address (cp_device_match (connection_overrides z conn p)) = dm_mac_address (cp_device_match p)"
  "cp_ipv4 (connection_overrides z conn p) = cp_ipv4 p" "cp_ipv6 (connection_overrides z conn p) = cp_ipv6 p"
  by (simp_all add: connection_overrides_def override_def Let_def split: option.splits)

lemma default_routes: "routes_in_range v4 ip_config_default"
  by (simp add: routes_in_range_def ip_config_default_def)

lemma optional_section_Ok:
  "optional_section sect parse put p = Ok q \<Longrightarrow>
     (sect = None \<and> q = p) \<or> (\<exists>s c. sect = Some s \<and> parse s = Ok c \<and> q = put c)"
  by (auto simp: optional_section_def result_simps split: option.splits)

lemma ipv4_of_le_zero: "ipv4_of_le w = 0 \<longleftrightarrow> w = 0"
proof -
  have "ipv4_u32 (ipv4_of_le w) = w"
    by (simp add: ipv4_u32_def ipv4_of_le_def to_le_bytes32_def ipv4_octets_of_octets)
  then show ?thesis by (metis ipv4_u32_zero(2))
qed

lemma small_prefix_zero:
  assumes "\<not> prefix > (128 :: u32)"
  shows "(ucast prefix :: u8) = 0 \<longleftrightarrow> prefix = 0"
proof -
  have "unat prefix < 256" using assms by (simp add: word_less_nat_alt)
  then have "unat (ucast prefix :: u8) = unat prefix" by (simp add: unsigned_ucast_eq take_bit_nat_eq_self)
  then show ?thesis by (metis unat_eq_zero)
qed

lemma parse_route_v4_carried: "parse_route_v4 e = Ok r \<Longrightarrow> carried_route True r = r"
proof -
  assume r: "parse_route_v4 e = Ok r"
  have "\<not> prefix > 32 \<Longrightarrow> \<not> prefix > (128 :: u32)" for prefix
    by (simp add: word_less_nat_alt)
  with r show ?thesis
    by (auto simp: parse_route_v4_def parsed_route_def carried_route_def is_ipv4_def ipv4_of_le_zero
        small_prefix_zero Let_def split: if_splits)
qed

lemma parse_route_v6_carried: "parse_route_v6 e = Ok r \<Longrightarrow> carried_route False r = r"
  by (auto simp: parse_route_v6_def parsed_route_def carried_route_def is_ipv4_def is_unspecified_def
      small_prefix_zero Let_def split: if_splits prod.splits)

lemma parse_routes_carried:
  assumes "parse_routes z sect v4 = Ok rs"
  shows "map (carried_route v4) (filter (\<lambda>r. rt_family r = (if v4 then V4 else V6)) rs) = rs"
proof -
  have "\<forall>r \<in> set rs. carried_route v4 r = r"
    using assms
  proof (cases rule: parse_routes_cases)
    case (2 e)
    with collect_ok_all [OF this(2) parse_route_v4_carried] show ?thesis by simp
  next
    case (3 e)
    with collect_ok_all [OF this(2) parse_route_v6_carried] show ?thesis by simp
  qed simp
  moreover have "filter (\<lambda>r. rt_family r = (if v4 then V4 else V6)) rs = rs"
    using parse_routes_Ok [OF assms] by (intro filter_True) auto
  ultimately show ?thesis by (simp add: map_idI)
qed

lemma parse_ip_config_carried: "parse_ip_config z sect v4 = Ok c \<Longrightarrow> carried_ip v4 c = c"
  by (auto simp: parse_ip_config_def parse_manual_def carried_ip_def ip_config_default_def result_simps Let_def
      parse_routes_carried [of _ _ True, simplified] parse_routes_carried [of _ _ False, simplified]
      split: if_splits)

lemma default_carried: "carried_ip v4 ip_config_default = ip_config_default"
  by (simp add: carried_ip_def ip_config_default_def Let_def)

lemma settings_to_profile_Ok:
  assumes "settings_to_profile z dict = Ok p"
  shows "profile_ok p \<and> routes_in_range True (cp_ipv4 p) \<and> routes_in_range False (cp_ipv6 p) \<and>
    cp_enabled p \<and> cp_name p = cp_id p \<and> carried_type (cp_connection_type p) = cp_connection_type p \<and>
    dm_mac_address (cp_device_match p) = None \<and> carried_ip True (cp_ipv4 p) = cp_ipv4 p \<and>
    carried_ip False (cp_ipv6 p) = cp_ipv6 p"
proof -
  obtain conn t i q r4 where q: "parse_typed z dict t i i = Ok q"
    and v4: "optional_section (dict ''ipv4'') (\<lambda>s. parse_ip_config z s True)
      (\<lambda>c. (connection_overrides z conn q)\<lparr> cp_ipv4 := c \<rparr>) (connection_overrides z conn q) = Ok r4"
    and v6: "optional_section (dict ''ipv6'') (\<lambda>s. parse_ip_config z s False)
      (\<lambda>c. r4\<lparr> cp_ipv6 := c \<rparr>) r4 = Ok p"
    and valid: "validate p = Ok ()"
    using assms by (auto simp: settings_to_profile_def result_simps Let_def)
  note keep = connection_overrides_keep [of z conn q]
  show ?thesis
    using parse_typed_Ok [OF q] keep optional_section_Ok [OF v4] optional_section_Ok [OF v6] valid
    by (auto simp: validate_Ok_iff default_routes default_carried dest: parse_ip_config_routes parse_ip_config_carried)
qed

lemma length_show_hex: "n < 16 ^ Suc k \<Longrightarrow> length (show_hex n) \<le> Suc k"
proof (induction k arbitrary: n)
  case 0
  then show ?case by (subst show_hex.simps) simp
next
  case (Suc k)
  then have "n div 16 < 16 ^ Suc k" by (simp add: div_less_iff_less_mult)
  with Suc.IH [of "n div 16"] show ?case by (subst show_hex.simps) simp
qed

definition lower_hex :: "char \<Rightarrow> bool" where
  "lower_hex c \<longleftrightarrow> c \<in> set ''0123456789abcdef''"

lemma lower_hex_digit: "d < 16 \<Longrightarrow> lower_hex (hex_digit d)"
proof -
  have "list_all (\<lambda>d. lower_hex (hex_digit d)) [0..<16]" by code_simp
  then show "d < 16 \<Longrightarrow> lower_hex (hex_digit d)" by (simp add: list_all_iff)
qed

lemma show_hex_digits: "list_all lower_hex (show_hex n)"
proof (induction n rule: show_hex.induct)
  case (1 n)
  then show ?case by (cases "n < 16") (simp_all add: show_hex.simps [of n] lower_hex_digit)
qed

lemma hex_padded_form:
  assumes "n < 16 ^ Suc k"
  shows "length (hex_padded (Suc k) n) = Suc k" "list_all lower_hex (hex_padded (Suc k) n)"
proof -
  show "length (hex_padded (Suc k) n) = Suc k"
    using length_show_hex [OF assms] by (simp add: hex_padded_def Let_def)
  have "lower_hex CHR ''0''" by code_simp
  then show "list_all lower_hex (hex_padded (Suc k) n)"
    using show_hex_digits [of n] by (auto simp: hex_padded_def Let_def list_all_iff)
qed

lemma masked_small: "unat ((w :: u64) AND mask n) < 2 ^ n" "unat (ucast ((w :: u64) AND mask n) :: u16) < 2 ^ n"
proof -
  show less: "unat (w AND mask n) < 2 ^ n"
    by (simp add: unsigned_take_bit_eq flip: take_bit_eq_mask)
  show "unat (ucast (w AND mask n) :: u16) < 2 ^ n"
    by (rule le_less_trans [OF _ less]) (simp add: unsigned_ucast_eq)
qed

lemma filter_dash_hex: "list_all lower_hex xs \<Longrightarrow> filter (\<lambda>c. c \<noteq> CHR ''-'') xs = xs"
proof -
  have "\<not> lower_hex CHR ''-''" by code_simp
  then show "list_all lower_hex xs \<Longrightarrow> filter (\<lambda>c. c \<noteq> CHR ''-'') xs = xs"
    by (intro filter_True) (auto simp: list_all_iff)
qed

lemma stable_uuid_parts:
  "\<exists>a b c d e. stable_uuid i = a @ ''-'' @ b @ ''-5'' @ c @ ''-8'' @ d @ ''-'' @ e \<and>
     length a = 8 \<and> length b = 4 \<and> length c = 3 \<and> length d = 3 \<and> length e = 12 \<and>
     list_all lower_hex a \<and> list_all lower_hex b \<and> list_all lower_hex c \<and> list_all lower_hex d \<and> list_all lower_hex e"
proof -
  define first where "first = fnv1a (string_bytes i) 0xcbf29ce484222325"
  define second where "second = fnv1a (string_bytes i) 0x84222325cbf29ce4"
  define a b c d e where parts: "a = unat (ucast (drop_bit 32 first) :: u32)"
    "b = unat (ucast (first AND 0xffff) :: u16)" "c = unat (ucast (drop_bit 16 first AND 0x0fff) :: u16)"
    "d = unat (ucast (second AND 0x0fff) :: u16)" "e = unat (drop_bit 16 second AND 0xffffffffffff)"
  have masks: "(0x0fff :: u64) = mask 12" "(0xffffffffffff :: u64) = mask 48" by (simp_all add: mask_eq_exp_minus_1)
  have small: "a < 16 ^ Suc 7" "b < 16 ^ Suc 3" "c < 16 ^ Suc 2" "d < 16 ^ Suc 2" "e < 16 ^ Suc 11"
    using unsigned_less [of "ucast (drop_bit 32 first) :: u32"] unsigned_less [of "ucast (first AND 0xffff) :: u16"]
      masked_small(2) [of "drop_bit 16 first" 12] masked_small(2) [of second 12]
      masked_small(1) [of "drop_bit 16 second" 48]
    by (simp_all add: parts masks)
  note forms = hex_padded_form [OF small(1)] hex_padded_form [OF small(2)] hex_padded_form [OF small(3)]
    hex_padded_form [OF small(4)] hex_padded_form [OF small(5)]
  have "stable_uuid i = hex_padded 8 a @ ''-'' @ hex_padded 4 b @ ''-5'' @ hex_padded 3 c @ ''-8''
      @ hex_padded 3 d @ ''-'' @ hex_padded 12 e"
    by (simp add: stable_uuid_def parts first_def second_def Let_def)
  then show ?thesis
    using forms by (intro exI [of _ "hex_padded 8 a"] exI [of _ "hex_padded 4 b"] exI [of _ "hex_padded 3 c"]
        exI [of _ "hex_padded 3 d"] exI [of _ "hex_padded 12 e"]) auto
qed

section \<open>Properties\<close>



text \<open>C33. Every profile the settings conversion accepts is well formed: it passes
  validation, its routes have prefixes of their family, it is enabled, named after its id, and holds
  nothing a dictionary cannot carry (so no secret but the fixed reference of its key management).\<close>

theorem settings_to_profile_typed:
  assumes "settings_to_profile z dict = Ok p"
  shows "profile_ok p \<and> routes_in_range True (cp_ipv4 p) \<and> routes_in_range False (cp_ipv6 p) \<and>
    cp_enabled p \<and> cp_name p = cp_id p \<and> carried_profile p = p"
  using settings_to_profile_Ok [OF assms] by (simp add: carried_profile_def)

theorem settings_to_profile_typed_witness:
  "\<exists>p. settings_to_profile dbus_zv [''connection'' \<mapsto> [''id'' \<mapsto> DStr ''lan'', ''type'' \<mapsto> DStr ''802-3-ethernet'']] = Ok p \<and>
     profile_ok p \<and> cp_name p = ''lan''"
proof -
  let ?dict = "[''connection'' \<mapsto> [''id'' \<mapsto> DStr ''lan'', ''type'' \<mapsto> DStr ''802-3-ethernet'']]"
  have id_ok: "list_all id_char_ok ''lan''" by (simp add: id_char_ok_def is_ascii_alphanumeric_def)
  have "settings_to_profile dbus_zv ?dict = Ok (base_profile ''lan'' ''lan'' (Ethernet ethernet_default))"
    using id_ok by (simp add: settings_to_profile_def dbus_zv_def get_str_def get_bool_def get_i32_def parse_typed_def
        profile_ethernet_def connection_overrides_def override_def optional_section_def validate_def validate_type_def
        validate_ip_config_def base_profile_def ethernet_default_def ip_config_default_def Let_def)
  moreover from settings_to_profile_typed [OF this] have "profile_ok (base_profile ''lan'' ''lan'' (Ethernet ethernet_default))"
    by blast
  ultimately show ?thesis by (simp add: base_profile_def)
qed

text \<open>C34. Secrets never cross the bus. The dictionary of a Wi-Fi profile does not depend on
  its secret reference or identity, and reading a dictionary does not depend on any entry of the security
  section but the key management: a passphrase sent by a client is not stored.\<close>

theorem secrets_never_cross:
  "profile_to_settings z (p\<lparr> cp_connection_type :=
       Wifi (w\<lparr> wf_security := (wf_security w)\<lparr> ws_secret := s, ws_identity := i \<rparr> \<rparr>) \<rparr>) =
     profile_to_settings z (p\<lparr> cp_connection_type := Wifi w \<rparr>) \<and>
   (k \<noteq> ''key-mgmt'' \<longrightarrow>
     settings_to_profile z (dict(''802-11-wireless-security'' \<mapsto> sect(k \<mapsto> v))) =
     settings_to_profile z (dict(''802-11-wireless-security'' \<mapsto> sect)))"
proof (intro conjI impI)
  show "profile_to_settings z (p\<lparr> cp_connection_type :=
       Wifi (w\<lparr> wf_security := (wf_security w)\<lparr> ws_secret := s, ws_identity := i \<rparr> \<rparr>) \<rparr>) =
     profile_to_settings z (p\<lparr> cp_connection_type := Wifi w \<rparr>)"
    by (simp add: profile_to_settings_def type_sections_def wifi_section_def connection_section_def
        connection_type_string_def Let_def cong: if_cong)
  assume "k \<noteq> ''key-mgmt''"
  then have "parse_typed z (dict(''802-11-wireless-security'' \<mapsto> sect(k \<mapsto> v))) t i n =
      parse_typed z (dict(''802-11-wireless-security'' \<mapsto> sect)) t i n" for t i n
    by (simp add: parse_typed_def parse_wifi_def get_str_def)
  then show "settings_to_profile z (dict(''802-11-wireless-security'' \<mapsto> sect(k \<mapsto> v))) =
      settings_to_profile z (dict(''802-11-wireless-security'' \<mapsto> sect))"
    by (simp add: settings_to_profile_def)
qed

theorem secrets_never_cross_witness:
  "settings_to_profile dbus_zv (Map.empty(''802-11-wireless-security'' \<mapsto> Map.empty(''psk'' \<mapsto> DStr ''hunter2''))) =
   settings_to_profile dbus_zv (Map.empty(''802-11-wireless-security'' \<mapsto> Map.empty))"
  using secrets_never_cross [of dbus_zv _ _ _ _ "''psk''" Map.empty Map.empty "DStr ''hunter2''"] by simp

text \<open>The identifier of a connection has the form of a version 5 UUID, and the object
  path made from it is valid: after the prefix it consists of 32 hexadecimal digits.\<close>

theorem connection_path_form:
  "\<exists>digits. settings_connection_path (stable_uuid i) = ''/org/freedesktop/NetworkManager/Settings/'' @ digits \<and>
     length digits = 32 \<and> list_all lower_hex digits \<and>
     length (stable_uuid i) = 36 \<and> stable_uuid i ! 14 = CHR ''5'' \<and> stable_uuid i ! 19 = CHR ''8''"
proof -
  obtain a b c d e where u: "stable_uuid i = a @ ''-'' @ b @ ''-5'' @ c @ ''-8'' @ d @ ''-'' @ e"
    and len: "length a = 8" "length b = 4" "length c = 3" "length d = 3" "length e = 12"
    and hex: "list_all lower_hex a" "list_all lower_hex b" "list_all lower_hex c" "list_all lower_hex d"
      "list_all lower_hex e"
    using stable_uuid_parts by blast
  let ?digits = "a @ b @ ''5'' @ c @ ''8'' @ d @ e"
  have "lower_hex CHR ''5''" "lower_hex CHR ''8''" by code_simp+
  then have "length ?digits = 32" "list_all lower_hex ?digits" using len hex by simp_all
  moreover have "settings_connection_path (stable_uuid i) = ''/org/freedesktop/NetworkManager/Settings/'' @ ?digits"
    by (simp add: u settings_connection_path_def filter_dash_hex hex)
  moreover have "length (stable_uuid i) = 36" "stable_uuid i ! 14 = CHR ''5''" "stable_uuid i ! 19 = CHR ''8''"
    using len by (simp_all add: u nth_append)
  ultimately show ?thesis by blast
qed

text \<open>
  The prefix of a manual address is cut to eight bits before it is validated: the dictionary below asks for
  a prefix of 264 bits and is read as a prefix of 8.
\<close>

lemma parse_example: "parse_ip_addr ''10.0.0.1'' = Some (V4Addr 0x0A000001)"
proof -
  have "ip_addr_string (V4Addr 0x0A000001) = ''10.0.0.1''" by code_simp
  then show ?thesis using parse_ip_addr_string [of "V4Addr 0x0A000001"] by simp
qed

lemma manual_prefix_truncated:
  "map_ok ic_prefix_length (parse_ip_config dbus_zv
     [''method'' \<mapsto> DStr ''manual'',
      ''address-data'' \<mapsto> DDicts [[''address'' \<mapsto> DStr ''10.0.0.1'', ''prefix'' \<mapsto> DU32 264]]] True) =
   Ok (Some 8)"
  by (simp add: parse_ip_config_def parse_manual_def parse_method_def dbus_zv_def get_str_def get_dict_array_def
      get_u32_def get_str_array_def parse_routes_def parse_example is_ipv4_def Let_def)

end
