(* ===== verification/Nm_Bus.thy ===== *)
theory Nm_Bus
  imports Nm_Daemon Nm_Convert
begin

text \<open>
  The state behind the D-Bus objects (\<^verbatim>\<open>src/dbus/shared.rs\<close>) and the device view
  (\<^verbatim>\<open>src/dbus/device.rs\<close>): the daemon, the registry of objects, and the signals that mirror
  the daemon's events. The bus library is a parameter: whether a path is valid, and the effects of
  registering an object, removing it and sending a signal, each of which may fail.
\<close>

section \<open>The bus library\<close>

datatype iface =
    DeviceIface i32 | WiredIface i32 | WirelessIface i32 | StatisticsIface
  | SettingsConnectionIface profile_id
  | ActiveConnectionIface active_id | Ip4ConfigIface active_id | Ip6ConfigIface active_id
  | Dhcp4ConfigIface active_id | Dhcp6ConfigIface active_id
  | AccessPointIface mac | RootIface | SettingsIface

datatype iface_type =
    TDevice | TWired | TWireless | TStatistics | TSettingsConnection
  | TActiveConnection | TIp4Config | TIp6Config | TDhcp4Config | TDhcp6Config | TAccessPoint

datatype 'v signal =
    SgRootStateChanged u32
  | SgActiveConnectionAdded string
  | SgActiveConnectionRemoved string
  | SgNewConnection string
  | SgConnectionUpdated
  | SgConnectionRemoved
  | SgActiveStateChanged u32 u32 u32
  | SgDeviceStateChanged u32 u32 u32
  | SgPropertiesChanged string "(string \<times> 'v) list" "string list"

text \<open>
  An error of the library: a failure the program reports through it, an invalid path, or another
  one. Its text is chosen by the library.
\<close>

datatype zbus_error = ZFailure string | ZVariant string | ZOther string

record ('z, 'v) server_ops =
  sv_error_text :: "zbus_error \<Rightarrow> string"
  sv_path :: "string \<Rightarrow> (unit, string) result"
  sv_emitter :: "'z \<Rightarrow> string \<Rightarrow> (unit, zbus_error) result"
  sv_at :: "'z \<Rightarrow> string \<Rightarrow> iface \<Rightarrow> (bool, zbus_error) result \<times> 'z"
  sv_remove :: "'z \<Rightarrow> string \<Rightarrow> iface_type \<Rightarrow> (bool, zbus_error) result \<times> 'z"
  sv_emit :: "'z \<Rightarrow> string \<Rightarrow> 'v signal \<Rightarrow> (unit, zbus_error) result \<times> 'z"

text \<open>Everything the facade works with, and its state.\<close>

record ('b, 'src, 's, 'e, 'z, 'v, 'p) facade =
  fa_backend :: "('b, 'src) backend_ops"
  fa_store :: "'s store_ops"
  fa_engine :: "'e engine_ops"
  fa_server :: "('z, 'v) server_ops"
  fa_values :: "'v zv"
  fa_policy :: "'p authorization"

record ('b, 's, 'e, 'z, 'p) shared =
  sh_daemon :: "('b, 's, 'e) daemon"
  sh_conn :: 'z
  sh_connections :: "profile_id \<rightharpoonup> string"
  sh_devices :: "i32 \<rightharpoonup> string"
  sh_device_states :: "i32 \<rightharpoonup> u32"
  sh_access_points :: "mac list"
  sh_active_connections :: "active_id list"
  sh_root_state :: u32
  sh_authorization :: 'p

definition with_authorization :: "('b, 's, 'e) daemon \<Rightarrow> 'z \<Rightarrow> 'p \<Rightarrow> ('b, 's, 'e, 'z, 'p) shared" where
  "with_authorization d conn policy = \<lparr> sh_daemon = d, sh_conn = conn, sh_connections = Map.empty,
     sh_devices = Map.empty, sh_device_states = Map.empty, sh_access_points = [],
     sh_active_connections = [], sh_root_state = NM_STATE_DISCONNECTED, sh_authorization = policy \<rparr>"

section \<open>Handlers\<close>

text \<open>
  A handler takes the state to a result and a new state. \<open>act_then\<close> is \<open>?\<close>: an error ends
  the handler, the state it has reached is kept.
\<close>

type_synonym ('w, 'a, 'x) act = "'w \<Rightarrow> ('a, 'x) result \<times> 'w"

definition act_return :: "'a \<Rightarrow> ('w, 'a, 'x) act" where
  "act_return x w = (Ok x, w)"

definition act_result :: "('a, 'x) result \<Rightarrow> ('w, 'a, 'x) act" where
  "act_result r w = (r, w)"

definition act_then :: "('w, 'a, 'x) act \<Rightarrow> ('a \<Rightarrow> ('w, 'b, 'x) act) \<Rightarrow> ('w, 'b, 'x) act" where
  "act_then m f w = (case m w of (Ok x, w') \<Rightarrow> f x w' | (Err e, w') \<Rightarrow> (Err e, w'))"

definition act_map_err :: "('x \<Rightarrow> 'y) \<Rightarrow> ('w, 'a, 'x) act \<Rightarrow> ('w, 'a, 'y) act" where
  "act_map_err g m w = (case m w of (r, w') \<Rightarrow> (map_err g r, w'))"

definition act_get :: "('w \<Rightarrow> 'a) \<Rightarrow> ('w, 'a, 'x) act" where
  "act_get f w = (Ok (f w), w)"

definition act_set :: "('w \<Rightarrow> 'w) \<Rightarrow> ('w, unit, 'x) act" where
  "act_set f w = (Ok (), f w)"

text \<open>\<open>.ok()\<close>: an error becomes \<^const>\<open>None\<close>; \<open>let _ = ...\<close> drops the result.\<close>

definition act_ok :: "('w, 'a, 'x) act \<Rightarrow> ('w, 'a option, 'y) act" where
  "act_ok m w = (case m w of (r, w') \<Rightarrow> (Ok (result_ok r), w'))"

definition act_ignore :: "('w, 'a, 'x) act \<Rightarrow> ('w, unit, 'y) act" where
  "act_ignore m w = (Ok (), snd (m w))"

fun act_each :: "('a \<Rightarrow> ('w, unit, 'x) act) \<Rightarrow> 'a list \<Rightarrow> ('w, unit, 'x) act" where
  "act_each f [] = act_return ()"
| "act_each f (x # xs) = act_then (f x) (\<lambda>_. act_each f xs)"

text \<open>A call on the daemon and on the bus connection.\<close>

definition on_daemon ::
  "(('b, 's, 'e) daemon \<Rightarrow> ('a, 'x) result \<times> ('b, 's, 'e) daemon) \<Rightarrow> (('b, 's, 'e, 'z, 'p) shared, 'a, 'x) act" where
  "on_daemon f w = (case f (sh_daemon w) of (r, d) \<Rightarrow> (r, w\<lparr> sh_daemon := d \<rparr>))"

definition on_conn ::
  "('z \<Rightarrow> ('a, 'x) result \<times> 'z) \<Rightarrow> (('b, 's, 'e, 'z, 'p) shared, 'a, 'x) act" where
  "on_conn f w = (case f (sh_conn w) of (r, c) \<Rightarrow> (r, w\<lparr> sh_conn := c \<rparr>))"

section \<open>Authorization\<close>

definition authorize ::
  "('b, 'src, 's, 'e, 'z, 'v, 'p) facade \<Rightarrow> string option \<Rightarrow> string \<Rightarrow> (('b, 's, 'e, 'z, 'p) shared, unit, facade_error) act" where
  "authorize fa sender action w =
     (case authorize_call (fa_policy fa) (sh_authorization w) sender action of
        (r, p) \<Rightarrow> (r, w\<lparr> sh_authorization := p \<rparr>))"

definition permission ::
  "('b, 'src, 's, 'e, 'z, 'v, 'p) facade \<Rightarrow> string option \<Rightarrow> string \<Rightarrow> (('b, 's, 'e, 'z, 'p) shared, string, facade_error) act" where
  "permission fa sender action w =
     (case permission_string (fa_policy fa) (sh_authorization w) sender action of
        (r, p) \<Rightarrow> (Ok r, w\<lparr> sh_authorization := p \<rparr>))"

section \<open>Devices\<close>

datatype nm_device_kind = NmWifi | NmEthernet | NmLoopback

definition nm_type :: "nm_device_kind \<Rightarrow> u32" where
  "nm_type k = (case k of NmWifi \<Rightarrow> NM_DEVICE_TYPE_WIFI | NmEthernet \<Rightarrow> NM_DEVICE_TYPE_ETHERNET
     | NmLoopback \<Rightarrow> NM_DEVICE_TYPE_LOOPBACK)"

definition nm_driver :: "nm_device_kind \<Rightarrow> string" where
  "nm_driver k = (case k of NmWifi \<Rightarrow> ''wifi'' | NmEthernet \<Rightarrow> ''ethernet'' | NmLoopback \<Rightarrow> ''loopback'')"

definition domain_kind :: "nm_device_kind \<Rightarrow> device_kind" where
  "domain_kind k = (case k of NmWifi \<Rightarrow> WifiDevice | NmEthernet \<Rightarrow> EthernetDevice | NmLoopback \<Rightarrow> EthernetDevice)"

record device_view =
  dv_index :: i32
  dv_interface :: string
  dv_kind :: nm_device_kind
  dv_mac :: "mac option"
  dv_up :: bool

definition to_device_info :: "device_view \<Rightarrow> device_info" where
  "to_device_info v = \<lparr> dev_kind = domain_kind (dv_kind v), dev_interface_name = dv_interface v,
     dev_mac_address = dv_mac v \<rparr>"

definition wifi_view :: "wireless_interface \<Rightarrow> device_view" where
  "wifi_view i = \<lparr> dv_index = wi_index i, dv_interface = wi_name i, dv_kind = NmWifi,
     dv_mac = wi_mac i, dv_up = wi_up i \<rparr>"

definition link_view :: "link \<Rightarrow> device_view" where
  "link_view l = \<lparr> dv_index = link_index l, dv_interface = link_name l,
     dv_kind = (if link_is_loopback (link_flags l) then NmLoopback else NmEthernet),
     dv_mac = None, dv_up = link_is_up (link_flags l) \<rparr>"

definition index_le :: "device_view \<Rightarrow> device_view \<Rightarrow> bool" where
  "index_le v w \<longleftrightarrow> sint (dv_index v) \<le> sint (dv_index w)"

definition merge_devices :: "wireless_interface list \<Rightarrow> link list \<Rightarrow> device_view list" where
  "merge_devices wifi links =
     sort_by index_le (foldl (\<lambda>devices l.
       if list_ex (\<lambda>v. dv_index v = link_index l) devices then devices else devices @ [link_view l])
       (map wifi_view wifi) links)"

definition enumerate_devices ::
  "('b, 'src, 's, 'e, 'z, 'v, 'p) facade \<Rightarrow> (('b, 's, 'e, 'z, 'p) shared, device_view list, facade_error) act" where
  "enumerate_devices fa =
     act_then (act_map_err facade_of_netlink (on_daemon (daemon_wifi_interfaces (fa_backend fa)))) (\<lambda>wifi.
     act_then (act_map_err facade_of_netlink (on_daemon (daemon_links (fa_backend fa)))) (\<lambda>links.
     act_return (merge_devices wifi links)))"

definition connection_to_device_state :: "connection_state \<Rightarrow> u32" where
  "connection_to_device_state s = (case s of
       Preparing \<Rightarrow> NM_DEVICE_STATE_PREPARE | Configuring \<Rightarrow> NM_DEVICE_STATE_CONFIG
     | Activating \<Rightarrow> NM_DEVICE_STATE_IP_CONFIG | Activated \<Rightarrow> NM_DEVICE_STATE_ACTIVATED
     | Deactivating \<Rightarrow> NM_DEVICE_STATE_DEACTIVATING | Failed \<Rightarrow> NM_DEVICE_STATE_FAILED
     | Unknown \<Rightarrow> NM_DEVICE_STATE_DISCONNECTED | Disconnected \<Rightarrow> NM_DEVICE_STATE_DISCONNECTED)"

definition device_active :: "('b, 's, 'e, 'z, 'p) shared \<Rightarrow> string \<Rightarrow> active_connection option" where
  "device_active w name =
     List.find (\<lambda>a. dev_interface_name (ac_device a) = name) (daemon_active_connections (sh_daemon w))"

definition active_by_id :: "('b, 's, 'e, 'z, 'p) shared \<Rightarrow> active_id \<Rightarrow> active_connection option" where
  "active_by_id w aid = List.find (\<lambda>a. ac_id a = aid) (daemon_active_connections (sh_daemon w))"

definition device_view_at ::
  "('b, 'src, 's, 'e, 'z, 'v, 'p) facade \<Rightarrow> i32 \<Rightarrow> (('b, 's, 'e, 'z, 'p) shared, device_view, facade_error) act" where
  "device_view_at fa index =
     act_then (enumerate_devices fa) (\<lambda>devices.
     act_result (ok_or (List.find (\<lambda>v. dv_index v = index) devices)
       (FeUnknownDevice (''device '' @ show_i32 index))))"

definition device_index_by_name ::
  "('b, 'src, 's, 'e, 'z, 'v, 'p) facade \<Rightarrow> string \<Rightarrow> (('b, 's, 'e, 'z, 'p) shared, i32 option, 'x) act" where
  "device_index_by_name fa name =
     act_then (act_ok (enumerate_devices fa)) (\<lambda>devices.
     act_return (Option.bind devices (\<lambda>ds. map_option dv_index (List.find (\<lambda>v. dv_interface v = name) ds))))"

definition state_of_view :: "device_view \<Rightarrow> active_connection option \<Rightarrow> u32" where
  "state_of_view v active =
     (if (case active of None \<Rightarrow> False
          | Some a \<Rightarrow> dev_interface_name (ac_device a) = dv_interface v \<and> ac_state a = Activated)
      then NM_DEVICE_STATE_ACTIVATED
      else if dv_up v then NM_DEVICE_STATE_DISCONNECTED else NM_DEVICE_STATE_UNAVAILABLE)"

definition device_state ::
  "('b, 'src, 's, 'e, 'z, 'v, 'p) facade \<Rightarrow> i32 \<Rightarrow> (('b, 's, 'e, 'z, 'p) shared, u32 option, 'x) act" where
  "device_state fa index =
     act_then (act_ok (enumerate_devices fa)) (\<lambda>devices.
     case Option.bind devices (List.find (\<lambda>v. dv_index v = index)) of
       None \<Rightarrow> act_return None
     | Some view \<Rightarrow> act_get (\<lambda>w. Some (state_of_view view (device_active w (dv_interface view)))))"

fun min_index :: "i32 list \<Rightarrow> i32 option" where
  "min_index [] = None"
| "min_index (i # is) = (case min_index is of
     None \<Rightarrow> Some i | Some j \<Rightarrow> Some (if sint i \<le> sint j then i else j))"

definition primary_wifi :: "device_view list \<Rightarrow> i32 option" where
  "primary_wifi devices = min_index (map dv_index (filter (\<lambda>v. dv_kind v = NmWifi) devices))"

section \<open>The object registry\<close>

definition at_path ::
  "('b, 'src, 's, 'e, 'z, 'v, 'p) facade \<Rightarrow> string \<Rightarrow> iface \<Rightarrow> (('b, 's, 'e, 'z, 'p) shared, unit, zbus_error) act" where
  "at_path fa path i =
     act_then (act_result (map_err ZVariant (sv_path (fa_server fa) path))) (\<lambda>_.
     act_then (on_conn (\<lambda>c. sv_at (fa_server fa) c path i)) (\<lambda>_. act_return ()))"

definition remove_iface ::
  "('b, 'src, 's, 'e, 'z, 'v, 'p) facade \<Rightarrow> string \<Rightarrow> iface_type \<Rightarrow> (('b, 's, 'e, 'z, 'p) shared, bool, zbus_error) act" where
  "remove_iface fa path t = on_conn (\<lambda>c. sv_remove (fa_server fa) c path t)"

definition register_device_object ::
  "('b, 'src, 's, 'e, 'z, 'v, 'p) facade \<Rightarrow> device_view \<Rightarrow> (('b, 's, 'e, 'z, 'p) shared, unit, zbus_error) act" where
  "register_device_object fa view =
     (let path = device_path (dv_index view) in
      act_then (at_path fa path (DeviceIface (dv_index view))) (\<lambda>_.
      act_then (case dv_kind view of
          NmWifi \<Rightarrow> at_path fa path (WirelessIface (dv_index view))
        | NmEthernet \<Rightarrow> at_path fa path (WiredIface (dv_index view))
        | NmLoopback \<Rightarrow> at_path fa path (WiredIface (dv_index view))) (\<lambda>_.
      act_then (at_path fa path StatisticsIface) (\<lambda>_.
      act_then (act_set (\<lambda>w. w\<lparr> sh_devices := (sh_devices w)(dv_index view \<mapsto> dv_interface view) \<rparr>)) (\<lambda>_.
      act_then (device_state fa (dv_index view)) (\<lambda>state.
      act_set (\<lambda>w. w\<lparr> sh_device_states := (sh_device_states w)(dv_index view \<mapsto>
        (case state of None \<Rightarrow> NM_DEVICE_STATE_UNKNOWN | Some s \<Rightarrow> s)) \<rparr>)))))))"

definition unregister_device ::
  "('b, 'src, 's, 'e, 'z, 'v, 'p) facade \<Rightarrow> i32 \<Rightarrow> (('b, 's, 'e, 'z, 'p) shared, unit, facade_error) act" where
  "unregister_device fa index =
     (let path = device_path index in
      act_then (act_each (\<lambda>t. act_ignore (remove_iface fa path t)) [TDevice, TWired, TWireless, TStatistics]) (\<lambda>_.
      act_set (\<lambda>w. w\<lparr> sh_devices := (sh_devices w)(index := None),
                       sh_device_states := (sh_device_states w)(index := None) \<rparr>)))"

definition is_device_registered :: "('b, 's, 'e, 'z, 'p) shared \<Rightarrow> i32 \<Rightarrow> bool" where
  "is_device_registered w index \<longleftrightarrow> sh_devices w index \<noteq> None"

definition take_device_interface :: "i32 \<Rightarrow> (('b, 's, 'e, 'z, 'p) shared, string option, 'x) act" where
  "take_device_interface index w =
     (Ok (sh_devices w index), w\<lparr> sh_devices := (sh_devices w)(index := None) \<rparr>)"

definition register_connection_object ::
  "('b, 'src, 's, 'e, 'z, 'v, 'p) facade \<Rightarrow> connection_profile \<Rightarrow> (('b, 's, 'e, 'z, 'p) shared, unit, zbus_error) act" where
  "register_connection_object fa p =
     (let path = settings_connection_path (stable_uuid (cp_id p)) in
      act_then (at_path fa path (SettingsConnectionIface (cp_id p))) (\<lambda>_.
      act_set (\<lambda>w. w\<lparr> sh_connections := (sh_connections w)(cp_id p \<mapsto> path) \<rparr>)))"

definition active_objects :: "active_id \<Rightarrow> (string \<times> iface) list" where
  "active_objects aid = [(active_path aid, ActiveConnectionIface aid), (ip4_path aid, Ip4ConfigIface aid),
     (ip6_path aid, Ip6ConfigIface aid), (dhcp4_path aid, Dhcp4ConfigIface aid),
     (dhcp6_path aid, Dhcp6ConfigIface aid)]"

definition register_active_connection_object ::
  "('b, 'src, 's, 'e, 'z, 'v, 'p) facade \<Rightarrow> active_connection \<Rightarrow> (('b, 's, 'e, 'z, 'p) shared, unit, zbus_error) act" where
  "register_active_connection_object fa active =
     act_then (act_each (\<lambda>(path, i). at_path fa path i) (active_objects (ac_id active))) (\<lambda>_.
     act_set (\<lambda>w. w\<lparr> sh_active_connections :=
       (if ac_id active \<in> set (sh_active_connections w) then sh_active_connections w
        else sh_active_connections w @ [ac_id active]) \<rparr>))"

definition unregister_active_connection ::
  "('b, 'src, 's, 'e, 'z, 'v, 'p) facade \<Rightarrow> active_id \<Rightarrow> (('b, 's, 'e, 'z, 'p) shared, unit, facade_error) act" where
  "unregister_active_connection fa aid =
     act_then (act_each (\<lambda>(path, t). act_ignore (remove_iface fa path t))
       [(active_path aid, TActiveConnection), (ip4_path aid, TIp4Config), (ip6_path aid, TIp6Config),
        (dhcp4_path aid, TDhcp4Config), (dhcp6_path aid, TDhcp6Config)]) (\<lambda>_.
     act_set (\<lambda>w. w\<lparr> sh_active_connections := filter (\<lambda>a. a \<noteq> aid) (sh_active_connections w) \<rparr>))"

definition is_active_connection_registered :: "('b, 's, 'e, 'z, 'p) shared \<Rightarrow> active_id \<Rightarrow> bool" where
  "is_active_connection_registered w aid \<longleftrightarrow> aid \<in> set (sh_active_connections w)"

definition register_access_point_object ::
  "('b, 'src, 's, 'e, 'z, 'v, 'p) facade \<Rightarrow> mac \<Rightarrow> (('b, 's, 'e, 'z, 'p) shared, unit, zbus_error) act" where
  "register_access_point_object fa bssid =
     act_then (act_map_err (\<lambda>e. ZFailure (facade_error_string e)) (enumerate_devices fa)) (\<lambda>devices.
     let primary = (case primary_wifi devices of None \<Rightarrow> 0 | Some i \<Rightarrow> i) in
     act_then (at_path fa (access_point_path primary bssid) (AccessPointIface bssid)) (\<lambda>_.
     act_set (\<lambda>w. w\<lparr> sh_access_points :=
       (if bssid \<in> set (sh_access_points w) then sh_access_points w else sh_access_points w @ [bssid]) \<rparr>)))"

definition unregister_access_point ::
  "('b, 'src, 's, 'e, 'z, 'v, 'p) facade \<Rightarrow> mac \<Rightarrow> (('b, 's, 'e, 'z, 'p) shared, unit, facade_error) act" where
  "unregister_access_point fa bssid =
     act_then (act_ok (enumerate_devices fa)) (\<lambda>devices.
     let primary = (case primary_wifi (case devices of None \<Rightarrow> [] | Some ds \<Rightarrow> ds) of None \<Rightarrow> 0 | Some i \<Rightarrow> i) in
     act_then (act_ignore (remove_iface fa (access_point_path primary bssid) TAccessPoint)) (\<lambda>_.
     act_set (\<lambda>w. w\<lparr> sh_access_points := filter (\<lambda>b. b \<noteq> bssid) (sh_access_points w) \<rparr>)))"

definition register_all ::
  "('b, 'src, 's, 'e, 'z, 'v, 'p) facade \<Rightarrow> (('b, 's, 'e, 'z, 'p) shared, unit, zbus_error) act" where
  "register_all fa =
     act_then (act_map_err (\<lambda>e. ZFailure (facade_error_string e)) (enumerate_devices fa)) (\<lambda>devices.
     act_then (act_map_err (\<lambda>e. ZFailure (''failed to list profiles: '' @ store_error_string e))
       (on_daemon (\<lambda>d. (list_profiles (fa_store fa) d, d)))) (\<lambda>profiles.
     act_then (act_get (\<lambda>w. daemon_active_connections (sh_daemon w))) (\<lambda>active.
     act_then (act_map_err (\<lambda>e. ZFailure (''failed to list access points: '' @ netlink_error_string e))
       (on_daemon (daemon_access_points (fa_backend fa)))) (\<lambda>points.
     act_then (act_each (register_device_object fa) devices) (\<lambda>_.
     act_then (act_each (register_connection_object fa) profiles) (\<lambda>_.
     act_then (act_each (register_active_connection_object fa) active) (\<lambda>_.
     act_each (register_access_point_object fa) (List.map_filter ap_bssid points))))))))"

definition connection_path_lookup :: "('b, 's, 'e, 'z, 'p) shared \<Rightarrow> profile_id \<Rightarrow> string option" where
  "connection_path_lookup w i = sh_connections w i"

definition unregister_connection ::
  "('b, 'src, 's, 'e, 'z, 'v, 'p) facade \<Rightarrow> profile_id \<Rightarrow> (('b, 's, 'e, 'z, 'p) shared, unit, facade_error) act" where
  "unregister_connection fa i =
     act_then (act_get (\<lambda>w. sh_connections w i)) (\<lambda>path.
     act_then (act_set (\<lambda>w. w\<lparr> sh_connections := (sh_connections w)(i := None) \<rparr>)) (\<lambda>_.
     case path of
       None \<Rightarrow> act_return ()
     | Some path \<Rightarrow>
         act_then (act_map_err (\<lambda>e. FeInternal (''failed to unregister '' @ path @ '': '' @ sv_error_text (fa_server fa) e))
           (remove_iface fa path TSettingsConnection)) (\<lambda>_. act_return ())))"

definition access_point_paths ::
  "('b, 'src, 's, 'e, 'z, 'v, 'p) facade \<Rightarrow> (('b, 's, 'e, 'z, 'p) shared, string list, 'x) act" where
  "access_point_paths fa =
     act_then (act_ok (enumerate_devices fa)) (\<lambda>devices.
     case primary_wifi (case devices of None \<Rightarrow> [] | Some ds \<Rightarrow> ds) of
       None \<Rightarrow> act_return []
     | Some primary \<Rightarrow>
         act_then (act_ok (on_daemon (daemon_access_points (fa_backend fa)))) (\<lambda>points.
         act_return (map (access_point_path primary)
           (List.map_filter ap_bssid (case points of None \<Rightarrow> [] | Some ps \<Rightarrow> ps)))))"

section \<open>Signals\<close>

definition emitter ::
  "('b, 'src, 's, 'e, 'z, 'v, 'p) facade \<Rightarrow> string \<Rightarrow> (('b, 's, 'e, 'z, 'p) shared, unit, facade_error) act" where
  "emitter fa path =
     act_then (act_result (map_err FeInternal (sv_path (fa_server fa) path))) (\<lambda>_.
     act_map_err (\<lambda>e. FeInternal (sv_error_text (fa_server fa) e))
       (on_conn (\<lambda>c. (sv_emitter (fa_server fa) c path, c))))"

definition emit_signal ::
  "('b, 'src, 's, 'e, 'z, 'v, 'p) facade \<Rightarrow> string \<Rightarrow> 'v signal \<Rightarrow> (('b, 's, 'e, 'z, 'p) shared, unit, facade_error) act" where
  "emit_signal fa path sg = act_map_err (\<lambda>e. FeInternal (sv_error_text (fa_server fa) e))
     (on_conn (\<lambda>c. sv_emit (fa_server fa) c path sg))"

definition emit_properties_changed ::
  "('b, 'src, 's, 'e, 'z, 'v, 'p) facade \<Rightarrow> string \<Rightarrow> string \<Rightarrow> (string \<times> 'v) list \<Rightarrow> string list \<Rightarrow>
   (('b, 's, 'e, 'z, 'p) shared, unit, facade_error) act" where
  "emit_properties_changed fa path interface changed invalidated =
     act_then (emitter fa path) (\<lambda>_. emit_signal fa path (SgPropertiesChanged interface changed invalidated))"

definition emit_device_state ::
  "('b, 'src, 's, 'e, 'z, 'v, 'p) facade \<Rightarrow> i32 \<Rightarrow> u32 \<Rightarrow> (('b, 's, 'e, 'z, 'p) shared, unit, facade_error) act" where
  "emit_device_state fa index new_state =
     act_then (act_get (\<lambda>w. case sh_device_states w index of None \<Rightarrow> NM_DEVICE_STATE_UNKNOWN | Some s \<Rightarrow> s)) (\<lambda>previous.
     if previous = new_state then act_return ()
     else
       let path = device_path index in
       act_then (act_set (\<lambda>w. w\<lparr> sh_device_states := (sh_device_states w)(index \<mapsto> new_state) \<rparr>)) (\<lambda>_.
       act_then (emitter fa path) (\<lambda>_.
       act_then (emit_signal fa path (SgDeviceStateChanged new_state 0 previous)) (\<lambda>_.
       emit_properties_changed fa path ''org.freedesktop.NetworkManager.Device''
         [(''State'', zv_u32 (fa_values fa) new_state)] []))))"

definition current_nm_state :: "('b, 's, 'e) daemon \<Rightarrow> u32" where
  "current_nm_state d = (if daemon_active_connections d = [] then NM_STATE_DISCONNECTED else NM_STATE_CONNECTED_GLOBAL)"

definition emit_root_state_if_changed ::
  "('b, 'src, 's, 'e, 'z, 'v, 'p) facade \<Rightarrow> (('b, 's, 'e, 'z, 'p) shared, unit, facade_error) act" where
  "emit_root_state_if_changed fa =
     act_then (act_get (\<lambda>w. (current_nm_state (sh_daemon w), sh_root_state w))) (\<lambda>(new_state, tracked).
     if new_state = tracked then act_return ()
     else
       act_then (act_set (\<lambda>w. w\<lparr> sh_root_state := new_state \<rparr>)) (\<lambda>_.
       act_then (emitter fa ROOT_PATH) (\<lambda>_.
       emit_signal fa ROOT_PATH (SgRootStateChanged new_state))))"

definition active_nm_state :: "connection_state \<Rightarrow> u32" where
  "active_nm_state s = (case s of
       Activated \<Rightarrow> NM_ACTIVE_CONNECTION_STATE_ACTIVATED
     | Preparing \<Rightarrow> NM_ACTIVE_CONNECTION_STATE_ACTIVATING
     | Configuring \<Rightarrow> NM_ACTIVE_CONNECTION_STATE_ACTIVATING
     | Activating \<Rightarrow> NM_ACTIVE_CONNECTION_STATE_ACTIVATING
     | Deactivating \<Rightarrow> NM_ACTIVE_CONNECTION_STATE_DEACTIVATING
     | Unknown \<Rightarrow> NM_ACTIVE_CONNECTION_STATE_DEACTIVATED
     | Disconnected \<Rightarrow> NM_ACTIVE_CONNECTION_STATE_DEACTIVATED
     | Failed \<Rightarrow> NM_ACTIVE_CONNECTION_STATE_DEACTIVATED)"

text \<open>
  One event on the bus. \<open>seen\<close> is the local map from the connections met so far to their
  devices; the handler returns the next one.
\<close>

definition emit_event ::
  "('b, 'src, 's, 'e, 'z, 'v, 'p) facade \<Rightarrow> (active_id \<rightharpoonup> i32) \<Rightarrow> connection_event \<Rightarrow>
   (('b, 's, 'e, 'z, 'p) shared, active_id \<rightharpoonup> i32, facade_error) act" where
  "emit_event fa seen event = (case event of
       EvStateChanged aid i previous current \<Rightarrow>
         act_then (emitter fa (active_path aid)) (\<lambda>_.
         act_then (emit_signal fa (active_path aid)
           (SgActiveStateChanged (active_nm_state current) 0 (active_nm_state previous))) (\<lambda>_.
         act_then (act_get (\<lambda>w. active_by_id w aid)) (\<lambda>active.
         case active of
           None \<Rightarrow> act_return seen
         | Some a \<Rightarrow>
             act_then (device_index_by_name fa (dev_interface_name (ac_device a))) (\<lambda>index.
             case index of
               None \<Rightarrow> act_return seen
             | Some index \<Rightarrow>
                 act_then (emit_device_state fa index (connection_to_device_state current)) (\<lambda>_.
                 act_return (seen(aid \<mapsto> index)))))))
     | EvActivated aid i \<Rightarrow> act_return seen
     | EvDeactivated aid i \<Rightarrow>
         act_then (unregister_active_connection fa aid) (\<lambda>_.
         act_then (act_result (map_err FeInternal (sv_path (fa_server fa) (active_path aid)))) (\<lambda>_.
         act_then (emitter fa ROOT_PATH) (\<lambda>_.
         act_then (emit_signal fa ROOT_PATH (SgActiveConnectionRemoved (active_path aid))) (\<lambda>_.
         case seen aid of
           None \<Rightarrow> act_return seen
         | Some index \<Rightarrow>
             act_then (emit_device_state fa index NM_DEVICE_STATE_DISCONNECTED) (\<lambda>_.
             act_return (seen(aid := None)))))))
     | EvFailed aid i reason \<Rightarrow> act_return seen)"

fun emit_events ::
  "('b, 'src, 's, 'e, 'z, 'v, 'p) facade \<Rightarrow> (active_id \<rightharpoonup> i32) \<Rightarrow> connection_event list \<Rightarrow>
   (('b, 's, 'e, 'z, 'p) shared, unit, facade_error) act" where
  "emit_events fa seen [] = act_return ()"
| "emit_events fa seen (e # es) = act_then (emit_event fa seen e) (\<lambda>seen'. emit_events fa seen' es)"

definition drain_connection_events :: "(('b, 's, 'e, 'z, 'p) shared, connection_event list, 'x) act" where
  "drain_connection_events w =
     (case connection_events (sh_daemon w) of (events, d) \<Rightarrow> (Ok events, w\<lparr> sh_daemon := d \<rparr>))"

definition emit_connection_events ::
  "('b, 'src, 's, 'e, 'z, 'v, 'p) facade \<Rightarrow> (('b, 's, 'e, 'z, 'p) shared, unit, facade_error) act" where
  "emit_connection_events fa =
     act_then drain_connection_events (\<lambda>events.
     act_then (emit_events fa Map.empty events) (\<lambda>_.
     emit_root_state_if_changed fa))"

section \<open>What handlers leave alone\<close>

text \<open>\<open>act_keeps g m\<close>: the observation \<open>g\<close> of the state is the same after \<open>m\<close>, whatever its result.\<close>

definition act_keeps :: "('w \<Rightarrow> 'c) \<Rightarrow> ('w, 'a, 'x) act \<Rightarrow> bool" where
  "act_keeps g m \<longleftrightarrow> (\<forall>w. g (snd (m w)) = g w)"

named_theorems keeps_intros "composition of handlers that leave an observation alone"

lemma act_keepsD: "act_keeps g m \<Longrightarrow> m w = (r, w') \<Longrightarrow> g w' = g w"
  by (metis act_keeps_def snd_conv)

lemma keeps_return [keeps_intros]: "act_keeps g (act_return x)"
  by (simp add: act_keeps_def act_return_def)

lemma keeps_result [keeps_intros]: "act_keeps g (act_result r)"
  by (simp add: act_keeps_def act_result_def)

lemma keeps_get [keeps_intros]: "act_keeps g (act_get f)"
  by (simp add: act_keeps_def act_get_def)

lemma keeps_set [keeps_intros]: "(\<And>w. g (f w) = g w) \<Longrightarrow> act_keeps g (act_set f)"
  by (simp add: act_keeps_def act_set_def)

lemma keeps_then [keeps_intros]:
  "act_keeps g m \<Longrightarrow> (\<And>x. act_keeps g (f x)) \<Longrightarrow> act_keeps g (act_then m f)"
  by (simp add: act_keeps_def act_then_def case_prod_unfold split: result.splits)

lemma keeps_map_err [keeps_intros]: "act_keeps g m \<Longrightarrow> act_keeps g (act_map_err h m)"
  by (simp add: act_keeps_def act_map_err_def case_prod_unfold)

lemma keeps_ok [keeps_intros]: "act_keeps g m \<Longrightarrow> act_keeps g (act_ok m)"
  by (simp add: act_keeps_def act_ok_def case_prod_unfold)

lemma keeps_ignore [keeps_intros]: "act_keeps g m \<Longrightarrow> act_keeps g (act_ignore m)"
  by (simp add: act_keeps_def act_ignore_def)

lemma keeps_each [keeps_intros]: "(\<And>x. act_keeps g (f x)) \<Longrightarrow> act_keeps g (act_each f xs)"
  by (induction xs) (auto intro: keeps_intros)

lemma keeps_on_daemon:
  assumes "\<And>w d. g (w\<lparr> sh_daemon := d \<rparr>) = g w"
  shows "act_keeps g (on_daemon f)"
  by (simp add: act_keeps_def on_daemon_def case_prod_unfold assms)

lemma keeps_on_conn:
  assumes "\<And>w. g (w\<lparr> sh_conn := snd (f (sh_conn w)) \<rparr>) = g w"
  shows "act_keeps g (on_conn f)"
  by (simp add: act_keeps_def on_conn_def case_prod_unfold assms)

lemma keeps_backend_query:
  assumes "\<And>w b. g (w\<lparr> sh_daemon := (sh_daemon w)\<lparr> dm_backend := b \<rparr> \<rparr>) = g w"
  shows "act_keeps g (on_daemon (on_backend q))"
  by (simp add: act_keeps_def on_daemon_def on_backend_def case_prod_unfold assms)

lemma keeps_enumerate:
  assumes "\<And>w b. g (w\<lparr> sh_daemon := (sh_daemon w)\<lparr> dm_backend := b \<rparr> \<rparr>) = g w"
  shows "act_keeps g (enumerate_devices fa)"
  unfolding enumerate_devices_def daemon_wifi_interfaces_def daemon_links_def
  by (intro keeps_intros keeps_backend_query assms)

lemma keeps_index_by_name:
  assumes "\<And>w b. g (w\<lparr> sh_daemon := (sh_daemon w)\<lparr> dm_backend := b \<rparr> \<rparr>) = g w"
  shows "act_keeps g (device_index_by_name fa name)"
  unfolding device_index_by_name_def by (intro keeps_intros keeps_enumerate assms)

lemma keeps_emitter: "act_keeps g (emitter fa path)"
proof -
  have "w\<lparr> sh_conn := sh_conn w \<rparr> = w" for w :: "('b, 's, 'e, 'z, 'p) shared" by simp
  then show ?thesis unfolding emitter_def by (intro keeps_intros keeps_on_conn) simp
qed

section \<open>Sent signals\<close>

text \<open>
  \<open>log\<close> reads off a bus connection the signals it has sent. The signals of one active connection
  are the changes of its state its clients have seen.
\<close>

definition logs :: "('z, 'v) server_ops \<Rightarrow> ('z \<Rightarrow> (string \<times> 'v signal) list) \<Rightarrow> bool" where
  "logs sv log \<longleftrightarrow>
     (\<forall>c p i. log (snd (sv_at sv c p i)) = log c) \<and> (\<forall>c p t. log (snd (sv_remove sv c p t)) = log c) \<and>
     (\<forall>c p s. log (snd (sv_emit sv c p s)) = (if is_ok (fst (sv_emit sv c p s)) then log c @ [(p, s)] else log c))"

definition active_signals :: "active_id \<Rightarrow> (string \<times> 'v signal) list \<Rightarrow> (u32 \<times> u32 \<times> u32) list" where
  "active_signals aid l = List.map_filter (\<lambda>(p, s). case s of
     SgActiveStateChanged state reason previous \<Rightarrow>
       if p = active_path aid then Some (state, reason, previous) else None
   | _ \<Rightarrow> None) l"

lemma active_path_inj [simp]: "active_path a = active_path b \<longleftrightarrow> a = b"
  by (simp add: active_path_def show_word_def show_nat_inj word_unat_eq_iff)

lemma active_signals_append [simp]: "active_signals aid (l @ l') = active_signals aid l @ active_signals aid l'"
  by (simp add: active_signals_def List.map_filter_def)

lemma active_signals_one [simp]:
  "active_signals aid [(p, SgActiveStateChanged s r q)] = (if p = active_path aid then [(s, r, q)] else [])"
  by (simp add: active_signals_def List.map_filter_def)

lemma keeps_emit_other:
  assumes "logs (fa_server fa) log" "\<And>p. active_signals aid [(p, sg)] = []"
  shows "act_keeps (\<lambda>w. active_signals aid (log (sh_conn w))) (emit_signal fa path sg)"
  unfolding emit_signal_def
  using assms by (intro keeps_intros keeps_on_conn) (simp add: logs_def)

lemma keeps_remove:
  assumes "logs (fa_server fa) log"
  shows "act_keeps (\<lambda>w. active_signals aid (log (sh_conn w))) (remove_iface fa path t)"
  unfolding remove_iface_def using assms by (intro keeps_on_conn) (simp add: logs_def)

lemma silent_device_state:
  assumes "logs (fa_server fa) log"
  shows "act_keeps (\<lambda>w. active_signals aid (log (sh_conn w))) (emit_device_state fa index s)"
proof -
  have "act_keeps (\<lambda>w. active_signals aid (log (sh_conn w))) (emit_signal fa path (SgDeviceStateChanged a b c))"
      "act_keeps (\<lambda>w. active_signals aid (log (sh_conn w))) (emit_signal fa path (SgPropertiesChanged d e f))"
    for path a b c d e f
    by (rule keeps_emit_other [OF assms], simp add: active_signals_def List.map_filter_def)+
  then show ?thesis
    unfolding emit_device_state_def emit_properties_changed_def
    by (auto simp: Let_def intro!: keeps_intros keeps_emitter)
qed

lemma silent_unregister:
  assumes "logs (fa_server fa) log"
  shows "act_keeps (\<lambda>w. active_signals aid (log (sh_conn w))) (unregister_active_connection fa a)"
  unfolding unregister_active_connection_def
  by (auto intro!: keeps_intros keeps_remove assms)

lemma act_then_Ok: "act_then m f w = (Ok y, w') \<longleftrightarrow> (\<exists>x w1. m w = (Ok x, w1) \<and> f x w1 = (Ok y, w'))"
  by (auto simp: act_then_def split: prod.splits result.splits)

lemma emit_signal_Ok:
  assumes "logs (fa_server fa) log" "emit_signal fa path sg w = (Ok u, w')"
  shows "log (sh_conn w') = log (sh_conn w) @ [(path, sg)] \<and> sh_daemon w' = sh_daemon w"
proof -
  obtain r c where e: "sv_emit (fa_server fa) (sh_conn w) path sg = (r, c)" by (meson surj_pair)
  with assms(2) have "r = Ok u" "w' = w\<lparr> sh_conn := c \<rparr>"
    by (auto simp: emit_signal_def act_map_err_def on_conn_def result_simps)
  moreover have "log c = (if is_ok r then log (sh_conn w) @ [(path, sg)] else log (sh_conn w))"
    using assms(1) e unfolding logs_def by (metis fst_conv snd_conv)
  ultimately show ?thesis by simp
qed

text \<open>The signals a change of state gives, and what one event adds to them.\<close>

definition mirrored :: "(connection_state \<times> connection_state) list \<Rightarrow> (u32 \<times> u32 \<times> u32) list" where
  "mirrored cs = map (\<lambda>(previous, current). (active_nm_state current, 0, active_nm_state previous)) cs"

lemma emit_event_mirrors:
  assumes logs: "logs (fa_server fa) log" and e: "emit_event fa seen e w = (Ok seen', w')"
  shows "active_signals aid (log (sh_conn w')) = active_signals aid (log (sh_conn w)) @ mirrored (changes aid [e])"
proof -
  let ?g = "\<lambda>w. active_signals aid (log (sh_conn w))"
  note keeps = keeps_intros keeps_emitter silent_device_state [OF logs] silent_unregister [OF logs] keeps_index_by_name
  show ?thesis
  proof (cases e)
    case (EvStateChanged a i s t)
    let ?sg = "SgActiveStateChanged (active_nm_state t) 0 (active_nm_state s)"
    let ?rest = "act_then (act_get (\<lambda>w. active_by_id w a)) (\<lambda>active. case active of
        None \<Rightarrow> act_return seen
      | Some a' \<Rightarrow> act_then (device_index_by_name fa (dev_interface_name (ac_device a'))) (\<lambda>index. case index of
          None \<Rightarrow> act_return seen
        | Some index \<Rightarrow> act_then (emit_device_state fa index (connection_to_device_state t)) (\<lambda>_.
            act_return (seen(a \<mapsto> index)))))"
    obtain w1 w2 where w: "emitter fa (active_path a) w = (Ok (), w1)"
        "emit_signal fa (active_path a) ?sg w1 = (Ok (), w2)" "?rest w2 = (Ok seen', w')"
      using e EvStateChanged by (auto simp: emit_event_def act_then_Ok)
    have "act_keeps ?g ?rest" by (auto intro!: keeps split: option.splits)
    then have "?g w' = ?g w2" using w(3) by (rule act_keepsD)
    moreover have "?g w1 = ?g w" using keeps_emitter w(1) by (rule act_keepsD)
    ultimately show ?thesis
      using emit_signal_Ok [OF logs w(2)] EvStateChanged by (simp add: mirrored_def)
  next
    case (EvDeactivated a i)
    have "act_keeps ?g (emit_signal fa ROOT_PATH (SgActiveConnectionRemoved p))" for p
      by (rule keeps_emit_other [OF logs]) (simp add: active_signals_def List.map_filter_def)
    then have "act_keeps ?g (emit_event fa seen e)"
      unfolding emit_event_def EvDeactivated by (auto intro!: keeps split: option.splits)
    then show ?thesis using e EvDeactivated by (auto simp: mirrored_def dest: act_keepsD)
  qed (use e in \<open>auto simp: emit_event_def act_return_def mirrored_def\<close>)
qed

lemma emit_events_mirror:
  assumes "logs (fa_server fa) log" "emit_events fa seen es w = (Ok u, w')"
  shows "active_signals aid (log (sh_conn w')) = active_signals aid (log (sh_conn w)) @ mirrored (changes aid es)"
  using assms(2)
proof (induction es arbitrary: seen w)
  case Nil
  then show ?case by (simp add: act_return_def mirrored_def)
next
  case (Cons e es)
  then obtain seen' w1 where w1: "emit_event fa seen e w = (Ok seen', w1)" "emit_events fa seen' es w1 = (Ok u, w')"
    by (auto simp: act_then_Ok)
  have "changes aid (e # es) = changes aid [e] @ changes aid es"
    using changes_append [of aid "[e]" es] by simp
  with Cons.IH [OF w1(2)] emit_event_mirrors [OF assms(1) w1(1)] show ?case by (simp add: mirrored_def)
qed

lemma events_keep_manager: "act_keeps (\<lambda>w. dm_activation (sh_daemon w)) (emit_events fa seen es)"
proof (induction es arbitrary: seen)
  case (Cons e es)
  have signal: "act_keeps (\<lambda>w. dm_activation (sh_daemon w)) (emit_signal fa p s)"
      "act_keeps (\<lambda>w. dm_activation (sh_daemon w)) (remove_iface fa p t)" for p s t
    unfolding emit_signal_def remove_iface_def by (intro keeps_intros keeps_on_conn; simp)+
  then have "act_keeps (\<lambda>w. dm_activation (sh_daemon w)) (emit_device_state fa index s)" for index s
    unfolding emit_device_state_def emit_properties_changed_def
    by (auto simp: Let_def intro!: keeps_intros keeps_emitter)
  with signal have "act_keeps (\<lambda>w. dm_activation (sh_daemon w)) (emit_event fa seen e)"
    unfolding emit_event_def unregister_active_connection_def
    by (auto intro!: keeps_intros keeps_emitter keeps_index_by_name split: connection_event.splits option.splits)
  then show ?case using Cons by (simp add: keeps_then)
qed (simp add: keeps_return)

lemma root_state_signal:
  assumes logs: "logs (fa_server fa) log" and e: "emit_root_state_if_changed fa w = (Ok u, w')"
  shows "active_signals aid (log (sh_conn w')) = active_signals aid (log (sh_conn w))"
    "sh_daemon w' = sh_daemon w" "sh_root_state w' = current_nm_state (sh_daemon w')"
proof -
  have silent: "act_keeps (\<lambda>w. active_signals aid (log (sh_conn w))) (emit_signal fa ROOT_PATH (SgRootStateChanged s))" for s
    by (rule keeps_emit_other [OF logs]) (simp add: active_signals_def List.map_filter_def)
  have "act_keeps (\<lambda>w. active_signals aid (log (sh_conn w))) (emit_root_state_if_changed fa)"
    unfolding emit_root_state_if_changed_def by (auto intro!: keeps_intros keeps_emitter silent)
  then show "active_signals aid (log (sh_conn w')) = active_signals aid (log (sh_conn w))"
    using e by (auto dest: act_keepsD)
  have "act_keeps sh_daemon (emit_signal fa p s)" "act_keeps sh_root_state (emit_signal fa p s)" for p s
    unfolding emit_signal_def by (intro keeps_intros keeps_on_conn; simp)+
  then have tail: "act_keeps sh_daemon (act_then (emitter fa p) (\<lambda>_. emit_signal fa p s))"
      "act_keeps sh_root_state (act_then (emitter fa p) (\<lambda>_. emit_signal fa p s))" for p s
    by (auto intro!: keeps_intros keeps_emitter)
  have "sh_daemon w' = sh_daemon w \<and> sh_root_state w' = current_nm_state (sh_daemon w)"
  proof (cases "current_nm_state (sh_daemon w) = sh_root_state w")
    case True
    with e show ?thesis
      by (auto simp: emit_root_state_if_changed_def act_then_Ok act_get_def act_return_def)
  next
    case False
    then have "act_then (emitter fa ROOT_PATH) (\<lambda>_. emit_signal fa ROOT_PATH
        (SgRootStateChanged (current_nm_state (sh_daemon w)))) (w\<lparr> sh_root_state := current_nm_state (sh_daemon w) \<rparr>) = (Ok u, w')"
      using e by (simp add: emit_root_state_if_changed_def act_then_def act_get_def act_set_def)
    from act_keepsD [OF tail(1) this] act_keepsD [OF tail(2) this] show ?thesis by simp
  qed
  then show "sh_daemon w' = sh_daemon w" "sh_root_state w' = current_nm_state (sh_daemon w')" by auto
qed

lemma emit_connection_events_split:
  assumes "emit_connection_events fa w = (Ok u, w')"
  obtains w1 where "emit_events fa Map.empty (am_events (dm_activation (sh_daemon w)))
      (w\<lparr> sh_daemon := (sh_daemon w)\<lparr> dm_activation := (dm_activation (sh_daemon w))\<lparr> am_events := [] \<rparr> \<rparr> \<rparr>) = (Ok (), w1)"
    "emit_root_state_if_changed fa w1 = (Ok u, w')"
  using assms
  by (auto simp: emit_connection_events_def act_then_Ok drain_connection_events_def connection_events_def
      on_manager_def am_drain_events_def)

lemma emit_connection_events_Ok:
  assumes logs: "logs (fa_server fa) log" and e: "emit_connection_events fa w = (Ok u, w')"
  shows "active_signals aid (log (sh_conn w')) = active_signals aid (log (sh_conn w)) @
      mirrored (changes aid (am_events (dm_activation (sh_daemon w))))"
    "dm_activation (sh_daemon w') = (dm_activation (sh_daemon w))\<lparr> am_events := [] \<rparr>"
    "sh_root_state w' = current_nm_state (sh_daemon w')"
proof -
  obtain w1 where w1: "emit_events fa Map.empty (am_events (dm_activation (sh_daemon w)))
      (w\<lparr> sh_daemon := (sh_daemon w)\<lparr> dm_activation := (dm_activation (sh_daemon w))\<lparr> am_events := [] \<rparr> \<rparr> \<rparr>) = (Ok (), w1)"
    "emit_root_state_if_changed fa w1 = (Ok u, w')"
    using e by (rule emit_connection_events_split)
  note root = root_state_signal [OF logs w1(2)]
  from emit_events_mirror [OF logs w1(1), of aid] root(1) [of aid]
  show "active_signals aid (log (sh_conn w')) = active_signals aid (log (sh_conn w)) @
      mirrored (changes aid (am_events (dm_activation (sh_daemon w))))" by simp
  from act_keepsD [OF events_keep_manager w1(1)] root(2)
  show "dm_activation (sh_daemon w') = (dm_activation (sh_daemon w))\<lparr> am_events := [] \<rparr>" by simp
  show "sh_root_state w' = current_nm_state (sh_daemon w')" by (rule root(3))
qed

text \<open>
  A deactivation is over before its events are sent: none of the connections of the events is tracked any
  more, no device is looked up for it, and the state last sent for every device stays as it was.
\<close>

lemma act_then_cases:
  assumes "act_then m f w = (r, w')"
  obtains e where "m w = (Err e, w')" "r = Err e" | x w1 where "m w = (Ok x, w1)" "f x w1 = (r, w')"
  using assms by (auto simp: act_then_def split: prod.splits result.splits)

lemma untracked_event:
  fixes w :: "('b, 's, 'e, 'z, 'p) shared"
  defines "g \<equiv> \<lambda>w :: ('b, 's, 'e, 'z, 'p) shared. (sh_device_states w, dm_activation (sh_daemon w))"
  assumes none: "\<And>a i s t. e = EvStateChanged a i s t \<Longrightarrow> active_by_id w a = None"
    and e: "emit_event fa Map.empty e w = (r, w')"
  shows "g w' = g w \<and> (\<forall>seen. r = Ok seen \<longrightarrow> seen = Map.empty)"
proof -
  have sg: "act_keeps g (emit_signal fa p s)" "act_keeps g (remove_iface fa p t)" for p s t
    unfolding emit_signal_def remove_iface_def g_def by (intro keeps_intros keeps_on_conn; simp)+
  show ?thesis
  proof (cases e)
    case (EvStateChanged a i s t)
    from e [unfolded emit_event_def EvStateChanged, simplified]
    show ?thesis
    proof (cases rule: act_then_cases)
      case (1 err)
      with act_keepsD [OF keeps_emitter [of g] this(1)] show ?thesis by simp
    next
      case (2 x w1)
      have w1: "g w1 = g w" using act_keepsD [OF keeps_emitter 2(1)] .
      from 2(2) show ?thesis
      proof (cases rule: act_then_cases)
        case (1 err)
        with act_keepsD [OF sg(1) this(1)] w1 show ?thesis by simp
      next
        case (2 y w2)
        have w2: "g w2 = g w" using act_keepsD [OF sg(1) 2(1)] w1 by simp
        then have "active_by_id w2 a = None"
          using none [OF EvStateChanged] by (simp add: g_def active_by_id_def daemon_active_connections_def)
        then have "act_return Map.empty w2 = (r, w')" using 2(2) by (simp add: act_then_def act_get_def)
        with w2 show ?thesis by (auto simp: act_return_def)
      qed
    qed
  next
    case (EvDeactivated a i)
    have "act_keeps g (emit_event fa Map.empty e)"
      unfolding emit_event_def EvDeactivated unregister_active_connection_def
      by (auto intro!: keeps_intros keeps_emitter sg) (simp add: g_def)
    moreover have "r = Ok seen \<Longrightarrow> seen = Map.empty" for seen
      using e unfolding emit_event_def EvDeactivated by (auto simp: act_then_Ok act_return_def)
    ultimately show ?thesis using e by (auto dest: act_keepsD)
  qed (use e in \<open>auto simp: emit_event_def act_return_def\<close>)
qed

lemma untracked_events_keep_devices:
  assumes "\<And>a i s t. EvStateChanged a i s t \<in> set es \<Longrightarrow> active_by_id w a = None"
    and "emit_events fa Map.empty es w = (r, w')"
  shows "sh_device_states w' = sh_device_states w"
  using assms
proof (induction es arbitrary: w)
  case Nil
  then show ?case by (simp add: act_return_def)
next
  case (Cons e es)
  obtain r1 w1 where w1: "emit_event fa Map.empty e w = (r1, w1)" by (meson surj_pair)
  have one: "sh_device_states w1 = sh_device_states w" "dm_activation (sh_daemon w1) = dm_activation (sh_daemon w)"
      "\<And>seen. r1 = Ok seen \<Longrightarrow> seen = Map.empty"
    using untracked_event [OF _ w1] Cons.prems(1) by auto
  have "active_by_id w1 a = active_by_id w a" for a
    by (simp add: active_by_id_def daemon_active_connections_def one(2))
  moreover have "EvStateChanged a i s t \<in> set es \<Longrightarrow> active_by_id w a = None" for a i s t
    using Cons.prems(1) by (meson list.set_intros(2))
  ultimately have rest: "emit_events fa Map.empty es w1 = (r, w') \<Longrightarrow> sh_device_states w' = sh_device_states w1"
    using Cons.IH [of w1] by auto
  show ?case
    using Cons.prems(2) w1 one rest by (cases r1) (auto simp: act_then_def)
qed

end
