(* ===== verification/Nm_Objects.thy ===== *)
theory Nm_Objects
  imports Nm_Bus Nm_Utf8
begin

text \<open>
  The methods of the D-Bus objects: the root object (\<^verbatim>\<open>src/dbus/root.rs\<close>), the settings
  and their connections (\<^verbatim>\<open>src/dbus/settings.rs\<close>), the devices
  (\<^verbatim>\<open>src/dbus/device.rs\<close>) and the active connections
  (\<^verbatim>\<open>src/dbus/active_connection.rs\<close>). A method takes the sender of the message and, where
  it emits signals, the path of its own object.
\<close>

section \<open>Paths of clients\<close>

text \<open>\<open>str::parse::<u64>\<close>.\<close>

definition parse_u64 :: "string \<Rightarrow> u64 option" where
  "parse_u64 s =
     (let digits = (case s of CHR ''+'' # cs \<Rightarrow> cs | _ \<Rightarrow> s) in
      if digits = [] \<or> \<not> list_all (\<lambda>c. to_digit 10 c \<noteq> None) digits then None
      else if decimal_value digits \<ge> 2 ^ 64 then None
      else Some (word_of_nat (decimal_value digits)))"

definition path_index :: "string \<Rightarrow> string \<Rightarrow> u64 option" where
  "path_index path prefix =
     Option.bind (strip_prefix prefix path) (\<lambda>rest. parse_u64 (hd (split_char CHR ''/'' rest)))"

definition path_ok :: "('b, 'src, 's, 'e, 'z, 'v, 'p) facade \<Rightarrow> string \<Rightarrow> bool" where
  "path_ok fa path \<longleftrightarrow> is_ok (sv_path (fa_server fa) path)"

definition checked_path ::
  "('b, 'src, 's, 'e, 'z, 'v, 'p) facade \<Rightarrow> string \<Rightarrow> ('w, string, facade_error) act" where
  "checked_path fa path =
     act_then (act_result (map_err FeInternal (sv_path (fa_server fa) path))) (\<lambda>_. act_return path)"

section \<open>The root object\<close>

definition device_info_at ::
  "('b, 'src, 's, 'e, 'z, 'v, 'p) facade \<Rightarrow> string \<Rightarrow> (('b, 's, 'e, 'z, 'p) shared, device_info, facade_error) act" where
  "device_info_at fa device =
     act_then (act_result (ok_or (path_index device ''/org/freedesktop/NetworkManager/Devices/'')
       (FeUnknownDevice device))) (\<lambda>index.
     act_then (device_view_at fa (ucast index)) (\<lambda>view. act_return (to_device_info view)))"

definition active_id_of :: "string \<Rightarrow> (active_id, facade_error) result" where
  "active_id_of path = ok_or (path_index path ''/org/freedesktop/NetworkManager/ActiveConnection/'')
     (FeUnknownActiveConnection path)"

definition root_activate ::
  "('b, 'src, 's, 'e, 'z, 'v, 'p) facade \<Rightarrow> 'v settings \<Rightarrow> string \<Rightarrow>
   (('b, 's, 'e, 'z, 'p) shared, active_connection, facade_error) act" where
  "root_activate fa settings device =
     act_then (device_info_at fa device) (\<lambda>info.
     if settings = Map.empty then
       act_map_err facade_of_activation (on_daemon (\<lambda>d. daemon_activate (fa_engine fa) (fa_store fa) d info))
     else
       act_then (act_result (settings_to_profile (fa_values fa) settings)) (\<lambda>profile.
       act_map_err facade_of_activation
         (on_daemon (\<lambda>d. daemon_activate_profile (fa_engine fa) (fa_store fa) d (cp_id profile) info))))"

definition internal_of ::
  "('b, 'src, 's, 'e, 'z, 'v, 'p) facade \<Rightarrow> string \<Rightarrow> ('w, 'a, zbus_error) act \<Rightarrow> ('w, 'a, facade_error) act" where
  "internal_of fa prefix m = act_map_err (\<lambda>e. FeInternal (prefix @ sv_error_text (fa_server fa) e)) m"

text \<open>What follows a successful activation: the object, the signal and the pending events.\<close>

definition announce_active ::
  "('b, 'src, 's, 'e, 'z, 'v, 'p) facade \<Rightarrow> string \<Rightarrow> active_connection \<Rightarrow>
   (('b, 's, 'e, 'z, 'p) shared, string, facade_error) act" where
  "announce_active fa self active =
     act_then (internal_of fa [] (register_active_connection_object fa active)) (\<lambda>_.
     act_then (checked_path fa (active_path (ac_id active))) (\<lambda>path.
     act_then (emit_signal fa self (SgActiveConnectionAdded path)) (\<lambda>_.
     act_then (emit_connection_events fa) (\<lambda>_. act_return path))))"

definition activate_connection ::
  "('b, 'src, 's, 'e, 'z, 'v, 'p) facade \<Rightarrow> string option \<Rightarrow> string \<Rightarrow> 'v settings \<Rightarrow> string \<Rightarrow>
   (('b, 's, 'e, 'z, 'p) shared, string, facade_error) act" where
  "activate_connection fa sender self settings device =
     act_then (authorize fa sender ACTION_NETWORK_CONTROL) (\<lambda>_.
     act_then (root_activate fa settings device) (\<lambda>active.
     act_then (announce_active fa self active) (\<lambda>path. checked_path fa path)))"

definition add_and_activate ::
  "('b, 'src, 's, 'e, 'z, 'v, 'p) facade \<Rightarrow> string \<Rightarrow> 'v settings \<Rightarrow> string \<Rightarrow>
   (('b, 's, 'e, 'z, 'p) shared, string \<times> string, facade_error) act" where
  "add_and_activate fa self settings device =
     act_then (act_result (settings_to_profile (fa_values fa) settings)) (\<lambda>profile.
     act_then (act_map_err facade_of_store (on_daemon (\<lambda>d. create_profile (fa_store fa) d profile))) (\<lambda>_.
     act_then (internal_of fa [] (register_connection_object fa profile)) (\<lambda>_.
     let connection_path = settings_connection_path (stable_uuid (cp_id profile)) in
     act_then (root_activate fa settings device) (\<lambda>active.
     act_then (announce_active fa self active) (\<lambda>path. act_return (connection_path, path))))))"

definition add_and_activate_connection ::
  "('b, 'src, 's, 'e, 'z, 'v, 'p) facade \<Rightarrow> string option \<Rightarrow> string \<Rightarrow> 'v settings \<Rightarrow> string \<Rightarrow>
   (('b, 's, 'e, 'z, 'p) shared, string \<times> string, facade_error) act" where
  "add_and_activate_connection fa sender self settings device =
     act_then (authorize fa sender ACTION_NETWORK_CONTROL) (\<lambda>_.
     act_then (add_and_activate fa self settings device) (\<lambda>(connection_path, active_connection_path).
     act_then (checked_path fa connection_path) (\<lambda>a.
     act_then (checked_path fa active_connection_path) (\<lambda>b. act_return (a, b)))))"

definition add_and_activate_connection2 ::
  "('b, 'src, 's, 'e, 'z, 'v, 'p) facade \<Rightarrow> string option \<Rightarrow> string \<Rightarrow> 'v settings \<Rightarrow> string \<Rightarrow>
   (('b, 's, 'e, 'z, 'p) shared, string \<times> string \<times> 'v sect, facade_error) act" where
  "add_and_activate_connection2 fa sender self settings device =
     act_then (authorize fa sender ACTION_NETWORK_CONTROL) (\<lambda>_.
     act_then (add_and_activate fa self settings device) (\<lambda>(connection_path, active_connection_path).
     act_then (checked_path fa connection_path) (\<lambda>a.
     act_then (checked_path fa active_connection_path) (\<lambda>b. act_return (a, b, Map.empty)))))"

definition deactivate_connection ::
  "('b, 'src, 's, 'e, 'z, 'v, 'p) facade \<Rightarrow> string option \<Rightarrow> string \<Rightarrow> (('b, 's, 'e, 'z, 'p) shared, unit, facade_error) act" where
  "deactivate_connection fa sender active =
     act_then (authorize fa sender ACTION_NETWORK_CONTROL) (\<lambda>_.
     act_then (act_result (active_id_of active)) (\<lambda>aid.
     act_then (act_map_err facade_of_activation (on_daemon (\<lambda>d. daemon_deactivate (fa_engine fa) d aid))) (\<lambda>_.
     emit_connection_events fa)))"

definition root_sleep ::
  "('b, 'src, 's, 'e, 'z, 'v, 'p) facade \<Rightarrow> string option \<Rightarrow> bool \<Rightarrow> (('b, 's, 'e, 'z, 'p) shared, unit, facade_error) act" where
  "root_sleep fa sender sleep = authorize fa sender ACTION_ENABLE_DISABLE_NETWORK"

definition root_enable ::
  "('b, 'src, 's, 'e, 'z, 'v, 'p) facade \<Rightarrow> string option \<Rightarrow> bool \<Rightarrow> (('b, 's, 'e, 'z, 'p) shared, unit, facade_error) act" where
  "root_enable fa sender enable = authorize fa sender ACTION_ENABLE_DISABLE_NETWORK"

definition root_reload ::
  "('b, 'src, 's, 'e, 'z, 'v, 'p) facade \<Rightarrow> string option \<Rightarrow> u32 \<Rightarrow> (('b, 's, 'e, 'z, 'p) shared, unit, facade_error) act" where
  "root_reload fa sender flags = authorize fa sender ACTION_RELOAD"

fun permissions_of ::
  "('b, 'src, 's, 'e, 'z, 'v, 'p) facade \<Rightarrow> string option \<Rightarrow> string list \<Rightarrow>
   (('b, 's, 'e, 'z, 'p) shared, (string \<times> string) list, facade_error) act" where
  "permissions_of fa sender [] = act_return []"
| "permissions_of fa sender (action # actions) =
     act_then (permission fa sender action) (\<lambda>value.
     act_then (permissions_of fa sender actions) (\<lambda>rest. act_return ((action, value) # rest)))"

definition get_permissions ::
  "('b, 'src, 's, 'e, 'z, 'v, 'p) facade \<Rightarrow> string option \<Rightarrow>
   (('b, 's, 'e, 'z, 'p) shared, (string \<times> string) list, facade_error) act" where
  "get_permissions fa sender = permissions_of fa sender PERMISSION_ACTIONS"

definition check_connectivity :: "('b, 's, 'e, 'z, 'p) shared \<Rightarrow> u32" where
  "check_connectivity w =
     (if daemon_active_connections (sh_daemon w) = [] then NM_CONNECTIVITY_NONE else NM_CONNECTIVITY_FULL)"

definition get_devices ::
  "('b, 'src, 's, 'e, 'z, 'v, 'p) facade \<Rightarrow> (('b, 's, 'e, 'z, 'p) shared, string list, facade_error) act" where
  "get_devices fa = act_then (enumerate_devices fa) (\<lambda>devices.
     act_return (filter (path_ok fa) (map (\<lambda>v. device_path (dv_index v)) devices)))"

definition get_device_by_ip_iface ::
  "('b, 'src, 's, 'e, 'z, 'v, 'p) facade \<Rightarrow> string \<Rightarrow> (('b, 's, 'e, 'z, 'p) shared, string, facade_error) act" where
  "get_device_by_ip_iface fa name =
     act_then (device_index_by_name fa name) (\<lambda>index.
     act_then (act_result (ok_or index (FeUnknownDevice name))) (\<lambda>i. checked_path fa (device_path i)))"

definition active_connection_paths ::
  "('b, 'src, 's, 'e, 'z, 'v, 'p) facade \<Rightarrow> ('b, 's, 'e, 'z, 'p) shared \<Rightarrow> string list" where
  "active_connection_paths fa w =
     filter (path_ok fa) (map (\<lambda>a. active_path (ac_id a)) (daemon_active_connections (sh_daemon w)))"

definition path_or_root :: "('b, 'src, 's, 'e, 'z, 'v, 'p) facade \<Rightarrow> string option \<Rightarrow> string" where
  "path_or_root fa path = (case path of None \<Rightarrow> root_object_path
     | Some p \<Rightarrow> if path_ok fa p then p else root_object_path)"

definition first_active :: "('b, 's, 'e, 'z, 'p) shared \<Rightarrow> active_connection option" where
  "first_active w = (case daemon_active_connections (sh_daemon w) of [] \<Rightarrow> None | a # _ \<Rightarrow> Some a)"

definition primary_connection where
  "primary_connection fa w = path_or_root fa (map_option (\<lambda>a. active_path (ac_id a)) (first_active w))"

definition root_ip4_config where
  "root_ip4_config fa w = path_or_root fa (map_option (\<lambda>a. ip4_path (ac_id a)) (first_active w))"

definition root_ip6_config where
  "root_ip6_config fa w = path_or_root fa (map_option (\<lambda>a. ip6_path (ac_id a)) (first_active w))"

definition root_dhcp4_config where
  "root_dhcp4_config fa w = path_or_root fa (map_option (\<lambda>a. dhcp4_path (ac_id a)) (first_active w))"

definition activating_connection where
  "activating_connection fa w = path_or_root fa (map_option (\<lambda>a. active_path (ac_id a))
     (List.find (\<lambda>a. ac_state a = Activating) (daemon_active_connections (sh_daemon w))))"

definition primary_connection_type :: "('b, 's, 'e, 'z, 'p) shared \<Rightarrow> string" where
  "primary_connection_type w = (case first_active w of None \<Rightarrow> [] | Some a \<Rightarrow> connection_type_string (ac_profile a))"

definition wireless_hardware_enabled ::
  "('b, 'src, 's, 'e, 'z, 'v, 'p) facade \<Rightarrow> (('b, 's, 'e, 'z, 'p) shared, bool, facade_error) act" where
  "wireless_hardware_enabled fa = act_then (act_ok (enumerate_devices fa)) (\<lambda>devices.
     act_return (list_ex (\<lambda>v. dv_kind v = NmWifi) (case devices of None \<Rightarrow> [] | Some ds \<Rightarrow> ds)))"

section \<open>Settings\<close>

definition connection_paths ::
  "('b, 'src, 's, 'e, 'z, 'v, 'p) facade \<Rightarrow> (('b, 's, 'e, 'z, 'p) shared, string list, facade_error) act" where
  "connection_paths fa w =
     (map_ok (List.map_filter (\<lambda>p. connection_path_lookup w (cp_id p)))
        (map_err facade_of_store (list_profiles (fa_store fa) (sh_daemon w))), w)"

definition list_connections ::
  "('b, 'src, 's, 'e, 'z, 'v, 'p) facade \<Rightarrow> (('b, 's, 'e, 'z, 'p) shared, string list, facade_error) act" where
  "list_connections fa = act_then (connection_paths fa) (\<lambda>paths. act_return (filter (path_ok fa) paths))"

definition get_connection_by_uuid ::
  "('b, 'src, 's, 'e, 'z, 'v, 'p) facade \<Rightarrow> string \<Rightarrow> (('b, 's, 'e, 'z, 'p) shared, string, facade_error) act" where
  "get_connection_by_uuid fa uuid w =
     (case list_profiles (fa_store fa) (sh_daemon w) of
        Err e \<Rightarrow> (Err (facade_of_store e), w)
      | Ok profiles \<Rightarrow>
          (case find_map (\<lambda>p. if stable_uuid (cp_id p) = uuid then connection_path_lookup w (cp_id p) else None)
                  profiles of
             None \<Rightarrow> (Err (FeUnknownConnection uuid), w)
           | Some path \<Rightarrow> checked_path fa path w))"

text \<open>The common part of the three methods that add a connection.\<close>

definition add_profile ::
  "('b, 'src, 's, 'e, 'z, 'v, 'p) facade \<Rightarrow> string option \<Rightarrow> 'v settings \<Rightarrow>
   (('b, 's, 'e, 'z, 'p) shared, string, facade_error) act" where
  "add_profile fa sender settings =
     act_then (authorize fa sender ACTION_SETTINGS_MODIFY_SYSTEM) (\<lambda>_.
     act_then (act_result (settings_to_profile (fa_values fa) settings)) (\<lambda>profile.
     act_then (act_map_err facade_of_store (on_daemon (\<lambda>d. create_profile (fa_store fa) d profile))) (\<lambda>_.
     act_then (internal_of fa ''failed to register connection object: '' (register_connection_object fa profile)) (\<lambda>_.
     act_return (settings_connection_path (stable_uuid (cp_id profile)))))))"

definition add_connection ::
  "('b, 'src, 's, 'e, 'z, 'v, 'p) facade \<Rightarrow> string option \<Rightarrow> string \<Rightarrow> 'v settings \<Rightarrow>
   (('b, 's, 'e, 'z, 'p) shared, string, facade_error) act" where
  "add_connection fa sender self settings =
     act_then (add_profile fa sender settings) (\<lambda>path.
     act_then (checked_path fa path) (\<lambda>_.
     act_then (emit_signal fa self (SgNewConnection path)) (\<lambda>_. checked_path fa path)))"

definition add_connection_unsaved ::
  "('b, 'src, 's, 'e, 'z, 'v, 'p) facade \<Rightarrow> string option \<Rightarrow> 'v settings \<Rightarrow>
   (('b, 's, 'e, 'z, 'p) shared, string, facade_error) act" where
  "add_connection_unsaved fa sender settings =
     act_then (add_profile fa sender settings) (\<lambda>path. checked_path fa path)"

definition add_connection2 ::
  "('b, 'src, 's, 'e, 'z, 'v, 'p) facade \<Rightarrow> string option \<Rightarrow> string \<Rightarrow> 'v settings \<Rightarrow>
   (('b, 's, 'e, 'z, 'p) shared, string \<times> 'v sect, facade_error) act" where
  "add_connection2 fa sender self settings =
     act_then (add_profile fa sender settings) (\<lambda>path.
     act_then (checked_path fa path) (\<lambda>_.
     act_then (emit_signal fa self (SgNewConnection path)) (\<lambda>_.
     act_then (checked_path fa path) (\<lambda>p. act_return (p, Map.empty)))))"

definition load_connections ::
  "('b, 'src, 's, 'e, 'z, 'v, 'p) facade \<Rightarrow> string option \<Rightarrow> string list \<Rightarrow>
   (('b, 's, 'e, 'z, 'p) shared, bool \<times> string list, facade_error) act" where
  "load_connections fa sender filenames =
     act_then (authorize fa sender ACTION_SETTINGS_MODIFY_SYSTEM) (\<lambda>_. act_return (True, []))"

definition reload_connections ::
  "('b, 'src, 's, 'e, 'z, 'v, 'p) facade \<Rightarrow> string option \<Rightarrow> (('b, 's, 'e, 'z, 'p) shared, bool, facade_error) act" where
  "reload_connections fa sender =
     act_then (authorize fa sender ACTION_SETTINGS_MODIFY_SYSTEM) (\<lambda>_. act_return True)"

definition save_hostname ::
  "('b, 'src, 's, 'e, 'z, 'v, 'p) facade \<Rightarrow> string option \<Rightarrow> string \<Rightarrow> (('b, 's, 'e, 'z, 'p) shared, unit, facade_error) act" where
  "save_hostname fa sender hostname = authorize fa sender ACTION_SETTINGS_MODIFY_SYSTEM"

section \<open>One connection\<close>

definition connection_profile_of ::
  "('b, 'src, 's, 'e, 'z, 'v, 'p) facade \<Rightarrow> profile_id \<Rightarrow> (('b, 's, 'e, 'z, 'p) shared, connection_profile, facade_error) act" where
  "connection_profile_of fa i w = (map_err facade_of_store (get_profile (fa_store fa) (sh_daemon w) i), w)"

definition update_inner ::
  "('b, 'src, 's, 'e, 'z, 'v, 'p) facade \<Rightarrow> profile_id \<Rightarrow> string \<Rightarrow> 'v settings \<Rightarrow>
   (('b, 's, 'e, 'z, 'p) shared, unit, facade_error) act" where
  "update_inner fa i self settings =
     act_then (act_result (settings_to_profile (fa_values fa) settings)) (\<lambda>profile.
     if cp_id profile \<noteq> i then
       act_result (Err (FeInvalidProperty ''connection.id cannot change on update''))
     else
       act_then (act_map_err facade_of_store (on_daemon (\<lambda>d. update_profile (fa_store fa) d profile))) (\<lambda>_.
       emit_signal fa self SgConnectionUpdated))"

definition delete_inner ::
  "('b, 'src, 's, 'e, 'z, 'v, 'p) facade \<Rightarrow> profile_id \<Rightarrow> string \<Rightarrow> (('b, 's, 'e, 'z, 'p) shared, unit, facade_error) act" where
  "delete_inner fa i self =
     act_then (act_map_err facade_of_store (on_daemon (\<lambda>d. delete_profile (fa_store fa) d i))) (\<lambda>_.
     act_then (emit_signal fa self SgConnectionRemoved) (\<lambda>_. unregister_connection fa i))"

definition get_settings ::
  "('b, 'src, 's, 'e, 'z, 'v, 'p) facade \<Rightarrow> profile_id \<Rightarrow>
   (('b, 's, 'e, 'z, 'p) shared, ('v settings, unit thrown) result, facade_error) act" where
  "get_settings fa i =
     act_then (connection_profile_of fa i) (\<lambda>p. act_return (profile_to_settings (fa_values fa) p))"

definition get_secrets :: "profile_id \<Rightarrow> string \<Rightarrow> ('w, 'v settings, facade_error) act" where
  "get_secrets i setting_name = act_return Map.empty"

definition connection_update ::
  "('b, 'src, 's, 'e, 'z, 'v, 'p) facade \<Rightarrow> string option \<Rightarrow> profile_id \<Rightarrow> string \<Rightarrow> 'v settings \<Rightarrow>
   (('b, 's, 'e, 'z, 'p) shared, unit, facade_error) act" where
  "connection_update fa sender i self settings =
     act_then (authorize fa sender ACTION_SETTINGS_MODIFY_SYSTEM) (\<lambda>_. update_inner fa i self settings)"

definition connection_update_unsaved ::
  "('b, 'src, 's, 'e, 'z, 'v, 'p) facade \<Rightarrow> string option \<Rightarrow> profile_id \<Rightarrow> string \<Rightarrow> 'v settings \<Rightarrow>
   (('b, 's, 'e, 'z, 'p) shared, unit, facade_error) act" where
  "connection_update_unsaved fa sender i self settings =
     act_then (authorize fa sender ACTION_SETTINGS_MODIFY_SYSTEM) (\<lambda>_. update_inner fa i self settings)"

definition connection_applied ::
  "('b, 'src, 's, 'e, 'z, 'v, 'p) facade \<Rightarrow> profile_id \<Rightarrow> u32 \<Rightarrow>
   (('b, 's, 'e, 'z, 'p) shared, ('v settings, unit thrown) result \<times> u64, facade_error) act" where
  "connection_applied fa i flags =
     act_then (connection_profile_of fa i) (\<lambda>p. act_return (profile_to_settings (fa_values fa) p, 0))"

definition connection_delete ::
  "('b, 'src, 's, 'e, 'z, 'v, 'p) facade \<Rightarrow> string option \<Rightarrow> profile_id \<Rightarrow> string \<Rightarrow>
   (('b, 's, 'e, 'z, 'p) shared, unit, facade_error) act" where
  "connection_delete fa sender i self =
     act_then (authorize fa sender ACTION_SETTINGS_MODIFY_SYSTEM) (\<lambda>_. delete_inner fa i self)"

section \<open>Devices\<close>

definition device_active_at ::
  "('b, 'src, 's, 'e, 'z, 'v, 'p) facade \<Rightarrow> i32 \<Rightarrow> (('b, 's, 'e, 'z, 'p) shared, active_connection option, facade_error) act" where
  "device_active_at fa index =
     act_then (device_view_at fa index) (\<lambda>view. act_get (\<lambda>w. device_active w (dv_interface view)))"

definition current_state ::
  "('b, 'src, 's, 'e, 'z, 'v, 'p) facade \<Rightarrow> i32 \<Rightarrow> (('b, 's, 'e, 'z, 'p) shared, u32, facade_error) act" where
  "current_state fa index =
     act_then (device_view_at fa index) (\<lambda>view.
     act_then (device_active_at fa index) (\<lambda>active. act_return (state_of_view view active)))"

definition device_applied_connection ::
  "('b, 'src, 's, 'e, 'z, 'v, 'p) facade \<Rightarrow> i32 \<Rightarrow> u32 \<Rightarrow>
   (('b, 's, 'e, 'z, 'p) shared, ('v settings, unit thrown) result \<times> u64, facade_error) act" where
  "device_applied_connection fa index flags =
     act_then (device_active_at fa index) (\<lambda>active.
     act_return (case active of None \<Rightarrow> Ok Map.empty
        | Some a \<Rightarrow> profile_to_settings (fa_values fa) (ac_profile a), 0))"

definition device_interface ::
  "('b, 'src, 's, 'e, 'z, 'v, 'p) facade \<Rightarrow> i32 \<Rightarrow> (('b, 's, 'e, 'z, 'p) shared, string, facade_error) act" where
  "device_interface fa index = act_then (device_view_at fa index) (\<lambda>view. act_return (dv_interface view))"

definition active_or_error ::
  "('b, 'src, 's, 'e, 'z, 'v, 'p) facade \<Rightarrow> i32 \<Rightarrow> (('b, 's, 'e, 'z, 'p) shared, active_connection, facade_error) act" where
  "active_or_error fa index =
     act_then (device_interface fa index) (\<lambda>name.
     act_then (device_active_at fa index) (\<lambda>active. act_result (ok_or active (FeNotActive name))))"

definition device_disconnect ::
  "('b, 'src, 's, 'e, 'z, 'v, 'p) facade \<Rightarrow> string option \<Rightarrow> i32 \<Rightarrow> (('b, 's, 'e, 'z, 'p) shared, unit, facade_error) act" where
  "device_disconnect fa sender index =
     act_then (authorize fa sender ACTION_NETWORK_CONTROL) (\<lambda>_.
     act_then (active_or_error fa index) (\<lambda>active.
     act_then (act_map_err facade_of_activation (on_daemon (\<lambda>d. daemon_deactivate (fa_engine fa) d (ac_id active)))) (\<lambda>_.
     emit_connection_events fa)))"

text \<open>The arguments of the signal are those of the source, in its order: state, reason, previous state.\<close>

definition device_delete ::
  "('b, 'src, 's, 'e, 'z, 'v, 'p) facade \<Rightarrow> string option \<Rightarrow> i32 \<Rightarrow> string \<Rightarrow>
   (('b, 's, 'e, 'z, 'p) shared, unit, facade_error) act" where
  "device_delete fa sender index self =
     act_then (authorize fa sender ACTION_SETTINGS_MODIFY_SYSTEM) (\<lambda>_.
     act_then (active_or_error fa index) (\<lambda>active.
     let i = cp_id (ac_profile active) in
     act_then (act_map_err facade_of_store (on_daemon (\<lambda>d. delete_profile (fa_store fa) d i))) (\<lambda>_.
     act_then (unregister_connection fa i) (\<lambda>_.
     emit_signal fa self (SgDeviceStateChanged NM_DEVICE_STATE_DISCONNECTED NM_DEVICE_STATE_ACTIVATED 0)))))"

definition device_reapply :: "('w, unit, facade_error) act" where
  "device_reapply = act_result (Err (not_supported ''Reapply''))"

definition device_set_managed :: "('w, unit, facade_error) act" where
  "device_set_managed = act_result (Err (not_supported ''SetManaged''))"

definition device_active_path ::
  "('b, 'src, 's, 'e, 'z, 'v, 'p) facade \<Rightarrow> (active_id \<Rightarrow> string) \<Rightarrow> i32 \<Rightarrow>
   (('b, 's, 'e, 'z, 'p) shared, string, facade_error) act" where
  "device_active_path fa path_of index =
     act_then (device_active_at fa index) (\<lambda>active.
     act_return (path_or_root fa (map_option (\<lambda>a. path_of (ac_id a)) active)))"

definition device_active_connection where
  "device_active_connection fa index = device_active_path fa active_path index"

definition device_ip4_config where
  "device_ip4_config fa index = device_active_path fa ip4_path index"

definition device_dhcp4_config where
  "device_dhcp4_config fa index = device_active_path fa dhcp4_path index"

definition device_ip6_config where
  "device_ip6_config fa index = device_active_path fa ip6_path index"

definition device_driver ::
  "('b, 'src, 's, 'e, 'z, 'v, 'p) facade \<Rightarrow> i32 \<Rightarrow> (('b, 's, 'e, 'z, 'p) shared, string, facade_error) act" where
  "device_driver fa index = act_then (device_view_at fa index) (\<lambda>view. act_return (nm_driver (dv_kind view)))"

definition device_type ::
  "('b, 'src, 's, 'e, 'z, 'v, 'p) facade \<Rightarrow> i32 \<Rightarrow> (('b, 's, 'e, 'z, 'p) shared, u32, facade_error) act" where
  "device_type fa index = act_then (device_view_at fa index) (\<lambda>view. act_return (nm_type (dv_kind view)))"

definition device_state_reason ::
  "('b, 'src, 's, 'e, 'z, 'v, 'p) facade \<Rightarrow> i32 \<Rightarrow> (('b, 's, 'e, 'z, 'p) shared, u32 \<times> u32, facade_error) act" where
  "device_state_reason fa index = act_then (current_state fa index) (\<lambda>state. act_return (state, 0))"

definition wired_carrier ::
  "('b, 'src, 's, 'e, 'z, 'v, 'p) facade \<Rightarrow> i32 \<Rightarrow> (('b, 's, 'e, 'z, 'p) shared, bool, facade_error) act" where
  "wired_carrier fa index = act_then (device_view_at fa index) (\<lambda>view. act_return (dv_up view))"

definition available_connections ::
  "('b, 'src, 's, 'e, 'z, 'v, 'p) facade \<Rightarrow> i32 \<Rightarrow> (('b, 's, 'e, 'z, 'p) shared, string list, facade_error) act" where
  "available_connections fa index =
     act_then (device_view_at fa index) (\<lambda>view.
     act_then (\<lambda>w. (map_err facade_of_store (list_profiles (fa_store fa) (sh_daemon w)), w)) (\<lambda>profiles.
     act_get (\<lambda>w. filter (path_ok fa) (List.map_filter (\<lambda>p. connection_path_lookup w (cp_id p))
       (filter (\<lambda>p. matches p (to_device_info view)) profiles)))))"

definition interface_flags ::
  "('b, 'src, 's, 'e, 'z, 'v, 'p) facade \<Rightarrow> i32 \<Rightarrow> (('b, 's, 'e, 'z, 'p) shared, u32, facade_error) act" where
  "interface_flags fa index = act_then (device_view_at fa index) (\<lambda>view. act_return (if dv_up view then 3 else 0))"

definition hw_address ::
  "('b, 'src, 's, 'e, 'z, 'v, 'p) facade \<Rightarrow> i32 \<Rightarrow> (('b, 's, 'e, 'z, 'p) shared, string, facade_error) act" where
  "hw_address fa index = act_then (device_view_at fa index) (\<lambda>view.
     act_return (case dv_mac view of None \<Rightarrow> [] | Some m \<Rightarrow> format_mac_address m))"

definition ip4_connectivity ::
  "('b, 'src, 's, 'e, 'z, 'v, 'p) facade \<Rightarrow> i32 \<Rightarrow> (('b, 's, 'e, 'z, 'p) shared, u32, facade_error) act" where
  "ip4_connectivity fa index = act_then (device_active_at fa index) (\<lambda>active.
     act_return (if active \<noteq> None then NM_CONNECTIVITY_FULL else NM_CONNECTIVITY_NONE))"

definition request_scan ::
  "('b, 'src, 's, 'e, 'z, 'v, 'p) facade \<Rightarrow> (('b, 's, 'e, 'z, 'p) shared, unit, facade_error) act" where
  "request_scan fa =
     act_then (act_map_err facade_of_netlink (on_daemon (daemon_scan_wifi (fa_backend fa)))) (\<lambda>_. act_return ())"

definition all_access_points ::
  "('b, 'src, 's, 'e, 'z, 'v, 'p) facade \<Rightarrow> i32 \<Rightarrow> (('b, 's, 'e, 'z, 'p) shared, string list, facade_error) act" where
  "all_access_points fa index =
     act_then (enumerate_devices fa) (\<lambda>devices.
     if primary_wifi devices \<noteq> Some index then act_return []
     else act_then (access_point_paths fa) (\<lambda>paths. act_return (filter (path_ok fa) paths)))"

section \<open>Active connections\<close>

definition active_of ::
  "active_id \<Rightarrow> (('b, 's, 'e, 'z, 'p) shared, active_connection, facade_error) act" where
  "active_of aid w = (ok_or (active_by_id w aid) (FeUnknownActiveConnection (show_word aid)), w)"

text \<open>
  The error of a property: one of the facade, wrapped by the conversion, or a plain failure. The properties that only
  fail with an error of the facade are given with that error.
\<close>

datatype fdo_error = FdoZBus zbus_error | FdoFailed string

definition fdo_of_facade :: "facade_error \<Rightarrow> fdo_error" where
  "fdo_of_facade e = FdoZBus (ZFailure (facade_error_string e))"

definition active_connection_object ::
  "('b, 'src, 's, 'e, 'z, 'v, 'p) facade \<Rightarrow> active_id \<Rightarrow> (('b, 's, 'e, 'z, 'p) shared, string, fdo_error) act" where
  "active_connection_object fa aid =
     act_then (act_map_err fdo_of_facade (active_of aid)) (\<lambda>a.
     let path = settings_connection_path (stable_uuid (cp_id (ac_profile a))) in
     act_then (act_result (map_err FdoFailed (sv_path (fa_server fa) path))) (\<lambda>_. act_return path))"

definition active_profile_id :: "active_id \<Rightarrow> (('b, 's, 'e, 'z, 'p) shared, string, facade_error) act" where
  "active_profile_id aid = act_then (active_of aid) (\<lambda>a. act_return (cp_id (ac_profile a)))"

definition active_ip4_config where
  "active_ip4_config fa aid = checked_path fa (ip4_path aid)"

definition active_dhcp4_config where
  "active_dhcp4_config fa aid = checked_path fa (dhcp4_path aid)"

definition active_ip6_config where
  "active_ip6_config fa aid = checked_path fa (ip6_path aid)"

definition active_dhcp6_config where
  "active_dhcp6_config fa aid = checked_path fa (dhcp6_path aid)"

definition active_uuid :: "active_id \<Rightarrow> (('b, 's, 'e, 'z, 'p) shared, string, facade_error) act" where
  "active_uuid aid = act_then (active_of aid) (\<lambda>a. act_return (stable_uuid (cp_id (ac_profile a))))"

definition active_type :: "active_id \<Rightarrow> (('b, 's, 'e, 'z, 'p) shared, string, facade_error) act" where
  "active_type aid = act_then (active_of aid) (\<lambda>a. act_return (connection_type_string (ac_profile a)))"

definition active_devices ::
  "('b, 'src, 's, 'e, 'z, 'v, 'p) facade \<Rightarrow> active_id \<Rightarrow> (('b, 's, 'e, 'z, 'p) shared, string list, facade_error) act" where
  "active_devices fa aid =
     act_then (active_of aid) (\<lambda>a.
     act_then (device_index_by_name fa (dev_interface_name (ac_device a))) (\<lambda>index.
     act_return (filter (path_ok fa) (case index of None \<Rightarrow> [] | Some i \<Rightarrow> [device_path i]))))"

definition active_state :: "active_id \<Rightarrow> (('b, 's, 'e, 'z, 'p) shared, u32, facade_error) act" where
  "active_state aid = act_then (active_of aid) (\<lambda>a. act_return (active_nm_state (ac_state a)))"

definition active_default :: "active_id \<Rightarrow> (('b, 's, 'e, 'z, 'p) shared, bool, facade_error) act" where
  "active_default aid = act_then (active_of aid) (\<lambda>a. act_return (ac_state a = Activated))"

section \<open>Starting the service\<close>

definition attach_authorized ::
  "('b, 'src, 's, 'e, 'z, 'v, 'p) facade \<Rightarrow> ('b, 's, 'e) daemon \<Rightarrow> 'z \<Rightarrow> 'p \<Rightarrow>
   (unit, zbus_error) result \<times> ('b, 's, 'e, 'z, 'p) shared" where
  "attach_authorized fa d conn policy =
     act_then (at_path fa ROOT_PATH RootIface) (\<lambda>_.
     act_then (at_path fa SETTINGS_PATH SettingsIface) (\<lambda>_.
     register_all fa)) (with_authorization d conn policy)"

section \<open>Refused callers\<close>

text \<open>
  \<open>refuses fa w sender action m\<close>: the method \<open>m\<close> answers with a permission error and the
  only state that changes is that of the policy backend that was asked.
\<close>

definition denies ::
  "('b, 'src, 's, 'e, 'z, 'v, 'p) facade \<Rightarrow> ('b, 's, 'e, 'z, 'p) shared \<Rightarrow> string option \<Rightarrow> string \<Rightarrow> bool" where
  "denies fa w sender action \<longleftrightarrow>
     fst (fa_policy fa (sh_authorization w) (from_sender sender) action) \<noteq> Ok AuthYes"

definition refuses ::
  "('b, 'src, 's, 'e, 'z, 'v, 'p) facade \<Rightarrow> ('b, 's, 'e, 'z, 'p) shared \<Rightarrow> string option \<Rightarrow> string \<Rightarrow>
   (('b, 's, 'e, 'z, 'p) shared, 'a, facade_error) act \<Rightarrow> bool" where
  "refuses fa w sender action m \<longleftrightarrow> m w = (Err (FePermissionDenied action),
     w\<lparr> sh_authorization := snd (fa_policy fa (sh_authorization w) (from_sender sender) action) \<rparr>)"

lemma authorize_refuses: "denies fa w sender action \<Longrightarrow> refuses fa w sender action (authorize fa sender action)"
  using authorize_call_denied [of "fa_policy fa" "sh_authorization w" sender action]
    authorize_call_state [of "fa_policy fa" "sh_authorization w" sender action]
  by (simp add: denies_def refuses_def authorize_def case_prod_unfold)

lemma act_then_refuses: "refuses fa w sender action m \<Longrightarrow> refuses fa w sender action (act_then m f)"
  by (simp add: refuses_def act_then_def)

lemmas refusing = authorize_refuses authorize_refuses [THEN act_then_refuses]
  authorize_refuses [THEN act_then_refuses, THEN act_then_refuses]

section \<open>What the methods leave alone\<close>

lemma keeps_authorize:
  assumes "\<And>w p. g (w\<lparr> sh_authorization := p \<rparr>) = g w"
  shows "act_keeps g (authorize fa sender action)"
  by (simp add: act_keeps_def authorize_def case_prod_unfold assms)

lemma keeps_checked_path: "act_keeps g (checked_path fa path)"
  unfolding checked_path_def by (intro keeps_intros)

lemma keeps_internal: "act_keeps g m \<Longrightarrow> act_keeps g (internal_of fa prefix m)"
  unfolding internal_of_def by (rule keeps_map_err)

lemma checked_path_Ok: "checked_path fa path w = (Ok p, w') \<Longrightarrow> p = path \<and> w' = w"
  by (auto simp: checked_path_def act_then_Ok act_result_def act_return_def)

lemma keeps_signal:
  assumes "\<And>w c. g (w\<lparr> sh_conn := c \<rparr>) = g w"
  shows "act_keeps g (emit_signal fa path sg)" "act_keeps g (remove_iface fa path t)" "act_keeps g (at_path fa path i)"
  unfolding emit_signal_def remove_iface_def at_path_def by (intro keeps_intros keeps_on_conn assms)+

text \<open>What a successful \<open>AddConnection\<close> has done.\<close>

lemma add_profile_Ok:
  assumes "add_profile fa sender settings w = (Ok path, w')"
  obtains p where "settings_to_profile (fa_values fa) settings = Ok p"
    "create_profile (fa_store fa) (sh_daemon w) p = (Ok (), sh_daemon w')"
    "path = settings_connection_path (stable_uuid (cp_id p))" "sh_connections w' (cp_id p) = Some path"
proof -
  obtain w1 p w2 w3 where a: "authorize fa sender ACTION_SETTINGS_MODIFY_SYSTEM w = (Ok (), w1)"
    and p: "settings_to_profile (fa_values fa) settings = Ok p"
    and c: "act_map_err facade_of_store (on_daemon (\<lambda>d. create_profile (fa_store fa) d p)) w1 = (Ok (), w2)"
    and r: "internal_of fa ''failed to register connection object: '' (register_connection_object fa p) w2 = (Ok (), w3)"
    and e: "path = settings_connection_path (stable_uuid (cp_id p))" "w' = w3"
    using assms by (auto simp: add_profile_def act_then_Ok act_result_def act_return_def)
  have "act_keeps sh_daemon (authorize fa sender ACTION_SETTINGS_MODIFY_SYSTEM)" by (rule keeps_authorize) simp
  from act_keepsD [OF this a] have d: "sh_daemon w1 = sh_daemon w" .
  have "act_keeps sh_daemon (internal_of fa q (register_connection_object fa p))" for q
    unfolding register_connection_object_def
    by (auto simp: Let_def intro!: keeps_internal keeps_intros keeps_signal)
  from act_keepsD [OF this r] have d3: "sh_daemon w3 = sh_daemon w2" .
  have "sh_connections w3 (cp_id p) = Some path"
    using r unfolding e(1) by (auto simp: internal_of_def act_map_err_def register_connection_object_def Let_def
        act_then_def act_set_def split: prod.splits result.splits)
  moreover have "create_profile (fa_store fa) (sh_daemon w) p = (Ok (), sh_daemon w2)"
    using c d by (auto simp: act_map_err_def on_daemon_def result_simps split: prod.splits)
  ultimately show ?thesis using that p e d3 by simp
qed

lemma add_connection_Ok:
  assumes "add_connection fa sender self settings w = (Ok path, w')"
  obtains p where "settings_to_profile (fa_values fa) settings = Ok p"
    "create_profile (fa_store fa) (sh_daemon w) p = (Ok (), sh_daemon w')"
    "sh_connections w' (cp_id p) = Some path"
proof -
  obtain q w1 w2 where q: "add_profile fa sender settings w = (Ok q, w1)"
    and e: "emit_signal fa self (SgNewConnection q) w1 = (Ok (), w2)" "path = q" "w' = w2"
    using assms unfolding add_connection_def act_then_Ok by (auto dest!: checked_path_Ok)
  have "act_keeps sh_daemon (emit_signal fa self (SgNewConnection q))"
      "act_keeps sh_connections (emit_signal fa self (SgNewConnection q))"
    by (rule keeps_signal; simp)+
  from this [THEN act_keepsD, OF e(1)]
  have "sh_daemon w2 = sh_daemon w1" "sh_connections w2 = sh_connections w1" .
  with q e show ?thesis by (auto elim!: add_profile_Ok intro: that)
qed

section \<open>Paths name their objects\<close>

lemma show_nat_digits: "show_nat n \<noteq> [] \<and> list_all (\<lambda>c. to_digit 10 c \<noteq> None \<and> c \<noteq> CHR ''/'' \<and> c \<noteq> CHR ''+'') (show_nat n)"
proof (induction n rule: show_nat.induct)
  case (1 n)
  have "list_all (\<lambda>d. to_digit 10 (char_of (48 + d)) \<noteq> None \<and> char_of (48 + d) \<noteq> CHR ''/'' \<and>
      char_of (48 + d) \<noteq> CHR ''+'') [0..<10 :: nat]" by code_simp
  then have digit: "d < 10 \<Longrightarrow> to_digit 10 (char_of (48 + d)) \<noteq> None \<and> char_of (48 + d) \<noteq> CHR ''/'' \<and>
      char_of (48 + d) \<noteq> CHR ''+''" for d :: nat
    by (simp add: list_all_iff)
  show ?case
  proof (cases "n < 10")
    case True
    then show ?thesis using digit [of n] by (simp add: show_nat.simps [of n])
  next
    case False
    then show ?thesis using 1 [OF False] digit [of "n mod 10"] by (simp add: show_nat.simps [of n])
  qed
qed

lemma split_char_none: "c \<notin> set s \<Longrightarrow> split_char c s = [s]"
  by (induction s) auto

lemma parse_u64_show: "parse_u64 (show_word w) = Some w"
proof -
  have d: "show_nat (unat w) \<noteq> []" "list_all (\<lambda>c. to_digit 10 c \<noteq> None) (show_nat (unat w))"
      "hd (show_nat (unat w)) \<noteq> CHR ''+''"
    using show_nat_digits [of "unat w"] by (auto simp: list_all_iff)
  then have "(case show_nat (unat w) of CHR ''+'' # cs \<Rightarrow> cs | _ \<Rightarrow> show_nat (unat w)) = show_nat (unat w)"
    by (auto split: list.split char.split bool.split)
  moreover have "unat w < 2 ^ 64" using unsigned_less [of w] by simp
  ultimately show ?thesis
    using d by (simp add: parse_u64_def show_word_def decimal_value_show Let_def)
qed

lemma active_id_of_path: "active_id_of (active_path a) = Ok a"
proof -
  have "CHR ''/'' \<notin> set (show_word a)" using show_nat_digits [of "unat a"] by (auto simp: show_word_def list_all_iff)
  then show ?thesis
    unfolding active_id_of_def active_path_def path_index_def strip_prefix_append by (simp add: split_char_none parse_u64_show)
qed

text \<open>A successful deactivation: the connection is gone and its events are pending.\<close>

lemma am_deactivate_Ok:
  assumes "am_deactivate eng m aid = (Ok u, m')" "am_inv m" "am_events m = []"
  shows "aid \<in> ac_id ` set (am_active m)" "aid \<notin> ac_id ` set (am_active m')"
    "EvStateChanged a i s t \<in> set (am_events m') \<Longrightarrow> a = aid"
proof -
  obtain k where k: "position (\<lambda>a. ac_id a = aid) (am_active m) = Some k" "ac_state (am_active m ! k) = Activated"
    using assms(1) by (rule am_deactivate_cases) auto
  obtain r e where "eo_deactivate eng (am_engine m) (ac_profile (am_active m ! k)) = (r, e)" by (meson surj_pair)
  note eq = am_deactivate_eq [OF k this]
  have m': "am_active m' = take k (am_active m) @ drop (Suc k) (am_active m)"
      "am_events m' = [EvStateChanged aid (cp_id (ac_profile (am_active m ! k))) Activated Deactivating,
         EvStateChanged aid (cp_id (ac_profile (am_active m ! k))) Deactivating Disconnected,
         EvDeactivated aid (cp_id (ac_profile (am_active m ! k)))]"
    using eq assms(1,3) by (cases r; auto simp: Let_def)+
  have k': "k < length (am_active m)" "ac_id (am_active m ! k) = aid" using position_Some [OF k(1)] by auto
  then show "aid \<in> ac_id ` set (am_active m)" by (metis image_eqI nth_mem)
  have "map ac_id (am_active m) = map ac_id (take k (am_active m)) @ aid # map ac_id (drop (Suc k) (am_active m))"
    using k' id_take_nth_drop [OF k'(1)] by (metis (no_types, lifting) list.simps(9) map_append)
  then show "aid \<notin> ac_id ` set (am_active m')"
    using assms(2) m'(1) by (auto simp: am_inv_def)
  show "EvStateChanged a i s t \<in> set (am_events m') \<Longrightarrow> a = aid" using m'(2) by auto
qed

lemma keeps_root_state:
  "act_keeps (\<lambda>w. (sh_device_states w, dm_activation (sh_daemon w))) (emit_root_state_if_changed fa)"
  unfolding emit_root_state_if_changed_def by (auto intro!: keeps_intros keeps_emitter keeps_signal)

lemma untracked_emission:
  assumes "\<And>a i s t. EvStateChanged a i s t \<in> set (am_events (dm_activation (sh_daemon w))) \<Longrightarrow> active_by_id w a = None"
    and "emit_connection_events fa w = (Ok u, w')"
  shows "sh_device_states w' = sh_device_states w \<and>
    am_active (dm_activation (sh_daemon w')) = am_active (dm_activation (sh_daemon w))"
proof -
  let ?w = "w\<lparr> sh_daemon := (sh_daemon w)\<lparr> dm_activation := (dm_activation (sh_daemon w))\<lparr> am_events := [] \<rparr> \<rparr> \<rparr>"
  obtain w1 where w1: "emit_events fa Map.empty (am_events (dm_activation (sh_daemon w))) ?w = (Ok (), w1)"
      "emit_root_state_if_changed fa w1 = (Ok u, w')"
    using assms(2) by (rule emit_connection_events_split)
  have "active_by_id ?w a = active_by_id w a" for a by (simp add: active_by_id_def daemon_active_connections_def)
  then have "sh_device_states w1 = sh_device_states ?w"
    using untracked_events_keep_devices [OF _ w1(1)] assms(1) by simp
  with act_keepsD [OF keeps_root_state w1(2)] act_keepsD [OF events_keep_manager w1(1)] show ?thesis by simp
qed

lemma deactivate_connection_Ok:
  assumes "deactivate_connection fa sender path w = (Ok u, w')"
  obtains aid w1 m where "active_id_of path = Ok aid"
    "am_deactivate (fa_engine fa) (dm_activation (sh_daemon w)) aid = (Ok (), m)"
    "dm_activation (sh_daemon w1) = m" "sh_device_states w1 = sh_device_states w"
    "emit_connection_events fa w1 = (Ok u, w')"
proof -
  obtain w0 aid w1 where a: "authorize fa sender ACTION_NETWORK_CONTROL w = (Ok (), w0)"
    and aid: "active_id_of path = Ok aid"
    and d: "act_map_err facade_of_activation (on_daemon (\<lambda>d. daemon_deactivate (fa_engine fa) d aid)) w0 = (Ok (), w1)"
    and e: "emit_connection_events fa w1 = (Ok u, w')"
    using assms by (auto simp: deactivate_connection_def act_then_Ok act_result_def)
  have "act_keeps sh_daemon (authorize fa sender ACTION_NETWORK_CONTROL)"
      "act_keeps sh_device_states (authorize fa sender ACTION_NETWORK_CONTROL)"
    by (rule keeps_authorize; simp)+
  note w0 = this [THEN act_keepsD, OF a]
  obtain m where "am_deactivate (fa_engine fa) (dm_activation (sh_daemon w0)) aid = (Ok (), m)"
      "dm_activation (sh_daemon w1) = m" "sh_device_states w1 = sh_device_states w0"
    using d by (auto simp: act_map_err_def on_daemon_def daemon_deactivate_def on_manager_def result_simps
        split: prod.splits)
  then show ?thesis using that aid e w0 by metis
qed

lemma mem_create_get:
  assumes "mem_inv s" "so_create mem_store_ops s p = (Ok (), s')" "profile_ok p"
  shows "so_get mem_store_ops s' (cp_id p) = Ok p"
proof (cases "map_of s (cp_id p) = None")
  case True
  from mem.get_after_create [OF assms(1) assms(3) this] assms(2) show ?thesis by auto
next
  case False
  with mem.create_refused [OF assms(1)] assms(2,3) show ?thesis by (fastforce simp: profile_ok_def)
qed

section \<open>A small system\<close>

text \<open>
  A backend with the loopback interface and one wired device, a bus that accepts everything and keeps the
  signals it sent, and a store with one wired profile: the concrete inputs of the witnesses.
\<close>

definition lan_backend :: "(unit, unit) backend_ops" where
  "lan_backend = \<lparr>
     bo_links = (\<lambda>b. (Ok [\<lparr> link_index = 1, link_name = ''lo'', link_flags = 0x49 \<rparr>,
                          \<lparr> link_index = 2, link_name = ''eth0'', link_flags = 0x43 \<rparr>], b)),
     bo_addresses = (\<lambda>b. (Ok [], b)), bo_routes = (\<lambda>b. (Ok [], b)), bo_events = (\<lambda>b. (Ok (), b)),
     bo_wifi_interfaces = (\<lambda>b. (Ok [], b)), bo_access_points = (\<lambda>b. (Ok [], b)),
     bo_scan_wifi = (\<lambda>b. (Ok [], b)), bo_wifi_events = (\<lambda>b. (Ok (), b)) \<rparr>"

definition log_server :: "((string \<times> 'v signal) list, 'v) server_ops" where
  "log_server = \<lparr> sv_error_text = (\<lambda>_. []), sv_path = (\<lambda>_. Ok ()), sv_emitter = (\<lambda>_ _. Ok ()),
     sv_at = (\<lambda>c _ _. (Ok True, c)), sv_remove = (\<lambda>c _ _. (Ok True, c)),
     sv_emit = (\<lambda>c p s. (Ok (), c @ [(p, s)])) \<rparr>"

lemma log_server_logs: "logs log_server (\<lambda>c. c)"
  by (simp add: logs_def log_server_def)

definition lan ::
  "'p authorization \<Rightarrow> (unit, unit, mem_store, unit, (string \<times> dbus_value signal) list, dbus_value, 'p) facade" where
  "lan policy = \<lparr> fa_backend = lan_backend, fa_store = mem_store_ops, fa_engine = accepting_engine,
     fa_server = log_server, fa_values = dbus_zv, fa_policy = policy \<rparr>"

definition lan_shared ::
  "(unit, mem_store, unit, (string \<times> dbus_value signal) list, unit) shared" where
  "lan_shared = with_authorization (with_components () [(''wired'', wired)] ()) [] ()"

text \<open>The system after the wired profile was activated on the wired device, before its events are sent.\<close>

definition lan_active :: "(unit, mem_store, unit, (string \<times> dbus_value signal) list, unit) shared" where
  "lan_active = lan_shared\<lparr> sh_daemon :=
     snd (daemon_activate accepting_engine mem_store_ops (sh_daemon lan_shared) eth0) \<rparr>"

definition lan_request :: "dbus_value settings" where
  "lan_request = [''connection'' \<mapsto> [''id'' \<mapsto> DStr ''desk'', ''type'' \<mapsto> DStr ''802-3-ethernet'',
     ''priority'' \<mapsto> DI32 7]]"

definition desk :: connection_profile where
  "desk = (base_profile ''desk'' ''desk'' (Ethernet ethernet_default))\<lparr> cp_priority := 7 \<rparr>"

lemma lan_request_read: "settings_to_profile dbus_zv lan_request = Ok desk"
proof -
  have "list_all id_char_ok ''desk''" by (simp add: id_char_ok_def is_ascii_alphanumeric_def)
  then show ?thesis
    by (simp add: settings_to_profile_def lan_request_def desk_def dbus_zv_def get_str_def get_bool_def get_i32_def
        parse_typed_def profile_ethernet_def connection_overrides_def override_def optional_section_def validate_def
        validate_type_def validate_ip_config_def base_profile_def ethernet_default_def ip_config_default_def Let_def)
qed

lemma lan_adds_desk:
  "fst (add_connection (lan allow_all_check) (Some '':1.7'') SETTINGS_PATH lan_request lan_shared) =
     Ok (settings_connection_path (stable_uuid ''desk''))"
proof -
  have valid: "validate desk = Ok ()"
    using settings_to_profile_Ok [OF lan_request_read] by (simp add: validate_Ok_iff)
  have desk: "cp_id desk = ''desk''" by (simp add: desk_def base_profile_def)
  show ?thesis
    by (simp add: add_connection_def add_profile_def act_then_def act_result_def act_return_def authorize_def
        authorize_call_def allow_all_check_def lan_shared_def with_authorization_def with_components_def desk
        act_map_err_def on_daemon_def create_profile_def mem_store_ops_def mem_create_def valid internal_of_def
        register_connection_object_def at_path_def on_conn_def act_set_def checked_path_def path_ok_def
        emit_signal_def Let_def lan_def log_server_def lan_request_read)
qed

lemma lan_active_events:
  "fst (emit_connection_events (lan allow_all_check) lan_active) = Ok ()"
  "changes 1 (am_events (dm_activation (sh_daemon lan_active))) =
     [(Disconnected, Preparing), (Preparing, Configuring), (Configuring, Activating), (Activating, Activated)]"
  "sh_conn lan_active = []"
  by code_simp+

text \<open>The system once these events have been sent.\<close>

definition lan_settled :: "(unit, mem_store, unit, (string \<times> dbus_value signal) list, unit) shared" where
  "lan_settled = snd (emit_connection_events (lan allow_all_check) lan_active)"

lemma lan_settled_state: "sh_device_states lan_settled 2 = Some NM_DEVICE_STATE_ACTIVATED"
  by code_simp

lemma act_then_result: "act_then (act_result (Ok x)) f = f x"
  by (simp add: fun_eq_iff act_then_def act_result_def)

lemma lan_deactivates: "fst (deactivate_connection (lan allow_all_check) None (active_path 1) lan_settled) = Ok ()"
proof -
  have "fst (act_then (authorize (lan allow_all_check) None ACTION_NETWORK_CONTROL) (\<lambda>_.
      act_then (act_map_err facade_of_activation
        (on_daemon (\<lambda>d. daemon_deactivate (fa_engine (lan allow_all_check)) d 1))) (\<lambda>_.
      emit_connection_events (lan allow_all_check))) lan_settled) = Ok ()"
    by code_simp
  then show ?thesis by (simp add: deactivate_connection_def active_id_of_path act_then_result)
qed

lemma lan_settled_inv:
  "am_inv (dm_activation (sh_daemon lan_settled))" "am_events (dm_activation (sh_daemon lan_settled)) = []"
proof -
  have "logs (fa_server (lan allow_all_check)) (\<lambda>c. c)" by (simp add: lan_def log_server_logs)
  from emit_connection_events_Ok(2) [OF this, of lan_active "()" lan_settled]
  have "dm_activation (sh_daemon lan_settled) = (dm_activation (sh_daemon lan_active))\<lparr> am_events := [] \<rparr>"
    using lan_active_events(1) unfolding lan_settled_def by (metis prod.collapse)
  moreover have "am_active (dm_activation (sh_daemon lan_active)) = [\<lparr> ac_id = 1, ac_profile = wired, ac_device = eth0,
      ac_state = Activated, ac_outcome = outcome_default \<rparr>]" "am_next_id (dm_activation (sh_daemon lan_active)) = 2"
    by code_simp+
  ultimately show "am_inv (dm_activation (sh_daemon lan_settled))" "am_events (dm_activation (sh_daemon lan_settled)) = []"
    using wired_ok(2) by (simp_all add: am_inv_def)
qed

section \<open>Properties\<close>

text \<open>C27. The facade fails closed. When the policy backend gives anything but a positive
  answer for the caller (a denial, an unknown answer, a failure, an unidentified caller), every privileged
  method answers \<open>PermissionDenied\<close> and changes neither the daemon, the registry nor the bus.\<close>

theorem denied_caller_changes_nothing:
  "(denies fa w sender ACTION_NETWORK_CONTROL \<longrightarrow>
      refuses fa w sender ACTION_NETWORK_CONTROL (activate_connection fa sender self settings device) \<and>
      refuses fa w sender ACTION_NETWORK_CONTROL (add_and_activate_connection fa sender self settings device) \<and>
      refuses fa w sender ACTION_NETWORK_CONTROL (add_and_activate_connection2 fa sender self settings device) \<and>
      refuses fa w sender ACTION_NETWORK_CONTROL (deactivate_connection fa sender active) \<and>
      refuses fa w sender ACTION_NETWORK_CONTROL (device_disconnect fa sender index)) \<and>
   (denies fa w sender ACTION_SETTINGS_MODIFY_SYSTEM \<longrightarrow>
      refuses fa w sender ACTION_SETTINGS_MODIFY_SYSTEM (add_connection fa sender self settings) \<and>
      refuses fa w sender ACTION_SETTINGS_MODIFY_SYSTEM (add_connection_unsaved fa sender settings) \<and>
      refuses fa w sender ACTION_SETTINGS_MODIFY_SYSTEM (add_connection2 fa sender self settings) \<and>
      refuses fa w sender ACTION_SETTINGS_MODIFY_SYSTEM (connection_update fa sender i self settings) \<and>
      refuses fa w sender ACTION_SETTINGS_MODIFY_SYSTEM (connection_update_unsaved fa sender i self settings) \<and>
      refuses fa w sender ACTION_SETTINGS_MODIFY_SYSTEM (connection_delete fa sender i self) \<and>
      refuses fa w sender ACTION_SETTINGS_MODIFY_SYSTEM (device_delete fa sender index self) \<and>
      refuses fa w sender ACTION_SETTINGS_MODIFY_SYSTEM (load_connections fa sender filenames) \<and>
      refuses fa w sender ACTION_SETTINGS_MODIFY_SYSTEM (reload_connections fa sender) \<and>
      refuses fa w sender ACTION_SETTINGS_MODIFY_SYSTEM (save_hostname fa sender hostname)) \<and>
   (denies fa w sender ACTION_ENABLE_DISABLE_NETWORK \<longrightarrow>
      refuses fa w sender ACTION_ENABLE_DISABLE_NETWORK (root_sleep fa sender flag) \<and>
      refuses fa w sender ACTION_ENABLE_DISABLE_NETWORK (root_enable fa sender flag)) \<and>
   (denies fa w sender ACTION_RELOAD \<longrightarrow> refuses fa w sender ACTION_RELOAD (root_reload fa sender flags))"
  by (simp add: refusing activate_connection_def add_and_activate_connection_def add_and_activate_connection2_def
      deactivate_connection_def device_disconnect_def add_connection_def add_connection_unsaved_def add_connection2_def
      add_profile_def connection_update_def connection_update_unsaved_def connection_delete_def device_delete_def load_connections_def
      reload_connections_def save_hostname_def root_sleep_def root_enable_def root_reload_def)

theorem denied_caller_changes_nothing_witness:
  "denies (lan deny_all_check) lan_shared (Some '':1.7'') ACTION_NETWORK_CONTROL \<and>
   refuses (lan deny_all_check) lan_shared (Some '':1.7'') ACTION_NETWORK_CONTROL
     (activate_connection (lan deny_all_check) (Some '':1.7'') ROOT_PATH Map.empty
        ''/org/freedesktop/NetworkManager/Devices/2'')"
proof -
  have "denies (lan deny_all_check) lan_shared (Some '':1.7'') ACTION_NETWORK_CONTROL"
    by (simp add: denies_def lan_def deny_all_check_def)
  with denied_caller_changes_nothing [of "lan deny_all_check" lan_shared "Some '':1.7''" ROOT_PATH Map.empty]
  show ?thesis by blast
qed







end
