(* ===== verification/Nm_Render.thy ===== *)
theory Nm_Render
  imports Nm_Objects Nm_IpEngine Nm_Nl80211
begin

text \<open>
  What the bus shows of access points (\<^verbatim>\<open>src/dbus/access_point.rs\<close>) and of the IP
  configuration of an active connection (\<^verbatim>\<open>src/dbus/ipconfig.rs\<close>). The objects hold no
  state: a property is computed from the daemon when it is read. The time of day, which only the expiry of
  a lease depends on, is a parameter.
\<close>

section \<open>Access points\<close>

definition strength_pct :: "i32 option \<Rightarrow> u8" where
  "strength_pct signal_dbm = (case signal_dbm of
       None \<Rightarrow> 0
     | Some dbm \<Rightarrow> word_of_int (max 0 (min 100 (sint (100 + dbm)))))"

definition security_flags :: "access_point \<Rightarrow> u32" where
  "security_flags ap =
     (let s = ap_security ap;
          flags = 0;
          flags = (if sec_wpa2 s \<or> sec_wpa3 s then flags OR NM_802_11_AP_SEC_KEY_MGMT_PSK else flags);
          flags = (if sec_wpa1 s \<or> sec_wpa2 s then flags OR NM_802_11_AP_SEC_KEY_MGMT_802_1X else flags)
      in if sec_wpa3 s then flags OR (NM_802_11_AP_SEC_KEY_MGMT_SAE OR NM_802_11_AP_SEC_KEY_MGMT_OWE) else flags)"

definition point_lookup ::
  "('b, 'src, 's, 'e, 'z, 'v, 'p) facade \<Rightarrow> mac \<Rightarrow> (('b, 's, 'e, 'z, 'p) shared, access_point option, 'x) act" where
  "point_lookup fa bssid =
     act_then (act_ok (on_daemon (daemon_access_points (fa_backend fa)))) (\<lambda>points.
     act_return (List.find (\<lambda>ap. ap_bssid ap = Some bssid) (case points of None \<Rightarrow> [] | Some ps \<Rightarrow> ps)))"

text \<open>A property that reads the access point, or fails when it is gone.\<close>

definition of_point ::
  "('b, 'src, 's, 'e, 'z, 'v, 'p) facade \<Rightarrow> mac \<Rightarrow> (access_point \<Rightarrow> 'a) \<Rightarrow>
   (('b, 's, 'e, 'z, 'p) shared, 'a, facade_error) act" where
  "of_point fa bssid f =
     act_then (point_lookup fa bssid) (\<lambda>ap.
     act_result (map_ok f (ok_or ap (FeUnknownDevice (''access point '' @ format_mac_address bssid)))))"

definition point_flags where
  "point_flags fa bssid = of_point fa bssid (\<lambda>ap.
     if sec_wep (ap_security ap) \<or> sec_wpa1 (ap_security ap) \<or> sec_wpa2 (ap_security ap) \<or> sec_wpa3 (ap_security ap)
     then NM_ACCESS_POINT_FLAGS_PRIVACY else NM_ACCESS_POINT_FLAGS_NONE)"

definition point_wpa_flags where
  "point_wpa_flags fa bssid = of_point fa bssid security_flags"

definition point_rsn_flags where
  "point_rsn_flags fa bssid = of_point fa bssid security_flags"

definition point_ssid where
  "point_ssid fa bssid = of_point fa bssid (\<lambda>ap. case ap_ssid ap of None \<Rightarrow> [] | Some ssid \<Rightarrow> ssid)"

definition point_frequency where
  "point_frequency fa bssid = of_point fa bssid (\<lambda>ap. case ap_frequency ap of None \<Rightarrow> 0 | Some f \<Rightarrow> f)"

definition point_channel :: "access_point \<Rightarrow> u32" where
  "point_channel ap = (case ap_channel ap of
       Some c \<Rightarrow> ucast c
     | None \<Rightarrow> (case ap_frequency ap of
         None \<Rightarrow> 0
       | Some f \<Rightarrow> (case frequency_to_channel f of None \<Rightarrow> 0 | Some c \<Rightarrow> ucast c)))"

definition point_channel_property where
  "point_channel_property fa bssid = of_point fa bssid point_channel"

definition point_hw_address :: "mac \<Rightarrow> string" where
  "point_hw_address bssid = format_mac_address bssid"

definition point_strength where
  "point_strength fa bssid = of_point fa bssid (\<lambda>ap. strength_pct (ap_signal_dbm ap))"

definition point_last_seen :: "('b, 'src, 's, 'e, 'z, 'v, 'p) facade \<Rightarrow> mac \<Rightarrow>
    (('b, 's, 'e, 'z, 'p) shared, i32, facade_error) act" where
  "point_last_seen fa bssid = of_point fa bssid (\<lambda>ap.
     case ap_seen_millis_ago ap of None \<Rightarrow> 0 | Some millis \<Rightarrow> ucast (millis div 1000))"

section \<open>Routes and addresses\<close>

definition network_address :: "ip_addr \<Rightarrow> u8 \<Rightarrow> ip_addr" where
  "network_address addr prefix = (case addr of
       V4Addr a \<Rightarrow>
         let mask = (if prefix = 0 then 0 else push_bit (32 - min (unat prefix) 32) (- 1))
         in V4Addr (a AND mask)
     | V6Addr a \<Rightarrow>
         let mask = (if prefix = 0 then 0 else push_bit (128 - min (unat prefix) 128) (- 1))
         in V6Addr (a AND mask))"

definition ipv4_route_entry :: "route \<Rightarrow> u32 list" where
  "ipv4_route_entry r =
     (let destination = (case rt_destination r of V4Addr a \<Rightarrow> a | V6Addr _ \<Rightarrow> 0);
          next_hop = (case rt_gateway r of Some (V4Addr hop) \<Rightarrow> Some hop | _ \<Rightarrow> None)
      in [ipv4_u32 destination, ucast (rt_prefix_length r),
          (case next_hop of None \<Rightarrow> 0 | Some hop \<Rightarrow> ipv4_u32 hop),
          (case rt_metric r of Some m \<Rightarrow> m | None \<Rightarrow> 0)])"

definition ipv6_route_entry :: "route \<Rightarrow> v6_route" where
  "ipv6_route_entry r =
     (let destination = (case rt_destination r of V6Addr a \<Rightarrow> a | V4Addr _ \<Rightarrow> 0);
          next_hop = (case rt_gateway r of Some (V6Addr hop) \<Rightarrow> hop | _ \<Rightarrow> 0)
      in (ipv6_octets destination, ucast (rt_prefix_length r), ipv6_octets next_hop,
          (case rt_metric r of Some m \<Rightarrow> m | None \<Rightarrow> 0)))"

definition route_data_entry :: "'v zv \<Rightarrow> route \<Rightarrow> 'v sect" where
  "route_data_entry z r =
     (let entry = [''dest'' \<mapsto> zv_str z (ip_addr_string (network_address (rt_destination r) (rt_prefix_length r))),
                   ''prefix'' \<mapsto> zv_u32 z (ucast (rt_prefix_length r))];
          entry = (case rt_gateway r of
                     None \<Rightarrow> entry
                   | Some gateway \<Rightarrow> entry(''next-hop'' \<mapsto> zv_str z (ip_addr_string gateway)))
      in entry(''metric'' \<mapsto> zv_u32 z (case rt_metric r of Some m \<Rightarrow> m | None \<Rightarrow> 0)))"

definition address_entries :: "'v zv \<Rightarrow> ip_addr option \<Rightarrow> u8 option \<Rightarrow> 'v sect list" where
  "address_entries z addr prefix = (case addr of
       None \<Rightarrow> []
     | Some addr \<Rightarrow>
         let entry = [''address'' \<mapsto> zv_str z (ip_addr_string addr)]
         in [case prefix of None \<Rightarrow> entry | Some p \<Rightarrow> entry(''prefix'' \<mapsto> zv_u32 z (ucast p))])"

definition v4_only :: "ip_addr list \<Rightarrow> ipv4_addr list" where
  "v4_only servers = List.map_filter (\<lambda>s. case s of V4Addr a \<Rightarrow> Some a | V6Addr _ \<Rightarrow> None) servers"

definition nameserver_data_v4 :: "'v zv \<Rightarrow> ip_addr list \<Rightarrow> 'v sect list" where
  "nameserver_data_v4 z servers =
     map (\<lambda>a. let text = ip_addr_string (V4Addr a)
              in [''address'' \<mapsto> zv_str z text, ''uri'' \<mapsto> zv_str z text]) (v4_only servers)"

definition dns_servers_v4 :: "ip_addr list \<Rightarrow> u32 list" where
  "dns_servers_v4 servers = map ipv4_u32 (v4_only servers)"

definition dns_servers_v6 :: "ip_addr list \<Rightarrow> bytes list" where
  "dns_servers_v6 servers =
     List.map_filter (\<lambda>s. case s of V6Addr a \<Rightarrow> Some (ipv6_octets a) | V4Addr _ \<Rightarrow> None) servers"

section \<open>IP4Config\<close>

definition ip4_outcome :: "('b, 's, 'e, 'z, 'p) shared \<Rightarrow> active_id \<Rightarrow> ipv4_outcome option" where
  "ip4_outcome w aid = Option.bind (active_by_id w aid) (\<lambda>a. out_ipv4 (ac_outcome a))"

text \<open>A property computed from the outcome, or its default when there is none.\<close>

definition of_outcome :: "'o option \<Rightarrow> 'a \<Rightarrow> ('o \<Rightarrow> 'a) \<Rightarrow> 'a" where
  "of_outcome out d f = (case out of None \<Rightarrow> d | Some o4 \<Rightarrow> f o4)"

definition ip4_addresses :: "('b, 's, 'e, 'z, 'p) shared \<Rightarrow> active_id \<Rightarrow> u32 list list" where
  "ip4_addresses w aid = of_outcome (ip4_outcome w aid) [] (\<lambda>ipv4.
     [[ipv4_u32 (o4_address ipv4), ucast (o4_prefix_length ipv4),
       (case o4_gateway ipv4 of None \<Rightarrow> 0 | Some g \<Rightarrow> ipv4_u32 g)]])"

definition ip4_address_data :: "'v zv \<Rightarrow> ('b, 's, 'e, 'z, 'p) shared \<Rightarrow> active_id \<Rightarrow> 'v sect list" where
  "ip4_address_data z w aid = of_outcome (ip4_outcome w aid) [] (\<lambda>ipv4.
     address_entries z (Some (V4Addr (o4_address ipv4))) (Some (o4_prefix_length ipv4)))"

definition ip4_gateway :: "('b, 's, 'e, 'z, 'p) shared \<Rightarrow> active_id \<Rightarrow> string" where
  "ip4_gateway w aid = of_outcome (ip4_outcome w aid) [] (\<lambda>ipv4.
     case o4_gateway ipv4 of None \<Rightarrow> [] | Some g \<Rightarrow> ip_addr_string (V4Addr g))"

definition ip4_routes :: "('b, 's, 'e, 'z, 'p) shared \<Rightarrow> active_id \<Rightarrow> u32 list list" where
  "ip4_routes w aid = of_outcome (ip4_outcome w aid) [] (\<lambda>ipv4. map ipv4_route_entry (o4_routes ipv4))"

definition ip4_route_data :: "'v zv \<Rightarrow> ('b, 's, 'e, 'z, 'p) shared \<Rightarrow> active_id \<Rightarrow> 'v sect list" where
  "ip4_route_data z w aid = of_outcome (ip4_outcome w aid) [] (\<lambda>ipv4. map (route_data_entry z) (o4_routes ipv4))"

definition ip4_nameserver_data :: "'v zv \<Rightarrow> ('b, 's, 'e, 'z, 'p) shared \<Rightarrow> active_id \<Rightarrow> 'v sect list" where
  "ip4_nameserver_data z w aid =
     of_outcome (ip4_outcome w aid) [] (\<lambda>ipv4. nameserver_data_v4 z (o4_dns_servers ipv4))"

definition ip4_nameservers :: "('b, 's, 'e, 'z, 'p) shared \<Rightarrow> active_id \<Rightarrow> u32 list" where
  "ip4_nameservers w aid = of_outcome (ip4_outcome w aid) [] (\<lambda>ipv4. dns_servers_v4 (o4_dns_servers ipv4))"

definition ip4_searches :: "('b, 's, 'e, 'z, 'p) shared \<Rightarrow> active_id \<Rightarrow> string list" where
  "ip4_searches w aid = of_outcome (ip4_outcome w aid) [] o4_search_domains"

section \<open>IP6Config\<close>

definition ip6_outcome :: "('b, 's, 'e, 'z, 'p) shared \<Rightarrow> active_id \<Rightarrow> ipv6_outcome option" where
  "ip6_outcome w aid = Option.bind (active_by_id w aid) (\<lambda>a. out_ipv6 (ac_outcome a))"

text \<open>The configured address, or the link-local one.\<close>

definition ip6_address :: "('b, 's, 'e, 'z, 'p) shared \<Rightarrow> active_id \<Rightarrow> (ipv6_addr \<times> u8) option" where
  "ip6_address w aid = Option.bind (ip6_outcome w aid) (\<lambda>ipv6. case o6_address ipv6 of
       Some a \<Rightarrow> Some (a, o6_prefix_length ipv6)
     | None \<Rightarrow> map_option (\<lambda>a. (a, 64)) (o6_link_local ipv6))"

definition ip6_addresses :: "('b, 's, 'e, 'z, 'p) shared \<Rightarrow> active_id \<Rightarrow> (bytes \<times> u32 \<times> bytes) list" where
  "ip6_addresses w aid = of_outcome (ip6_address w aid) [] (\<lambda>(a, prefix).
     [(ipv6_octets a, ucast prefix, replicate 16 0)])"

definition ip6_address_data :: "'v zv \<Rightarrow> ('b, 's, 'e, 'z, 'p) shared \<Rightarrow> active_id \<Rightarrow> 'v sect list" where
  "ip6_address_data z w aid = of_outcome (ip6_address w aid) [] (\<lambda>(a, prefix).
     address_entries z (Some (V6Addr a)) (Some prefix))"

definition ip6_gateway :: "('b, 's, 'e, 'z, 'p) shared \<Rightarrow> active_id \<Rightarrow> string" where
  "ip6_gateway w aid = of_outcome (ip6_outcome w aid) [] (\<lambda>ipv6.
     case o6_gateway ipv6 of None \<Rightarrow> [] | Some g \<Rightarrow> ip_addr_string (V6Addr g))"

definition ip6_routes :: "('b, 's, 'e, 'z, 'p) shared \<Rightarrow> active_id \<Rightarrow> v6_route list" where
  "ip6_routes w aid = of_outcome (ip6_outcome w aid) [] (\<lambda>ipv6. map ipv6_route_entry (o6_routes ipv6))"

definition ip6_route_data :: "'v zv \<Rightarrow> ('b, 's, 'e, 'z, 'p) shared \<Rightarrow> active_id \<Rightarrow> 'v sect list" where
  "ip6_route_data z w aid = of_outcome (ip6_outcome w aid) [] (\<lambda>ipv6. map (route_data_entry z) (o6_routes ipv6))"

definition ip6_nameservers :: "('b, 's, 'e, 'z, 'p) shared \<Rightarrow> active_id \<Rightarrow> bytes list" where
  "ip6_nameservers w aid = of_outcome (ip6_outcome w aid) [] (\<lambda>ipv6. dns_servers_v6 (o6_dns_servers ipv6))"

definition ip6_searches :: "('b, 's, 'e, 'z, 'p) shared \<Rightarrow> active_id \<Rightarrow> string list" where
  "ip6_searches w aid = of_outcome (ip6_outcome w aid) [] o6_search_domains"

section \<open>DHCP4Config\<close>

definition subnet_mask :: "u8 \<Rightarrow> ipv4_addr" where
  "subnet_mask prefix_length =
     (if prefix_length = 0 then 0 else push_bit (32 - min (unat prefix_length) 32) (- 1))"

definition broadcast_address :: "ipv4_addr \<Rightarrow> u8 \<Rightarrow> ipv4_addr" where
  "broadcast_address addr prefix_length =
     (let host_mask = (if prefix_length = 0 then - 1
                       else push_bit (32 - min (unat prefix_length) 32) 1 - 1)
      in addr OR host_mask)"

text \<open>What a lease adds; \<open>now\<close> is the time since the epoch, \<open>None\<close> for a clock before it.\<close>

definition lease_options :: "'v zv \<Rightarrow> u64 option \<Rightarrow> ipv4_outcome \<Rightarrow> dhcp_lease \<Rightarrow> 'v sect \<Rightarrow> 'v sect" where
  "lease_options z now ipv4 lease options =
     (let text = (\<lambda>a. zv_str z (ip_addr_string (V4Addr a)));
          options = (case dl_server_identifier lease of
                       None \<Rightarrow> options
                     | Some server \<Rightarrow> options(''dhcp_server_identifier'' \<mapsto> text server));
          options = (case dl_lease_seconds lease of
                       None \<Rightarrow> options
                     | Some seconds \<Rightarrow>
                         let expiry = (case now of None \<Rightarrow> 0 | Some t \<Rightarrow> t + ucast seconds)
                         in options(''dhcp_lease_time'' \<mapsto> zv_str z (show_nat (unat seconds)),
                                    ''expiry'' \<mapsto> zv_str z (show_nat (unat expiry))))
      in options(''broadcast_address'' \<mapsto> text (broadcast_address (o4_address ipv4) (o4_prefix_length ipv4))))"

definition outcome_options :: "'v zv \<Rightarrow> u64 option \<Rightarrow> ipv4_outcome \<Rightarrow> 'v sect" where
  "outcome_options z now ipv4 =
     (let text = (\<lambda>a. zv_str z (ip_addr_string (V4Addr a)));
          options = [''ip_address'' \<mapsto> text (o4_address ipv4),
                     ''ip_prefix'' \<mapsto> zv_u32 z (ucast (o4_prefix_length ipv4)),
                     ''subnet_mask'' \<mapsto> text (subnet_mask (o4_prefix_length ipv4))];
          options = (case o4_gateway ipv4 of
                       None \<Rightarrow> options | Some gateway \<Rightarrow> options(''routers'' \<mapsto> text gateway));
          v4_dns = map (\<lambda>a. ip_addr_string (V4Addr a)) (v4_only (o4_dns_servers ipv4));
          options = (if v4_dns \<noteq> [] then options(''domain_name_servers'' \<mapsto> zv_str z (join_with '','' v4_dns)) else options)
      in case o4_lease ipv4 of None \<Rightarrow> options | Some lease \<Rightarrow> lease_options z now ipv4 lease options)"

definition dhcp4_options :: "'v zv \<Rightarrow> u64 option \<Rightarrow> ('b, 's, 'e, 'z, 'p) shared \<Rightarrow> active_id \<Rightarrow> 'v sect" where
  "dhcp4_options z now w aid = (case active_by_id w aid of
       None \<Rightarrow> Map.empty
     | Some active \<Rightarrow> (case out_ipv4 (ac_outcome active) of
         None \<Rightarrow> Map.empty | Some ipv4 \<Rightarrow> outcome_options z now ipv4))"

section \<open>Reading the properties back\<close>

text \<open>
  A route as a client reads it, from the entry of \<open>Routes\<close> and from the dictionary of
  \<open>RouteData\<close>: destination, prefix, next hop and metric.
\<close>

type_synonym client_route = "ip_addr \<times> u32 \<times> ip_addr option \<times> u32"

definition read_v4_entry :: "u32 list \<Rightarrow> client_route" where
  "read_v4_entry e = (V4Addr (ipv4_of_le (e ! 0)), e ! 1,
     (if e ! 2 = 0 then None else Some (V4Addr (ipv4_of_le (e ! 2)))), e ! 3)"

definition read_v6_entry :: "v6_route \<Rightarrow> client_route" where
  "read_v6_entry e = (case e of (dest, prefix, next_hop, metric) \<Rightarrow>
     (V6Addr (ipv6_of_octets dest), prefix,
      (if ipv6_of_octets next_hop = 0 then None else Some (V6Addr (ipv6_of_octets next_hop))), metric))"

definition read_route_data :: "'v zv \<Rightarrow> 'v sect \<Rightarrow> client_route option" where
  "read_route_data z d =
     (case (Option.bind (get_str z d ''dest'') parse_ip_addr, get_u32 z d ''prefix'', get_u32 z d ''metric'') of
        (Some dest, Some prefix, Some metric) \<Rightarrow>
          Some (dest, prefix, Option.bind (get_str z d ''next-hop'') parse_ip_addr, metric)
      | _ \<Rightarrow> None)"

text \<open>The destination cut to the network of the route.\<close>

definition in_network :: "client_route \<Rightarrow> client_route" where
  "in_network r = (case r of (dest, prefix, next_hop, metric) \<Rightarrow> (network_address dest (ucast prefix), prefix, next_hop, metric))"

text \<open>A route of one family: its destination and its gateway, which is not the zero address.\<close>

definition route_of_family :: "bool \<Rightarrow> route \<Rightarrow> bool" where
  "route_of_family v4 r \<longleftrightarrow> is_ipv4 (rt_destination r) = v4 \<and>
     (case rt_gateway r of None \<Rightarrow> True | Some g \<Rightarrow> is_ipv4 g = v4 \<and> \<not> is_unspecified g)"

lemma read_route_data_entry:
  assumes "zv_laws z"
  shows "read_route_data z (route_data_entry z r) =
    Some (network_address (rt_destination r) (rt_prefix_length r), ucast (rt_prefix_length r), rt_gateway r,
      (case rt_metric r of Some m \<Rightarrow> m | None \<Rightarrow> 0))"
  using zv_scalars [OF assms]
  by (simp add: read_route_data_def route_data_entry_def get_str_def get_u32_def Let_def split: option.split)

lemma ipv4_u32_zero_iff: "ipv4_u32 a = 0 \<longleftrightarrow> a = 0"
  by (metis ipv4_of_le_u32 ipv4_u32_zero)

lemma read_v4_entry_route:
  assumes "route_of_family True r"
  shows "in_network (read_v4_entry (ipv4_route_entry r)) =
    (network_address (rt_destination r) (rt_prefix_length r), ucast (rt_prefix_length r), rt_gateway r,
      (case rt_metric r of Some m \<Rightarrow> m | None \<Rightarrow> 0))"
  using assms
  by (auto simp: route_of_family_def in_network_def read_v4_entry_def ipv4_route_entry_def is_ipv4_def
      is_unspecified_def ipv4_of_le_u32 ipv4_u32_zero_iff prefix_u32 Let_def
      split: ip_addr.splits option.splits)

lemma read_v6_entry_route:
  assumes "route_of_family False r"
  shows "in_network (read_v6_entry (ipv6_route_entry r)) =
    (network_address (rt_destination r) (rt_prefix_length r), ucast (rt_prefix_length r), rt_gateway r,
      (case rt_metric r of Some m \<Rightarrow> m | None \<Rightarrow> 0))"
  using assms
  by (auto simp: route_of_family_def in_network_def read_v6_entry_def ipv6_route_entry_def is_ipv4_def
      is_unspecified_def ipv6_of_ipv6_octets prefix_u32 Let_def
      split: ip_addr.splits option.splits)

section \<open>Strength\<close>

text \<open>
  The sum of the code cannot overflow on a signal the scan reports, which was divided by 100; the strength
  is then the clamped value.
\<close>

lemma strength_unat: "unat (strength_pct (Some dbm)) = nat (max 0 (min 100 (sint (100 + dbm))))"
proof -
  define k where "k = max 0 (min 100 (sint (100 + dbm)))"
  have "0 \<le> k" "k \<le> 100" by (simp_all add: k_def)
  then have "uint (word_of_int k :: u8) = k" by (simp add: uint_word_of_int)
  then show ?thesis by (simp add: strength_pct_def flip: k_def) (simp add: unat_eq_nat_uint)
qed

lemma strength_le_100: "unat (strength_pct s) \<le> 100"
  by (cases s) (simp_all add: strength_unat, simp add: strength_pct_def)

lemma sint_i32_bounds: "- 2147483648 \<le> sint (w :: i32)" "sint (w :: i32) \<le> 2147483647"
  using sint_greater_eq [of w] sint_less [of w] by simp_all

lemma div_100_small:
  defines "b \<equiv> 21474836"
  shows "- b \<le> sint (i32_div_100 w)" "sint (i32_div_100 w) \<le> b"
proof -
  define k where "k = (if sint w < 0 then - ((- sint w) div 100) else sint w div 100)"
  have k: "- b \<le> k" "k \<le> b" using sint_i32_bounds [of w] by (auto simp: k_def b_def)
  then have "sint (word_of_int k :: i32) = k"
    by (simp add: sint_sbintrunc' signed_take_bit_int_eq_self b_def)
  with k show "- b \<le> sint (i32_div_100 w)" "sint (i32_div_100 w) \<le> b" by (simp_all add: i32_div_100_def flip: k_def)
qed

lemma signal_sum_exact: "sint (100 + i32_div_100 w) = 100 + sint (i32_div_100 w)"
  using div_100_small [of w] by (simp add: sint_word_ariths signed_take_bit_int_eq_self)

lemma decoded_signal:
  "bss_from_attrs attrs = Ok (Some ap) \<Longrightarrow> ap_signal_dbm ap = Some dbm \<Longrightarrow> \<exists>mbm. dbm = i32_div_100 mbm"
  by (auto simp: bss_from_attrs_def result_simps Let_def split: option.splits) blast+

lemma decoded_strength:
  assumes "bss_from_attrs attrs = Ok (Some ap)" "ap_signal_dbm ap = Some dbm"
  shows "unat (strength_pct (ap_signal_dbm ap)) = nat (max 0 (min 100 (100 + sint dbm)))"
  using decoded_signal [OF assms] assms(2) by (auto simp: strength_unat signal_sum_exact)

section \<open>Properties\<close>

text \<open>C38. The two renderings of the routes of a connection agree. When the routes are of the
  family of the object, what a client reads from \<open>RouteData\<close> is what it reads from \<open>Routes\<close>,
  entry by entry, with the destination cut to the network; for IPv4 and for IPv6.\<close>

theorem route_data_matches_routes:
  assumes "zv_laws z"
    and "\<And>o4. ip4_outcome w aid = Some o4 \<Longrightarrow> list_all (route_of_family True) (o4_routes o4)"
    and "\<And>o6. ip6_outcome w aid = Some o6 \<Longrightarrow> list_all (route_of_family False) (o6_routes o6)"
  shows "map (read_route_data z) (ip4_route_data z w aid) = map (Some \<circ> in_network \<circ> read_v4_entry) (ip4_routes w aid) \<and>
    map (read_route_data z) (ip6_route_data z w aid) = map (Some \<circ> in_network \<circ> read_v6_entry) (ip6_routes w aid)"
  using assms(2,3) read_route_data_entry [OF assms(1)]
  by (auto simp: ip4_route_data_def ip4_routes_def ip6_route_data_def ip6_routes_def of_outcome_def list_all_iff
      read_v4_entry_route read_v6_entry_route split: option.splits)

text \<open>A wired connection with an address, a default route and a lease, as the bus shows it.\<close>

definition lan_outcome :: ipv4_outcome where
  "lan_outcome = \<lparr> o4_address = 0xC0A80105, o4_prefix_length = 24, o4_gateway = Some 0xC0A80101,
     o4_dns_servers = [V4Addr 0x08080808], o4_search_domains = [], o4_source = AutomaticDhcp,
     o4_routes = [\<lparr> rt_family = V4, rt_destination = V4Addr 0xC0A80105, rt_prefix_length = 24, rt_gateway = None,
                    rt_output_interface = Some 2, rt_metric = None, rt_kind = Unicast, rt_scope = LinkScope \<rparr>,
                  default_route_v4 2 0xC0A80101],
     o4_lease = None \<rparr>"

definition lan_connected :: "(unit, mem_store, unit, (string \<times> dbus_value signal) list, unit) shared" where
  "lan_connected = lan_shared\<lparr> sh_daemon := (sh_daemon lan_shared)\<lparr> dm_activation :=
     (dm_activation (sh_daemon lan_shared))\<lparr> am_active := [\<lparr> ac_id = 1, ac_profile = wired, ac_device = eth0,
       ac_state = Activated, ac_outcome = outcome_default\<lparr> out_ipv4 := Some lan_outcome \<rparr> \<rparr>] \<rparr> \<rparr> \<rparr>"

lemma lan_connected_outcome: "ip4_outcome lan_connected 1 = Some lan_outcome" "ip6_outcome lan_connected 1 = None"
  by (simp_all add: ip4_outcome_def ip6_outcome_def active_by_id_def daemon_active_connections_def lan_connected_def
      outcome_default_def)

theorem route_data_matches_routes_witness:
  "map (read_route_data dbus_zv) (ip4_route_data dbus_zv lan_connected 1) =
     [Some (V4Addr 0xC0A80100, 24, None, 0), Some (V4Addr 0, 0, Some (V4Addr 0xC0A80101), 0)]"
proof -
  have ok: "list_all (route_of_family True) (o4_routes lan_outcome)"
    by (simp add: lan_outcome_def route_of_family_def is_ipv4_def is_unspecified_def default_route_v4_def)
  have "map (Some \<circ> in_network \<circ> read_v4_entry \<circ> ipv4_route_entry) (o4_routes lan_outcome) =
      [Some (V4Addr 0xC0A80100, 24, None, 0), Some (V4Addr 0, 0, Some (V4Addr 0xC0A80101), 0)]"
    by code_simp
  with ok route_data_matches_routes [OF dbus_zv_laws, of lan_connected 1] show ?thesis
    by (simp add: lan_connected_outcome ip4_routes_def of_outcome_def)
qed

text \<open>C39. Address arithmetic. The network address the bus shows is the one the IP engine
  computes; the subnet mask has exactly the leading bits of the prefix length, the network address is the
  address under the mask and the broadcast address is the network address with all host bits set, for
  every prefix length, those above 32 included.\<close>

theorem subnet_arithmetic:
  "network_address (V4Addr a) p = V4Addr (network_address_v4 a p) \<and>
   network_address (V6Addr b) p = V6Addr (network_address_v6 b p) \<and>
   (bit (subnet_mask p) n \<longleftrightarrow> n < 32 \<and> 32 - min (unat p) 32 \<le> n) \<and>
   network_address_v4 a p = a AND subnet_mask p \<and>
   broadcast_address a p = network_address_v4 a p OR NOT (subnet_mask p)"
proof -
  have host: "2 ^ k - 1 = (mask k :: u32)" for k by (simp add: mask_eq_exp_minus_1)
  have p: "p = 0 \<longleftrightarrow> unat p = 0" by (simp add: unat_eq_0)
  have m: "bit (subnet_mask p) n \<longleftrightarrow> n < 32 \<and> 32 - min (unat p) 32 \<le> n" for n
    using p by (auto simp: subnet_mask_def bit_simps)
  have n: "network_address_v4 a p = a AND subnet_mask p" by (simp add: network_address_v4_def subnet_mask_def)
  have "broadcast_address a p = network_address_v4 a p OR NOT (subnet_mask p)"
    unfolding n by (rule bit_word_eqI) (use p in \<open>auto simp: broadcast_address_def host bit_simps m Let_def\<close>)
  with m n show ?thesis by (simp add: network_address_def network_address_v4_def network_address_v6_def)
qed

end
