(* ===== verification/Nm_StoreSim.thy ===== *)
theory Nm_StoreSim
  imports Nm_Daemon
begin

text \<open>
  The two profile stores are interchangeable: the daemon answers every sequence of profile requests in the
  same way over the directory of files as over the memory. The argument is a simulation between any two
  stores that keep the contract of \<open>profile_store\<close>; the related states show the same profiles.
\<close>

section \<open>Requests\<close>

datatype profile_request =
    RqList | RqGet profile_id | RqCreate connection_profile | RqUpdate connection_profile | RqDelete profile_id

datatype profile_reply =
    RpProfiles "(connection_profile list, store_error) result"
  | RpProfile "(connection_profile, store_error) result"
  | RpDone "(unit, store_error) result"

text \<open>The methods of the daemon on profiles, one call and a sequence of calls.\<close>

definition profile_call ::
  "'s store_ops \<Rightarrow> ('b, 's, 'e) daemon \<Rightarrow> profile_request \<Rightarrow> profile_reply \<times> ('b, 's, 'e) daemon" where
  "profile_call so d r = (case r of
       RqList \<Rightarrow> (RpProfiles (list_profiles so d), d)
     | RqGet i \<Rightarrow> (RpProfile (get_profile so d i), d)
     | RqCreate p \<Rightarrow> map_prod RpDone id (create_profile so d p)
     | RqUpdate p \<Rightarrow> map_prod RpDone id (update_profile so d p)
     | RqDelete i \<Rightarrow> map_prod RpDone id (delete_profile so d i))"

fun profile_calls ::
  "'s store_ops \<Rightarrow> ('b, 's, 'e) daemon \<Rightarrow> profile_request list \<Rightarrow> profile_reply list \<times> ('b, 's, 'e) daemon" where
  "profile_calls so d [] = ([], d)"
| "profile_calls so d (r # rs) =
     (case profile_call so d r of (x, d') \<Rightarrow> (case profile_calls so d' rs of (xs, d'') \<Rightarrow> (x # xs, d'')))"

text \<open>What two stores have to agree on: everything but the wording of a refusal.\<close>

definition same_reply :: "profile_reply \<Rightarrow> profile_reply \<Rightarrow> bool" where
  "same_reply x y \<longleftrightarrow> (case (x, y) of
       (RpDone r, RpDone r') \<Rightarrow> is_ok r = is_ok r'
     | _ \<Rightarrow> x = y)"

text \<open>
  The requests the stores promise anything about: the id is one a profile can have, and a profile to be
  written is refused by validation or one the store can write.
\<close>

definition admissible :: "(connection_profile \<Rightarrow> bool) \<Rightarrow> profile_request \<Rightarrow> bool" where
  "admissible storable r = (case r of
       RqList \<Rightarrow> True
     | RqGet i \<Rightarrow> list_all id_char_ok i
     | RqCreate p \<Rightarrow> storable p \<or> \<not> profile_ok p \<and> list_all id_char_ok (cp_id p)
     | RqUpdate p \<Rightarrow> storable p \<or> \<not> profile_ok p \<and> list_all id_char_ok (cp_id p)
     | RqDelete i \<Rightarrow> list_all id_char_ok i)"

section \<open>The simulation\<close>

lemma sorted_ids_unique:
  assumes "sorted_wrt (<) (map cp_id ps)" "sorted_wrt (<) (map cp_id qs)" "set ps = set qs"
  shows "ps = qs"
proof -
  have "map cp_id ps = map cp_id qs"
    using assms by (intro strict_sorted_equal) (simp_all add: strict_sorted_iff)
  moreover have "inj_on cp_id (set ps \<union> set qs)"
    using assms(2,3) by (simp add: strict_sorted_iff distinct_map)
  ultimately show ?thesis by (rule map_inj_on)
qed

locale store_pair =
  a: profile_store ops1 inv1 view1 storable1 + b: profile_store ops2 inv2 view2 storable2
  for ops1 :: "'s store_ops" and inv1 view1 storable1 and ops2 :: "'t store_ops" and inv2 view2 storable2 +
  assumes weaker: "storable1 p \<Longrightarrow> storable2 p"
begin

definition related :: "('b, 's, 'e) daemon \<Rightarrow> ('c, 't, 'f) daemon \<Rightarrow> bool" where
  "related d d' \<longleftrightarrow> inv1 (dm_profiles d) \<and> inv2 (dm_profiles d') \<and> view1 (dm_profiles d) = view2 (dm_profiles d')"

lemma same_list:
  assumes "related d d'"
  shows "list_profiles ops1 d = list_profiles ops2 d'"
proof -
  obtain ps qs where "so_list ops1 (dm_profiles d) = Ok ps" "sorted_wrt (<) (map cp_id ps)"
      "set ps = ran (view1 (dm_profiles d))" "so_list ops2 (dm_profiles d') = Ok qs"
      "sorted_wrt (<) (map cp_id qs)" "set qs = ran (view2 (dm_profiles d'))"
    using a.list_view b.list_view assms unfolding related_def by metis
  then show ?thesis
    using sorted_ids_unique [of ps qs] assms by (simp add: related_def list_profiles_def)
qed

lemma same_create:
  assumes "related d d'" "admissible storable1 (RqCreate p)"
  shows "\<exists>r r' d1 d1'. create_profile ops1 d p = (r, d1) \<and> create_profile ops2 d' p = (r', d1') \<and>
    is_ok r = is_ok r' \<and> related d1 d1'"
proof (cases "storable1 p \<and> view1 (dm_profiles d) (cp_id p) = None")
  case True
  then show ?thesis
    using a.create_new [of "dm_profiles d" p] b.create_new [of "dm_profiles d'" p] weaker [of p] assms(1)
    by (auto simp: related_def create_profile_def)
next
  case False
  have "list_all id_char_ok (cp_id p)" using assms(2) a.storable_ok [of p] by (auto simp: admissible_def profile_ok_def)
  with False show ?thesis
    using a.create_refused [of "dm_profiles d" p] b.create_refused [of "dm_profiles d'" p] assms
    by (auto simp: related_def create_profile_def admissible_def)
qed

lemma same_update:
  assumes "related d d'" "admissible storable1 (RqUpdate p)"
  shows "\<exists>r r' d1 d1'. update_profile ops1 d p = (r, d1) \<and> update_profile ops2 d' p = (r', d1') \<and>
    is_ok r = is_ok r' \<and> related d1 d1'"
proof (cases "storable1 p \<and> view1 (dm_profiles d) (cp_id p) \<noteq> None")
  case True
  then show ?thesis
    using a.update_known [of "dm_profiles d" p] b.update_known [of "dm_profiles d'" p] weaker [of p] assms(1)
    by (auto simp: related_def update_profile_def)
next
  case False
  have "list_all id_char_ok (cp_id p)" using assms(2) a.storable_ok [of p] by (auto simp: admissible_def profile_ok_def)
  with False show ?thesis
    using a.update_refused [of "dm_profiles d" p] b.update_refused [of "dm_profiles d'" p] assms
    by (auto simp: related_def update_profile_def admissible_def)
qed

lemma same_delete:
  assumes "related d d'" "list_all id_char_ok i"
  shows "\<exists>r r' d1 d1'. delete_profile ops1 d i = (r, d1) \<and> delete_profile ops2 d' i = (r', d1') \<and>
    is_ok r = is_ok r' \<and> related d1 d1'"
proof (cases "view1 (dm_profiles d) i = None")
  case True
  then show ?thesis
    using a.delete_unknown [of "dm_profiles d" i] b.delete_unknown [of "dm_profiles d'" i] assms
    by (auto simp: related_def delete_profile_def)
next
  case False
  then show ?thesis
    using a.delete_known [of "dm_profiles d" i] b.delete_known [of "dm_profiles d'" i] assms
    by (auto simp: related_def delete_profile_def)
qed

lemma same_call:
  assumes "related d d'" "admissible storable1 r"
  shows "\<exists>x y d1 d1'. profile_call ops1 d r = (x, d1) \<and> profile_call ops2 d' r = (y, d1') \<and>
    same_reply x y \<and> related d1 d1'"
proof (cases r)
  case RqList
  then show ?thesis using assms same_list by (simp add: profile_call_def same_reply_def)
next
  case (RqGet i)
  then have "get_profile ops1 d i = get_profile ops2 d' i"
    using assms by (simp add: get_profile_def related_def a.get_view b.get_view admissible_def)
  with RqGet assms show ?thesis by (simp add: profile_call_def same_reply_def)
next
  case (RqCreate p)
  with assms same_create [of d d' p] show ?thesis by (fastforce simp: profile_call_def same_reply_def)
next
  case (RqUpdate p)
  with assms same_update [of d d' p] show ?thesis by (fastforce simp: profile_call_def same_reply_def)
next
  case (RqDelete i)
  with assms same_delete [of d d' i] show ?thesis by (fastforce simp: profile_call_def same_reply_def admissible_def)
qed

lemma same_calls:
  assumes "related d d'" "list_all (admissible storable1) rs"
  shows "list_all2 same_reply (fst (profile_calls ops1 d rs)) (fst (profile_calls ops2 d' rs))"
  using assms
proof (induction rs arbitrary: d d')
  case Nil
  then show ?case by simp
next
  case (Cons r rs)
  then obtain x y d1 d1' where "profile_call ops1 d r = (x, d1)" "profile_call ops2 d' r = (y, d1')"
      "same_reply x y" "related d1 d1'"
    using same_call [of d d' r] by auto
  with Cons show ?case by (simp add: case_prod_unfold)
qed

end

interpretation file_memory:
  store_pair "file_store_ops toml dir" "file_inv toml dir" "file_view toml dir" "toml_storable toml"
    mem_store_ops mem_inv map_of profile_ok
  for toml dir
  by unfold_locales (simp add: toml_storable_def)

section \<open>Properties\<close>



end
