(* ===== verification/Nm_Cli.thy ===== *)
theory Nm_Cli
  imports Nm_Daemon Nm_Addr Nm_LinuxEngine
begin

text \<open>
  The command line of the daemon (\<^verbatim>\<open>src/bin/nmd.rs\<close>). A command is the list of the lines it
  prints to standard output and its result, the error being the text after \<open>nmd:\<close>. What a command
  opens (the kernel interfaces, the profile directory, the connection to wpa_supplicant) is given with it.
\<close>

section \<open>Commands\<close>

datatype command =
    PrintLinks | PrintAddresses | PrintRoutes | PrintWifi | ScanAndPrint | PrintConnections
  | Connect string string | Disconnect string | MonitorEvents | Help

definition connect_usage :: string where
  "connect_usage = ''usage: nmd connect <profile-id> <ifname>''"

definition parse_command :: "string list \<Rightarrow> (command, string) result" where
  "parse_command args = (case args of
       [] \<Rightarrow> Ok PrintLinks
     | c # rest \<Rightarrow>
         if c = ''links'' then Ok PrintLinks
         else if c = ''addresses'' then Ok PrintAddresses
         else if c = ''routes'' then Ok PrintRoutes
         else if c = ''wifi'' then
           (case rest of
              [] \<Rightarrow> Ok PrintWifi
            | s # _ \<Rightarrow> if s = ''scan'' then Ok ScanAndPrint
                else Err (''unknown wifi subcommand '' @ [CHR 0x27] @ s @ [CHR 0x27]))
         else if c = ''connections'' then Ok PrintConnections
         else if c = ''connect'' then
           (case rest of p # i # _ \<Rightarrow> Ok (Connect p i) | _ \<Rightarrow> Err connect_usage)
         else if c = ''disconnect'' then
           (case rest of i # _ \<Rightarrow> Ok (Disconnect i) | [] \<Rightarrow> Err ''usage: nmd disconnect <ifname>'')
         else if c = ''monitor'' then Ok MonitorEvents
         else if c = ''--help'' \<or> c = ''-h'' then Ok Help
         else Err (''unknown command '' @ [CHR 0x27] @ c @ [CHR 0x27]))"

definition usage :: "string list" where
  "usage = [
     ''Usage: nmd [command]'', [],
     ''links                 List kernel network links (read-only)'',
     ''addresses             List kernel interface addresses (read-only)'',
     ''routes                List kernel routes (read-only)'',
     ''wifi                  List wireless interfaces (read-only)'',
     ''wifi scan             Trigger a scan and list access points (read-only)'',
     ''connections           List connection profiles (read-only)'',
     ''connect <id> <if>     Activate profile <id> on interface <if> (Wi-Fi + IP)'',
     ''disconnect <if>       Ask wpa_supplicant to disconnect interface <if>'',
     ''monitor               Monitor link, address and scan events (read-only)'']"

section \<open>Printing\<close>

definition show_bool :: "bool \<Rightarrow> string" where
  "show_bool b = (if b then ''true'' else ''false'')"

definition tab :: string where
  "tab = [CHR 0x09]"

text \<open>\<open>unwrap_or_else(|| "-".to_string())\<close>.\<close>

definition or_dash :: "('a \<Rightarrow> string) \<Rightarrow> 'a option \<Rightarrow> string" where
  "or_dash f x = (case x of None \<Rightarrow> ''-'' | Some y \<Rightarrow> f y)"

definition route_kind_debug :: "route_kind \<Rightarrow> string" where
  "route_kind_debug k = (case k of Unicast \<Rightarrow> ''Unicast'' | Local \<Rightarrow> ''Local'' | Broadcast \<Rightarrow> ''Broadcast''
     | Anycast \<Rightarrow> ''Anycast'' | Multicast \<Rightarrow> ''Multicast'' | Blackhole \<Rightarrow> ''Blackhole''
     | Unreachable \<Rightarrow> ''Unreachable'' | OtherKind n \<Rightarrow> ''Other('' @ show_word n @ '')'')"

definition route_scope_debug :: "route_scope \<Rightarrow> string" where
  "route_scope_debug s = (case s of Universe \<Rightarrow> ''Universe'' | LinkScope \<Rightarrow> ''Link'' | HostScope \<Rightarrow> ''Host''
     | OtherScope n \<Rightarrow> ''Other('' @ show_word n @ '')'')"

definition interface_type_debug :: "interface_type \<Rightarrow> string" where
  "interface_type_debug t = (case t of Unspecified \<Rightarrow> ''Unspecified'' | Adhoc \<Rightarrow> ''Adhoc'' | Station \<Rightarrow> ''Station''
     | Ap \<Rightarrow> ''Ap'' | ApVlan \<Rightarrow> ''ApVlan'' | Wds \<Rightarrow> ''Wds'' | Monitor \<Rightarrow> ''Monitor'' | MeshPoint \<Rightarrow> ''MeshPoint''
     | P2pClient \<Rightarrow> ''P2pClient'' | P2pGo \<Rightarrow> ''P2pGo'' | P2pDevice \<Rightarrow> ''P2pDevice'' | Ocb \<Rightarrow> ''Ocb'' | Nan \<Rightarrow> ''Nan''
     | NanData \<Rightarrow> ''NanData'' | OtherInterface n \<Rightarrow> ''Other('' @ show_word n @ '')'')"

definition state_debug :: "connection_state \<Rightarrow> string" where
  "state_debug s = (case s of Unknown \<Rightarrow> ''Unknown'' | Disconnected \<Rightarrow> ''Disconnected'' | Preparing \<Rightarrow> ''Preparing''
     | Configuring \<Rightarrow> ''Configuring'' | Activating \<Rightarrow> ''Activating'' | Activated \<Rightarrow> ''Activated''
     | Deactivating \<Rightarrow> ''Deactivating'' | Failed \<Rightarrow> ''Failed'')"

definition ip_family_string :: "ip_family \<Rightarrow> string" where
  "ip_family_string f = (case f of V4 \<Rightarrow> ''ipv4'' | V6 \<Rightarrow> ''ipv6'')"

definition ipv4_source_string :: "ipv4_source \<Rightarrow> string" where
  "ipv4_source_string s = (case s of AutomaticDhcp \<Rightarrow> ''dhcp'' | Manual4 \<Rightarrow> ''manual'')"

definition connection_type_display :: "connection_type \<Rightarrow> string" where
  "connection_type_display t = (case t of Wifi _ \<Rightarrow> ''wifi'' | Ethernet _ \<Rightarrow> ''ethernet'')"

definition link_line :: "link \<Rightarrow> string" where
  "link_line l = show_i32 (link_index l) @ tab @ link_name l @ tab @ ''flags=0x'' @ show_hex (unat (link_flags l))
     @ tab @ ''up='' @ show_bool (link_is_up (link_flags l))
     @ tab @ ''loopback='' @ show_bool (link_is_loopback (link_flags l))"

definition address_line :: "address \<Rightarrow> string" where
  "address_line a = ''ifindex='' @ show_word (addr_interface_index a) @ tab @ ''address=''
     @ ip_addr_string (addr_address a) @ ''/'' @ show_word (addr_prefix_length a)"

definition route_line :: "route \<Rightarrow> string" where
  "route_line r = ''family='' @ ip_family_string (rt_family r)
     @ tab @ ''destination='' @ ip_addr_string (rt_destination r) @ ''/'' @ show_word (rt_prefix_length r)
     @ tab @ ''gateway='' @ or_dash ip_addr_string (rt_gateway r)
     @ tab @ ''oif='' @ or_dash show_i32 (rt_output_interface r)
     @ tab @ ''metric='' @ or_dash show_word (rt_metric r)
     @ tab @ ''kind='' @ route_kind_debug (rt_kind r) @ tab @ ''scope='' @ route_scope_debug (rt_scope r)"

definition wifi_line :: "wireless_interface \<Rightarrow> string" where
  "wifi_line i = ''ifindex='' @ show_i32 (wi_index i) @ tab @ ''name='' @ wi_name i
     @ tab @ ''wiphy='' @ or_dash (\<lambda>n. n) (wi_wiphy_name i)
     @ tab @ ''type='' @ interface_type_debug (wi_interface_type i)
     @ tab @ ''mac='' @ or_dash format_mac_address (wi_mac i) @ tab @ ''up='' @ show_bool (wi_up i)"

definition security_word :: "access_point_security \<Rightarrow> string" where
  "security_word s =
     (if sec_wpa1 s \<and> sec_wpa2 s then ''wpa1+wpa2''
      else if sec_wpa2 s \<and> sec_wpa3 s then ''wpa2+wpa3''
      else if sec_wpa1 s then ''wpa1''
      else if sec_wpa2 s then ''wpa2''
      else if sec_wpa3 s then ''wpa3''
      else if sec_wep s then ''wep'' else ''open'')"

definition point_line :: "access_point \<Rightarrow> string" where
  "point_line p = or_dash format_mac_address (ap_bssid p)
     @ tab @ (case ap_ssid p of None \<Rightarrow> ''(hidden)'' | Some ssid \<Rightarrow> ssid_display_string ssid)
     @ tab @ ''freq='' @ show_word (case ap_frequency p of None \<Rightarrow> 0 | Some f \<Rightarrow> f)
     @ tab @ ''chan='' @ or_dash show_word (ap_channel p)
     @ tab @ ''signal='' @ or_dash show_i32 (ap_signal_dbm p) @ ''dbm''
     @ tab @ ''security='' @ security_word (ap_security p)"

definition profile_line :: "connection_profile \<Rightarrow> string" where
  "profile_line p = ''profile'' @ tab @ ''id='' @ cp_id p @ tab @ ''name='' @ cp_name p
     @ tab @ ''type='' @ connection_type_display (cp_connection_type p)
     @ tab @ ''priority='' @ show_i32 (cp_priority p) @ tab @ ''autoconnect='' @ show_bool (cp_autoconnect p)
     @ tab @ ''enabled='' @ show_bool (cp_enabled p)"

definition activated_line :: "active_connection \<Rightarrow> string" where
  "activated_line a = ''activated id='' @ show_word (ac_id a) @ '' profile='' @ cp_id (ac_profile a)
     @ '' device='' @ dev_interface_name (ac_device a) @ '' state='' @ state_debug (ac_state a)"

definition ipv4_line :: "ipv4_outcome option \<Rightarrow> string" where
  "ipv4_line out = (case out of
       None \<Rightarrow> ''ipv4 (none configured)''
     | Some ipv4 \<Rightarrow>
         let dns = join_with '','' (map ip_addr_string (o4_dns_servers ipv4))
         in ''ipv4 address='' @ ip_addr_string (V4Addr (o4_address ipv4)) @ ''/'' @ show_word (o4_prefix_length ipv4)
            @ '' gateway='' @ or_dash (\<lambda>g. ip_addr_string (V4Addr g)) (o4_gateway ipv4)
            @ '' dns='' @ (if dns = [] then ''-'' else dns) @ '' source='' @ ipv4_source_string (o4_source ipv4))"

definition event_line :: "network_event \<Rightarrow> string" where
  "event_line event = (case event of
       LinkEvent kind l \<Rightarrow>
         (case kind of LinkCreated \<Rightarrow> ''link-created'' | LinkRemoved \<Rightarrow> ''link-removed'' | LinkChanged \<Rightarrow> ''link-changed'')
         @ tab @ ''index='' @ show_i32 (link_index l) @ tab @ ''name='' @ link_name l
         @ tab @ ''flags=0x'' @ show_hex (unat (link_flags l)) @ tab @ ''up='' @ show_bool (link_is_up (link_flags l))
         @ tab @ ''loopback='' @ show_bool (link_is_loopback (link_flags l))
     | AddressEvent kind a \<Rightarrow>
         (case kind of AddressAdded \<Rightarrow> ''address-added'' | AddressRemoved \<Rightarrow> ''address-removed'')
         @ tab @ ''ifindex='' @ show_word (addr_interface_index a) @ tab @ ''address=''
         @ ip_addr_string (addr_address a) @ ''/'' @ show_word (addr_prefix_length a)
     | WifiEvent e \<Rightarrow>
         (case we_kind e of ScanResults \<Rightarrow> ''scan-results'' | ScanAborted \<Rightarrow> ''scan-aborted'')
         @ tab @ ''ifindex='' @ show_i32 (we_interface_index e)
         @ tab @ ''frequency='' @ (case we_frequency e of None \<Rightarrow> ''?'' | Some f \<Rightarrow> show_word f)
     | RouteEvent kind r \<Rightarrow>
         (case kind of RouteAdded \<Rightarrow> ''route-added'' | RouteRemoved \<Rightarrow> ''route-removed'' | RouteChanged \<Rightarrow> ''route-changed'')
         @ tab @ ''family='' @ ip_family_string (rt_family r)
         @ tab @ ''destination='' @ ip_addr_string (rt_destination r) @ ''/'' @ show_word (rt_prefix_length r)
         @ tab @ ''gateway='' @ or_dash ip_addr_string (rt_gateway r)
         @ tab @ ''metric='' @ or_dash show_word (rt_metric r))"

section \<open>Running a command\<close>

type_synonym printed = "string list \<times> (unit, string) result"

text \<open>Query the backend of a new daemon and print a line for every item.\<close>

definition print_query ::
  "(('b, mem_store, unit) daemon \<Rightarrow> ('a list, netlink_error) result \<times> ('b, mem_store, unit) daemon) \<Rightarrow>
   ('a \<Rightarrow> string) \<Rightarrow> 'b \<Rightarrow> printed" where
  "print_query query line backend = (case query (daemon_new backend) of
       (Err e, _) \<Rightarrow> ([], Err (netlink_error_string e))
     | (Ok xs, _) \<Rightarrow> (map line xs, Ok ()))"

definition print_links :: "('b, 'src) backend_ops \<Rightarrow> 'b \<Rightarrow> printed" where
  "print_links bo = print_query (daemon_links bo) link_line"

definition print_addresses :: "('b, 'src) backend_ops \<Rightarrow> 'b \<Rightarrow> printed" where
  "print_addresses bo = print_query (daemon_addresses bo) address_line"

definition print_routes :: "('b, 'src) backend_ops \<Rightarrow> 'b \<Rightarrow> printed" where
  "print_routes bo = print_query (daemon_routes bo) route_line"

definition print_wifi :: "('b, 'src) backend_ops \<Rightarrow> 'b \<Rightarrow> printed" where
  "print_wifi bo = print_query (daemon_wifi_interfaces bo) wifi_line"

definition scan_and_print :: "('b, 'src) backend_ops \<Rightarrow> 'b \<Rightarrow> printed" where
  "scan_and_print bo = print_query (daemon_scan_wifi bo) point_line"

text \<open>
  The profile directory is created when a store is opened. A file system holds the regular files only, so
  \<open>create_dir_all\<close> leaves it as it is: it fails where a file has the name of the directory, or with the fault given
  for the path.
\<close>

definition fs_create_dir_all :: "(string \<Rightarrow> io_error option) \<Rightarrow> fs \<Rightarrow> string \<Rightarrow> (unit, io_error) result" where
  "fs_create_dir_all faults w path =
     (if fs_is_file w path then Err \<lparr> io_kind = IoOther, io_message = ''File exists (os error 17)'' \<rparr>
      else case faults path of Some e \<Rightarrow> Err e | None \<Rightarrow> Ok ())"

definition file_store_new :: "(string \<Rightarrow> io_error option) \<Rightarrow> fs \<Rightarrow> string \<Rightarrow> (string, store_error) result" where
  "file_store_new faults w dir = map_ok (\<lambda>_. dir) (map_err StoreIo (fs_create_dir_all faults w dir))"

definition DEFAULT_PROFILE_DIR :: string where
  "DEFAULT_PROFILE_DIR = ''/etc/network-manager-rs/profiles''"

text \<open>The environment variable \<open>NMD_PROFILE_DIR\<close> is the argument \<open>var\<close>, \<open>None\<close> when it cannot be read.\<close>

definition cli_profile_store ::
  "(string \<Rightarrow> io_error option) \<Rightarrow> fs \<Rightarrow> string option \<Rightarrow> (string, store_error) result" where
  "cli_profile_store faults w var =
     file_store_new faults w (case var of Some dir \<Rightarrow> dir | None \<Rightarrow> DEFAULT_PROFILE_DIR)"

text \<open>A freshly opened store over an empty file system whose directory can be read lists nothing.\<close>

lemma opened_store_lists:
  assumes "cli_profile_store faults w var = Ok dir" "fs_files w = []" "fs_list_fault w dir = None"
  shows "so_list (file_store_ops toml dir) w = Ok [] \<and> \<not> fs_is_file w dir"
  using assms by (auto simp: file_store_ops_def file_list_def cli_profile_store_def file_store_new_def
      fs_create_dir_all_def profile_paths_def fs_read_dir_def map_filter_def split: if_split_asm option.split_asm)

definition print_connections :: "'s store_ops \<Rightarrow> ('s, store_error) result \<Rightarrow> printed" where
  "print_connections so opened =
     (case and_then opened (so_list so) of
        Err e \<Rightarrow> ([], Err (store_error_string e)) | Ok ps \<Rightarrow> (map profile_line ps, Ok ()))"

text \<open>
  \<open>nmd connect\<close>: \<open>control\<close> is the engine on the connection to wpa_supplicant, or the
  error of opening it. The last component is the engine the process leaves behind, if it came to use it.
\<close>

definition cli_activate ::
  "('b, 'src) backend_ops \<Rightarrow> 's store_ops \<Rightarrow> 'e engine_ops \<Rightarrow> (string \<Rightarrow> ('e, supplicant_error) result) \<Rightarrow>
   ('s, store_error) result \<Rightarrow> 'b \<Rightarrow> profile_id \<Rightarrow> string \<Rightarrow> printed \<times> 'e option" where
  "cli_activate bo so eng control opened backend i ifname = (case control ifname of
       Err e \<Rightarrow> (([], Err (supplicant_error_string e)), None)
     | Ok engine \<Rightarrow>
         (case opened of
            Err e \<Rightarrow> (([], Err (store_error_string e)), Some engine)
          | Ok store \<Rightarrow>
              (case daemon_devices bo (with_components backend store engine) of
                 (Err e, d) \<Rightarrow> (([], Err (netlink_error_string e)), Some (am_engine (dm_activation d)))
               | (Ok devices, d) \<Rightarrow>
                   (case List.find (\<lambda>v. dev_interface_name v = ifname) devices of
                      None \<Rightarrow> (([], Err (''no wireless device named '' @ debug_str ifname)), Some (am_engine (dm_activation d)))
                    | Some device \<Rightarrow>
                        (case daemon_activate_profile eng so d i device of
                           (Err e, d') \<Rightarrow> (([], Err (activation_error_string e)), Some (am_engine (dm_activation d')))
                         | (Ok active, d') \<Rightarrow>
                             (([activated_line active, ipv4_line (out_ipv4 (ac_outcome active))], Ok ()),
                              Some (am_engine (dm_activation d'))))))))"

definition cli_disconnect :: "'b wpa_bus \<Rightarrow> string \<Rightarrow> 'b \<Rightarrow> printed \<times> 'b" where
  "cli_disconnect bus ifname b = (case bus_then (connect bus ifname) (client_disconnect bus) b of
       (Err e, b') \<Rightarrow> (([], Err (supplicant_error_string e)), b')
     | (Ok (), b') \<Rightarrow> (([''disconnected '' @ ifname], Ok ()), b'))"

text \<open>\<open>nmd monitor\<close>: the loop ends when the source does; \<open>None\<close> is a run that never ends.\<close>

partial_function (option) monitor_loop ::
  "('src \<Rightarrow> (network_event option, netlink_error) result \<times> 'src) \<Rightarrow> 'src \<Rightarrow> printed option" where
  "monitor_loop next_ev source = (case next_ev source of
       (Err e, _) \<Rightarrow> Some ([], Err (netlink_error_string e))
     | (Ok None, _) \<Rightarrow> Some ([], Ok ())
     | (Ok (Some event), source') \<Rightarrow>
         Option.bind (monitor_loop next_ev source') (\<lambda>(lines, r). Some (event_line event # lines, r)))"

definition monitor ::
  "('b, 'src) backend_ops \<Rightarrow> ('src \<Rightarrow> (network_event option, netlink_error) result \<times> 'src) \<Rightarrow> 'b \<Rightarrow> printed option" where
  "monitor bo next_ev backend = (case daemon_events bo (daemon_new backend) of
       (Err e, _) \<Rightarrow> Some ([], Err (netlink_error_string e))
     | (Ok source, _) \<Rightarrow> monitor_loop next_ev source)"

section \<open>Monitoring\<close>

text \<open>A source that delivers the events \<open>es\<close> one after the other.\<close>

fun delivers ::
  "('src \<Rightarrow> (network_event option, netlink_error) result \<times> 'src) \<Rightarrow> 'src \<Rightarrow> network_event list \<Rightarrow> 'src \<Rightarrow> bool" where
  "delivers next_ev source [] source' \<longleftrightarrow> source' = source"
| "delivers next_ev source (e # es) source' \<longleftrightarrow>
     (\<exists>s. next_ev source = (Ok (Some e), s) \<and> delivers next_ev s es source')"

lemma monitor_prints:
  assumes "delivers next_ev source es source'"
  shows "monitor_loop next_ev source = map_option (\<lambda>(ls, r). (map event_line es @ ls, r)) (monitor_loop next_ev source')"
  using assms
proof (induction es arbitrary: source)
  case Nil
  then show ?case by (simp add: option.map_ident case_prod_unfold)
next
  case (Cons e es)
  then obtain s where s: "next_ev source = (Ok (Some e), s)" "delivers next_ev s es source'" by auto
  have "monitor_loop next_ev source = Option.bind (monitor_loop next_ev s) (\<lambda>(ls, r). Some (event_line e # ls, r))"
    by (subst monitor_loop.simps) (simp add: s(1))
  with Cons.IH [OF s(2)] show ?case
    by (cases "monitor_loop next_ev source'") auto
qed

lemma monitor_returns:
  assumes "delivers next_ev source es s" "next_ev s = (r, s')" "r = Ok None \<or> r = Err e"
  shows "monitor_loop next_ev source =
    Some (map event_line es, case r of Ok _ \<Rightarrow> Ok () | Err e \<Rightarrow> Err (netlink_error_string e))"
proof -
  have "monitor_loop next_ev s = Some ([], case r of Ok _ \<Rightarrow> Ok () | Err e \<Rightarrow> Err (netlink_error_string e))"
    using assms(2,3) by (subst monitor_loop.simps) auto
  with monitor_prints [OF assms(1)] show ?thesis by simp
qed

section \<open>Connecting\<close>

text \<open>
  What \<open>nmd connect\<close> has done, on any engine that holds one connection at a time: it succeeds only by
  activating the profile asked for, and when it fails nothing was printed and the engine holds nothing.
\<close>

context single_slot_engine
begin

lemma activate_profile_slot:
  assumes "get_sound so st" "slot e = None"
    and "am_activate_profile eng so st (am_new e) i d = (r, m)"
  shows "case r of
      Ok a \<Rightarrow> ac_state a = Activated \<and> ac_device a = d \<and> so_get so st i = Ok (ac_profile a) \<and> cp_id (ac_profile a) = i \<and>
        matches (ac_profile a) d \<and> slot (am_engine m) = Some i
    | Err err \<Rightarrow> slot (am_engine m) = None"
  using assms(3)
proof (cases rule: am_activate_profile_cases)
  case 1
  with assms(2) show ?thesis by (auto simp: am_new_def)
next
  case (2 p)
  obtain r0 e' where run: "eo_activate eng (am_engine (am_new e)) p d = (r0, e')" by (meson surj_pair)
  then have run': "eo_activate eng e p d = (r0, e')" by (simp add: am_new_def)
  have "cp_id p = i" using assms(1) 2(1) by (simp add: get_sound_def)
  then show ?thesis
    using 2 am_activate_matching_eq [OF run] act_ok [of e p d _ e'] act_err [OF assms(2), of p d _ e'] run'
    by (cases r0) (auto simp: attempted_def)
qed

end

lemma cli_activate_cases:
  assumes "cli_activate bo so eng control opened backend i ifname = ((ls, r), left)"
  obtains (failed_early) "r \<noteq> Ok ()" "ls = []" "left = None \<or> (\<exists>e. control ifname = Ok e \<and> left = Some e)"
  | (tried) e st d r' m where "control ifname = Ok e" "opened = Ok st" "dev_interface_name d = ifname"
      "am_activate_profile eng so st (am_new e) i d = (r', m)" "left = Some (am_engine m)"
      "(ls, r) = (case r' of Err err \<Rightarrow> ([], Err (activation_error_string err))
         | Ok a \<Rightarrow> ([activated_line a, ipv4_line (out_ipv4 (ac_outcome a))], Ok ()))"
proof (cases "control ifname")
  case (Err e)
  with assms show ?thesis by (intro failed_early) (auto simp: cli_activate_def)
next
  case (Ok e)
  show ?thesis
  proof (cases opened)
    case (Err err)
    with assms Ok show ?thesis by (intro failed_early) (auto simp: cli_activate_def)
  next
    case (Ok st)
    obtain rd d0 where devs: "daemon_devices bo (with_components backend st e) = (rd, d0)" by (meson surj_pair)
    have d0: "dm_profiles d0 = st" "dm_activation d0 = am_new e"
      using devs by (auto simp: daemon_devices_def daemon_wifi_interfaces_def on_backend_def with_components_def
          split: prod.splits)
    then have eng: "am_engine (dm_activation d0) = e" by (simp add: am_new_def)
    show ?thesis
    proof (cases "\<exists>ds d. rd = Ok ds \<and> List.find (\<lambda>v. dev_interface_name v = ifname) ds = Some d")
      case True
      then obtain ds d where d: "rd = Ok ds" "List.find (\<lambda>v. dev_interface_name v = ifname) ds = Some d" by blast
      obtain r' m where run: "am_activate_profile eng so st (am_new e) i d = (r', m)" by (meson surj_pair)
      have act: "daemon_activate_profile eng so d0 i d = (r', d0\<lparr> dm_activation := m \<rparr>)"
        by (simp add: daemon_activate_profile_def on_manager_def d0 run)
      have "left = Some (am_engine m)" "(ls, r) = (case r' of Err err \<Rightarrow> ([], Err (activation_error_string err))
         | Ok a \<Rightarrow> ([activated_line a, ipv4_line (out_ipv4 (ac_outcome a))], Ok ()))"
        using assms \<open>control ifname = Ok e\<close> Ok devs d act by (cases r'; auto simp: cli_activate_def)+
      with tried [OF \<open>control ifname = Ok e\<close> Ok _ run] d(2) show ?thesis by (auto simp: find_Some_iff)
    next
      case False
      with assms \<open>control ifname = Ok e\<close> Ok devs eng show ?thesis
        by (intro failed_early; cases rd) (auto simp: cli_activate_def split: option.splits)
    qed
  qed
qed

lemma linux_connect:
  assumes "get_sound so st"
    and "cli_activate bo so (linux_engine_ops ctl secrets b net)
      (\<lambda>n. map_ok (\<lambda>x. linux_with_components x ip timeout) (open_control n)) (Ok st) backend i ifname = ((ls, r), left)"
  shows "case r of
      Ok _ \<Rightarrow> \<exists>a e. left = Some e \<and> linux_slot e = Some i \<and> so_get so st i = Ok (ac_profile a) \<and>
        cp_id (ac_profile a) = i \<and> matches (ac_profile a) (ac_device a) \<and> dev_interface_name (ac_device a) = ifname \<and>
        ac_state a = Activated \<and> ls = [activated_line a, ipv4_line (out_ipv4 (ac_outcome a))]
    | Err _ \<Rightarrow> ls = [] \<and> (case left of None \<Rightarrow> True | Some e \<Rightarrow> linux_slot e = None)"
proof -
  have fresh: "linux_slot e = None" if "map_ok (\<lambda>x. linux_with_components x ip timeout) (open_control ifname) = Ok e" for e
    using that by (auto simp: linux_slot_def linux_with_components_def result_simps)
  from assms(2) show ?thesis
  proof (cases rule: cli_activate_cases)
    case failed_early
    then show ?thesis using fresh by (cases r) auto
  next
    case (tried e st' d r' m)
    with linux.activate_profile_slot [OF assms(1) fresh, of e ctl secrets b net i d r' m] show ?thesis
      by (cases r') auto
  qed
qed

text \<open>A machine with one wireless device and a directory with the profile of an open network.\<close>

definition cafe_interface :: wireless_interface where
  "cafe_interface = \<lparr> wi_index = 3, wi_name = ''wlan0'', wi_wiphy_index = None, wi_wiphy_name = None,
     wi_interface_type = Station, wi_mac = None, wi_up = True,
     wi_capabilities = default_capabilities \<rparr>"

definition cafe_backend :: "(unit, unit) backend_ops" where
  "cafe_backend = \<lparr> bo_links = (\<lambda>b. (Ok [], b)), bo_addresses = (\<lambda>b. (Ok [], b)), bo_routes = (\<lambda>b. (Ok [], b)),
     bo_events = (\<lambda>b. (Ok (), b)), bo_wifi_interfaces = (\<lambda>b. (Ok [cafe_interface], b)),
     bo_access_points = (\<lambda>b. (Ok [], b)), bo_scan_wifi = (\<lambda>b. (Ok [], b)), bo_wifi_events = (\<lambda>b. (Ok (), b)) \<rparr>"

definition cafe_toml :: toml_codec where
  "cafe_toml = \<lparr> toml_to_string = (\<lambda>_. Ok ''c''), toml_from_str = (\<lambda>_. Ok cafe_link) \<rparr>"

definition cafe_fs :: fs where
  "cafe_fs = wired_fs\<lparr> fs_files := [(''/p/cafe.toml'', ''c'')] \<rparr>"

lemma cafe_get: "file_get cafe_toml ''/p'' cafe_fs ''cafe'' = Ok cafe_link"
proof -
  have "validate cafe_link = Ok ()" using cafe_link_ok(1) by (simp add: validate_Ok_iff)
  then show ?thesis
    by (simp add: file_get_def read_profile_def parse_profile_def fs_is_file_def fs_read_to_string_def fs_lookup_def
        path_for_def path_join_def cafe_fs_def wired_fs_def cafe_toml_def cafe_link_ok(3))
qed

lemma cafe_connects:
  "cli_activate cafe_backend (file_store_ops cafe_toml ''/p'')
     (linux_engine_ops (logged_control obliging_control) (\<lambda>_. Ok None) (example_backends False) cafe_net)
     (\<lambda>n. map_ok (\<lambda>x. linux_with_components x example_engine 5) (Ok ((), []))) (Ok cafe_fs) () ''cafe'' ''wlan0'' =
   (([''activated id=1 profile=cafe device=wlan0 state=Activated'', ''ipv4 (none configured)''], Ok ()), Some cafe_engine_up)"
proof -
  have get: "so_get (file_store_ops cafe_toml ''/p'') cafe_fs ''cafe'' = Ok cafe_link"
    using cafe_get by (simp add: file_store_ops_def)
  have device: "device_from_wireless cafe_interface = wlan0"
    by (simp add: device_from_wireless_def cafe_interface_def wlan0_def)
  have up: "eo_activate cafe_ops (am_engine (am_new cafe_engine)) cafe_link wlan0 = (Ok outcome_default, cafe_engine_up)"
    using cafe_up by (simp add: am_new_def)
  have name: "dev_interface_name wlan0 = ''wlan0''" by (simp add: wlan0_def)
  have one: "show_word (1 :: u64) = ''1''" by code_simp
  have active: "\<not> am_is_active (am_new e) j" for e :: "(unit \<times> sup_op list, unit, unit, unit) linux_engine" and j
    by (simp add: am_is_active_def am_new_def)
  have line: "activated_line (attempted (am_next_id (am_new cafe_engine)) cafe_link wlan0 (Ok outcome_default)) =
      ''activated id=1 profile=cafe device=wlan0 state=Activated''"
    by (simp add: activated_line_def attempted_def am_new_def one cafe_link_ok name state_debug_def)
  have "am_activate_profile cafe_ops (file_store_ops cafe_toml ''/p'') cafe_fs (am_new cafe_engine) ''cafe'' wlan0 =
      am_activate_matching cafe_ops (am_new cafe_engine) cafe_link wlan0"
    using cafe_link_ok(2) by (simp add: am_activate_profile_def get active)
  with am_activate_matching_eq [OF up] show ?thesis
    unfolding cafe_ops_def [symmetric]
    by (simp add: cli_activate_def daemon_devices_def daemon_wifi_interfaces_def on_backend_def cafe_backend_def device name
        with_components_def daemon_activate_profile_def on_manager_def cafe_engine_def [symmetric] line)
      (simp add: attempted_def outcome_default_def ipv4_line_def)
qed

end
