(* ===== verification/Nm_Text.thy ===== *)
theory Nm_Text
  imports Nm_Profile Nm_Ip Nm_Convert
begin

text \<open>
  The texts of the model's types: what they display as, and what the identifiers are written as in profile files
  (\<^verbatim>\<open>src/linux/model.rs\<close>, \<^verbatim>\<open>src/connection/device.rs\<close>,
  \<^verbatim>\<open>src/connection/profile.rs\<close>, \<^verbatim>\<open>src/connection/ip.rs\<close>). Serde is a
  parameter in that the string handed to it, or obtained from it, is what is modelled.
\<close>

section \<open>Display\<close>

definition route_kind_string :: "route_kind \<Rightarrow> string" where
  "route_kind_string k = (case k of Unicast \<Rightarrow> ''unicast'' | Local \<Rightarrow> ''local'' | Broadcast \<Rightarrow> ''broadcast''
     | Anycast \<Rightarrow> ''anycast'' | Multicast \<Rightarrow> ''multicast'' | Blackhole \<Rightarrow> ''blackhole''
     | Unreachable \<Rightarrow> ''unreachable'' | OtherKind n \<Rightarrow> ''other('' @ show_word n @ '')'')"

definition interface_type_string :: "interface_type \<Rightarrow> string" where
  "interface_type_string t = (case t of Unspecified \<Rightarrow> ''unspecified'' | Adhoc \<Rightarrow> ''adhoc'' | Station \<Rightarrow> ''station''
     | Ap \<Rightarrow> ''access-point'' | ApVlan \<Rightarrow> ''ap-vlan'' | Wds \<Rightarrow> ''wds'' | Monitor \<Rightarrow> ''monitor''
     | MeshPoint \<Rightarrow> ''mesh-point'' | P2pClient \<Rightarrow> ''p2p-client'' | P2pGo \<Rightarrow> ''p2p-group-owner''
     | P2pDevice \<Rightarrow> ''p2p-device'' | Ocb \<Rightarrow> ''ocb'' | Nan \<Rightarrow> ''nan'' | NanData \<Rightarrow> ''nan-data''
     | OtherInterface n \<Rightarrow> ''unknown('' @ show_word n @ '')'')"

definition wifi_band_id_string :: "wifi_band_id \<Rightarrow> string" where
  "wifi_band_id_string b = (case b of Ghz2 \<Rightarrow> ''2.4GHz'' | Ghz5 \<Rightarrow> ''5GHz'' | Ghz60 \<Rightarrow> ''60GHz'' | Ghz6 \<Rightarrow> ''6GHz''
     | SubGhz \<Rightarrow> ''sub-GHz'' | Lc \<Rightarrow> ''light-communication'' | OtherBand n \<Rightarrow> ''band('' @ show_word n @ '')'')"

definition wifi_cipher_as_str :: "wifi_cipher \<Rightarrow> string" where
  "wifi_cipher_as_str c = (case c of Wep40 \<Rightarrow> ''WEP-40'' | Wep104 \<Rightarrow> ''WEP-104'' | Tkip \<Rightarrow> ''TKIP'' | Ccmp \<Rightarrow> ''CCMP''
     | Ccmp256 \<Rightarrow> ''CCMP-256'' | Gcmp \<Rightarrow> ''GCMP'' | Gcmp256 \<Rightarrow> ''GCMP-256'' | AesCmac \<Rightarrow> ''AES-CMAC''
     | BipCmac256 \<Rightarrow> ''BIP-CMAC-256'' | BipGmac128 \<Rightarrow> ''BIP-GMAC-128'' | BipGmac256 \<Rightarrow> ''BIP-GMAC-256''
     | WapiSms4 \<Rightarrow> ''WAPI-SMS4'' | OtherCipher _ \<Rightarrow> ''other'')"

definition wifi_cipher_string :: "wifi_cipher \<Rightarrow> string" where
  "wifi_cipher_string c = (case c of
     OtherCipher v \<Rightarrow> ''other(0x'' @ hex_padded 8 (unat v) @ '')'' | _ \<Rightarrow> wifi_cipher_as_str c)"

definition wifi_auth_suite_as_str :: "wifi_auth_suite \<Rightarrow> string" where
  "wifi_auth_suite_as_str s = (case s of Wpa1Psk \<Rightarrow> ''WPA-PSK'' | Wpa18021x \<Rightarrow> ''WPA-802.1X''
     | Rsn8021x \<Rightarrow> ''WPA2-802.1X'' | RsnPsk \<Rightarrow> ''WPA2-PSK'' | RsnFt8021x \<Rightarrow> ''FT-802.1X'' | RsnFtPsk \<Rightarrow> ''FT-PSK''
     | Rsn8021xSha256 \<Rightarrow> ''802.1X-SHA256'' | RsnPskSha256 \<Rightarrow> ''PSK-SHA256'' | RsnSae \<Rightarrow> ''SAE'' | RsnSaeFt \<Rightarrow> ''FT-SAE''
     | RsnApPsk \<Rightarrow> ''AP-PSK'' | RsnSuiteB \<Rightarrow> ''SUITE-B'' | RsnSuiteB192 \<Rightarrow> ''SUITE-B-192''
     | RsnFt8021xSha384 \<Rightarrow> ''FT-802.1X-SHA384'' | RsnFilsSha256 \<Rightarrow> ''FILS-SHA256'' | RsnFilsSha384 \<Rightarrow> ''FILS-SHA384''
     | RsnFtFilsSha256 \<Rightarrow> ''FT-FILS-SHA256'' | RsnFtFilsSha384 \<Rightarrow> ''FT-FILS-SHA384'' | RsnOwe \<Rightarrow> ''OWE''
     | RsnFtPskSha384 \<Rightarrow> ''FT-PSK-SHA384'' | RsnPskSha384 \<Rightarrow> ''PSK-SHA384'' | RsnPasn \<Rightarrow> ''PASN''
     | OtherSuite _ \<Rightarrow> ''other'')"

definition wifi_auth_suite_string :: "wifi_auth_suite \<Rightarrow> string" where
  "wifi_auth_suite_string s = (case s of
     OtherSuite v \<Rightarrow> ''other(0x'' @ hex_padded 8 (unat v) @ '')'' | _ \<Rightarrow> wifi_auth_suite_as_str s)"

definition key_management_display :: "key_management \<Rightarrow> string" where
  "key_management_display k = (case k of Open \<Rightarrow> ''open'' | WpaPsk \<Rightarrow> ''wpa-psk'' | WpaEap \<Rightarrow> ''wpa-eap''
     | Sae \<Rightarrow> ''sae'' | Owe \<Rightarrow> ''owe'')"

definition ip_method_string :: "ip_method \<Rightarrow> string" where
  "ip_method_string m = (case m of Automatic \<Rightarrow> ''automatic'' | Manual \<Rightarrow> ''manual'' | Disabled \<Rightarrow> ''disabled'')"

definition ipv6_source_string :: "ipv6_source \<Rightarrow> string" where
  "ipv6_source_string s = (case s of AutomaticLinkLocal \<Rightarrow> ''link-local'' | Manual6 \<Rightarrow> ''manual'' | Disabled6 \<Rightarrow> ''disabled'')"

section \<open>Serialisation\<close>

definition ssid_serialize :: "ssid \<Rightarrow> string" where
  "ssid_serialize s = encode_hex s"

definition ssid_deserialize :: "scalars \<Rightarrow> (ssid, string) result" where
  "ssid_deserialize hex = ok_or (decode_hex hex) ''invalid ssid hex encoding''"

definition bssid_serialize :: "mac \<Rightarrow> string" where
  "bssid_serialize b = format_mac_address b"

definition bssid_deserialize :: "scalars \<Rightarrow> (mac, string) result" where
  "bssid_deserialize input = ok_or (parse_mac_address input) ''invalid bssid''"

definition mac_serialize :: "mac \<Rightarrow> string" where
  "mac_serialize m = format_mac_address m"

definition mac_deserialize :: "scalars \<Rightarrow> (mac, string) result" where
  "mac_deserialize input = ok_or (parse_mac_address input) ''invalid mac address''"

section \<open>Reading back\<close>

text \<open>The identifiers of a profile file are read back as they were written.\<close>

lemma identifiers_read_back:
  "ssid_deserialize (scalars_of (ssid_serialize s)) = Ok s"
  "length b = 6 \<Longrightarrow> bssid_deserialize (scalars_of (bssid_serialize b)) = Ok b"
  "length m = 6 \<Longrightarrow> mac_deserialize (scalars_of (mac_serialize m)) = Ok m"
  by (simp_all add: ssid_deserialize_def ssid_serialize_def decode_hex_encode bssid_deserialize_def bssid_serialize_def
      mac_deserialize_def mac_serialize_def parse_format_mac)

text \<open>
  Deserialisation does not apply the bound of \<open>Ssid::from_bytes\<close>: an SSID of any length is read, and it is the
  validation of the profile that refuses it.
\<close>

lemma ssid_deserialize_unbounded:
  "\<exists>input s. ssid_deserialize input = Ok s \<and> length s = n \<and> (n > 32 \<longrightarrow> ssid_from_bytes s = None)"
  by (intro exI [of _ "scalars_of (ssid_serialize (replicate n 0))"] exI [of _ "replicate n 0"])
    (simp add: identifiers_read_back(1) ssid_from_bytes_def)

text \<open>The suites the standard names display differently.\<close>

lemma suites_distinct: "distinct (map (\<lambda>k. wifi_auth_suite_as_str (wifi_auth_suite_from_rsn_akm k))
    (map (\<lambda>n. 0x000FAC00 + n) [1, 2, 3, 4, 5, 6, 8, 9, 10, 11, 12, 13, 14, 15, 16, 17, 18, 19, 20, 21]))"
  by code_simp

end
