(* ===== verification/Nm_Mutex.thy ===== *)
theory Nm_Mutex
  imports Main
begin

text \<open>
  Mutexes: what code does with the guards of \<open>std::sync::Mutex\<close>, threads that run such code in any interleaving,
  and the lock order that keeps them from waiting for each other for ever. A mutex is not reentrant: a thread that
  locks a mutex it holds waits for itself.
\<close>

section \<open>Code and its runs\<close>

text \<open>
  \<open>Guard m c\<close> is the scope of a guard of \<open>m\<close>, which is dropped however the scope is left; \<open>Exit\<close> is an early return
  from the function, \<open>Call c\<close> the body of a function; what decides a branch or ends a loop is not recorded.
\<close>

datatype 'm code =
    Done
  | Exit
  | Guard 'm "'m code"
  | Then "'m code" "'m code"
  | Branch "'m code" "'m code"
  | Loop "'m code"
  | Call "'m code"

text \<open>The operator \<open>?\<close>, and any other early return: goes on or leaves the function.\<close>

abbreviation attempt :: "'m code" where
  "attempt \<equiv> Branch Done Exit"

datatype 'm action = Lock 'm | Unlock 'm

text \<open>\<open>runs c tr left\<close>: \<open>c\<close> can do the lock operations \<open>tr\<close>; \<open>left\<close> tells whether it returned early.\<close>

inductive runs :: "'m code \<Rightarrow> 'm action list \<Rightarrow> bool \<Rightarrow> bool" where
  runs_done: "runs Done [] False"
| runs_exit: "runs Exit [] True"
| runs_guard: "runs c tr left \<Longrightarrow> runs (Guard m c) (Lock m # tr @ [Unlock m]) left"
| runs_then: "runs a tr False \<Longrightarrow> runs b tr' left \<Longrightarrow> runs (Then a b) (tr @ tr') left"
| runs_then_exit: "runs a tr True \<Longrightarrow> runs (Then a b) tr True"
| runs_left: "runs a tr left \<Longrightarrow> runs (Branch a b) tr left"
| runs_right: "runs b tr left \<Longrightarrow> runs (Branch a b) tr left"
| runs_stop: "runs (Loop a) [] False"
| runs_again: "runs a tr False \<Longrightarrow> runs (Loop a) tr' left \<Longrightarrow> runs (Loop a) (tr @ tr') left"
| runs_loop_exit: "runs a tr True \<Longrightarrow> runs (Loop a) tr True"
| runs_call: "runs a tr left \<Longrightarrow> runs (Call a) tr False"

inductive_simps runs_simps:
  "runs Done tr left"
  "runs Exit tr left"
  "runs (Guard m c) tr left"
  "runs (Branch a b) tr left"
  "runs (Call a) tr left"

section \<open>Threads\<close>

text \<open>A thread: the mutexes it holds, the latest first, and what it has still to do.\<close>

type_synonym 'm thread = "'m list \<times> 'm action list"

definition free :: "'m \<Rightarrow> 'm thread list \<Rightarrow> bool" where
  "free m ts \<longleftrightarrow> list_all (\<lambda>(held, _). m \<notin> set held) ts"

inductive thread_step :: "'m thread list \<Rightarrow> 'm thread list \<Rightarrow> bool" where
  locks: "free m (us @ (held, Lock m # todo) # vs) \<Longrightarrow>
    thread_step (us @ (held, Lock m # todo) # vs) (us @ (m # held, todo) # vs)"
| unlocks: "m \<in> set held \<Longrightarrow>
    thread_step (us @ (held, Unlock m # todo) # vs) (us @ (remove1 m held, todo) # vs)"

abbreviation thread_steps :: "'m thread list \<Rightarrow> 'm thread list \<Rightarrow> bool" where
  "thread_steps \<equiv> thread_step\<^sup>*\<^sup>*"

definition finished :: "'m thread list \<Rightarrow> bool" where
  "finished ts \<longleftrightarrow> list_all (\<lambda>t. t = ([], [])) ts"

text \<open>No mutex is held twice, by two threads or by one.\<close>

definition exclusive :: "'m thread list \<Rightarrow> bool" where
  "exclusive ts \<longleftrightarrow> distinct (concat (map fst ts))"

text \<open>Threads about to run one of the calls each.\<close>

definition started :: "'m code set \<Rightarrow> 'm thread list \<Rightarrow> bool" where
  "started calls ts \<longleftrightarrow> (\<forall>t \<in> set ts. \<exists>c \<in> calls. \<exists>tr left. runs c tr left \<and> t = ([], tr))"

section \<open>Lock order\<close>

text \<open>Every guard is taken at a higher rank than those around it.\<close>

fun ordered :: "('m \<Rightarrow> nat) \<Rightarrow> nat \<Rightarrow> 'm code \<Rightarrow> bool" where
  "ordered rank k Done \<longleftrightarrow> True"
| "ordered rank k Exit \<longleftrightarrow> True"
| "ordered rank k (Guard m c) \<longleftrightarrow> k \<le> rank m \<and> ordered rank (Suc (rank m)) c"
| "ordered rank k (Then a b) \<longleftrightarrow> ordered rank k a \<and> ordered rank k b"
| "ordered rank k (Branch a b) \<longleftrightarrow> ordered rank k a \<and> ordered rank k b"
| "ordered rank k (Loop a) \<longleftrightarrow> ordered rank k a"
| "ordered rank k (Call a) \<longleftrightarrow> ordered rank k a"

text \<open>The same of a run: locks rise in rank, the latest lock is released first, and nothing is held at the end.\<close>

fun disciplined :: "('m \<Rightarrow> nat) \<Rightarrow> 'm list \<Rightarrow> 'm action list \<Rightarrow> bool" where
  "disciplined rank held [] \<longleftrightarrow> held = []"
| "disciplined rank held (Lock m # todo) \<longleftrightarrow>
     list_all (\<lambda>h. rank h < rank m) held \<and> disciplined rank (m # held) todo"
| "disciplined rank held (Unlock m # todo) \<longleftrightarrow>
     (case held of [] \<Rightarrow> False | h # hs \<Rightarrow> h = m \<and> disciplined rank hs todo)"

lemma ordered_mono: "ordered rank k c \<Longrightarrow> k' \<le> k \<Longrightarrow> ordered rank k' c"
  by (induction rank k c rule: ordered.induct) auto

lemma runs_disciplined:
  assumes "runs c tr left" "ordered rank k c" "list_all (\<lambda>h. rank h < k) held"
  shows "disciplined rank held (tr @ rest) \<longleftrightarrow> disciplined rank held rest"
  using assms
proof (induction arbitrary: k held rest rule: runs.induct)
  case (runs_guard c tr left m)
  then have below: "list_all (\<lambda>h. rank h < rank m) held" by (auto simp: list_all_iff)
  then have "list_all (\<lambda>h. rank h < Suc (rank m)) (m # held)" by (auto simp: list_all_iff)
  then have "disciplined rank (m # held) (tr @ Unlock m # rest) \<longleftrightarrow> disciplined rank (m # held) (Unlock m # rest)"
    using runs_guard.prems by (intro runs_guard.IH [of "Suc (rank m)"]) simp_all
  then show ?case using below by simp
qed auto

text \<open>A step uses up one operation, so no run is infinite.\<close>

definition work :: "'m thread list \<Rightarrow> nat" where
  "work ts = sum_list (map (length \<circ> snd) ts)"

lemma step_works: "thread_step ts ts' \<Longrightarrow> work ts = Suc (work ts')"
  by (induction rule: thread_step.induct) (simp_all add: work_def)

lemma work_zero: "work ts = 0 \<longleftrightarrow> list_all (\<lambda>t. snd t = []) ts"
  by (induction ts) (auto simp: work_def)

section \<open>Threads that keep the order\<close>

definition keeping :: "('m \<Rightarrow> nat) \<Rightarrow> 'm thread list \<Rightarrow> bool" where
  "keeping rank ts \<longleftrightarrow> list_all (\<lambda>(held, todo). disciplined rank held todo) ts"

lemma keeping_step: "thread_step ts ts' \<Longrightarrow> keeping rank ts \<Longrightarrow> keeping rank ts'"
  by (induction rule: thread_step.induct) (auto simp: keeping_def split: list.splits)

lemma exclusive_step: "thread_step ts ts' \<Longrightarrow> exclusive ts \<Longrightarrow> exclusive ts'"
proof (induction rule: thread_step.induct)
  case (locks m us held todo vs)
  then show ?case by (auto simp: exclusive_def free_def list_all_iff)
next
  case (unlocks m held us todo vs)
  then show ?case by (auto simp: exclusive_def dest: notin_set_remove1 distinct_remove1)
qed

text \<open>The mutex a thread asks for next.\<close>

fun wants :: "'m thread \<Rightarrow> 'm option" where
  "wants (held, Lock m # todo) = Some m"
| "wants (held, todo) = None"

text \<open>
  Of the threads that wait, one that wants a mutex of highest rank can go on: whoever held it would itself want a mutex
  of a higher rank.
\<close>

lemma keeping_progress:
  assumes keep: "keeping rank ts" and busy: "work ts \<noteq> 0"
  shows "\<exists>ts'. thread_step ts ts'"
proof (rule ccontr)
  assume stuck: "\<nexists>ts'. thread_step ts ts'"
  have waits: "\<exists>m h. wants t = Some m \<and> h \<in> set ts \<and> m \<in> set (fst h)" if t: "t \<in> set ts" "snd t \<noteq> []" for t
  proof -
    obtain us vs where ts: "ts = us @ t # vs" using t(1) by (meson split_list)
    obtain held x todo where t': "t = (held, x # todo)" using t(2) by (metis neq_Nil_conv surjective_pairing)
    show ?thesis
    proof (cases x)
      case (Lock m)
      then have "\<not> free m ts" using stuck ts t' by (metis thread_step.locks)
      then show ?thesis using t' Lock by (auto simp: free_def list_all_iff)
    next
      case (Unlock m)
      have "disciplined rank held (x # todo)" using keep ts t' by (simp add: keeping_def)
      then have "m \<in> set held" using Unlock by (auto split: list.splits)
      then show ?thesis using stuck ts t' Unlock by (metis thread_step.unlocks)
    qed
  qed
  define waiting where "waiting = {m. \<exists>t \<in> set ts. wants t = Some m}"
  have "waiting \<subseteq> (\<lambda>t. the (wants t)) ` set ts" by (force simp: waiting_def)
  then have fin: "finite (rank ` waiting)" by (meson finite_imageI finite_set finite_subset)
  obtain t where "t \<in> set ts" "snd t \<noteq> []" using busy by (auto simp: work_zero list_all_iff)
  then have "rank ` waiting \<noteq> {}" using waits by (fastforce simp: waiting_def)
  then obtain m where m: "m \<in> waiting" "rank m = Max (rank ` waiting)" using Max_in [OF fin] by force
  then obtain t where t: "t \<in> set ts" "wants t = Some m" by (auto simp: waiting_def)
  then have "snd t \<noteq> []" by (cases t rule: wants.cases) simp_all
  then obtain h where h: "h \<in> set ts" "m \<in> set (fst h)" using waits t by fastforce
  have "disciplined rank (fst h) (snd h)" using keep h(1) by (auto simp: keeping_def list_all_iff)
  moreover from this have "snd h \<noteq> []" using h(2) by auto
  moreover from this obtain m' where "wants h = Some m'" using waits h(1) by blast
  moreover from this obtain todo where "snd h = Lock m' # todo" by (cases h rule: wants.cases) auto
  ultimately have "rank m < rank m'" "m' \<in> waiting" using h by (auto simp: list_all_iff waiting_def)
  then show False using m(2) Max_ge [OF fin, of "rank m'"] by simp
qed

lemma keeping_idle: "keeping rank ts \<Longrightarrow> work ts = 0 \<Longrightarrow> finished ts"
  by (fastforce simp: keeping_def work_zero finished_def list_all_iff)

section \<open>Calls with a lock order\<close>

text \<open>The interface: every call takes its locks in the order of a ranking.\<close>

locale ranked_calls =
  fixes rank :: "'m \<Rightarrow> nat" and calls :: "'m code set"
  assumes calls_ordered: "c \<in> calls \<Longrightarrow> ordered rank 0 c"
begin

lemma started_keeping: "started calls ts \<Longrightarrow> keeping rank ts"
  using runs_disciplined [where rest = "[]" and held = "[]" and rank = rank] calls_ordered
  by (fastforce simp: started_def keeping_def list_all_iff)

lemma reachable_keeps:
  assumes "thread_steps ts ts'" "started calls ts"
  shows "keeping rank ts' \<and> exclusive ts'"
  using assms
proof (induction rule: rtranclp_induct)
  case base
  then have "concat (map fst ts) = []" by (auto simp: started_def)
  then have "exclusive ts" by (metis distinct.simps(1) exclusive_def)
  then show ?case using base started_keeping by simp
qed (auto dest: keeping_step exclusive_step)

lemma never_stuck:
  assumes "thread_steps ts ts'" "started calls ts"
  shows "finished ts' \<or> (\<exists>ts''. thread_step ts' ts'')"
  using reachable_keeps [OF assms] keeping_progress keeping_idle by blast

lemma completes: "keeping rank ts \<Longrightarrow> \<exists>ts'. thread_steps ts ts' \<and> finished ts'"
proof (induction "work ts" arbitrary: ts rule: less_induct)
  case less
  show ?case
  proof (cases "work ts = 0")
    case False
    then obtain ts1 where one: "thread_step ts ts1" using keeping_progress less.prems by blast
    then have "work ts1 < work ts" "keeping rank ts1" using step_works keeping_step less.prems by fastforce+
    then show ?thesis using less.hyps one by (meson converse_rtranclp_into_rtranclp)
  qed (use keeping_idle less.prems in blast)
qed

lemma bounded:
  assumes "(thread_step ^^ n) ts ts'"
  shows "n \<le> work ts"
  using assms
proof (induction n arbitrary: ts)
  case (Suc n)
  then obtain ts1 where "thread_step ts ts1" "(thread_step ^^ n) ts1 ts'" by (meson relpowp_Suc_E2)
  then show ?case using Suc.IH step_works by fastforce
qed simp

end

end
