(* ===== verification/Nm_Locks.thy ===== *)
theory Nm_Locks
  imports Nm_Mutex
begin

text \<open>
  The locking of the D-Bus facade (\<^verbatim>\<open>src/dbus/shared.rs\<close> and the objects of \<^verbatim>\<open>src/dbus/\<close>): for every
  method a client can call and every property that reads the state, the guards it takes, their scopes and where it may
  return early. A temporary guard lives to the end of its statement, so its scope includes the \<open>?\<close> applied to its
  result. Several \<open>?\<close> in a row without a lock between them are one \<open>attempt\<close>. Methods that take no lock are left out.
\<close>

section \<open>The mutexes\<close>

text \<open>The fields of \<open>Shared\<close>, and the list of calls of the recording policy backend.\<close>

datatype mutex = MxDaemon | MxConnections | MxDevices | MxDeviceStates | MxAccessPoints | MxActiveConnections
  | MxRootState | MxCalls

text \<open>The daemon is locked first; nothing is locked under any of the other mutexes.\<close>

definition mutex_rank :: "mutex \<Rightarrow> nat" where
  "mutex_rank m = (if m = MxDaemon then 0 else 1)"

type_synonym locking = "mutex code"

section \<open>The registry\<close>

text \<open>Of the policy backends only the recording one has a mutex, which is free again when it asks the inner backend.\<close>

definition lk_check :: locking where
  "lk_check = Branch Done (Guard MxCalls Done)"

definition lk_authorize :: locking where
  "lk_authorize = lk_check"

definition lk_permission :: locking where
  "lk_permission = lk_check"

definition lk_device_view :: locking where
  "lk_device_view = Call (Guard MxDaemon attempt)"

definition lk_device_index_by_name :: locking where
  "lk_device_index_by_name = Call (Guard MxDaemon attempt)"

definition lk_device_active :: locking where
  "lk_device_active = Guard MxDaemon Done"

definition lk_active_by_id :: locking where
  "lk_active_by_id = Guard MxDaemon Done"

definition lk_device_state :: locking where
  "lk_device_state = Call (Then (Guard MxDaemon attempt) lk_device_active)"

definition lk_register_device_object :: locking where
  "lk_register_device_object = Call (Then attempt (Then (Guard MxDevices Done)
     (Then lk_device_state (Guard MxDeviceStates Done))))"

definition lk_unregister_device :: locking where
  "lk_unregister_device = Then (Guard MxDevices Done) (Guard MxDeviceStates Done)"

definition lk_is_device_registered :: locking where
  "lk_is_device_registered = Guard MxDevices Done"

definition lk_take_device_interface :: locking where
  "lk_take_device_interface = Guard MxDevices Done"

definition lk_registered_device_indices :: locking where
  "lk_registered_device_indices = Guard MxDevices Done"

definition lk_register_connection_object :: locking where
  "lk_register_connection_object = Call (Then attempt (Guard MxConnections Done))"

definition lk_register_active_connection_object :: locking where
  "lk_register_active_connection_object = Call (Then attempt (Guard MxActiveConnections Done))"

definition lk_unregister_active_connection :: locking where
  "lk_unregister_active_connection = Guard MxActiveConnections Done"

definition lk_is_active_connection_registered :: locking where
  "lk_is_active_connection_registered = Guard MxActiveConnections Done"

definition lk_register_access_point_object :: locking where
  "lk_register_access_point_object = Call (Then (Guard MxDaemon attempt)
     (Then attempt (Guard MxAccessPoints Done)))"

definition lk_unregister_access_point :: locking where
  "lk_unregister_access_point = Then (Guard MxDaemon Done) (Guard MxAccessPoints Done)"

definition lk_registered_access_point_bssids :: locking where
  "lk_registered_access_point_bssids = Guard MxAccessPoints Done"

definition lk_connection_path_lookup :: locking where
  "lk_connection_path_lookup = Guard MxConnections Done"

definition lk_take_connection_path :: locking where
  "lk_take_connection_path = Guard MxConnections Done"

definition lk_unregister_connection :: locking where
  "lk_unregister_connection = Call (Then lk_take_connection_path (Branch attempt Done))"

definition lk_access_point_paths :: locking where
  "lk_access_point_paths = Call (Guard MxDaemon attempt)"

definition lk_register_all :: locking where
  "lk_register_all = Call (Then (Guard MxDaemon attempt)
     (Then (Loop (Then lk_register_device_object attempt))
     (Then (Loop (Then lk_register_connection_object attempt))
     (Then (Loop (Then lk_register_active_connection_object attempt))
       (Loop (Then lk_register_access_point_object attempt))))))"

text \<open>The last emitted states stay locked while the signals are sent.\<close>

definition lk_emit_device_state :: locking where
  "lk_emit_device_state = Call (Guard MxDeviceStates attempt)"

definition lk_emit_root_state_if_changed :: locking where
  "lk_emit_root_state_if_changed = Call (Then (Guard MxDaemon Done) (Guard MxRootState attempt))"

definition lk_state_changed_event :: locking where
  "lk_state_changed_event = Then attempt (Then lk_active_by_id
     (Branch (Then lk_device_index_by_name (Branch (Then lk_emit_device_state attempt) Done)) Done))"

definition lk_deactivated_event :: locking where
  "lk_deactivated_event = Then lk_unregister_active_connection (Then attempt
     (Branch (Then lk_emit_device_state attempt) Done))"

definition lk_emit_connection_events :: locking where
  "lk_emit_connection_events = Call (Then (Guard MxDaemon Done)
     (Then (Loop (Branch lk_state_changed_event (Branch lk_deactivated_event Done)))
       lk_emit_root_state_if_changed))"

section \<open>The root object\<close>

definition lk_device_info :: locking where
  "lk_device_info = Call (Then attempt (Then lk_device_view attempt))"

definition lk_root_activate :: locking where
  "lk_root_activate = Call (Then lk_device_info (Then attempt (Guard MxDaemon attempt)))"

definition lk_device_paths :: locking where
  "lk_device_paths = Call (Guard MxDaemon attempt)"

definition lk_get_devices :: locking where
  "lk_get_devices = Call (Then lk_device_paths attempt)"

definition lk_get_device_by_ip_iface :: locking where
  "lk_get_device_by_ip_iface = Call (Then lk_device_index_by_name attempt)"

definition lk_activate_connection :: locking where
  "lk_activate_connection = Call (Then lk_authorize (Then attempt (Then lk_root_activate (Then attempt
     (Then lk_register_active_connection_object (Then attempt (Then lk_emit_connection_events attempt)))))))"

definition lk_add_and_activate :: locking where
  "lk_add_and_activate = Call (Then attempt (Then (Guard MxDaemon attempt) (Then lk_register_connection_object
     (Then attempt (Then lk_root_activate (Then attempt (Then lk_register_active_connection_object (Then attempt
     (Then lk_emit_connection_events attempt)))))))))"

definition lk_add_and_activate_connection :: locking where
  "lk_add_and_activate_connection = Call (Then lk_authorize (Then attempt (Then lk_add_and_activate attempt)))"

definition lk_deactivate_connection :: locking where
  "lk_deactivate_connection = Call (Then lk_authorize (Then attempt (Then (Guard MxDaemon attempt)
     (Then lk_emit_connection_events attempt))))"

definition lk_get_permissions :: locking where
  "lk_get_permissions = Loop lk_permission"

text \<open>The properties that read the list of active connections or the devices through one temporary guard.\<close>

definition lk_read_daemon :: locking where
  "lk_read_daemon = Guard MxDaemon Done"

section \<open>Settings\<close>

text \<open>The paths are looked up in the registry while the daemon is locked: the only nested guards.\<close>

definition lk_connection_paths :: locking where
  "lk_connection_paths = Call (Guard MxDaemon (Then attempt (Loop lk_connection_path_lookup)))"

definition lk_list_connections :: locking where
  "lk_list_connections = Call (Then lk_connection_paths attempt)"

definition lk_get_connection_by_uuid :: locking where
  "lk_get_connection_by_uuid = Call (Guard MxDaemon (Then attempt
     (Loop (Branch (Then lk_connection_path_lookup attempt) Done))))"

definition lk_add_connection :: locking where
  "lk_add_connection = Call (Then lk_authorize (Then attempt (Then (Guard MxDaemon attempt)
     (Then lk_register_connection_object attempt))))"

definition lk_connection_profile :: locking where
  "lk_connection_profile = Guard MxDaemon Done"

definition lk_update_inner :: locking where
  "lk_update_inner = Call (Then attempt (Then (Guard MxDaemon attempt) attempt))"

definition lk_delete_inner :: locking where
  "lk_delete_inner = Call (Then (Guard MxDaemon attempt) (Then attempt lk_unregister_connection))"

definition lk_get_settings :: locking where
  "lk_get_settings = Call (Then lk_connection_profile attempt)"

definition lk_update :: locking where
  "lk_update = Call (Then lk_authorize (Then attempt lk_update_inner))"

definition lk_delete :: locking where
  "lk_delete = Call (Then lk_authorize (Then attempt lk_delete_inner))"

section \<open>Devices\<close>

definition lk_view :: locking where
  "lk_view = Call (Guard MxDaemon attempt)"

definition lk_active :: locking where
  "lk_active = Call (Then lk_view (Then attempt lk_device_active))"

definition lk_current_state :: locking where
  "lk_current_state = Call (Then lk_view (Then attempt (Then lk_active attempt)))"

definition lk_interface_name :: locking where
  "lk_interface_name = Call (Then lk_view attempt)"

definition lk_device_disconnect :: locking where
  "lk_device_disconnect = Call (Then lk_authorize (Then attempt (Then lk_interface_name (Then attempt
     (Then lk_active (Then attempt (Then (Guard MxDaemon attempt) (Then lk_emit_connection_events attempt))))))))"

definition lk_device_delete :: locking where
  "lk_device_delete = Call (Then lk_authorize (Then attempt (Then lk_interface_name (Then attempt
     (Then lk_active (Then attempt (Then (Guard MxDaemon attempt) (Then lk_unregister_connection attempt))))))))"

definition lk_available_connections :: locking where
  "lk_available_connections = Call (Guard MxDaemon (Then attempt (Loop lk_connection_path_lookup)))"

definition lk_request_scan :: locking where
  "lk_request_scan = Call (Guard MxDaemon attempt)"

definition lk_all_access_points :: locking where
  "lk_all_access_points = Call (Then (Guard MxDaemon attempt) (Then attempt lk_access_point_paths))"

section \<open>Access points and active connections\<close>

definition lk_access_point :: locking where
  "lk_access_point = Guard MxDaemon Done"

definition lk_active_connection :: locking where
  "lk_active_connection = Call (Then lk_active_by_id attempt)"

definition lk_active_devices :: locking where
  "lk_active_devices = Call (Then lk_active_connection (Then attempt lk_device_index_by_name))"

section \<open>Every call\<close>

text \<open>What clients call, and what the process itself calls on the shared state.\<close>

definition facade_calls :: "locking list" where
  "facade_calls =
     [lk_get_devices, lk_get_device_by_ip_iface, lk_activate_connection, lk_add_and_activate_connection,
      lk_deactivate_connection, lk_authorize, lk_get_permissions, lk_read_daemon,
      lk_list_connections, lk_get_connection_by_uuid, lk_add_connection, lk_get_settings, lk_update, lk_delete,
      lk_active, lk_current_state, lk_interface_name, lk_device_disconnect, lk_device_delete,
      lk_available_connections, lk_request_scan, lk_all_access_points, lk_access_point, lk_active_connection,
      lk_active_devices, lk_register_all, lk_register_device_object, lk_unregister_device, lk_is_device_registered,
      lk_take_device_interface, lk_registered_device_indices, lk_is_active_connection_registered,
      lk_register_access_point_object, lk_unregister_access_point, lk_registered_access_point_bssids,
      lk_emit_connection_events]"

lemmas registry_locking = lk_check_def lk_authorize_def lk_permission_def lk_device_view_def lk_device_index_by_name_def
  lk_device_active_def lk_active_by_id_def lk_device_state_def lk_register_device_object_def lk_unregister_device_def
  lk_is_device_registered_def lk_take_device_interface_def lk_registered_device_indices_def
  lk_register_connection_object_def lk_register_active_connection_object_def lk_unregister_active_connection_def
  lk_is_active_connection_registered_def lk_register_access_point_object_def lk_unregister_access_point_def
  lk_registered_access_point_bssids_def lk_connection_path_lookup_def lk_take_connection_path_def
  lk_unregister_connection_def lk_access_point_paths_def lk_register_all_def lk_emit_device_state_def
  lk_emit_root_state_if_changed_def lk_state_changed_event_def lk_deactivated_event_def lk_emit_connection_events_def

lemmas object_locking = lk_device_info_def lk_root_activate_def lk_device_paths_def lk_get_devices_def
  lk_get_device_by_ip_iface_def lk_activate_connection_def lk_add_and_activate_def lk_add_and_activate_connection_def
  lk_deactivate_connection_def lk_get_permissions_def lk_read_daemon_def lk_connection_paths_def
  lk_list_connections_def lk_get_connection_by_uuid_def lk_add_connection_def lk_connection_profile_def
  lk_update_inner_def lk_delete_inner_def lk_get_settings_def lk_update_def lk_delete_def lk_view_def lk_active_def
  lk_current_state_def lk_interface_name_def lk_device_disconnect_def lk_device_delete_def
  lk_available_connections_def lk_request_scan_def lk_all_access_points_def lk_access_point_def
  lk_active_connection_def lk_active_devices_def

lemma facade_calls_ordered: "list_all (ordered mutex_rank 0) facade_calls"
  by (simp add: facade_calls_def registry_locking object_locking mutex_rank_def)

interpretation facade_locks: ranked_calls mutex_rank "set facade_calls"
  using facade_calls_ordered by unfold_locales (simp add: list_all_iff)

text \<open>Two clients list the connections, which locks two mutexes at once.\<close>

lemma runs_thenI: "runs a tr False \<Longrightarrow> runs b tr' left \<Longrightarrow> tr'' = tr @ tr' \<Longrightarrow> runs (Then a b) tr'' left"
  by (simp add: runs_then)

lemma runs_guardI: "runs c tr left \<Longrightarrow> tr' = Lock m # tr @ [Unlock m] \<Longrightarrow> runs (Guard m c) tr' left"
  by (simp add: runs_guard)

definition listing :: "mutex action list" where
  "listing = [Lock MxDaemon, Lock MxConnections, Unlock MxConnections, Unlock MxDaemon]"

lemma listing_runs: "runs lk_list_connections listing False"
proof -
  have once: "runs (Loop lk_connection_path_lookup) [Lock MxConnections, Unlock MxConnections] False"
    using runs_again [OF _ runs_stop, of lk_connection_path_lookup "[Lock MxConnections, Unlock MxConnections]"]
    by (simp add: lk_connection_path_lookup_def runs_simps)
  have go: "runs attempt [] False" by (simp add: runs_simps)
  have "runs lk_connection_paths listing False"
    unfolding lk_connection_paths_def listing_def
    by (rule runs_call, rule runs_guardI, rule runs_then [OF go once]) simp
  then show ?thesis
    unfolding lk_list_connections_def by (rule runs_call [OF runs_thenI [OF _ go]]) simp
qed

text \<open>C28. The facade never deadlocks. Let any number of threads run methods of the facade, each along any of its
  paths, and be interleaved in any way. No mutex is ever held twice; unless every thread has returned, some thread
  can go on; the threads can always be run to the end, and no schedule makes more steps than there are lock
  operations.\<close>

theorem facade_never_deadlocks:
  assumes "started (set facade_calls) ts" "thread_steps ts ts'"
  shows "exclusive ts' \<and> (finished ts' \<or> (\<exists>ts''. thread_step ts' ts''))
    \<and> (\<exists>ts''. thread_steps ts' ts'' \<and> finished ts'')
    \<and> (\<forall>n ts''. (thread_step ^^ n) ts ts'' \<longrightarrow> n \<le> work ts)"
  using assms facade_locks.reachable_keeps facade_locks.never_stuck facade_locks.completes facade_locks.bounded
  by metis

theorem facade_never_deadlocks_witness:
  "exclusive [([MxDaemon], tl listing), ([], listing)] \<and>
   (\<exists>ts. thread_steps [([MxDaemon], tl listing), ([], listing)] ts \<and> finished ts)"
proof -
  have "started (set facade_calls) [([], listing), ([], listing)]"
    using listing_runs by (auto simp: started_def facade_calls_def intro!: exI [of _ False])
  moreover have "thread_step ([] @ ([], Lock MxDaemon # tl listing) # [([], listing)])
      ([] @ ([MxDaemon], tl listing) # [([], listing)])"
    by (rule locks) (simp add: free_def)
  then have "thread_steps [([], listing), ([], listing)] [([MxDaemon], tl listing), ([], listing)]"
    by (auto simp: listing_def)
  ultimately show ?thesis using facade_never_deadlocks by blast
qed

end
