(* ===== verification/Nm_Registry.thy ===== *)
theory Nm_Registry
  imports Nm_Objects
begin

text \<open>
  The connection objects on the bus and the profiles in the store: whatever methods clients call after the service has
  started, the two are the same set, as long as the bus accepts the objects and the signal of a removal.
\<close>

section \<open>Calls of clients\<close>

text \<open>The methods that change anything, with the caller and the object that emits the signals.\<close>

datatype 'v client_call =
    CallActivate "string option" string "'v settings" string
  | CallAddAndActivate "string option" string "'v settings" string
  | CallAddAndActivate2 "string option" string "'v settings" string
  | CallDeactivate "string option" string
  | CallAddConnection "string option" string "'v settings"
  | CallAddConnectionUnsaved "string option" "'v settings"
  | CallAddConnection2 "string option" string "'v settings"
  | CallUpdate "string option" profile_id string "'v settings"
  | CallUpdateUnsaved "string option" profile_id string "'v settings"
  | CallDelete "string option" profile_id string
  | CallDisconnect "string option" i32
  | CallDeviceDelete "string option" i32 string
  | CallRequestScan
  | CallAuthorized "string option" string

text \<open>
  The state after a call, whatever its result. A call to a connection object that is not registered never reaches the
  program. \<open>CallAuthorized\<close> stands for the methods that do nothing but ask the policy backend.
\<close>

definition perform ::
  "('b, 'src, 's, 'e, 'z, 'v, 'p) facade \<Rightarrow> 'v client_call \<Rightarrow> ('b, 's, 'e, 'z, 'p) shared \<Rightarrow> ('b, 's, 'e, 'z, 'p) shared" where
  "perform fa c w = (case c of
       CallActivate sender self settings device \<Rightarrow> snd (activate_connection fa sender self settings device w)
     | CallAddAndActivate sender self settings device \<Rightarrow>
         snd (add_and_activate_connection fa sender self settings device w)
     | CallAddAndActivate2 sender self settings device \<Rightarrow>
         snd (add_and_activate_connection2 fa sender self settings device w)
     | CallDeactivate sender path \<Rightarrow> snd (deactivate_connection fa sender path w)
     | CallAddConnection sender self settings \<Rightarrow> snd (add_connection fa sender self settings w)
     | CallAddConnectionUnsaved sender settings \<Rightarrow> snd (add_connection_unsaved fa sender settings w)
     | CallAddConnection2 sender self settings \<Rightarrow> snd (add_connection2 fa sender self settings w)
     | CallUpdate sender i self settings \<Rightarrow>
         if sh_connections w i = None then w else snd (connection_update fa sender i self settings w)
     | CallUpdateUnsaved sender i self settings \<Rightarrow>
         if sh_connections w i = None then w else snd (connection_update_unsaved fa sender i self settings w)
     | CallDelete sender i self \<Rightarrow>
         if sh_connections w i = None then w else snd (connection_delete fa sender i self w)
     | CallDisconnect sender index \<Rightarrow> snd (device_disconnect fa sender index w)
     | CallDeviceDelete sender index self \<Rightarrow> snd (device_delete fa sender index self w)
     | CallRequestScan \<Rightarrow> snd (request_scan fa w)
     | CallAuthorized sender action \<Rightarrow> snd (authorize fa sender action w))"

section \<open>Handlers that keep a property\<close>

definition act_holds :: "('w \<Rightarrow> bool) \<Rightarrow> ('w, 'a, 'x) act \<Rightarrow> bool" where
  "act_holds P m \<longleftrightarrow> (\<forall>w. P w \<longrightarrow> P (snd (m w)))"

lemma act_holdsD: "act_holds P m \<Longrightarrow> P w \<Longrightarrow> P (snd (m w))"
  by (simp add: act_holds_def)

lemma holds_keeps: "act_keeps g m \<Longrightarrow> (\<And>w w'. g w' = g w \<Longrightarrow> P w \<Longrightarrow> P w') \<Longrightarrow> act_holds P m"
  unfolding act_holds_def act_keeps_def by (metis surjective_pairing)

lemma holds_then: "act_holds P m \<Longrightarrow> (\<And>x. act_holds P (f x)) \<Longrightarrow> act_holds P (act_then m f)"
  by (simp add: act_holds_def act_then_def split: prod.split result.split) (metis snd_conv)

lemma holds_then_yields:
  assumes "act_holds P m" "\<And>w x w'. P w \<Longrightarrow> m w = (Ok x, w') \<Longrightarrow> Q x" "\<And>x. Q x \<Longrightarrow> act_holds P (f x)"
  shows "act_holds P (act_then m f)"
  using assms by (simp add: act_holds_def act_then_def split: prod.split result.split) (metis snd_conv)

lemma return_then: "act_then (act_return x) f = f x"
  by (simp add: fun_eq_iff act_then_def act_return_def)

lemma act_then_return: "act_then m act_return = m"
  by (auto simp: fun_eq_iff act_then_def act_return_def split: prod.split result.split)

lemma holds_map_err: "act_holds P m \<Longrightarrow> act_holds P (act_map_err h m)"
  by (simp add: act_holds_def act_map_err_def split: prod.split) (metis snd_conv)

lemma holds_result: "act_holds P (act_result r)" "act_holds P (act_return x)"
  by (simp_all add: act_holds_def act_result_def act_return_def)

text \<open>From \<open>P\<close>, a result is given only in a state with \<open>Q\<close>.\<close>

definition act_leads :: "('w \<Rightarrow> bool) \<Rightarrow> ('w, 'a, 'x) act \<Rightarrow> ('a \<Rightarrow> 'w \<Rightarrow> bool) \<Rightarrow> bool" where
  "act_leads P m Q \<longleftrightarrow> (\<forall>w x w'. P w \<longrightarrow> m w = (Ok x, w') \<longrightarrow> Q x w')"

lemma leads_then: "act_leads P m Q \<Longrightarrow> (\<And>x. act_leads (Q x) (f x) R) \<Longrightarrow> act_leads P (act_then m f) R"
  unfolding act_leads_def act_then_Ok by blast

lemma leads_keeps: "act_keeps g m \<Longrightarrow> act_leads (\<lambda>w. g w = a) m (\<lambda>_ w. g w = a)"
  unfolding act_leads_def act_keeps_def by (metis snd_conv)

lemma leads_same: "act_keeps g m \<Longrightarrow> act_leads (\<lambda>w. Q \<and> g w = a) m (\<lambda>_ w. Q \<and> g w = a)"
  unfolding act_leads_def act_keeps_def by (metis snd_conv)

section \<open>What the bus has to do\<close>

abbreviation connection_object_path :: "profile_id \<Rightarrow> string" where
  "connection_object_path i \<equiv> settings_connection_path (stable_uuid i)"

text \<open>The bus takes the objects of connections and sends the signal that one is removed.\<close>

definition serves_connections :: "('z, 'v) server_ops \<Rightarrow> bool" where
  "serves_connections sv \<longleftrightarrow> (\<forall>i. is_ok (sv_path sv (connection_object_path i))) \<and>
     (\<forall>c i. is_ok (fst (sv_at sv c (connection_object_path i) (SettingsConnectionIface i)))) \<and>
     (\<forall>c path. is_ok (fst (sv_emit sv c path SgConnectionRemoved)))"

lemma register_served:
  assumes "serves_connections (fa_server fa)"
  shows "\<exists>c. register_connection_object fa p w =
    (Ok (), w\<lparr> sh_conn := c, sh_connections := (sh_connections w)(cp_id p \<mapsto> connection_object_path (cp_id p)) \<rparr>)"
proof -
  obtain u where "sv_path (fa_server fa) (connection_object_path (cp_id p)) = Ok u"
    using assms by (auto simp: serves_connections_def is_ok_iff)
  moreover obtain b where "fst (sv_at (fa_server fa) (sh_conn w) (connection_object_path (cp_id p))
      (SettingsConnectionIface (cp_id p))) = Ok b"
    using assms unfolding serves_connections_def is_ok_iff by blast
  ultimately show ?thesis
    by (simp add: register_connection_object_def at_path_def act_then_def act_result_def on_conn_def act_set_def
        act_return_def Let_def case_prod_unfold) blast
qed

lemma removal_sent:
  assumes "serves_connections (fa_server fa)"
  shows "\<exists>c. emit_signal fa path SgConnectionRemoved w = (Ok (), w\<lparr> sh_conn := c \<rparr>)"
proof -
  obtain u where "fst (sv_emit (fa_server fa) (sh_conn w) path SgConnectionRemoved) = Ok u"
    using assms unfolding serves_connections_def is_ok_iff by blast
  then show ?thesis by (auto simp: emit_signal_def act_map_err_def on_conn_def case_prod_unfold)
qed

text \<open>The registry forgets the object first, so this holds even when the bus cannot remove it.\<close>

lemma unregister_forgets:
  "\<exists>c. snd (unregister_connection fa i w) = w\<lparr> sh_connections := (sh_connections w)(i := None), sh_conn := c \<rparr>"
proof (cases "sh_connections w i")
  case None
  then show ?thesis
    by (simp add: unregister_connection_def act_then_def act_get_def act_set_def act_return_def)
      (intro exI [of _ "sh_conn w"], simp)
qed (auto simp: unregister_connection_def act_then_def act_get_def act_set_def act_return_def remove_iface_def
      act_map_err_def on_conn_def split: prod.split result.split)

section \<open>What the other handlers leave alone\<close>

text \<open>Most of a method touches neither the registry of connections nor the store; some change the manager.\<close>

definition connection_part :: "('b, 's, 'e, 'z, 'p) shared \<Rightarrow> (profile_id \<rightharpoonup> string) \<times> 's \<times> active_connection list" where
  "connection_part w = (sh_connections w, dm_profiles (sh_daemon w), daemon_active_connections (sh_daemon w))"

lemma connection_part_updates [simp]:
  "connection_part (w\<lparr> sh_conn := c \<rparr>) = connection_part w"
  "connection_part (w\<lparr> sh_authorization := p \<rparr>) = connection_part w"
  "connection_part (w\<lparr> sh_devices := x \<rparr>) = connection_part w"
  "connection_part (w\<lparr> sh_device_states := y \<rparr>) = connection_part w"
  "connection_part (w\<lparr> sh_access_points := z \<rparr>) = connection_part w"
  "connection_part (w\<lparr> sh_active_connections := a \<rparr>) = connection_part w"
  "connection_part (w\<lparr> sh_root_state := s \<rparr>) = connection_part w"
  "connection_part (w\<lparr> sh_daemon := (sh_daemon w)\<lparr> dm_backend := b \<rparr> \<rparr>) = connection_part w"
  by (simp_all add: connection_part_def daemon_active_connections_def)

lemmas keeps_part = keeps_enumerate [of connection_part] keeps_index_by_name [of connection_part]
  keeps_signal [of connection_part] keeps_authorize [of connection_part] keeps_emitter keeps_checked_path

lemma part_device_view: "act_keeps connection_part (device_view_at fa index)"
  unfolding device_view_at_def by (intro keeps_intros keeps_part) simp_all

lemma part_device_state: "act_keeps connection_part (device_state fa index)"
  unfolding device_state_def by (auto intro!: keeps_intros keeps_part split: option.split)

lemma part_device_object: "act_keeps connection_part (register_device_object fa view)"
  unfolding register_device_object_def Let_def
  by (intro keeps_intros keeps_part part_device_state) (auto intro!: keeps_part split: nm_device_kind.split)

lemma part_active_object: "act_keeps connection_part (register_active_connection_object fa a)"
  unfolding register_active_connection_object_def by (intro keeps_intros) (auto intro!: keeps_part split: prod.split)

lemma part_access_point: "act_keeps connection_part (register_access_point_object fa b)"
  unfolding register_access_point_object_def Let_def by (intro keeps_intros keeps_part) simp_all

lemma part_active_gone: "act_keeps connection_part (unregister_active_connection fa aid)"
  unfolding unregister_active_connection_def by (intro keeps_intros) (auto intro!: keeps_intros keeps_part)

lemma part_emit_device_state: "act_keeps connection_part (emit_device_state fa index s)"
  unfolding emit_device_state_def emit_properties_changed_def Let_def by (auto intro!: keeps_intros keeps_part)

lemma part_event: "act_keeps connection_part (emit_event fa seen event)"
  unfolding emit_event_def
  by (cases event) (auto intro!: keeps_intros keeps_part part_emit_device_state part_active_gone split: option.split)

lemma part_events: "act_keeps connection_part (emit_events fa seen events)"
  by (induction events arbitrary: seen) (auto intro!: keeps_intros part_event)

lemma part_emission: "act_keeps connection_part (emit_connection_events fa)"
proof -
  have "act_keeps connection_part drain_connection_events"
    by (simp add: act_keeps_def drain_connection_events_def connection_events_def on_manager_def am_drain_events_def
        connection_part_def daemon_active_connections_def)
  then show ?thesis
    unfolding emit_connection_events_def emit_root_state_if_changed_def
    by (auto intro!: keeps_intros keeps_part part_events split: prod.split)
qed

lemma part_announce: "act_keeps connection_part (announce_active fa self active)"
  unfolding announce_active_def
  by (auto intro!: keeps_intros keeps_part keeps_internal part_active_object part_emission)

lemma part_device_active: "act_keeps connection_part (device_active_at fa index)"
  unfolding device_active_at_def by (auto intro!: keeps_intros part_device_view)

lemma part_active_or_error: "act_keeps connection_part (active_or_error fa index)"
  unfolding active_or_error_def device_interface_def by (auto intro!: keeps_intros part_device_view part_device_active)

lemma findSomeD: "ok_or (List.find P xs) e = Ok x \<Longrightarrow> x \<in> set xs"
  by (cases "List.find P xs") (auto simp: find_Some_iff)

lemma active_or_error_tracked:
  assumes "active_or_error fa index w = (Ok a, w')"
  shows "a \<in> set (daemon_active_connections (sh_daemon w'))"
  using assms
  by (auto simp: active_or_error_def act_then_Ok device_active_at_def act_get_def act_result_def device_active_def
      split: option.splits dest!: findSomeD)

lemma quiet_part:
  "act_keeps connection_part (device_info_at fa device)"
  "act_keeps connection_part (request_scan fa)"
  unfolding device_info_at_def request_scan_def daemon_scan_wifi_def
  by (auto intro!: keeps_intros part_device_view keeps_backend_query)

section \<open>The invariant\<close>

text \<open>A store that hands out only profiles with a valid id: what a file is called is never in question.\<close>

locale checked_store = profile_store ops inv view storable
  for ops :: "'s store_ops" and inv view storable +
  assumes get_id: "inv s \<Longrightarrow> so_get ops s i = Ok p \<Longrightarrow> list_all id_char_ok (cp_id p)"
begin

definition mirrored :: "('b, 's, 'e, 'z, 'p) shared \<Rightarrow> bool" where
  "mirrored w \<longleftrightarrow> inv (dm_profiles (sh_daemon w)) \<and>
     (\<forall>i. sh_connections w i = map_option (\<lambda>_. connection_object_path i) (view (dm_profiles (sh_daemon w)) i)) \<and>
     (\<forall>a \<in> set (daemon_active_connections (sh_daemon w)). list_all id_char_ok (cp_id (ac_profile a)))"

lemma mirrored_part: "connection_part w' = connection_part w \<Longrightarrow> mirrored w \<Longrightarrow> mirrored w'"
  by (simp add: mirrored_def connection_part_def)

lemmas holds_part = holds_keeps [where P = mirrored, OF _ mirrored_part]

lemma matching_holds:
  assumes "am_activate_matching eng m p d = (r, m')" "list_all id_char_ok (cp_id p)"
    "\<forall>a \<in> set (am_active m). list_all id_char_ok (cp_id (ac_profile a))"
  shows "\<forall>a \<in> set (am_active m'). list_all id_char_ok (cp_id (ac_profile a))"
proof -
  obtain x e where "eo_activate eng (am_engine m) p d = (x, e)" by (meson surj_pair)
  from am_activate_matching_eq [OF this] assms show ?thesis by (auto simp: attempted_def)
qed

text \<open>The operations of the manager: the store is only read.\<close>

lemma activated_ids:
  assumes run: "am_activate eng ops s m d = (r, m')" and "inv s"
    and ids: "\<forall>a \<in> set (am_active m). list_all id_char_ok (cp_id (ac_profile a))"
  shows "\<forall>a \<in> set (am_active m'). list_all id_char_ok (cp_id (ac_profile a))"
proof (cases "m' = m")
  case False
  then obtain i p where "so_get ops s i = Ok p" "am_activate_matching eng m p d = (r, m')"
    using run unfolding am_activate_def
    by (fastforce split: result.splits option.splits if_splits dest!: find_map_SomeD)
  then show ?thesis using matching_holds get_id assms by blast
qed (use ids in simp)

lemma activated_profile_ids:
  assumes run: "am_activate_profile eng ops s m i d = (r, m')" and "inv s"
    and ids: "\<forall>a \<in> set (am_active m). list_all id_char_ok (cp_id (ac_profile a))"
  shows "\<forall>a \<in> set (am_active m'). list_all id_char_ok (cp_id (ac_profile a))"
  using run by (rule am_activate_profile_cases) (use ids matching_holds get_id assms in blast)+

lemma deactivated_ids:
  assumes run: "am_deactivate eng m aid = (r, m')"
    and ids: "\<forall>a \<in> set (am_active m). list_all id_char_ok (cp_id (ac_profile a))"
  shows "\<forall>a \<in> set (am_active m'). list_all id_char_ok (cp_id (ac_profile a))"
  using run
proof (rule am_deactivate_cases)
  fix k assume k: "position (\<lambda>a. ac_id a = aid) (am_active m) = Some k" "ac_state (am_active m ! k) = Activated"
  obtain x e where "eo_deactivate eng (am_engine m) (ac_profile (am_active m ! k)) = (x, e)" by (meson surj_pair)
  with am_deactivate_eq [OF k this] run position_Some [OF k(1)] ids show ?thesis
    by (cases x) (auto simp: Let_def dest!: in_set_takeD in_set_dropD set_update_subset_insert [THEN subsetD])
qed (use ids in simp)

lemma manager_holds:
  assumes "\<And>d r m. inv (dm_profiles d) \<Longrightarrow>
      \<forall>a \<in> set (daemon_active_connections d). list_all id_char_ok (cp_id (ac_profile a)) \<Longrightarrow>
      f d (dm_activation d) = (r, m) \<Longrightarrow> \<forall>a \<in> set (am_active m). list_all id_char_ok (cp_id (ac_profile a))"
  shows "act_holds mirrored (on_daemon (\<lambda>d. on_manager (f d) d))"
  using assms
  by (simp add: act_holds_def on_daemon_def on_manager_def mirrored_def daemon_active_connections_def split: prod.split)
    blast

lemma activation_holds:
  assumes "fa_store fa = ops"
  shows "act_holds mirrored (on_daemon (\<lambda>d. daemon_activate (fa_engine fa) (fa_store fa) d info))"
    "act_holds mirrored (on_daemon (\<lambda>d. daemon_activate_profile (fa_engine fa) (fa_store fa) d i info))"
    "act_holds mirrored (on_daemon (\<lambda>d. daemon_deactivate (fa_engine fa) d aid))"
  unfolding daemon_activate_def daemon_activate_profile_def daemon_deactivate_def assms daemon_active_connections_def
  by (rule manager_holds, unfold daemon_active_connections_def, erule (2) activated_ids activated_profile_ids)+
    (rule manager_holds, unfold daemon_active_connections_def, erule (1) deactivated_ids)

text \<open>Adding, replacing and deleting a profile together with its object.\<close>

lemma add_holds:
  fixes fa :: "('b, 'src, 's, 'e, 'z, 'v, 'p) facade"
  assumes "fa_store fa = ops" "serves_connections (fa_server fa)" "storable p" "\<And>x. act_holds mirrored (f x)"
  shows "act_holds mirrored (act_then (act_map_err h (on_daemon (\<lambda>d. create_profile (fa_store fa) d p)))
    (\<lambda>_. act_then (internal_of fa text (register_connection_object fa p)) f))"
  unfolding act_holds_def
proof (intro allI impI)
  fix w :: "('b, 's, 'e, 'z, 'p) shared" assume w: "mirrored w"
  have ok: "profile_ok p" "list_all id_char_ok (cp_id p)" using storable_ok [OF assms(3)] by (auto simp: profile_ok_def)
  let ?s = "dm_profiles (sh_daemon w)"
  have inv: "inv ?s" using w by (simp add: mirrored_def)
  show "mirrored (snd (act_then (act_map_err h (on_daemon (\<lambda>d. create_profile (fa_store fa) d p)))
    (\<lambda>_. act_then (internal_of fa text (register_connection_object fa p)) f) w))"
  proof (cases "view ?s (cp_id p) = None")
    case True
    then obtain s' where s': "so_create ops ?s p = (Ok (), s')" "inv s'" "view s' = (view ?s)(cp_id p \<mapsto> p)"
      using create_new [OF inv assms(3)] by blast
    let ?w = "w\<lparr> sh_daemon := (sh_daemon w)\<lparr> dm_profiles := s' \<rparr> \<rparr>"
    obtain c where c: "register_connection_object fa p ?w = (Ok (), ?w\<lparr> sh_conn := c,
        sh_connections := (sh_connections ?w)(cp_id p \<mapsto> connection_object_path (cp_id p)) \<rparr>)"
      using register_served [OF assms(2)] by blast
    have "mirrored (?w\<lparr> sh_conn := c,
        sh_connections := (sh_connections ?w)(cp_id p \<mapsto> connection_object_path (cp_id p)) \<rparr>)"
      using w s' by (simp add: mirrored_def daemon_active_connections_def)
    from act_holdsD [OF assms(4) this] show ?thesis using c s'(1)
      by (simp add: act_then_def act_map_err_def on_daemon_def create_profile_def assms(1) internal_of_def)
  next
    case False
    then obtain e where "so_create ops ?s p = (Err e, ?s)" using create_refused [OF inv ok(2)] by blast
    then show ?thesis using w
      by (simp add: act_then_def act_map_err_def on_daemon_def create_profile_def assms(1))
  qed
qed

lemma replace_holds:
  fixes fa :: "('b, 'src, 's, 'e, 'z, 'v, 'p) facade"
  assumes "fa_store fa = ops" "storable p"
  shows "act_holds mirrored (on_daemon (\<lambda>d. update_profile (fa_store fa) d p)
    :: (('b, 's, 'e, 'z, 'p) shared, unit, store_error) act)"
  unfolding act_holds_def
proof (intro allI impI)
  fix w :: "('b, 's, 'e, 'z, 'p) shared" assume w: "mirrored w"
  have ok: "profile_ok p" "list_all id_char_ok (cp_id p)" using storable_ok [OF assms(2)] by (auto simp: profile_ok_def)
  let ?s = "dm_profiles (sh_daemon w)"
  have inv: "inv ?s" using w by (simp add: mirrored_def)
  show "mirrored (snd (on_daemon (\<lambda>d. update_profile (fa_store fa) d p) w))"
  proof (cases "view ?s (cp_id p)")
    case None
    then obtain e where "so_update ops ?s p = (Err e, ?s)" using update_refused [OF inv ok(2)] by blast
    then show ?thesis using w by (simp add: on_daemon_def update_profile_def assms(1))
  next
    case (Some q)
    then obtain s' where "so_update ops ?s p = (Ok (), s')" "inv s'" "view s' = (view ?s)(cp_id p \<mapsto> p)"
      using update_known [OF inv assms(2)] by auto
    then show ?thesis using w Some
      by (auto simp: on_daemon_def update_profile_def assms(1) mirrored_def daemon_active_connections_def)
  qed
qed

text \<open>\<open>sig\<close> is what is sent between the deletion and the removal of the object.\<close>

lemma delete_holds:
  fixes fa :: "('b, 'src, 's, 'e, 'z, 'v, 'p) facade"
  assumes "fa_store fa = ops" "list_all id_char_ok i" "\<And>w. \<exists>c. sig w = (Ok (), w\<lparr> sh_conn := c \<rparr>)"
    "\<And>x. act_holds mirrored (f x)"
  shows "act_holds mirrored (act_then (act_map_err h (on_daemon (\<lambda>d. delete_profile (fa_store fa) d i)))
    (\<lambda>_. act_then sig (\<lambda>_. act_then (unregister_connection fa i) f)))"
  unfolding act_holds_def
proof (intro allI impI)
  fix w :: "('b, 's, 'e, 'z, 'p) shared" assume w: "mirrored w"
  let ?s = "dm_profiles (sh_daemon w)"
  have inv: "inv ?s" using w by (simp add: mirrored_def)
  show "mirrored (snd (act_then (act_map_err h (on_daemon (\<lambda>d. delete_profile (fa_store fa) d i)))
    (\<lambda>_. act_then sig (\<lambda>_. act_then (unregister_connection fa i) f)) w))"
  proof (cases "view ?s i = None")
    case True
    then show ?thesis using w delete_unknown [OF inv assms(2)]
      by (simp add: act_then_def act_map_err_def on_daemon_def delete_profile_def assms(1))
  next
    case False
    then obtain s' where s': "so_delete ops ?s i = (Ok (), s')" "inv s'" "view s' = (view ?s)(i := None)"
      using delete_known [OF inv assms(2)] by blast
    obtain c where c: "sig (w\<lparr> sh_daemon := (sh_daemon w)\<lparr> dm_profiles := s' \<rparr> \<rparr>) =
        (Ok (), w\<lparr> sh_daemon := (sh_daemon w)\<lparr> dm_profiles := s' \<rparr>, sh_conn := c \<rparr>)"
      using assms(3) by blast
    let ?w = "w\<lparr> sh_daemon := (sh_daemon w)\<lparr> dm_profiles := s' \<rparr>, sh_conn := c \<rparr>"
    obtain c' where "snd (unregister_connection fa i ?w) =
        ?w\<lparr> sh_connections := (sh_connections ?w)(i := None), sh_conn := c' \<rparr>"
      using unregister_forgets [of fa i ?w] by blast
    moreover have "mirrored (?w\<lparr> sh_connections := (sh_connections ?w)(i := None), sh_conn := c' \<rparr>)"
      using w s' by (simp add: mirrored_def daemon_active_connections_def)
    ultimately have "mirrored (snd (act_then (unregister_connection fa i) f ?w))"
      using act_holdsD [OF assms(4)] by (auto simp: act_then_def split: prod.split result.split)
    then show ?thesis using c s'(1)
      by (simp add: act_then_def act_map_err_def on_daemon_def delete_profile_def assms(1))
  qed
qed

text \<open>The parts of the methods that change nothing here.\<close>

lemma quiet_holds:
  "act_holds mirrored (authorize fa sender action)"
  "act_holds mirrored (emit_signal fa path sg)"
  "act_holds mirrored (checked_path fa path)"
  "act_holds mirrored (announce_active fa self active)"
  "act_holds mirrored (emit_connection_events fa)"
  "act_holds mirrored (active_or_error fa index)"
  "act_holds mirrored (device_info_at fa device)"
  "act_holds mirrored (request_scan fa)"
  by (rule holds_part; auto intro!: keeps_part part_announce part_emission part_active_or_error quiet_part)+

lemma parsed_holds:
  assumes "\<And>p. profile_ok p \<Longrightarrow> act_holds mirrored (f p)"
  shows "act_holds mirrored (act_then (act_result (settings_to_profile z dict)) f)"
  by (rule holds_then_yields [where Q = profile_ok, OF holds_result(1) _ assms])
    (auto simp: act_result_def dest: settings_to_profile_Ok)

lemmas holds_steps = holds_then holds_map_err holds_result quiet_holds

text \<open>The methods.\<close>

lemma root_activate_holds:
  assumes "fa_store fa = ops"
  shows "act_holds mirrored (root_activate fa settings device)"
  unfolding root_activate_def
  by (cases "settings = Map.empty"; simp; intro holds_steps activation_holds assms)

lemma add_profile_holds:
  assumes "fa_store fa = ops" "serves_connections (fa_server fa)" "\<And>p. profile_ok p \<Longrightarrow> storable p"
  shows "act_holds mirrored (add_profile fa sender settings)"
  unfolding add_profile_def by (intro holds_then [OF quiet_holds(1)] parsed_holds add_holds assms holds_result)

lemma add_and_activate_holds:
  assumes "fa_store fa = ops" "serves_connections (fa_server fa)" "\<And>p. profile_ok p \<Longrightarrow> storable p"
  shows "act_holds mirrored (add_and_activate fa self settings device)"
  unfolding add_and_activate_def Let_def
  by (intro parsed_holds add_holds assms holds_then [OF root_activate_holds] holds_then [OF quiet_holds(4)] holds_result)

lemma update_holds:
  assumes "fa_store fa = ops" "\<And>p. profile_ok p \<Longrightarrow> storable p"
  shows "act_holds mirrored (update_inner fa i self settings)"
  unfolding update_inner_def
proof (rule parsed_holds)
  fix p assume p: "profile_ok p"
  show "act_holds mirrored (if cp_id p \<noteq> i
      then act_result (Err (FeInvalidProperty ''connection.id cannot change on update''))
      else act_then (act_map_err facade_of_store (on_daemon (\<lambda>d. update_profile (fa_store fa) d p)))
        (\<lambda>_. emit_signal fa self SgConnectionUpdated))"
    by (cases "cp_id p = i"; simp; intro holds_steps replace_holds assms p)
qed

lemma delete_inner_holds:
  assumes "fa_store fa = ops" "serves_connections (fa_server fa)" "list_all id_char_ok i"
  shows "act_holds mirrored (delete_inner fa i self)"
  using delete_holds [where f = act_return and sig = "emit_signal fa self SgConnectionRemoved" and h = facade_of_store,
      OF assms(1,3) removal_sent [OF assms(2)] holds_result(2)]
  unfolding delete_inner_def act_then_return .

lemma device_delete_holds:
  fixes fa :: "('b, 'src, 's, 'e, 'z, 'v, 'p) facade"
  assumes "fa_store fa = ops"
  shows "act_holds mirrored (device_delete fa sender index self)"
proof -
  have ids: "list_all id_char_ok (cp_id (ac_profile a))" if "mirrored w" "active_or_error fa index w = (Ok a, w')" for w w' a
    using active_or_error_tracked [OF that(2)] act_holdsD [OF quiet_holds(6) that(1), of fa index] that(2)
    by (simp add: mirrored_def)
  have unchanged: "\<exists>c. act_return () w = (Ok (), w\<lparr> sh_conn := c \<rparr>)" for w :: "('b, 's, 'e, 'z, 'p) shared"
    by (intro exI [of _ "sh_conn w"]) (simp add: act_return_def)
  have del: "act_holds mirrored (act_then (act_map_err facade_of_store (on_daemon (\<lambda>d. delete_profile (fa_store fa) d i)))
      (\<lambda>_. act_then (unregister_connection fa i) f))" if "list_all id_char_ok i" "\<And>x. act_holds mirrored (f x)"
      for i and f :: "unit \<Rightarrow> (('b, 's, 'e, 'z, 'p) shared, unit, facade_error) act"
    using delete_holds [where sig = "act_return ()" and h = facade_of_store, OF assms that(1) unchanged that(2)]
    unfolding return_then .
  show ?thesis
    unfolding device_delete_def Let_def
    by (rule holds_then [OF quiet_holds(1)], rule holds_then_yields [OF quiet_holds(6), where
        Q = "\<lambda>a. list_all id_char_ok (cp_id (ac_profile a))"], erule (1) ids, erule del, rule quiet_holds)
qed

lemma perform_holds:
  fixes fa :: "('b, 'src, 's, 'e, 'z, 'v, 'p) facade"
  assumes "fa_store fa = ops" "serves_connections (fa_server fa)" "\<And>p. profile_ok p \<Longrightarrow> storable p" "mirrored w"
  shows "mirrored (perform fa c w)"
proof -
  note add = add_profile_holds [OF assms(1-3)] add_and_activate_holds [OF assms(1-3)] root_activate_holds [OF assms(1)]
    activation_holds [OF assms(1)]
  have known: "list_all id_char_ok i" if "sh_connections w i \<noteq> None" for i
    using that assms(4) view_sound [of "dm_profiles (sh_daemon w)" i] by (auto simp: mirrored_def profile_ok_def)
  note parts = holds_steps add update_holds [OF assms(1,3)]
  have D: "act_holds mirrored m \<Longrightarrow> mirrored (snd (m w))" for m :: "(('b, 's, 'e, 'z, 'p) shared, 'x, 'y) act"
    using assms(4) by (simp add: act_holds_def)
  show ?thesis
    by (cases c)
      (auto simp: perform_def activate_connection_def add_and_activate_connection_def add_and_activate_connection2_def
        deactivate_connection_def add_connection_def add_connection_unsaved_def add_connection2_def
        connection_update_def connection_update_unsaved_def connection_delete_def device_disconnect_def assms(4)
        intro!: D parts delete_inner_holds device_delete_holds assms known split: prod.split)
qed

lemma leads_mirrored: "act_keeps connection_part m \<Longrightarrow> act_leads mirrored m (\<lambda>_. mirrored)"
  unfolding act_leads_def by (blast intro: mirrored_part dest: act_keepsD)

text \<open>Starting the service registers every profile.\<close>

lemma registers_each:
  assumes "act_each (register_connection_object fa) ps w = (Ok u, w')"
  shows "sh_connections w' = (\<lambda>i. if i \<in> cp_id ` set ps then Some (connection_object_path i) else sh_connections w i) \<and>
    sh_daemon w' = sh_daemon w"
  using assms
proof (induction ps arbitrary: w)
  case (Cons p ps)
  then obtain w1 where one: "register_connection_object fa p w = (Ok (), w1)"
    and rest: "act_each (register_connection_object fa) ps w1 = (Ok u, w')"
    by (auto simp: act_then_Ok)
  have "sh_connections w1 = (sh_connections w)(cp_id p \<mapsto> connection_object_path (cp_id p)) \<and> sh_daemon w1 = sh_daemon w"
    using one by (auto simp: register_connection_object_def act_then_Ok act_set_def Let_def at_path_def on_conn_def
        act_result_def act_return_def split: prod.splits)
  then show ?case using Cons.IH [OF rest] by (auto simp: fun_eq_iff)
qed (simp add: act_return_def)

lemma started_mirrored:
  assumes "fa_store fa = ops" "inv (dm_profiles d)"
    "\<forall>a \<in> set (daemon_active_connections d). list_all id_char_ok (cp_id (ac_profile a))"
    and run: "attach_authorized fa d conn policy = (Ok u, w)"
  shows "mirrored w"
proof -
  let ?start = "connection_part (with_authorization d conn policy)"
  obtain ps where ps: "so_list ops (dm_profiles d) = Ok ps" "\<forall>p. p \<in> set ps \<longleftrightarrow> view (dm_profiles d) (cp_id p) = Some p"
    using list_complete [OF assms(2)] by blast
  have dom: "i \<in> cp_id ` set ps \<longleftrightarrow> view (dm_profiles d) i \<noteq> None" for i
  proof
    assume "view (dm_profiles d) i \<noteq> None"
    then obtain p where "view (dm_profiles d) i = Some p" "cp_id p = i" using view_sound [OF assms(2)] by blast
    then show "i \<in> cp_id ` set ps" using ps(2) by (metis image_eqI)
  qed (use ps(2) in auto)
  have at: "act_keeps connection_part (at_path fa path i)" for path i by (rule keeps_part) simp
  have enum: "act_keeps connection_part (act_map_err g (enumerate_devices fa))" for g by (intro keeps_intros keeps_part) simp
  have points: "act_keeps connection_part (act_map_err g (on_daemon (daemon_access_points (fa_backend fa))))" for g
    unfolding daemon_access_points_def by (intro keeps_intros keeps_backend_query) simp
  have listed: "act_leads (\<lambda>w. connection_part w = ?start)
      (act_map_err g (on_daemon (\<lambda>d. (list_profiles (fa_store fa) d, d)))) (\<lambda>x w. x = ps \<and> connection_part w = ?start)" for g
    using ps(1) by (auto simp: act_leads_def act_map_err_def on_daemon_def list_profiles_def assms(1) result_simps
        connection_part_def with_authorization_def)
  have each: "act_leads (\<lambda>w. x = ps \<and> connection_part w = ?start) (act_each (register_connection_object fa) x)
      (\<lambda>_. mirrored)" for x
    unfolding act_leads_def
  proof (intro allI impI)
    fix w u' w' assume w: "x = ps \<and> connection_part w = ?start" "act_each (register_connection_object fa) x w = (Ok u', w')"
    have "sh_connections w = Map.empty" "dm_profiles (sh_daemon w) = dm_profiles d"
        "daemon_active_connections (sh_daemon w) = daemon_active_connections d"
      using w(1) by (simp_all add: connection_part_def with_authorization_def)
    then show "mirrored w'" using registers_each [OF w(2)] w(1) dom assms(2,3) by (auto simp: mirrored_def)
  qed
  have "act_leads (\<lambda>w. connection_part w = ?start) (act_then (at_path fa ROOT_PATH RootIface)
      (\<lambda>_. act_then (at_path fa SETTINGS_PATH SettingsIface) (\<lambda>_. register_all fa))) (\<lambda>_. mirrored)"
    unfolding register_all_def
    by (rule leads_then, rule leads_keeps, rule at)+
      (rule leads_then, rule leads_keeps, rule enum, rule leads_then, rule listed,
       rule leads_then, rule leads_same, rule keeps_get, rule leads_then, rule leads_same, rule points,
       rule leads_then, rule leads_same, rule keeps_each, rule part_device_object, rule leads_then, rule each,
       rule leads_then, rule leads_mirrored, rule keeps_each, rule part_active_object, rule leads_mirrored, rule keeps_each,
       rule part_access_point)
  then show ?thesis using run unfolding attach_authorized_def act_leads_def by blast
qed

text \<open>After any calls the registry shows the store.\<close>

lemma calls_mirrored:
  assumes "fa_store fa = ops" "serves_connections (fa_server fa)" "\<forall>p. profile_ok p \<longrightarrow> storable p" "mirrored w"
  shows "mirrored (fold (perform fa) calls w)"
  using assms(4) by (induction calls arbitrary: w) (use perform_holds [OF assms(1,2)] assms(3) in simp_all)

lemma listed_paths:
  assumes "fa_store fa = ops" "serves_connections (fa_server fa)" "mirrored w"
  shows "\<exists>ps. so_list ops (dm_profiles (sh_daemon w)) = Ok ps \<and> set ps = ran (view (dm_profiles (sh_daemon w))) \<and>
    list_connections fa w = (Ok (map (\<lambda>p. connection_object_path (cp_id p)) ps), w)"
proof -
  have inv: "inv (dm_profiles (sh_daemon w))" using assms(3) by (simp add: mirrored_def)
  obtain ps where ps: "so_list ops (dm_profiles (sh_daemon w)) = Ok ps"
      "set ps = ran (view (dm_profiles (sh_daemon w)))"
    using list_view [OF inv] by blast
  have "connection_path_lookup w (cp_id p) = Some (connection_object_path (cp_id p))" if "p \<in> set ps" for p
    using that ps(2) view_sound [OF inv] assms(3) by (auto simp: ran_def connection_path_lookup_def mirrored_def)
  then have "List.map_filter (\<lambda>p. connection_path_lookup w (cp_id p)) ps = map (\<lambda>p. connection_object_path (cp_id p)) ps"
    by (induction ps) (simp_all add: List.map_filter_simps)
  moreover have "filter (path_ok fa) (map (\<lambda>p. connection_object_path (cp_id p)) ps) =
      map (\<lambda>p. connection_object_path (cp_id p)) ps"
    using assms(2) by (simp add: filter_id_conv path_ok_def serves_connections_def)
  ultimately show ?thesis using ps
    by (simp add: list_connections_def connection_paths_def act_then_def act_return_def list_profiles_def assms(1))
qed

end

section \<open>Both stores\<close>

interpretation mem_checked: checked_store mem_store_ops mem_inv map_of profile_ok
  by unfold_locales (auto simp: mem_store_ops_def mem_get_def mem_inv_def profile_ok_def result_simps dest!: map_of_SomeD)

interpretation file_checked:
  checked_store "file_store_ops toml dir" "file_inv toml dir" "file_view toml dir" "toml_storable toml"
  for toml dir
  by unfold_locales (auto simp: file_store_ops_def file_get_def read_profile_def parse_profile_def result_simps
      validate_Ok_iff profile_ok_def split: if_splits)

text \<open>With the profiles in files, for a codec that reads back every valid profile it writes.\<close>

lemma file_connection_objects:
  assumes "fa_store fa = file_store_ops toml dir" "serves_connections (fa_server fa)"
    and "\<forall>p. profile_ok p \<longrightarrow> toml_storable toml p"
    and "file_inv toml dir (dm_profiles d)" "daemon_active_connections d = []"
    and "attach_authorized fa d conn policy = (Ok u, w)"
  shows "file_checked.mirrored toml dir (fold (perform fa) calls w)"
  by (rule file_checked.calls_mirrored [OF assms(1-3)], rule file_checked.started_mirrored [OF assms(1,4) _ assms(6)])
    (simp add: assms(5))

text \<open>The concrete system of the witnesses: a bus that takes everything.\<close>

lemma log_server_serves: "serves_connections log_server"
  by (simp add: serves_connections_def log_server_def)

lemma lan_fields: "fa_backend (lan policy) = lan_backend" "fa_server (lan policy) = log_server"
  "fa_store (lan policy) = mem_store_ops"
  by (simp_all add: lan_def)

lemma lan_attaches: "fst (attach_authorized (lan allow_all_check) (with_components () [(''wired'', wired)] ()) [] ()) = Ok ()"
proof -
  have devices: "enumerate_devices (lan allow_all_check) w =
      (Ok [link_view \<lparr> link_index = 1, link_name = ''lo'', link_flags = 0x49 \<rparr>,
           link_view \<lparr> link_index = 2, link_name = ''eth0'', link_flags = 0x43 \<rparr>], w)"
    for w :: "(unit, mem_store, unit, (string \<times> dbus_value signal) list, unit) shared"
  proof -
    have "merge_devices [] [\<lparr> link_index = 1, link_name = ''lo'', link_flags = 0x49 \<rparr>,
        \<lparr> link_index = 2, link_name = ''eth0'', link_flags = 0x43 \<rparr>] =
        [link_view \<lparr> link_index = 1, link_name = ''lo'', link_flags = 0x49 \<rparr>,
         link_view \<lparr> link_index = 2, link_name = ''eth0'', link_flags = 0x43 \<rparr>]"
      by code_simp
    then show ?thesis
      by (simp add: enumerate_devices_def act_then_def act_map_err_def on_daemon_def daemon_wifi_interfaces_def
          daemon_links_def on_backend_def lan_def lan_backend_def act_return_def)
  qed
  show ?thesis
    by (simp add: attach_authorized_def register_all_def act_then_def at_path_def act_result_def on_conn_def act_return_def
        act_map_err_def devices act_get_def on_daemon_def list_profiles_def with_authorization_def with_components_def
        daemon_access_points_def on_backend_def register_device_object_def Let_def act_set_def device_state_def act_ok_def
        register_connection_object_def daemon_active_connections_def am_new_def lan_fields lan_backend_def log_server_def
        mem_store_ops_def mem_list_def List.map_filter_simps split: nm_device_kind.split option.split)
qed



end
