(* ===== verification/Nm_Properties.thy ===== *)
theory Nm_Properties
  imports Nm_Render
begin

text \<open>
  The properties of the D-Bus objects, one constructor for every property of an interface, and what reading them
  answers: the values computed from the state, and the ones that are always the same. The files are
  \<^verbatim>\<open>src/dbus/root.rs\<close>, \<^verbatim>\<open>settings.rs\<close>, \<^verbatim>\<open>device.rs\<close>, \<^verbatim>\<open>active_connection.rs\<close>,
  \<^verbatim>\<open>access_point.rs\<close> and \<^verbatim>\<open>ipconfig.rs\<close>.
\<close>

section \<open>Values\<close>

datatype 'v property =
    PvStr string | PvBool bool | PvU8 u8 | PvU32 u32 | PvI32 i32 | PvU64 u64 | PvI64 "64 word" | PvPair "u32 \<times> u32"
  | PvPath string | PvPaths "string list" | PvStrs "string list" | PvU32s "u32 list" | PvBytes bytes
  | PvRows "u32 list list" | PvAddresses6 "(bytes \<times> u32 \<times> bytes) list" | PvRoutes6 "v6_route list"
  | PvByteLists "bytes list" | PvDict "'v sect" | PvDicts "'v sect list"

text \<open>A computed property; the errors of the facade are those of D-Bus.\<close>

definition reply :: "('a \<Rightarrow> 'v property) \<Rightarrow> ('w, 'a, facade_error) act \<Rightarrow> ('w, 'v property, fdo_error) act" where
  "reply c m = act_then (act_map_err fdo_of_facade m) (\<lambda>x. act_return (c x))"

section \<open>Devices\<close>

datatype device_prop =
  DpUdi | DpPath | DpInterface | DpIpInterface | DpDriver | DpDriverVersion | DpFirmwareVersion
  | DpCapabilities | DpIp4Address | DpState | DpStateReason | DpActiveConnection | DpIp4Config
  | DpDhcp4Config | DpIp6Config | DpDhcp6Config | DpManaged | DpAutoconnect | DpFirmwareMissing
  | DpNmPluginMissing | DpDeviceType | DpAvailableConnections | DpPhysicalPortId | DpMtu | DpMetered
  | DpLldpNeighbors | DpReal | DpIp4Connectivity | DpIp6Connectivity | DpInterfaceFlags | DpHwAddress
  | DpPorts

definition device_property ::
  "('b, 'src, 's, 'e, 'z, 'v, 'p) facade \<Rightarrow> i32 \<Rightarrow> device_prop \<Rightarrow>
   (('b, 's, 'e, 'z, 'p) shared, 'v property, fdo_error) act" where
  "device_property fa index property = (case property of
       DpUdi \<Rightarrow> act_return (PvStr [])
     | DpPath \<Rightarrow> act_return (PvStr [])
     | DpInterface \<Rightarrow> reply PvStr (device_interface fa index)
     | DpIpInterface \<Rightarrow> reply PvStr (device_interface fa index)
     | DpDriver \<Rightarrow> reply PvStr (device_driver fa index)
     | DpDriverVersion \<Rightarrow> act_return (PvStr [])
     | DpFirmwareVersion \<Rightarrow> act_return (PvStr [])
     | DpCapabilities \<Rightarrow> act_return (PvU32 0)
     | DpIp4Address \<Rightarrow> act_return (PvU32 0)
     | DpState \<Rightarrow> reply PvU32 (current_state fa index)
     | DpStateReason \<Rightarrow> reply PvPair (device_state_reason fa index)
     | DpActiveConnection \<Rightarrow> reply PvPath (device_active_connection fa index)
     | DpIp4Config \<Rightarrow> reply PvPath (device_ip4_config fa index)
     | DpDhcp4Config \<Rightarrow> reply PvPath (device_dhcp4_config fa index)
     | DpIp6Config \<Rightarrow> reply PvPath (device_ip6_config fa index)
     | DpDhcp6Config \<Rightarrow> act_return (PvPath root_object_path)
     | DpManaged \<Rightarrow> act_return (PvBool True)
     | DpAutoconnect \<Rightarrow> act_return (PvBool True)
     | DpFirmwareMissing \<Rightarrow> act_return (PvBool False)
     | DpNmPluginMissing \<Rightarrow> act_return (PvBool False)
     | DpDeviceType \<Rightarrow> reply PvU32 (device_type fa index)
     | DpAvailableConnections \<Rightarrow> reply PvPaths (available_connections fa index)
     | DpPhysicalPortId \<Rightarrow> act_return (PvStr [])
     | DpMtu \<Rightarrow> act_return (PvU32 0)
     | DpMetered \<Rightarrow> act_return (PvU32 0)
     | DpLldpNeighbors \<Rightarrow> act_return (PvDicts [])
     | DpReal \<Rightarrow> act_return (PvBool True)
     | DpIp4Connectivity \<Rightarrow> reply PvU32 (ip4_connectivity fa index)
     | DpIp6Connectivity \<Rightarrow> act_return (PvU32 NM_CONNECTIVITY_NONE)
     | DpInterfaceFlags \<Rightarrow> reply PvU32 (interface_flags fa index)
     | DpHwAddress \<Rightarrow> reply PvStr (hw_address fa index)
     | DpPorts \<Rightarrow> act_return (PvPaths []))"

datatype wired_prop =
  WpHwAddress | WpPermHwAddress | WpSpeed | WpS390Subchannels | WpCarrier

definition wired_property ::
  "('b, 'src, 's, 'e, 'z, 'v, 'p) facade \<Rightarrow> i32 \<Rightarrow> wired_prop \<Rightarrow>
   (('b, 's, 'e, 'z, 'p) shared, 'v property, fdo_error) act" where
  "wired_property fa index property = (case property of
       WpHwAddress \<Rightarrow> reply PvStr (hw_address fa index)
     | WpPermHwAddress \<Rightarrow> act_return (PvStr [])
     | WpSpeed \<Rightarrow> act_return (PvU32 0)
     | WpS390Subchannels \<Rightarrow> act_return (PvStrs [])
     | WpCarrier \<Rightarrow> reply PvBool (wired_carrier fa index))"

datatype wireless_prop =
  WlHwAddress | WlPermHwAddress | WlMode | WlBitrate | WlAccessPoints | WlActiveAccessPoint
  | WlWirelessCapabilities | WlLastScan

definition wireless_property ::
  "('b, 'src, 's, 'e, 'z, 'v, 'p) facade \<Rightarrow> i32 \<Rightarrow> wireless_prop \<Rightarrow>
   (('b, 's, 'e, 'z, 'p) shared, 'v property, fdo_error) act" where
  "wireless_property fa index property = (case property of
       WlHwAddress \<Rightarrow> reply PvStr (hw_address fa index)
     | WlPermHwAddress \<Rightarrow> act_return (PvStr [])
     | WlMode \<Rightarrow> act_return (PvU32 2)
     | WlBitrate \<Rightarrow> act_return (PvU32 0)
     | WlAccessPoints \<Rightarrow> reply PvPaths (all_access_points fa index)
     | WlActiveAccessPoint \<Rightarrow> act_return (PvPath root_object_path)
     | WlWirelessCapabilities \<Rightarrow> act_return (PvU32 3)
     | WlLastScan \<Rightarrow> act_return (PvI64 0))"

datatype statistics_prop =
  SpRefreshRateMs | SpTxBytes | SpRxBytes

definition statistics_property ::
  "('b, 'src, 's, 'e, 'z, 'v, 'p) facade \<Rightarrow> statistics_prop \<Rightarrow>
   (('b, 's, 'e, 'z, 'p) shared, 'v property, fdo_error) act" where
  "statistics_property fa property = (case property of
       SpRefreshRateMs \<Rightarrow> act_return (PvU32 0)
     | SpTxBytes \<Rightarrow> act_return (PvU64 0)
     | SpRxBytes \<Rightarrow> act_return (PvU64 0))"

section \<open>The root object\<close>

definition VERSION :: string where
  "VERSION = ''0.1.0''"

text \<open>\<open>str::parse::<u32>\<close>, and the numbers of the version, 0 where there is none.\<close>

definition parse_u32 :: "string \<Rightarrow> u32 option" where
  "parse_u32 s =
     (let digits = (case s of CHR ''+'' # cs \<Rightarrow> cs | _ \<Rightarrow> s) in
      if digits = [] \<or> \<not> list_all (\<lambda>c. to_digit 10 c \<noteq> None) digits then None
      else if decimal_value digits \<ge> 2 ^ 32 then None
      else Some (word_of_nat (decimal_value digits)))"

definition version_part :: "string list \<Rightarrow> nat \<Rightarrow> u32" where
  "version_part parts k =
     (case (if k < length parts then parse_u32 (parts ! k) else None) of None \<Rightarrow> 0 | Some n \<Rightarrow> n)"

definition version_info :: "u32 list" where
  "version_info = (let parts = split_char CHR ''.'' VERSION in
     [version_part parts 0, version_part parts 1, version_part parts 2, 0])"

text \<open>The state of the root object is computed like \<^const>\<open>current_nm_state\<close>.\<close>

datatype root_prop =
  RpDevices | RpAllDevices | RpActiveConnections | RpConnectivity | RpNmState | RpWirelessEnabled
  | RpWirelessHardwareEnabled | RpWwanEnabled | RpWwanHardwareEnabled | RpNetworkingEnabled | RpStartup
  | RpVersion | RpVersionInfo | RpCapabilities | RpMetered | RpPrimaryConnection | RpActivatingConnection
  | RpPrimaryConnectionType | RpDeviceReasons | RpIp4Config | RpDhcp4Config | RpIp6Config | RpDhcp6Config
  | RpGlobalDnsConfiguration

definition root_property ::
  "('b, 'src, 's, 'e, 'z, 'v, 'p) facade \<Rightarrow> root_prop \<Rightarrow>
   (('b, 's, 'e, 'z, 'p) shared, 'v property, fdo_error) act" where
  "root_property fa property = (case property of
       RpDevices \<Rightarrow> reply PvPaths (get_devices fa)
     | RpAllDevices \<Rightarrow> reply PvPaths (get_devices fa)
     | RpActiveConnections \<Rightarrow> act_get (\<lambda>w. PvPaths (active_connection_paths fa w))
     | RpConnectivity \<Rightarrow> act_get (\<lambda>w. PvU32 (check_connectivity w))
     | RpNmState \<Rightarrow> act_get (\<lambda>w. PvU32 (if daemon_active_connections (sh_daemon w) = [] then NM_STATE_DISCONNECTED
         else NM_STATE_CONNECTED_GLOBAL))
     | RpWirelessEnabled \<Rightarrow> act_return (PvBool True)
     | RpWirelessHardwareEnabled \<Rightarrow> reply PvBool (wireless_hardware_enabled fa)
     | RpWwanEnabled \<Rightarrow> act_return (PvBool False)
     | RpWwanHardwareEnabled \<Rightarrow> act_return (PvBool False)
     | RpNetworkingEnabled \<Rightarrow> act_return (PvBool True)
     | RpStartup \<Rightarrow> act_return (PvBool False)
     | RpVersion \<Rightarrow> act_return (PvStr VERSION)
     | RpVersionInfo \<Rightarrow> act_return (PvU32s version_info)
     | RpCapabilities \<Rightarrow> act_return (PvU32s [])
     | RpMetered \<Rightarrow> act_return (PvU32 0)
     | RpPrimaryConnection \<Rightarrow> act_get (\<lambda>w. PvPath (primary_connection fa w))
     | RpActivatingConnection \<Rightarrow> act_get (\<lambda>w. PvPath (activating_connection fa w))
     | RpPrimaryConnectionType \<Rightarrow> act_get (\<lambda>w. PvStr (primary_connection_type w))
     | RpDeviceReasons \<Rightarrow> act_return (PvPaths [])
     | RpIp4Config \<Rightarrow> act_get (\<lambda>w. PvPath (root_ip4_config fa w))
     | RpDhcp4Config \<Rightarrow> act_get (\<lambda>w. PvPath (root_dhcp4_config fa w))
     | RpIp6Config \<Rightarrow> act_get (\<lambda>w. PvPath (root_ip6_config fa w))
     | RpDhcp6Config \<Rightarrow> act_return (PvPath root_object_path)
     | RpGlobalDnsConfiguration \<Rightarrow> act_return (PvDict Map.empty))"

section \<open>Settings\<close>

definition NM_SETTING_CONNECTION_FLAG_NONE :: u32 where
  "NM_SETTING_CONNECTION_FLAG_NONE = 0"

datatype settings_prop =
  StConnections | StHostname | StCanModify

definition settings_property ::
  "('b, 'src, 's, 'e, 'z, 'v, 'p) facade \<Rightarrow> settings_prop \<Rightarrow>
   (('b, 's, 'e, 'z, 'p) shared, 'v property, fdo_error) act" where
  "settings_property fa property = (case property of
       StConnections \<Rightarrow> reply PvPaths (list_connections fa)
     | StHostname \<Rightarrow> act_return (PvStr [])
     | StCanModify \<Rightarrow> act_return (PvBool True))"

datatype connection_prop =
  CpUnsaved | CpFlags | CpFilename

definition connection_property ::
  "('b, 'src, 's, 'e, 'z, 'v, 'p) facade \<Rightarrow> connection_prop \<Rightarrow>
   (('b, 's, 'e, 'z, 'p) shared, 'v property, fdo_error) act" where
  "connection_property fa property = (case property of
       CpUnsaved \<Rightarrow> act_return (PvBool False)
     | CpFlags \<Rightarrow> act_return (PvU32 NM_SETTING_CONNECTION_FLAG_NONE)
     | CpFilename \<Rightarrow> act_return (PvStr []))"

section \<open>Active connections and their configuration\<close>

datatype active_prop =
  ApConnection | ApId | ApUuid | ApType | ApSpecificObject | ApDevices | ApState | ApDefault | ApDefault6
  | ApVpn | ApMaster | ApIp4Config | ApDhcp4Config | ApIp6Config | ApDhcp6Config | ApController
  | ApConnectionType | ApStateFlags | ApUnmetered

definition active_property ::
  "('b, 'src, 's, 'e, 'z, 'v, 'p) facade \<Rightarrow> active_id \<Rightarrow> active_prop \<Rightarrow>
   (('b, 's, 'e, 'z, 'p) shared, 'v property, fdo_error) act" where
  "active_property fa aid property = (case property of
       ApConnection \<Rightarrow> act_then (active_connection_object fa aid) (\<lambda>p. act_return (PvPath p))
     | ApId \<Rightarrow> reply PvStr (active_profile_id aid)
     | ApUuid \<Rightarrow> reply PvStr (active_uuid aid)
     | ApType \<Rightarrow> reply PvStr (active_type aid)
     | ApSpecificObject \<Rightarrow> act_return (PvPath root_object_path)
     | ApDevices \<Rightarrow> reply PvPaths (active_devices fa aid)
     | ApState \<Rightarrow> reply PvU32 (active_state aid)
     | ApDefault \<Rightarrow> reply PvBool (active_default aid)
     | ApDefault6 \<Rightarrow> act_return (PvBool False)
     | ApVpn \<Rightarrow> act_return (PvBool False)
     | ApMaster \<Rightarrow> act_return (PvPath root_object_path)
     | ApIp4Config \<Rightarrow> reply PvPath (active_ip4_config fa aid)
     | ApDhcp4Config \<Rightarrow> reply PvPath (active_dhcp4_config fa aid)
     | ApIp6Config \<Rightarrow> reply PvPath (active_ip6_config fa aid)
     | ApDhcp6Config \<Rightarrow> reply PvPath (active_dhcp6_config fa aid)
     | ApController \<Rightarrow> act_return (PvPath root_object_path)
     | ApConnectionType \<Rightarrow> reply PvStr (active_type aid)
     | ApStateFlags \<Rightarrow> act_return (PvU32 0)
     | ApUnmetered \<Rightarrow> act_return (PvBool True))"

datatype ip4_prop =
  FpAddresses | FpAddressData | FpClatAddress | FpGateway | FpRoutes | FpRouteData | FpNameserverData
  | FpNameservers | FpDomains | FpSearches | FpDnsOptions | FpDnsPriority | FpWinsServerData | FpWinsServers

definition ip4_property ::
  "('b, 'src, 's, 'e, 'z, 'v, 'p) facade \<Rightarrow> active_id \<Rightarrow> ip4_prop \<Rightarrow>
   (('b, 's, 'e, 'z, 'p) shared, 'v property, fdo_error) act" where
  "ip4_property fa aid property = (case property of
       FpAddresses \<Rightarrow> act_get (\<lambda>w. PvRows (ip4_addresses w aid))
     | FpAddressData \<Rightarrow> act_get (\<lambda>w. PvDicts (ip4_address_data (fa_values fa) w aid))
     | FpClatAddress \<Rightarrow> act_return (PvStr [])
     | FpGateway \<Rightarrow> act_get (\<lambda>w. PvStr (ip4_gateway w aid))
     | FpRoutes \<Rightarrow> act_get (\<lambda>w. PvRows (ip4_routes w aid))
     | FpRouteData \<Rightarrow> act_get (\<lambda>w. PvDicts (ip4_route_data (fa_values fa) w aid))
     | FpNameserverData \<Rightarrow> act_get (\<lambda>w. PvDicts (ip4_nameserver_data (fa_values fa) w aid))
     | FpNameservers \<Rightarrow> act_get (\<lambda>w. PvU32s (ip4_nameservers w aid))
     | FpDomains \<Rightarrow> act_return (PvStrs [])
     | FpSearches \<Rightarrow> act_get (\<lambda>w. PvStrs (ip4_searches w aid))
     | FpDnsOptions \<Rightarrow> act_return (PvStrs [])
     | FpDnsPriority \<Rightarrow> act_return (PvI32 0)
     | FpWinsServerData \<Rightarrow> act_return (PvStrs [])
     | FpWinsServers \<Rightarrow> act_return (PvU32s []))"

datatype ip6_prop =
  XpAddresses | XpAddressData | XpClatAddress | XpClatPref64 | XpGateway | XpRoutes | XpRouteData
  | XpNameservers | XpDomains | XpSearches | XpDnsOptions | XpDnsPriority

definition ip6_property ::
  "('b, 'src, 's, 'e, 'z, 'v, 'p) facade \<Rightarrow> active_id \<Rightarrow> ip6_prop \<Rightarrow>
   (('b, 's, 'e, 'z, 'p) shared, 'v property, fdo_error) act" where
  "ip6_property fa aid property = (case property of
       XpAddresses \<Rightarrow> act_get (\<lambda>w. PvAddresses6 (ip6_addresses w aid))
     | XpAddressData \<Rightarrow> act_get (\<lambda>w. PvDicts (ip6_address_data (fa_values fa) w aid))
     | XpClatAddress \<Rightarrow> act_return (PvStr [])
     | XpClatPref64 \<Rightarrow> act_return (PvStr [])
     | XpGateway \<Rightarrow> act_get (\<lambda>w. PvStr (ip6_gateway w aid))
     | XpRoutes \<Rightarrow> act_get (\<lambda>w. PvRoutes6 (ip6_routes w aid))
     | XpRouteData \<Rightarrow> act_get (\<lambda>w. PvDicts (ip6_route_data (fa_values fa) w aid))
     | XpNameservers \<Rightarrow> act_get (\<lambda>w. PvByteLists (ip6_nameservers w aid))
     | XpDomains \<Rightarrow> act_return (PvStrs [])
     | XpSearches \<Rightarrow> act_get (\<lambda>w. PvStrs (ip6_searches w aid))
     | XpDnsOptions \<Rightarrow> act_return (PvStrs [])
     | XpDnsPriority \<Rightarrow> act_return (PvI32 0))"

text \<open>The options of a lease are the only property of the DHCP objects; DHCPv6 has none.\<close>

definition dhcp4_property ::
  "('b, 'src, 's, 'e, 'z, 'v, 'p) facade \<Rightarrow> u64 option \<Rightarrow> active_id \<Rightarrow>
   (('b, 's, 'e, 'z, 'p) shared, 'v property, fdo_error) act" where
  "dhcp4_property fa now aid = act_get (\<lambda>w. PvDict (dhcp4_options (fa_values fa) now w aid))"

definition dhcp6_property :: "(('b, 's, 'e, 'z, 'p) shared, 'v property, fdo_error) act" where
  "dhcp6_property = act_return (PvDict Map.empty)"

section \<open>Access points\<close>

datatype point_prop =
  PpFlags | PpWpaFlags | PpRsnFlags | PpSsid | PpFrequency | PpChannel | PpHwAddress | PpMode | PpMaxBitrate
  | PpBandwidth | PpStrength | PpLastSeen | PpSteerable | PpIes

definition point_property ::
  "('b, 'src, 's, 'e, 'z, 'v, 'p) facade \<Rightarrow> mac \<Rightarrow> point_prop \<Rightarrow>
   (('b, 's, 'e, 'z, 'p) shared, 'v property, fdo_error) act" where
  "point_property fa bssid property = (case property of
       PpFlags \<Rightarrow> reply PvU32 (point_flags fa bssid)
     | PpWpaFlags \<Rightarrow> reply PvU32 (point_wpa_flags fa bssid)
     | PpRsnFlags \<Rightarrow> reply PvU32 (point_rsn_flags fa bssid)
     | PpSsid \<Rightarrow> reply PvBytes (point_ssid fa bssid)
     | PpFrequency \<Rightarrow> reply PvU32 (point_frequency fa bssid)
     | PpChannel \<Rightarrow> reply PvU32 (point_channel_property fa bssid)
     | PpHwAddress \<Rightarrow> act_return (PvStr (point_hw_address bssid))
     | PpMode \<Rightarrow> act_return (PvU32 2)
     | PpMaxBitrate \<Rightarrow> act_return (PvU32 0)
     | PpBandwidth \<Rightarrow> act_return (PvU32 0)
     | PpStrength \<Rightarrow> reply PvU8 (point_strength fa bssid)
     | PpLastSeen \<Rightarrow> reply PvI32 (point_last_seen fa bssid)
     | PpSteerable \<Rightarrow> act_return (PvBool False)
     | PpIes \<Rightarrow> act_return (PvDicts []))"

section \<open>Writable properties and methods that compute nothing new\<close>

text \<open>Every writable property accepts any value and ignores it.\<close>

datatype writable =
    SetAutoconnect i32 bool | SetRefreshRateMs i32 u32 | SetWirelessEnabled bool | SetWwanEnabled bool
  | SetNetworkingEnabled bool

definition set_autoconnect :: "i32 \<Rightarrow> bool \<Rightarrow> (('b, 's, 'e, 'z, 'p) shared, unit, facade_error) act" where
  "set_autoconnect index autoconnect = act_return ()"

definition set_refresh_rate_ms :: "i32 \<Rightarrow> u32 \<Rightarrow> (('b, 's, 'e, 'z, 'p) shared, unit, facade_error) act" where
  "set_refresh_rate_ms index refresh_rate_ms = act_return ()"

definition set_wireless_enabled :: "bool \<Rightarrow> (('b, 's, 'e, 'z, 'p) shared, unit, facade_error) act" where
  "set_wireless_enabled wireless_enabled = act_return ()"

definition set_wwan_enabled :: "bool \<Rightarrow> (('b, 's, 'e, 'z, 'p) shared, unit, facade_error) act" where
  "set_wwan_enabled wwan_enabled = act_return ()"

definition set_networking_enabled :: "bool \<Rightarrow> (('b, 's, 'e, 'z, 'p) shared, unit, facade_error) act" where
  "set_networking_enabled networking_enabled = act_return ()"

definition set_property :: "writable \<Rightarrow> (('b, 's, 'e, 'z, 'p) shared, unit, facade_error) act" where
  "set_property x = (case x of
       SetAutoconnect index autoconnect \<Rightarrow> set_autoconnect index autoconnect
     | SetRefreshRateMs index refresh_rate_ms \<Rightarrow> set_refresh_rate_ms index refresh_rate_ms
     | SetWirelessEnabled wireless_enabled \<Rightarrow> set_wireless_enabled wireless_enabled
     | SetWwanEnabled wwan_enabled \<Rightarrow> set_wwan_enabled wwan_enabled
     | SetNetworkingEnabled networking_enabled \<Rightarrow> set_networking_enabled networking_enabled)"

definition set_logging :: "string \<Rightarrow> string \<Rightarrow> (('b, 's, 'e, 'z, 'p) shared, unit, facade_error) act" where
  "set_logging level domains = act_return ()"

definition get_logging :: "string \<times> string" where
  "get_logging = (''INFO'', [])"

definition get_settings_flags :: u32 where
  "get_settings_flags = NM_SETTING_CONNECTION_FLAG_NONE"

definition device_state_reasons :: "(string \<times> u32) list" where
  "device_state_reasons = []"

definition get_device_state_reasons :: "string \<Rightarrow> u32 list" where
  "get_device_state_reasons device = []"

definition get_all_devices ::
  "('b, 'src, 's, 'e, 'z, 'v, 'p) facade \<Rightarrow> (('b, 's, 'e, 'z, 'p) shared, string list, facade_error) act" where
  "get_all_devices fa = get_devices fa"

definition check_connectivity_full :: "('b, 's, 'e, 'z, 'p) shared \<Rightarrow> u32" where
  "check_connectivity_full w = check_connectivity w"

definition get_connectivity :: "('b, 's, 'e, 'z, 'p) shared \<Rightarrow> u32" where
  "get_connectivity w = check_connectivity w"

definition get_access_points ::
  "('b, 'src, 's, 'e, 'z, 'v, 'p) facade \<Rightarrow> i32 \<Rightarrow> (('b, 's, 'e, 'z, 'p) shared, string list, facade_error) act" where
  "get_access_points fa index = all_access_points fa index"

definition get_all_access_points ::
  "('b, 'src, 's, 'e, 'z, 'v, 'p) facade \<Rightarrow> i32 \<Rightarrow> (('b, 's, 'e, 'z, 'p) shared, string list, facade_error) act" where
  "get_all_access_points fa index = all_access_points fa index"

section \<open>Access to a property\<close>

text \<open>A property of some object, and reading it; \<open>now\<close> is the time the options of a lease are shown at.\<close>

datatype property_of =
    OfRoot root_prop | OfSettings settings_prop | OfConnection connection_prop
  | OfDevice i32 device_prop | OfWired i32 wired_prop | OfWireless i32 wireless_prop | OfStatistics statistics_prop
  | OfActive active_id active_prop | OfIp4 active_id ip4_prop | OfIp6 active_id ip6_prop
  | OfDhcp4 "u64 option" active_id | OfDhcp6 | OfPoint mac point_prop

definition read_property ::
  "('b, 'src, 's, 'e, 'z, 'v, 'p) facade \<Rightarrow> property_of \<Rightarrow> (('b, 's, 'e, 'z, 'p) shared, 'v property, fdo_error) act" where
  "read_property fa x = (case x of
       OfRoot p \<Rightarrow> root_property fa p
     | OfSettings p \<Rightarrow> settings_property fa p
     | OfConnection p \<Rightarrow> connection_property fa p
     | OfDevice index p \<Rightarrow> device_property fa index p
     | OfWired index p \<Rightarrow> wired_property fa index p
     | OfWireless index p \<Rightarrow> wireless_property fa index p
     | OfStatistics p \<Rightarrow> statistics_property fa p
     | OfActive aid p \<Rightarrow> active_property fa aid p
     | OfIp4 aid p \<Rightarrow> ip4_property fa aid p
     | OfIp6 aid p \<Rightarrow> ip6_property fa aid p
     | OfDhcp4 now aid \<Rightarrow> dhcp4_property fa now aid
     | OfDhcp6 \<Rightarrow> dhcp6_property
     | OfPoint bssid p \<Rightarrow> point_property fa bssid p)"

section \<open>Reading has no effect\<close>

text \<open>Everything but the kernel interfaces, which are asked afresh at every reading.\<close>

definition kept_state where
  "kept_state w = (dm_profiles (sh_daemon w), dm_activation (sh_daemon w), sh_conn w, sh_connections w, sh_devices w,
     sh_device_states w, sh_access_points w, sh_active_connections w, sh_root_state w, sh_authorization w)"

lemma kept_backend [simp]: "kept_state (w\<lparr> sh_daemon := (sh_daemon w)\<lparr> dm_backend := b \<rparr> \<rparr>) = kept_state w"
  by (simp add: kept_state_def)

lemma reply_keeps: "act_keeps g m \<Longrightarrow> act_keeps g (reply c m)"
  unfolding reply_def by (intro keeps_intros)

lemma kept_view: "act_keeps kept_state (device_view_at fa index)"
  unfolding device_view_at_def by (intro keeps_intros keeps_enumerate) simp

lemma kept_active_at: "act_keeps kept_state (device_active_at fa index)"
  unfolding device_active_at_def by (intro keeps_intros kept_view)

lemma kept_list: "act_keeps kept_state (\<lambda>w. (f w, w))"
  by (simp add: act_keeps_def)

lemma kept_points: "act_keeps kept_state (on_daemon (daemon_access_points bo))"
  unfolding daemon_access_points_def by (intro keeps_backend_query) simp

lemma kept_of_point: "act_keeps kept_state (of_point fa bssid f)"
  unfolding of_point_def point_lookup_def by (intro keeps_intros kept_points)

lemma kept_devices:
  "act_keeps kept_state (device_interface fa index)" "act_keeps kept_state (device_driver fa index)"
  "act_keeps kept_state (current_state fa index)" "act_keeps kept_state (device_state_reason fa index)"
  "act_keeps kept_state (device_active_path fa path_of index)" "act_keeps kept_state (device_type fa index)"
  "act_keeps kept_state (available_connections fa index)" "act_keeps kept_state (ip4_connectivity fa index)"
  "act_keeps kept_state (interface_flags fa index)" "act_keeps kept_state (hw_address fa index)"
  "act_keeps kept_state (wired_carrier fa index)"
  unfolding device_interface_def device_driver_def current_state_def device_state_reason_def device_active_path_def
    device_type_def available_connections_def ip4_connectivity_def interface_flags_def hw_address_def wired_carrier_def
  by (intro keeps_intros kept_view kept_active_at kept_list)+

lemma kept_access_points: "act_keeps kept_state (all_access_points fa index)"
  unfolding all_access_points_def access_point_paths_def
  by (auto intro!: keeps_intros keeps_enumerate kept_points split: option.split)

lemma kept_active: "act_keeps kept_state (active_of aid)"
  by (simp add: act_keeps_def active_of_def)

lemma kept_active_reads:
  "act_keeps kept_state (active_connection_object fa aid)" "act_keeps kept_state (active_profile_id aid)"
  "act_keeps kept_state (active_uuid aid)" "act_keeps kept_state (active_type aid)"
  "act_keeps kept_state (active_devices fa aid)" "act_keeps kept_state (active_state aid)"
  "act_keeps kept_state (active_default aid)"
  unfolding active_connection_object_def active_profile_id_def active_uuid_def active_type_def active_devices_def
    active_state_def active_default_def Let_def
  by (intro keeps_intros kept_active keeps_index_by_name, simp?)+

lemma kept_root:
  "act_keeps kept_state (get_devices fa)" "act_keeps kept_state (wireless_hardware_enabled fa)"
  "act_keeps kept_state (list_connections fa)"
  unfolding get_devices_def wireless_hardware_enabled_def list_connections_def connection_paths_def
  by (intro keeps_intros keeps_enumerate kept_list, simp?)+

lemmas kept_reads = keeps_intros reply_keeps kept_devices kept_access_points kept_active_reads kept_root kept_of_point
  keeps_checked_path

lemmas thin_properties = device_active_connection_def device_ip4_config_def device_dhcp4_config_def device_ip6_config_def
  active_ip4_config_def active_dhcp4_config_def active_ip6_config_def active_dhcp6_config_def point_flags_def
  point_wpa_flags_def point_rsn_flags_def point_ssid_def point_frequency_def point_channel_property_def
  point_strength_def point_last_seen_def

lemma kept_device_property: "act_keeps kept_state (device_property fa index p)"
  unfolding device_property_def thin_properties by (cases p) (simp_all add: kept_reads)

lemma kept_root_property: "act_keeps kept_state (root_property fa p)"
  unfolding root_property_def by (cases p) (simp_all add: kept_reads)

lemma kept_active_property: "act_keeps kept_state (active_property fa aid p)"
  unfolding active_property_def thin_properties by (cases p) (simp_all add: kept_reads)

lemma kept_other_properties:
  "act_keeps kept_state (wired_property fa index p1)" "act_keeps kept_state (wireless_property fa index p2)"
  "act_keeps kept_state (statistics_property fa p3)" "act_keeps kept_state (settings_property fa p4)"
  "act_keeps kept_state (connection_property fa p5)" "act_keeps kept_state (ip4_property fa aid p6)"
  "act_keeps kept_state (ip6_property fa aid p7)" "act_keeps kept_state (dhcp4_property fa now aid)"
  "act_keeps kept_state dhcp6_property" "act_keeps kept_state (point_property fa bssid p8)"
  unfolding wired_property_def wireless_property_def statistics_property_def settings_property_def
    connection_property_def ip4_property_def ip6_property_def dhcp4_property_def dhcp6_property_def point_property_def
    thin_properties
  by (simp_all add: kept_reads split: wired_prop.split wireless_prop.split statistics_prop.split settings_prop.split
      connection_prop.split ip4_prop.split ip6_prop.split point_prop.split)


end
