(* ===== verification/Nm_Server.thy ===== *)
theory Nm_Server
  imports Nm_Registry Nm_Properties
begin

text \<open>
  Starting the service (\<open>Server\<close> in \<^verbatim>\<open>src/dbus/mod.rs\<close>, \<open>PolkitAuthorization::new\<close> in
  \<^verbatim>\<open>src/authorization/polkit.rs\<close>) and the reply to a failed call (\<^verbatim>\<open>src/dbus/error.rs\<close>). Opening a
  connection, claiming a name, binding a proxy and building a message are calls of the bus library, which are
  parameters.
\<close>

section \<open>Replies\<close>

record ('c, 'm, 'r) message_ops =
  mo_error :: "'c \<Rightarrow> string \<Rightarrow> ('m, zbus_error) result"
  mo_build :: "'m \<Rightarrow> string \<Rightarrow> ('r, zbus_error) result"

definition create_reply :: "('c, 'm, 'r) message_ops \<Rightarrow> facade_error \<Rightarrow> 'c \<Rightarrow> ('r, zbus_error) result" where
  "create_reply mo e call = and_then (mo_error mo call (facade_error_name e))
     (\<lambda>builder. mo_build mo builder (facade_error_description e))"

section \<open>The policy backend\<close>

record ('z, 'q, 'p) bus_entry =
  be_session :: "('z, zbus_error) result"
  be_request_name :: "'z \<Rightarrow> string \<Rightarrow> (unit, zbus_error) result \<times> 'z"
  be_system :: "('q, zbus_error) result"
  be_proxy :: "'q \<Rightarrow> string \<Rightarrow> string \<Rightarrow> string \<Rightarrow> ('p, zbus_error) result"

definition POLKIT_DESTINATION :: string where
  "POLKIT_DESTINATION = ''org.freedesktop.PolicyKit1''"

definition POLKIT_PATH :: string where
  "POLKIT_PATH = ''/org/freedesktop/PolicyKit1/Authority''"

definition POLKIT_INTERFACE :: string where
  "POLKIT_INTERFACE = ''org.freedesktop.PolicyKit1.Authority''"

definition polkit_new :: "(zbus_error \<Rightarrow> string) \<Rightarrow> ('z, 'q, 'p) bus_entry \<Rightarrow> ('p, authorization_error) result" where
  "polkit_new error_text be =
     and_then (map_err (\<lambda>e. AuthBackend (''cannot connect to the system bus: '' @ error_text e)) (be_system be)) (\<lambda>connection.
     map_err (\<lambda>e. AuthBackend (''cannot bind polkit proxy: '' @ error_text e))
       (be_proxy be connection POLKIT_DESTINATION POLKIT_PATH POLKIT_INTERFACE))"

definition polkit_authorization :: "(zbus_error \<Rightarrow> string) \<Rightarrow> ('z, 'q, 'p) bus_entry \<Rightarrow> ('p, zbus_error) result" where
  "polkit_authorization error_text be =
     map_err (\<lambda>e. ZFailure (''cannot set up polkit authorization: '' @ authorization_error_string e)) (polkit_new error_text be)"

section \<open>The server\<close>

definition BUS_NAME :: string where
  "BUS_NAME = ''org.freedesktop.NetworkManager''"

definition shared_new :: "('b, 's, 'e) daemon \<Rightarrow> 'z \<Rightarrow> ('b, 's, 'e, 'z, unit) shared" where
  "shared_new d conn = with_authorization d conn ()"

text \<open>A server that could not be attached is dropped, with its connection.\<close>

definition server_of :: "(unit, zbus_error) result \<times> 'w \<Rightarrow> ('w, zbus_error) result" where
  "server_of x = (case x of (r, w) \<Rightarrow> map_ok (\<lambda>_. w) r)"

definition server_connect ::
  "('b, 'src, 's, 'e, 'z, 'v, 'p) facade \<Rightarrow> ('z, 'q, 'p) bus_entry \<Rightarrow> ('b, 's, 'e) daemon \<Rightarrow> string \<Rightarrow> 'p \<Rightarrow>
   (('b, 's, 'e, 'z, 'p) shared, zbus_error) result" where
  "server_connect fa be d name policy =
     and_then (be_session be) (\<lambda>conn.
     case be_request_name be conn name of
       (Err e, conn') \<Rightarrow> Err (ZFailure (''cannot claim '' @ name @ '': '' @ sv_error_text (fa_server fa) e))
     | (Ok _, conn') \<Rightarrow> server_of (attach_authorized fa d conn' policy))"

definition serve_with_name ::
  "('b, 'src, 's, 'e, 'z, 'v, 'p) facade \<Rightarrow> ('z, 'q, 'p) bus_entry \<Rightarrow> ('b, 's, 'e) daemon \<Rightarrow> string \<Rightarrow>
   (('b, 's, 'e, 'z, 'p) shared, zbus_error) result" where
  "serve_with_name fa be d name =
     and_then (polkit_authorization (sv_error_text (fa_server fa)) be) (server_connect fa be d name)"

definition serve ::
  "('b, 'src, 's, 'e, 'z, 'v, 'p) facade \<Rightarrow> ('z, 'q, 'p) bus_entry \<Rightarrow> ('b, 's, 'e) daemon \<Rightarrow>
   (('b, 's, 'e, 'z, 'p) shared, zbus_error) result" where
  "serve fa be d =
     and_then (polkit_authorization (sv_error_text (fa_server fa)) be) (server_connect fa be d BUS_NAME)"

text \<open>Without a policy every action is granted.\<close>

definition attach ::
  "('b, 'src, 's, 'e, 'z, 'v, unit) facade \<Rightarrow> ('b, 's, 'e) daemon \<Rightarrow> 'z \<Rightarrow> (('b, 's, 'e, 'z, unit) shared, zbus_error) result" where
  "attach fa d conn = server_of (attach_authorized (fa\<lparr> fa_policy := allow_all_check \<rparr>) d conn ())"

section \<open>A served daemon\<close>

lemma serve_Ok:
  assumes "serve fa be d = Ok w"
  obtains policy conn where "polkit_new (sv_error_text (fa_server fa)) be = Ok policy"
    "attach_authorized fa d conn policy = (Ok (), w)"
proof -
  obtain policy conn where p: "polkit_new (sv_error_text (fa_server fa)) be = Ok policy"
    and c: "(case be_request_name be conn BUS_NAME of
       (Err e, conn') \<Rightarrow> Err (ZFailure (''cannot claim '' @ BUS_NAME @ '': '' @ sv_error_text (fa_server fa) e))
     | (Ok _, conn') \<Rightarrow> server_of (attach_authorized fa d conn' policy)) = Ok w"
    using assms unfolding serve_def server_connect_def polkit_authorization_def result_simps by blast
  then show ?thesis
    by (cases "be_request_name be conn BUS_NAME"; cases "fst (be_request_name be conn BUS_NAME)")
      (auto simp: server_of_def result_simps split: prod.splits intro: that)
qed

text \<open>A service that runs has asked for the policy of the host: its backend is the proxy of the authority.\<close>

lemma served_policy:
  assumes "serve fa be d = Ok w"
  shows "polkit_new (sv_error_text (fa_server fa)) be = Ok (sh_authorization w)"
proof -
  obtain policy conn where p: "polkit_new (sv_error_text (fa_server fa)) be = Ok policy"
    and a: "attach_authorized fa d conn policy = (Ok (), w)"
    using assms by (rule serve_Ok)
  have dev: "act_keeps sh_authorization (enumerate_devices fa)" by (rule keeps_enumerate) simp
  have at: "act_keeps sh_authorization (at_path fa path i)" for path i by (rule keeps_signal) simp
  have state: "act_keeps sh_authorization (device_state fa index)" for index
    unfolding device_state_def by (auto intro!: keeps_intros dev split: option.split)
  have "act_keeps sh_authorization (register_device_object fa v)" for v
    unfolding register_device_object_def Let_def
    by (intro keeps_intros at state) (auto intro!: at split: nm_device_kind.split)
  moreover have "act_keeps sh_authorization (register_connection_object fa q)" for q
    unfolding register_connection_object_def Let_def by (intro keeps_intros at) simp
  moreover have "act_keeps sh_authorization (register_active_connection_object fa x)" for x
    unfolding register_active_connection_object_def by (intro keeps_intros) (auto intro!: at split: prod.split)
  moreover have "act_keeps sh_authorization (register_access_point_object fa b)" for b
    unfolding register_access_point_object_def Let_def by (intro keeps_intros dev at) simp
  ultimately have "act_keeps sh_authorization (act_then (at_path fa ROOT_PATH RootIface) (\<lambda>_.
      act_then (at_path fa SETTINGS_PATH SettingsIface) (\<lambda>_. register_all fa)))"
    unfolding register_all_def by (auto intro!: keeps_intros keeps_on_daemon at dev)
  from act_keepsD [OF this a [unfolded attach_authorized_def]] p show ?thesis by (simp add: with_authorization_def)
qed

end
