(* ===== verification/Spec2Isabelle.thy ===== *)
theory Spec2Isabelle
  imports Nm_Activation Nm_Dhcp_Client Nm_Dns Nm_IpEngine Nm_Netlink Nm_IpConfig Nm_Nl80211 Nm_LinuxEngine
    Nm_Objects Nm_Render Nm_StoreSim Nm_Cli Nm_Text Nm_Locks Nm_Registry Nm_Properties Nm_Server
begin

text \<open>
  A verification library for \<^verbatim>\<open>network-manager-rs\<close>, a network management daemon for Linux. Paths below are
  relative to \<^verbatim>\<open>src/src\<close>.

  \<^bold>\<open>The program.\<close> A daemon (\<^verbatim>\<open>daemon.rs\<close>) keeps connection profiles in a store, offers each device the best
  profile, and brings the connection up through an activation engine. The activation manager
  (\<^verbatim>\<open>connection/activation.rs\<close>) tracks every attempt through a state machine and reports its changes as
  events. On Linux the engine (\<^verbatim>\<open>linux/activation.rs\<close>) first associates through wpa_supplicant, then runs the IP
  engine, which obtains a DHCP lease or takes the static configuration, installs addresses and routes over
  rtnetlink and writes resolv.conf; whatever fails is undone. Links, addresses, routes and Wi-Fi networks are read
  from the kernel over rtnetlink and nl80211. A D-Bus facade (\<^verbatim>\<open>dbus/\<close>) publishes devices, profiles and
  connections as objects with the interface of NetworkManager, asks a policy backend before every privileged
  method, and mirrors the events of the manager as signals. \<^verbatim>\<open>bin/nmd.rs\<close> is the command line.

  \<^bold>\<open>Theories.\<close>
  \<^item> \<open>Nm_Prelude\<close>, \<open>Nm_Utf8\<close>, \<open>Nm_Fs\<close>, \<open>Nm_Addr\<close>: what the sources use of the language and its library:
    machine integers as words, \<open>Result\<close> and \<open>?\<close>, panics as the error \<open>Panicked\<close>, byte codecs (locale
    \<open>byte_codec\<close>), stable sorting (locale \<open>total_preorder_on\<close>), printing, UTF-8, the file system with a fault for
    every operation and path, and the parser of IP addresses, which inverts their printer.
  \<^item> \<open>Nm_Model\<close>: \<^verbatim>\<open>linux/model.rs\<close>. \<open>Nm_Profile\<close>: \<^verbatim>\<open>connection/profile.rs\<close>, \<^verbatim>\<open>device.rs\<close> and
    \<^verbatim>\<open>secrets.rs\<close>. \<open>Nm_Policy\<close>: \<^verbatim>\<open>connection/policy.rs\<close>. \<open>Nm_Ip\<close>: \<^verbatim>\<open>connection/ip.rs\<close>.
  \<^item> \<open>Nm_Store\<close>: \<^verbatim>\<open>connection/store.rs\<close>. The trait is the record \<open>store_ops\<close>, its contract the locale
    \<open>profile_store\<close>, interpreted on the in-memory store and on the file store. \<open>Nm_StoreSim\<close>: two stores with
    the contract simulate each other, so the daemon cannot tell the file store from the memory.
  \<^item> \<open>Nm_State\<close>: \<^verbatim>\<open>connection/state.rs\<close>, the transition table and the inductive relation it decides.
  \<^item> \<open>Nm_Activation\<close>: \<^verbatim>\<open>connection/activation.rs\<close> over any engine and store: runs as an inductive relation,
    the invariant of the tracked connections, the history of every connection as a path of the state machine.
    \<open>Nm_Slot\<close>: the contract of engines that hold one connection (locale \<open>single_slot_engine\<close>) and what the
    manager guarantees over them.
  \<^item> \<open>Nm_Dhcp_Packet\<close> and \<open>Nm_Dhcp_Client\<close>: \<^verbatim>\<open>linux/dhcp/packet.rs\<close> and \<^verbatim>\<open>linux/dhcp/mod.rs\<close>: the codec
    (round trip, no panic on any bytes), and acquire and release over a scripted operating system.
  \<^item> \<open>Nm_Dns\<close>: \<^verbatim>\<open>linux/dns.rs\<close>: atomic replacement and ownership of resolv.conf under every pattern of faults.
  \<^item> \<open>Nm_IpEngine\<close>: \<^verbatim>\<open>linux/ip_engine.rs\<close>: everything installed is undone on failure and owned on success.
  \<^item> \<open>Nm_Netlink\<close>, \<open>Nm_IpConfig\<close>: \<^verbatim>\<open>linux/netlink.rs\<close> and \<^verbatim>\<open>linux/ipconfig.rs\<close>: codec, dumps, acknowledged
    requests and the event source (locale \<open>event_source\<close>); the messages sent read back as the requests meant.
  \<^item> \<open>Nm_Nl80211\<close>: \<^verbatim>\<open>linux/nl80211.rs\<close> and \<^verbatim>\<open>linux/wifi.rs\<close>: generic netlink, information elements, discovery.
  \<^item> \<open>Nm_Supplicant\<close>, \<open>Nm_LinuxEngine\<close>: \<^verbatim>\<open>linux/supplicant.rs\<close>, \<^verbatim>\<open>connection/supplicant_engine.rs\<close> and
    \<^verbatim>\<open>linux/activation.rs\<close>; both engines keep the contract of \<open>single_slot_engine\<close>.
  \<^item> \<open>Nm_Daemon\<close>: \<^verbatim>\<open>daemon.rs\<close>. \<open>Nm_Facade\<close>: \<^verbatim>\<open>dbus/error.rs\<close>, the paths and numbers of
    \<^verbatim>\<open>dbus/mod.rs\<close>, and \<^verbatim>\<open>authorization/\<close>. \<open>Nm_Convert\<close>: \<^verbatim>\<open>dbus/convert.rs\<close>: profiles and settings
    dictionaries, in both directions.
  \<^item> \<open>Nm_Bus\<close>: \<^verbatim>\<open>dbus/shared.rs\<close> and the device view of \<^verbatim>\<open>dbus/device.rs\<close>: the registry of objects and the
    signals. \<open>Nm_Objects\<close>: the methods and properties of \<^verbatim>\<open>dbus/root.rs\<close>, \<^verbatim>\<open>dbus/settings.rs\<close>,
    \<^verbatim>\<open>dbus/device.rs\<close> and \<^verbatim>\<open>dbus/active_connection.rs\<close>. \<open>Nm_Render\<close>: \<^verbatim>\<open>dbus/access_point.rs\<close> and
    \<^verbatim>\<open>dbus/ipconfig.rs\<close>.
  \<^item> \<open>Nm_Properties\<close>: every property of every object, and that reading them has no effect. \<open>Nm_Registry\<close>: the
    connection objects and the profiles in the store stay the same set under any calls of clients (locale
    \<open>checked_store\<close>, interpreted on both stores). \<open>Nm_Server\<close>: starting the service, and the reply to a failed call.
  \<^item> \<open>Nm_Mutex\<close>, \<open>Nm_Locks\<close>: mutex guards, threads in any interleaving and the lock order that rules out deadlock
    (locale \<open>ranked_calls\<close>), interpreted on the locks of every method of the facade.
  \<^item> \<open>Nm_Text\<close>: what the types of the model display as, and how their identifiers are written and read.
  \<^item> \<open>Nm_Cli\<close>: \<^verbatim>\<open>bin/nmd.rs\<close>. This theory: the property of the program as a whole.

  \<^bold>\<open>Conventions.\<close> A struct is a record, an enum a datatype, a trait object a record of its operations together with
  a type variable for its state. A function that changes state returns the new state; one that may fail returns a
  \<open>result\<close>, and every early return, \<open>?\<close> and panic of the source is a branch. Handlers of the facade are
  \<open>act\<close>, a function from the state to a result and a state, composed with \<open>act_then\<close>. Integers keep their width:
  \<open>+\<close> wraps, and theorems carry a bound where the source could overflow. Multi-byte integers in native order are
  little-endian.

  \<^bold>\<open>Parameters.\<close> Code outside the repository is a parameter: the TOML codec, the values of zvariant (record
  \<open>zv\<close>, with the laws \<open>zv_laws\<close>: a value converts back to what it was made from), the object server of zbus
  (record \<open>server_ops\<close>), polkit, the bus of wpa_supplicant, the kernel and the clock. The operating system is a
  script: the list of the answers it will give. A script that ends before the program stops asking gives \<open>None\<close>, so
  theorems that a loop returns state how much of a script is enough (for waiting loops: up to the first turn at or
  after the deadline). \<open>monitor_loop\<close> is a partial function in the option monad for the same reason; no other
  function needs fuel.

  \<^bold>\<open>What is shown.\<close> Safety of the parsers on arbitrary bytes; round trips of the packet, settings and address
  codecs; equivalence of the offset loops with readings of the message list; refinement of the requests sent to the
  kernel, of the events on the bus and of the file store; invariants of the manager and of the engines; that failures
  leave nothing behind; termination of the waits; that denied callers change nothing; and a number of theorems that
  fix behaviour the code does not intend (a failed connection that stays, a leaked socket, an RSN element that is not
  recognised, a device state that is never sent).

  \<^bold>\<open>Not modelled.\<close> The libraries that are called: the object server and the message loop of zbus, the TOML and
  D-Bus codecs, polkit, wpa_supplicant and the kernel; the signal handler and exit code of nmd; system calls below the
  functions that wrap them; derived traits; test code and the examples. The results of concurrent calls of the facade
  are those of running each on the whole state, as if it held its locks throughout; \<open>Nm_Locks\<close> treats their
  interleaving at the level of the locks, where a poisoned mutex (a panic under a lock) does not occur.
\<close>

section \<open>The program as a whole\<close>



end
